(* ===== verification/Prelude.thy ===== *)
theory Prelude
  imports Complex_Main "HOL-Library.Multiset"
begin

text \<open>
  Shared vocabulary of the development. The web interface is TypeScript, so the
  model needs three things Main does not give directly:
  \<^item> JavaScript's two absent values: a field or argument may be \<open>undefined\<close> or
    \<open>null\<close>, and the code distinguishes them in places (\<open>?.\<close>, \<open>??\<close>, default
    parameters) and identifies them in others (\<open>isNullish\<close>). The datatype
    \<open>nullish\<close> keeps both;
  \<^item> JavaScript numbers, here \<open>rat\<close>: the code only adds, multiplies and divides
    them, and a division such as \<open>ms / 1000\<close> must not round;
  \<^item> the string operations of \<open>String.prototype\<close> and \<open>Array.prototype\<close>
    the code uses on paths and keys (\<open>join\<close>, \<open>split\<close>, \<open>startsWith\<close>,
    \<open>toUpperCase\<close>, \<open>replace\<close> with a string pattern), as functions on
    \<open>string\<close> (a list of 8-bit characters; the strings the code handles here
    are ASCII route and key names).
\<close>

named_theorems js_simps "evaluation rules of the JavaScript helper operations"

section \<open>Absent values\<close>

datatype 'a nullish = JUndef | JNull | JVal 'a

type_synonym js_number = rat

text \<open>The exceptions the modelled code can raise: a \<open>TypeError\<close> of the engine
  (a method called on \<open>undefined\<close> or \<open>null\<close>) and an \<open>Error\<close> the code throws
  with its message. A fallible operation returns \<open>js_error + 'a\<close>.\<close>

datatype js_error = TypeError | Error string

fun is_nullish :: "'a nullish \<Rightarrow> bool" where
  "is_nullish (JVal _) = False"
| "is_nullish _ = True"

text \<open>\<open>a ?? b\<close>: the right operand when the left one is nullish.\<close>

fun nullish_coalesce :: "'a nullish \<Rightarrow> 'a \<Rightarrow> 'a" where
  "nullish_coalesce (JVal a) b = a"
| "nullish_coalesce _ b = b"

text \<open>\<open>a || b\<close> on object-valued operands (an object is always truthy), and
  \<open>a ?? b\<close> with a possibly absent right operand: the left operand wins whenever
  it is present.\<close>

fun nullish_or :: "'a nullish \<Rightarrow> 'a nullish \<Rightarrow> 'a nullish" where
  "nullish_or (JVal a) b = JVal a"
| "nullish_or _ b = b"

text \<open>\<open>x?.f\<close>-style mapping of a present value.\<close>

fun map_nullish :: "('a \<Rightarrow> 'b) \<Rightarrow> 'a nullish \<Rightarrow> 'b nullish" where
  "map_nullish f (JVal a) = JVal (f a)"
| "map_nullish f JNull = JNull"
| "map_nullish f JUndef = JUndef"

text \<open>Truthiness of an object-valued operand: present, neither \<open>undefined\<close> nor
  \<open>null\<close>.\<close>

definition present :: "'a nullish \<Rightarrow> bool" where
  "present x = (\<not> is_nullish x)"

text \<open>\<open>xs?.map(f)\<close> wrapped in \<open>Immutable.List(...)\<close>: an absent array gives the
  empty list.\<close>

fun nullish_list :: "'a list nullish \<Rightarrow> 'a list" where
  "nullish_list (JVal xs) = xs"
| "nullish_list _ = []"

lemma is_nullish_iff [simp]: "is_nullish x \<longleftrightarrow> (\<forall>a. x \<noteq> JVal a)"
  by (cases x) auto

lemma nullish_or_JVal_iff [simp]:
  "nullish_or a b = JVal c \<longleftrightarrow> a = JVal c \<or> (is_nullish a \<and> b = JVal c)"
  by (cases a) auto

text \<open>Truthiness of a possibly absent number, string and boolean: \<open>0\<close>,
  the empty string, \<open>false\<close>, \<open>undefined\<close> and \<open>null\<close> are falsy.\<close>

fun truthy_num :: "int nullish \<Rightarrow> bool" where
  "truthy_num (JVal n) = (n \<noteq> 0)"
| "truthy_num _ = False"

fun truthy_text :: "string nullish \<Rightarrow> bool" where
  "truthy_text (JVal s) = (s \<noteq> [])"
| "truthy_text _ = False"

fun truthy_bool :: "bool nullish \<Rightarrow> bool" where
  "truthy_bool (JVal b) = b"
| "truthy_bool _ = False"

section \<open>Strings\<close>

text \<open>\<open>Array.prototype.join(sep)\<close>.\<close>

fun join :: "string \<Rightarrow> string list \<Rightarrow> string" where
  "join sep [] = []"
| "join sep [x] = x"
| "join sep (x # y # zs) = x @ sep @ join sep (y # zs)"

text \<open>\<open>String.prototype.split(c)\<close> on a one-character separator: always at least
  one piece, empty pieces kept.\<close>

fun split_on :: "char \<Rightarrow> string \<Rightarrow> string list" where
  "split_on c [] = [[]]"
| "split_on c (x # xs) =
     (let r = split_on c xs in if x = c then [] # r else (x # hd r) # tl r)"

text \<open>\<open>String.prototype.startsWith\<close> and \<open>endsWith\<close>.\<close>

definition starts_with :: "string \<Rightarrow> string \<Rightarrow> bool" where
  "starts_with s p \<longleftrightarrow> take (length p) s = p"

definition ends_with :: "string \<Rightarrow> string \<Rightarrow> bool" where
  "ends_with s p \<longleftrightarrow> length p \<le> length s \<and> drop (length s - length p) s = p"

text \<open>\<open>toUpperCase\<close> and \<open>toLowerCase\<close> on ASCII letters.\<close>

definition upper_char :: "char \<Rightarrow> char" where
  "upper_char c = (let n = (of_char c :: nat) in if 97 \<le> n \<and> n \<le> 122 then char_of (n - 32) else c)"

definition lower_char :: "char \<Rightarrow> char" where
  "lower_char c = (let n = (of_char c :: nat) in if 65 \<le> n \<and> n \<le> 90 then char_of (n + 32) else c)"

definition to_upper :: "string \<Rightarrow> string" where
  "to_upper s = map upper_char s"

definition to_lower :: "string \<Rightarrow> string" where
  "to_lower s = map lower_char s"

text \<open>\<open>s.replace(p, r)\<close> with a string pattern replaces the first occurrence only.\<close>

fun replace_first :: "string \<Rightarrow> string \<Rightarrow> string \<Rightarrow> string" where
  "replace_first p r [] = (if p = [] then r else [])"
| "replace_first p r (x # xs) =
     (if starts_with (x # xs) p then r @ drop (length p) (x # xs)
      else x # replace_first p r xs)"


text \<open>A template literal or \<open>join\<close> of an integer-valued number writes its
  decimal digits, with a minus sign first when it is negative.\<close>

function decimal :: "nat \<Rightarrow> string" where
  "decimal n = (if n < 10 then [char_of (48 + n)]
                else decimal (n div 10) @ [char_of (48 + n mod 10)])"
  by pat_completeness auto
termination by (relation "measure id") auto

declare decimal.simps [simp del]

definition int_to_string :: "int \<Rightarrow> string" where
  "int_to_string i = (if i < 0 then CHR ''-'' # decimal (nat (- i)) else decimal (nat i))"

text \<open>\<open>parseInt\<close> on a string of decimal digits.\<close>

definition digits_value :: "string \<Rightarrow> nat" where
  "digits_value s = foldl (\<lambda>acc c. 10 * acc + (of_char c - 48)) 0 s"

section \<open>Arrays\<close>

text \<open>\<open>Array.prototype.sort\<close> with a comparator is stable: an insertion sort that
  keeps an element before every later one that does not compare smaller.\<close>

fun insert_by :: "('a \<Rightarrow> 'a \<Rightarrow> int) \<Rightarrow> 'a \<Rightarrow> 'a list \<Rightarrow> 'a list" where
  "insert_by cmp x [] = [x]"
| "insert_by cmp x (y # ys) = (if cmp x y \<le> 0 then x # y # ys else y # insert_by cmp x ys)"

definition sort_by :: "('a \<Rightarrow> 'a \<Rightarrow> int) \<Rightarrow> 'a list \<Rightarrow> 'a list" where
  "sort_by cmp xs = foldr (insert_by cmp) xs []"

section \<open>Objects\<close>

text \<open>Reading \<open>obj[key]\<close> from an object literal finds its own properties
  first and then the members every plain object inherits from
  \<open>Object.prototype\<close> (all of them functions, and \<open>__proto__\<close> an object, so
  all truthy); an own property is an association-list entry.\<close>

definition OBJECT_PROTOTYPE_KEYS :: "string list" where
  "OBJECT_PROTOTYPE_KEYS =
    [''constructor'', ''hasOwnProperty'', ''isPrototypeOf'', ''propertyIsEnumerable'', ''toLocaleString'',
     ''toString'', ''valueOf'', ''__proto__'', ''__defineGetter__'', ''__defineSetter__'',
     ''__lookupGetter__'', ''__lookupSetter__'']"

datatype 'a js_prop = OwnProp 'a | InheritedProp string

definition object_get :: "(string \<times> 'a) list \<Rightarrow> string \<Rightarrow> 'a js_prop option" where
  "object_get obj key =
    (case map_of obj key of
       Some v \<Rightarrow> Some (OwnProp v)
     | None \<Rightarrow> if key \<in> set OBJECT_PROTOTYPE_KEYS then Some (InheritedProp key) else None)"

section \<open>Generic lemmas\<close>

lemma split_on_nonempty [simp]: "split_on c s \<noteq> []"
  by (induction s) (auto simp: Let_def)

lemma join_append_single:
  "xs \<noteq> [] \<Longrightarrow> join sep (xs @ [y]) = join sep xs @ sep @ y"
proof (induction sep xs rule: join.induct)
  case (3 sep x y zs)
  then show ?case by simp
qed simp_all

lemma split_on_no_sep [simp]: "c \<notin> set s \<Longrightarrow> split_on c s = [s]"
  by (induction s) (auto simp: Let_def)

lemma split_on_concat_sep:
  "c \<notin> set x \<Longrightarrow> split_on c (x @ c # s) = x # split_on c s"
  by (induction x) (auto simp: Let_def)

text \<open>Splitting a joined list on the separator gives the list back, when no piece
  holds the separator: the round trip behind every comma-joined parameter.\<close>

lemma split_on_join [simp]:
  "xs \<noteq> [] \<Longrightarrow> \<forall>x \<in> set xs. c \<notin> set x \<Longrightarrow> split_on c (join [c] xs) = xs"
proof (induction "[c]" xs rule: join.induct)
  case (3 x y zs)
  then show ?case by (simp add: split_on_concat_sep)
qed simp_all

lemma starts_with_Nil [simp, js_simps]: "starts_with s []"
  by (simp add: starts_with_def)

lemma starts_with_Cons [js_simps]:
  "starts_with s (p # ps) \<longleftrightarrow> (case s of [] \<Rightarrow> False | x # xs \<Rightarrow> x = p \<and> starts_with xs ps)"
  by (cases s) (auto simp: starts_with_def)

declare char_of_eq_iff [js_simps]

lemma eq_char_of_iff [js_simps]: "c = char_of n \<longleftrightarrow> take_bit 8 n = of_char c"
  by (metis char_of_eq_iff)

lemma starts_with_append [simp]: "starts_with (p @ s) p"
  by (simp add: starts_with_def)

lemma ends_with_append [simp]: "ends_with (s @ p) p"
  by (simp add: ends_with_def)

lemma length_to_upper [simp]: "length (to_upper s) = length s"
  by (simp add: to_upper_def)

lemma decimal_small [simp]: "n < 10 \<Longrightarrow> decimal n = [char_of (48 + n)]"
  by (simp add: decimal.simps)

lemma decimal_big [simp]:
  "\<not> n < 10 \<Longrightarrow> decimal n = decimal (n div 10) @ [char_of (48 + n mod 10)]"
  by (subst decimal.simps) simp

lemma decimal_digit_chars: "c \<in> set (decimal n) \<Longrightarrow> (48::nat) \<le> of_char c \<and> of_char c < (58::nat)"
proof (induction n rule: decimal.induct)
  case (1 n)
  have ch: "of_char (char_of (48 + k) :: char) = 48 + k" if "k < 10" for k :: nat
    using that by (simp add: of_char_of take_bit_nat_eq_self)
  show ?case
  proof (cases "n < 10")
    case True
    then show ?thesis using 1(2) by (simp add: ch)
  next
    case False
    then have "c \<in> set (decimal (n div 10)) \<or> c = char_of (48 + n mod 10)"
      using 1(2) by auto
    then show ?thesis using 1(1) False by (auto simp: ch)
  qed
qed

lemma digits_value_snoc: "digits_value (s @ [c]) = 10 * digits_value s + (of_char c - 48)"
  by (simp add: digits_value_def)

lemma digits_value_decimal [simp]: "digits_value (decimal n) = n"
proof (induction n rule: decimal.induct)
  case (1 n)
  have ch: "of_char (char_of (48 + k) :: char) = 48 + k" if "k < 10" for k :: nat
    using that by (simp add: of_char_of take_bit_nat_eq_self)
  show ?case
    using 1 by (cases "n < 10") (simp_all add: digits_value_snoc digits_value_def ch)
qed

lemma decimal_inj: "decimal m = decimal n \<longleftrightarrow> m = n"
  by (metis digits_value_decimal)

lemma decimal_no_dash [simp]: "CHR ''-'' \<notin> set (decimal n)"
  using decimal_digit_chars[of "CHR ''-''" n] by auto

lemma decimal_nonempty [simp]: "decimal n \<noteq> []"
  by (cases "n < 10") simp_all


lemma mset_insert_by [simp]: "mset (insert_by cmp x xs) = add_mset x (mset xs)"
  by (induction xs) auto

lemma mset_sort_by [simp]: "mset (sort_by cmp xs) = mset xs"
  by (induction xs) (simp_all add: sort_by_def)

lemma set_sort_by [simp]: "set (sort_by cmp xs) = set xs"
  by (metis mset_sort_by set_mset_mset)


lemma insert_by_key: "insert_by (\<lambda>a b. k a - k b) x xs = insort_key k x xs"
  by (induction xs) auto

lemma sort_by_key: "sort_by (\<lambda>a b. k a - k b) xs = sort_key k xs"
  by (induction xs) (simp_all add: sort_by_def insert_by_key)

lemma insort_key_skip: "\<forall>y\<in>set ys. f y < f x \<Longrightarrow> insort_key f x (ys @ zs) = ys @ insort_key f x zs"
  by (induction ys) auto

lemma insort_key_front: "\<forall>z\<in>set zs. f x \<le> f z \<Longrightarrow> insort_key f x zs = x # zs"
  by (cases zs) auto

lemma insort_key_flag:
  "insort_key (\<lambda>x. if P x then 1 else (0::int)) x (filter (\<lambda>y. \<not> P y) xs @ filter P xs) =
     (if P x then filter (\<lambda>y. \<not> P y) xs @ x # filter P xs else x # filter (\<lambda>y. \<not> P y) xs @ filter P xs)"
  by (simp add: insort_key_skip insort_key_front)

text \<open>A stable sort on a 0/1 key puts the elements of key 0 first, each group in
  its original order.\<close>

lemma sort_key_flag:
  "sort_key (\<lambda>x. if P x then 1 else (0::int)) xs = filter (\<lambda>y. \<not> P y) xs @ filter P xs"
  by (induction xs) (simp_all add: insort_key_flag)

end
