(* ===== verification/QueryFilters.thy ===== *)
theory QueryFilters
  imports Prelude
begin

text \<open>
  The filter helpers of \<open>src/graylog2-web-interface/src/views/logic/queries/Query.ts\<close>
  (lines 57--139). The source keeps a filter as an \<open>Immutable.Map\<close> with a
  \<open>type\<close> discriminator; the four shapes it builds and reads are the
  constructors of \<open>filter_node\<close>: a stream leaf (\<open>{type: 'stream', id}\<close>), a
  stream-category leaf (\<open>{type: 'stream_category', category}\<close>) and the two
  combinators \<open>'and'\<close> / \<open>'or'\<close> holding a \<open>filters\<close> list. A missing filter
  (\<open>null\<close> or \<open>undefined\<close>) is the \<open>JNull\<close>/\<open>JUndef\<close> of \<open>nullish\<close>.
\<close>

datatype filter_node =
    FStream string
  | FStreamCategory string
  | FAnd "filter_node list"
  | FOr "filter_node list"

subsection \<open>Building filters from selections\<close>

definition streamFilters :: "string list nullish \<Rightarrow> filter_node list" where
  "streamFilters selectedStreams = map FStream (nullish_list selectedStreams)"

definition streamCategoryFilters :: "string list nullish \<Rightarrow> filter_node list" where
  "streamCategoryFilters selectedCategories = map FStreamCategory (nullish_list selectedCategories)"

definition filtersForQuery :: "string list nullish \<Rightarrow> filter_node nullish" where
  "filtersForQuery streams =
     (if is_nullish streams \<or> nullish_list streams = [] then JNull
      else JVal (FOr (streamFilters streams)))"

definition categoryFiltersForQuery :: "string list nullish \<Rightarrow> filter_node nullish" where
  "categoryFiltersForQuery categories =
     (if is_nullish categories \<or> nullish_list categories = [] then JNull
      else JVal (FOr (streamCategoryFilters categories)))"

definition newFiltersForQuery :: "string list nullish \<Rightarrow> string list nullish \<Rightarrow> filter_node nullish" where
  "newFiltersForQuery streams categories =
     (let streamFilter = streamFilters streams;
          categoryFilter = streamCategoryFilters categories
      in if length streamFilter > 0 \<and> length categoryFilter > 0
         then JVal (FOr (streamFilter @ categoryFilter))
         else nullish_or (filtersForQuery streams) (categoryFiltersForQuery categories))"

subsection \<open>Reading selections back from a filter tree\<close>

text \<open>
  \<open>filtersToStreamSet\<close>: a \<open>stream\<close> leaf contributes its id; every other node
  contributes the union of its \<open>filters\<close> children (\<open>filter.get('filters',
  Immutable.List())\<close>, empty for the category leaf), merged left to right by
  \<open>reduce((prev, cur) => prev.merge(cur), Immutable.Set())\<close>.
\<close>

fun streamSetOf :: "filter_node \<Rightarrow> string set" where
  "streamSetOf (FStream i) = {i}"
| "streamSetOf (FStreamCategory c) = foldl (\<lambda>prev cur. prev \<union> cur) {} (map streamSetOf [])"
| "streamSetOf (FAnd fs) = foldl (\<lambda>prev cur. prev \<union> cur) {} (map streamSetOf fs)"
| "streamSetOf (FOr fs) = foldl (\<lambda>prev cur. prev \<union> cur) {} (map streamSetOf fs)"

fun streamCategorySetOf :: "filter_node \<Rightarrow> string set" where
  "streamCategorySetOf (FStreamCategory c) = {c}"
| "streamCategorySetOf (FStream i) = foldl (\<lambda>prev cur. prev \<union> cur) {} (map streamCategorySetOf [])"
| "streamCategorySetOf (FAnd fs) = foldl (\<lambda>prev cur. prev \<union> cur) {} (map streamCategorySetOf fs)"
| "streamCategorySetOf (FOr fs) = foldl (\<lambda>prev cur. prev \<union> cur) {} (map streamCategorySetOf fs)"

definition filtersToStreamSet :: "filter_node nullish \<Rightarrow> string set" where
  "filtersToStreamSet fltr = (case fltr of JVal f \<Rightarrow> streamSetOf f | _ \<Rightarrow> {})"

definition filtersToStreamCategorySet :: "filter_node nullish \<Rightarrow> string set" where
  "filtersToStreamCategorySet fltr = (case fltr of JVal f \<Rightarrow> streamCategorySetOf f | _ \<Rightarrow> {})"

subsection \<open>Reference definitions: the leaves of a tree, in order\<close>

fun streamLeaves :: "filter_node \<Rightarrow> string list" where
  "streamLeaves (FStream i) = [i]"
| "streamLeaves (FStreamCategory c) = []"
| "streamLeaves (FAnd fs) = concat (map streamLeaves fs)"
| "streamLeaves (FOr fs) = concat (map streamLeaves fs)"

fun categoryLeaves :: "filter_node \<Rightarrow> string list" where
  "categoryLeaves (FStream i) = []"
| "categoryLeaves (FStreamCategory c) = [c]"
| "categoryLeaves (FAnd fs) = concat (map categoryLeaves fs)"
| "categoryLeaves (FOr fs) = concat (map categoryLeaves fs)"

subsection \<open>Lemmas\<close>

named_theorems filter_simps "unfolding rules of the filter helpers"

lemmas [filter_simps] =
  streamFilters_def streamCategoryFilters_def filtersForQuery_def
  categoryFiltersForQuery_def newFiltersForQuery_def
  filtersToStreamSet_def filtersToStreamCategorySet_def

lemma foldl_union_eq: "foldl (\<lambda>prev cur. prev \<union> cur) A xs = A \<union> \<Union> (set xs)"
  by (induction xs arbitrary: A) auto

lemma streamSetOf_leaves: "streamSetOf f = set (streamLeaves f)"
  by (induction f) (auto simp: foldl_union_eq)

lemma streamCategorySetOf_leaves: "streamCategorySetOf f = set (categoryLeaves f)"
  by (induction f) (auto simp: foldl_union_eq)

lemma streamLeaves_map_FStream [simp]: "concat (map streamLeaves (map FStream xs)) = xs"
  by (induction xs) auto

lemma streamLeaves_map_FStreamCategory [simp]:
  "concat (map streamLeaves (map FStreamCategory xs)) = []"
  by (induction xs) auto

lemma categoryLeaves_map_FStream [simp]: "concat (map categoryLeaves (map FStream xs)) = []"
  by (induction xs) auto

lemma categoryLeaves_map_FStreamCategory [simp]:
  "concat (map categoryLeaves (map FStreamCategory xs)) = xs"
  by (induction xs) auto

text \<open>The closed form of \<open>newFiltersForQuery\<close>: one \<open>or\<close> node over the stream
  leaves followed by the category leaves, or \<open>null\<close> when both selections are
  empty. Every property of the builder below is read off this form.\<close>

lemma newFiltersForQuery_normal_form:
  "newFiltersForQuery s c =
     (if nullish_list s = [] \<and> nullish_list c = [] then JNull
      else JVal (FOr (map FStream (nullish_list s) @ map FStreamCategory (nullish_list c))))"
  by (cases s; cases c) (auto simp: filter_simps Let_def)

subsection \<open>Properties of the filter helpers\<close>

text \<open>C1: reading the stream set back from the filter built for a selection of
  streams and categories gives exactly the selected streams, as a set (order and
  duplicates forgotten), whatever the category selection is, empty and absent
  selections included.\<close>

theorem newFiltersForQuery_stream_roundtrip:
  "filtersToStreamSet (newFiltersForQuery s c) = set (nullish_list s)"
  by (simp add: newFiltersForQuery_normal_form filtersToStreamSet_def streamSetOf_leaves)

text \<open>The same round trip for the stream categories.\<close>

theorem newFiltersForQuery_category_roundtrip:
  "filtersToStreamCategorySet (newFiltersForQuery s c) = set (nullish_list c)"
  by (simp add: newFiltersForQuery_normal_form filtersToStreamCategorySet_def
      streamCategorySetOf_leaves)

text \<open>\<open>newFiltersForQuery\<close> returns a nullish value exactly when neither
  selection holds an entry (absent and empty selections alike).\<close>

theorem newFiltersForQuery_nullish_iff:
  "is_nullish (newFiltersForQuery s c) \<longleftrightarrow> nullish_list s = [] \<and> nullish_list c = []"
  by (simp add: newFiltersForQuery_normal_form)

text \<open>C2: a filter built by \<open>newFiltersForQuery\<close> is a single \<open>or\<close> node whose
  children are the stream leaves in selection order followed by the category leaves
  in selection order.\<close>

theorem newFiltersForQuery_streams_first:
  assumes "newFiltersForQuery (JVal ss) (JVal cs) = JVal f"
  shows "f = FOr (map FStream ss @ map FStreamCategory cs)"
  using assms by (simp add: newFiltersForQuery_normal_form split: if_splits)

theorem newFiltersForQuery_streams_first_witness:
  "newFiltersForQuery (JVal [''s1'', ''s2'']) (JVal [''c1''])
     = JVal (FOr [FStream ''s1'', FStream ''s2'', FStreamCategory ''c1''])
   \<and> FOr [FStream ''s1'', FStream ''s2'', FStreamCategory ''c1'']
     = FOr (map FStream [''s1'', ''s2''] @ map FStreamCategory [''c1''])"
proof -
  have h: "newFiltersForQuery (JVal [''s1'', ''s2'']) (JVal [''c1''])
     = JVal (FOr [FStream ''s1'', FStream ''s2'', FStreamCategory ''c1''])"
    by (simp add: newFiltersForQuery_normal_form)
  from h newFiltersForQuery_streams_first [OF h] show ?thesis by (rule conjI)
qed

text \<open>The walkers ignore the order of a combinator's children: two \<open>or\<close>
  nodes over the same set of children give the same stream set.\<close>

theorem filtersToStreamSet_order_independent:
  assumes "set fs = set gs"
  shows "filtersToStreamSet (JVal (FOr fs)) = filtersToStreamSet (JVal (FOr gs))"
  using assms by (simp add: filtersToStreamSet_def foldl_union_eq)

theorem filtersToStreamSet_order_independent_witness:
  "set [FStream ''a'', FStream ''b''] = set [FStream ''b'', FStream ''a'']
   \<and> filtersToStreamSet (JVal (FOr [FStream ''a'', FStream ''b'']))
     = filtersToStreamSet (JVal (FOr [FStream ''b'', FStream ''a'']))"
proof -
  have h: "set [FStream ''a'', FStream ''b''] = set [FStream ''b'', FStream ''a'']"
    by (simp add: insert_commute)
  from h filtersToStreamSet_order_independent [OF h] show ?thesis by (rule conjI)
qed

end
