(* ===== verification/Query.thy ===== *)
theory Query
  imports QueryFilters
begin

text \<open>
  The \<open>Query\<close> value object of
  \<open>src/graylog2-web-interface/src/views/logic/queries/Query.ts\<close> (lines 27--323):
  its time ranges, the Elasticsearch query string, the immutable state
  \<open>InternalState\<close>, the \<open>Builder\<close> over an \<open>Immutable.Map\<close> of the same keys,
  \<open>equals\<close>, \<open>toJSON\<close> and \<open>fromJSON\<close>.

  The state's fields are \<open>nullish\<close>: the TypeScript types call \<open>id\<close>,
  \<open>query\<close> and \<open>timerange\<close> required, but \<open>build()\<close> reads them from a map that
  may lack the key, and then stores \<open>undefined\<close>. Search filters and search types
  are objects the module only stores and compares, so they are the type parameters
  \<open>'sf\<close> and \<open>'st\<close>. \<open>isDeepEqual\<close> (\<open>stores/isDeepEqual\<close>, outside the
  sources) compares values structurally; on the model's values that is HOL
  equality, and \<open>Immutable.fromJS\<close>/\<open>Immutable.List\<close>, which only change the
  container class of a value already in the model's form, are the identity.
\<close>

subsection \<open>Data\<close>

datatype time_range =
    RelativeTimeRangeStartOnly js_number
  | RelativeTimeRangeWithEnd js_number "js_number nullish"
  | AbsoluteTimeRange string string
  | KeywordTimeRange string "string nullish" "string nullish" "string nullish"

record elasticsearch_query_string =
  qs_type :: string
  query_string :: string

definition createElasticsearchQueryString :: "string option \<Rightarrow> elasticsearch_query_string" where
  "createElasticsearchQueryString query =
     \<lparr>qs_type = ''elasticsearch'', query_string = (case query of None \<Rightarrow> '''' | Some q \<Rightarrow> q)\<rparr>"

record ('sf, 'st) query =
  qid :: "string nullish"
  qquery :: "elasticsearch_query_string nullish"
  qtimerange :: "time_range nullish"
  qfilter :: "filter_node nullish"
  qfilters :: "'sf list nullish"
  qsearchTypes :: "'st list nullish"

text \<open>\<open>new Query(id, query, timerange, filter, searchTypes, filters)\<close>: note the
  argument order, \<open>searchTypes\<close> before \<open>filters\<close>.\<close>

definition newQuery ::
  "string nullish \<Rightarrow> elasticsearch_query_string nullish \<Rightarrow> time_range nullish \<Rightarrow>
   filter_node nullish \<Rightarrow> 'st list nullish \<Rightarrow> 'sf list nullish \<Rightarrow> ('sf, 'st) query" where
  "newQuery i q t f sts fs =
     \<lparr>qid = i, qquery = q, qtimerange = t, qfilter = f, qfilters = fs, qsearchTypes = sts\<rparr>"

subsection \<open>The builder\<close>

text \<open>The builder's \<open>Immutable.Map\<close>: a key that was never set reads as
  \<open>undefined\<close>, which is \<open>JUndef\<close>.\<close>

record ('sf, 'st) query_builder =
  bid :: "string nullish"
  bquery :: "elasticsearch_query_string nullish"
  btimerange :: "time_range nullish"
  bfilter :: "filter_node nullish"
  bfilters :: "'sf list nullish"
  bsearchTypes :: "'st list nullish"

definition emptyBuilder :: "('sf, 'st) query_builder" where
  "emptyBuilder = \<lparr>bid = JUndef, bquery = JUndef, btimerange = JUndef, bfilter = JUndef,
                   bfilters = JUndef, bsearchTypes = JUndef\<rparr>"

definition builder_id :: "string nullish \<Rightarrow> ('sf, 'st) query_builder \<Rightarrow> ('sf, 'st) query_builder" where
  "builder_id v b = b\<lparr>bid := v\<rparr>"

definition builder_query ::
  "elasticsearch_query_string nullish \<Rightarrow> ('sf, 'st) query_builder \<Rightarrow> ('sf, 'st) query_builder" where
  "builder_query v b = b\<lparr>bquery := v\<rparr>"

definition builder_timerange ::
  "time_range nullish \<Rightarrow> ('sf, 'st) query_builder \<Rightarrow> ('sf, 'st) query_builder" where
  "builder_timerange v b = b\<lparr>btimerange := v\<rparr>"

text \<open>\<open>filter(value)\<close> stores \<open>Immutable.fromJS(value)\<close>, which keeps \<open>null\<close>
  and \<open>undefined\<close> as they are.\<close>

definition builder_filter ::
  "filter_node nullish \<Rightarrow> ('sf, 'st) query_builder \<Rightarrow> ('sf, 'st) query_builder" where
  "builder_filter v b = b\<lparr>bfilter := v\<rparr>"

text \<open>\<open>filters(value)\<close> stores \<open>value ? Immutable.List(value) : value\<close>: an array is
  truthy even when empty, so a present list is kept and an absent one is stored as
  the absent value it is.\<close>

definition builder_filters ::
  "'sf list nullish \<Rightarrow> ('sf, 'st) query_builder \<Rightarrow> ('sf, 'st) query_builder" where
  "builder_filters v b = b\<lparr>bfilters := (case v of JVal l \<Rightarrow> JVal l | _ \<Rightarrow> v)\<rparr>"

definition builder_searchTypes ::
  "'st list nullish \<Rightarrow> ('sf, 'st) query_builder \<Rightarrow> ('sf, 'st) query_builder" where
  "builder_searchTypes v b = b\<lparr>bsearchTypes := v\<rparr>"

text \<open>\<open>Query.builder()\<close> seeds the search types with the empty list.\<close>

definition query_builder :: "('sf, 'st) query_builder" where
  "query_builder = builder_searchTypes (JVal []) emptyBuilder"

definition build :: "('sf, 'st) query_builder \<Rightarrow> ('sf, 'st) query" where
  "build b = newQuery (bid b) (bquery b) (btimerange b) (bfilter b) (bsearchTypes b) (bfilters b)"

text \<open>\<open>toBuilder()\<close>: every field set in turn; a present filter is set a second
  time, as the source does.\<close>

definition toBuilder :: "('sf, 'st) query \<Rightarrow> ('sf, 'st) query_builder" where
  "toBuilder q =
     (let b = builder_searchTypes (qsearchTypes q) (builder_filters (qfilters q)
                (builder_filter (qfilter q) (builder_timerange (qtimerange q)
                  (builder_query (qquery q) (builder_id (qid q) query_builder)))))
      in if \<not> is_nullish (qfilter q) then builder_filter (qfilter q) b else b)"

subsection \<open>Equality and the wire format\<close>

definition isDeepEqual :: "'a \<Rightarrow> 'a \<Rightarrow> bool" where
  "isDeepEqual a b \<longleftrightarrow> a = b"

text \<open>\<open>equals(other)\<close>: \<open>false\<close> for an absent argument (\<open>undefined\<close>, or
  \<open>null\<close>, which is no \<open>instanceof Query\<close>); otherwise the six fields are
  compared, \<open>filter\<close> and \<open>filters\<close> up to the identification of \<open>null\<close> and
  \<open>undefined\<close>.\<close>

definition query_equals :: "('sf, 'st) query \<Rightarrow> ('sf, 'st) query nullish \<Rightarrow> bool" where
  "query_equals this other =
     (case other of
        JVal oth \<Rightarrow>
          \<not> (qid this \<noteq> qid oth
             \<or> \<not> isDeepEqual (qquery this) (qquery oth)
             \<or> \<not> isDeepEqual (qtimerange this) (qtimerange oth)
             \<or> \<not> ((is_nullish (qfilter this) \<and> is_nullish (qfilter oth))
                   \<or> isDeepEqual (qfilter this) (qfilter oth))
             \<or> \<not> ((is_nullish (qfilters this) \<and> is_nullish (qfilters oth))
                   \<or> isDeepEqual (qfilters this) (qfilters oth))
             \<or> \<not> isDeepEqual (qsearchTypes this) (qsearchTypes oth))
      | _ \<Rightarrow> False)"

record ('sf, 'st) query_json =
  j_id :: "string nullish"
  j_query :: "elasticsearch_query_string nullish"
  j_timerange :: "time_range nullish"
  j_filter :: "filter_node nullish"
  j_filters :: "'sf list nullish"
  j_search_types :: "'st list nullish"

text \<open>\<open>toJSON()\<close>: \<open>filters?.toArray()\<close> turns an absent list, \<open>null\<close>
  included, into \<open>undefined\<close>.\<close>

definition toJSON :: "('sf, 'st) query \<Rightarrow> ('sf, 'st) query_json" where
  "toJSON q =
     \<lparr>j_id = qid q, j_query = qquery q, j_timerange = qtimerange q, j_filter = qfilter q,
      j_filters = (case qfilters q of JVal l \<Rightarrow> JVal l | _ \<Rightarrow> JUndef),
      j_search_types = qsearchTypes q\<rparr>"

text \<open>\<open>fromJSON(value)\<close>: \<open>filters ? Immutable.List(filters) : undefined\<close>.\<close>

definition fromJSON :: "('sf, 'st) query_json \<Rightarrow> ('sf, 'st) query" where
  "fromJSON v =
     newQuery (j_id v) (j_query v) (j_timerange v) (j_filter v) (j_search_types v)
       (case j_filters v of JVal l \<Rightarrow> JVal l | _ \<Rightarrow> JUndef)"

subsection \<open>Well-formedness\<close>

text \<open>A query is well formed when the three fields the type calls required hold
  a value.\<close>

definition query_valid :: "('sf, 'st) query \<Rightarrow> bool" where
  "query_valid q \<longleftrightarrow> \<not> is_nullish (qid q) \<and> \<not> is_nullish (qquery q) \<and> \<not> is_nullish (qtimerange q)"

text \<open>Equality up to the identification of the two absent values in \<open>filter\<close>
  and \<open>filters\<close>: the normal form maps \<open>null\<close> there to \<open>undefined\<close>.\<close>

fun absent_to_undef :: "'a nullish \<Rightarrow> 'a nullish" where
  "absent_to_undef (JVal a) = JVal a"
| "absent_to_undef _ = JUndef"

definition query_norm :: "('sf, 'st) query \<Rightarrow> ('sf, 'st) query" where
  "query_norm q = q\<lparr>qfilter := absent_to_undef (qfilter q), qfilters := absent_to_undef (qfilters q)\<rparr>"

named_theorems query_simps "unfolding rules of the Query model"

lemmas [query_simps] =
  newQuery_def emptyBuilder_def builder_id_def builder_query_def builder_timerange_def
  builder_filter_def builder_filters_def builder_searchTypes_def query_builder_def build_def
  toBuilder_def toJSON_def fromJSON_def query_equals_def isDeepEqual_def query_norm_def
  query_valid_def

lemma absent_to_undef_eq_iff:
  "absent_to_undef a = absent_to_undef b \<longleftrightarrow> (is_nullish a \<and> is_nullish b) \<or> a = b"
  by (cases a; cases b) auto

lemma query_equals_JVal_norm:
  "query_equals a (JVal b) \<longleftrightarrow> query_norm a = query_norm b"
  by (cases a; cases b) (auto simp: query_equals_def isDeepEqual_def query_norm_def absent_to_undef_eq_iff)

lemma case_nullish_absent [simp]:
  "(case x of JVal l \<Rightarrow> JVal l | _ \<Rightarrow> JUndef) = absent_to_undef x"
  by (cases x) auto

lemma absent_to_undef_idem [simp]: "absent_to_undef (absent_to_undef x) = absent_to_undef x"
  by (cases x) auto

subsection \<open>Properties of the Query value object\<close>

text \<open>C3: \<open>fromJSON\<close> inverts \<open>toJSON\<close> up to \<open>equals\<close>: every query,
  whatever its fields hold, is \<open>equals\<close> to the query read back from its JSON form.\<close>

theorem query_json_roundtrip_equals:
  "query_equals (fromJSON (toJSON q)) (JVal q)"
proof (cases q)
  case (fields i qs t f fs sts)
  then show ?thesis
    by (cases fs) (simp_all add: query_simps)
qed

theorem query_json_roundtrip_equals_witness:
  "query_equals (fromJSON (toJSON \<lparr>qid = JVal ''q1'', qquery = JVal (createElasticsearchQueryString (Some ''source:web'')),
       qtimerange = JVal (RelativeTimeRangeStartOnly 300), qfilter = JNull,
       qfilters = (JNull :: unit list nullish), qsearchTypes = (JVal [] :: unit list nullish)\<rparr>)) (JVal \<lparr>qid = JVal ''q1'', qquery = JVal (createElasticsearchQueryString (Some ''source:web'')),
       qtimerange = JVal (RelativeTimeRangeStartOnly 300), qfilter = JNull,
       qfilters = (JNull :: unit list nullish), qsearchTypes = (JVal [] :: unit list nullish)\<rparr>)"
  by (rule query_json_roundtrip_equals)

text \<open>C4: the round trip is the identity exactly when \<open>filters\<close> is not
  \<open>null\<close>: \<open>toJSON\<close> turns a \<open>null\<close> list into \<open>undefined\<close>, and only the
  nullish clause of \<open>equals\<close> hides the difference.\<close>

theorem query_json_roundtrip_exact_iff:
  "fromJSON (toJSON q) = q \<longleftrightarrow> qfilters q \<noteq> JNull"
proof (cases q)
  case (fields i qs t f fs sts)
  then show ?thesis
    by (cases fs) (simp_all add: query_simps)
qed

text \<open>\<open>toBuilder\<close> followed by \<open>build\<close> gives the same query back, field
  for field.\<close>

theorem query_toBuilder_build:
  "build (toBuilder q) = q"
proof (cases q)
  case (fields i qs t f fs sts)
  then show ?thesis
    by (cases fs) (simp_all add: query_simps Let_def)
qed

text \<open>C5: \<open>equals\<close> on a present argument is equality of the two queries once
  \<open>null\<close> and \<open>undefined\<close> are identified in \<open>filter\<close> and \<open>filters\<close>; in
  particular it is reflexive, symmetric and transitive.\<close>

theorem query_equals_iff_norm:
  "query_equals a (JVal b) \<longleftrightarrow> query_norm a = query_norm b"
  by (cases a; cases b) (auto simp: query_equals_def isDeepEqual_def query_norm_def absent_to_undef_eq_iff)

theorem query_equals_iff_norm_witness:
  "query_equals (\<lparr>qid = JVal ''q1'', qquery = JVal (createElasticsearchQueryString (Some ''source:web'')),
       qtimerange = JVal (RelativeTimeRangeStartOnly 300), qfilter = JNull,
       qfilters = (JNull :: unit list nullish), qsearchTypes = (JVal [] :: unit list nullish)\<rparr>) (JVal ((\<lparr>qid = JVal ''q1'', qquery = JVal (createElasticsearchQueryString (Some ''source:web'')),
       qtimerange = JVal (RelativeTimeRangeStartOnly 300), qfilter = JNull,
       qfilters = (JNull :: unit list nullish), qsearchTypes = (JVal [] :: unit list nullish)\<rparr>)\<lparr>qfilter := JUndef\<rparr>))
   \<and> query_norm (\<lparr>qid = JVal ''q1'', qquery = JVal (createElasticsearchQueryString (Some ''source:web'')),
       qtimerange = JVal (RelativeTimeRangeStartOnly 300), qfilter = JNull,
       qfilters = (JNull :: unit list nullish), qsearchTypes = (JVal [] :: unit list nullish)\<rparr>) = query_norm ((\<lparr>qid = JVal ''q1'', qquery = JVal (createElasticsearchQueryString (Some ''source:web'')),
       qtimerange = JVal (RelativeTimeRangeStartOnly 300), qfilter = JNull,
       qfilters = (JNull :: unit list nullish), qsearchTypes = (JVal [] :: unit list nullish)\<rparr>)\<lparr>qfilter := JUndef\<rparr>)"
proof -
  have n: "query_norm (\<lparr>qid = JVal ''q1'', qquery = JVal (createElasticsearchQueryString (Some ''source:web'')),
       qtimerange = JVal (RelativeTimeRangeStartOnly 300), qfilter = JNull,
       qfilters = (JNull :: unit list nullish), qsearchTypes = (JVal [] :: unit list nullish)\<rparr>) = query_norm ((\<lparr>qid = JVal ''q1'', qquery = JVal (createElasticsearchQueryString (Some ''source:web'')),
       qtimerange = JVal (RelativeTimeRangeStartOnly 300), qfilter = JNull,
       qfilters = (JNull :: unit list nullish), qsearchTypes = (JVal [] :: unit list nullish)\<rparr>)\<lparr>qfilter := JUndef\<rparr>)"
    by (simp add: query_norm_def)
  have "query_equals (\<lparr>qid = JVal ''q1'', qquery = JVal (createElasticsearchQueryString (Some ''source:web'')),
       qtimerange = JVal (RelativeTimeRangeStartOnly 300), qfilter = JNull,
       qfilters = (JNull :: unit list nullish), qsearchTypes = (JVal [] :: unit list nullish)\<rparr>) (JVal ((\<lparr>qid = JVal ''q1'', qquery = JVal (createElasticsearchQueryString (Some ''source:web'')),
       qtimerange = JVal (RelativeTimeRangeStartOnly 300), qfilter = JNull,
       qfilters = (JNull :: unit list nullish), qsearchTypes = (JVal [] :: unit list nullish)\<rparr>)\<lparr>qfilter := JUndef\<rparr>))"
    using n by (simp only: query_equals_iff_norm)
  then show ?thesis using n by (rule conjI)
qed

text \<open>A query built from \<open>Query.builder()\<close> with an id, a query string and a
  time range is well formed, carries exactly those values, has the empty list of
  search types and no filter.\<close>

theorem query_build_valid:
  "let q = build (builder_timerange (JVal t) (builder_query (JVal qs) (builder_id (JVal i) query_builder)))
   in query_valid q \<and> qid q = JVal i \<and> qquery q = JVal qs \<and> qtimerange q = JVal t
      \<and> qsearchTypes q = JVal [] \<and> qfilter q = JUndef \<and> qfilters q = JUndef"
  by (simp add: query_simps)

text \<open>\<open>equals\<close> is defensive: compared with \<open>undefined\<close> or \<open>null\<close>, a
  query is never equal, and no error is raised.\<close>

theorem query_equals_absent:
  "\<not> query_equals q JUndef \<and> \<not> query_equals q JNull"
  by (simp add: query_equals_def)

theorem query_equals_absent_witness:
  "\<not> query_equals (\<lparr>qid = JVal ''q1'', qquery = JVal (createElasticsearchQueryString (Some ''source:web'')),
       qtimerange = JVal (RelativeTimeRangeStartOnly 300), qfilter = JNull,
       qfilters = (JNull :: unit list nullish), qsearchTypes = (JVal [] :: unit list nullish)\<rparr>) JUndef \<and> \<not> query_equals (\<lparr>qid = JVal ''q1'', qquery = JVal (createElasticsearchQueryString (Some ''source:web'')),
       qtimerange = JVal (RelativeTimeRangeStartOnly 300), qfilter = JNull,
       qfilters = (JNull :: unit list nullish), qsearchTypes = (JVal [] :: unit list nullish)\<rparr>) JNull"
  by (rule query_equals_absent)

end
