(* ===== verification/UriPath.thy ===== *)
theory UriPath
  imports Prelude
begin

text \<open>
  The part of the URI.js library (\<open>urijs\<close>, outside the sources) that
  \<open>routing/Routes.ts\<close> relies on, for URIs without scheme and host, as the route
  table's are: splitting a URI into its path and its query/fragment suffix,
  \<open>filename()\<close>, the \<open>directory()\<close> getter and setter, \<open>normalizePath()\<close> and
  \<open>resource()\<close>. Path segments are assumed to need no percent-recoding (route
  names are letters, digits, \<open>-\<close>, \<open>_\<close>, \<open>.\<close> and \<open>:\<close>), so \<open>recodePath\<close> is
  the identity; \<open>normalizePath\<close> collapses repeated slashes, drops \<open>.\<close>
  segments and resolves \<open>..\<close> segments against the ones before them (a \<open>..\<close>
  with nothing before it is dropped, as URI.js does for absolute paths).
\<close>

subsection \<open>Parsing\<close>

definition uri_path :: "string \<Rightarrow> string" where
  "uri_path s = takeWhile (\<lambda>c. c \<noteq> CHR ''?'' \<and> c \<noteq> CHR ''#'') s"

definition uri_suffix :: "string \<Rightarrow> string" where
  "uri_suffix s = dropWhile (\<lambda>c. c \<noteq> CHR ''?'' \<and> c \<noteq> CHR ''#'') s"

definition uri_filename :: "string \<Rightarrow> string" where
  "uri_filename p = rev (takeWhile (\<lambda>c. c \<noteq> CHR ''/'') (rev p))"

text \<open>The directory part of the path, with its final slash: what the setter
  replaces.\<close>

definition uri_dir_prefix :: "string \<Rightarrow> string" where
  "uri_dir_prefix p = take (length p - length (uri_filename p)) p"

text \<open>\<open>directory()\<close>: \<open>''\<close> for an empty path, \<open>'/'\<close> for the root, otherwise
  the path up to (not including) the slash before the file name.\<close>

definition uri_directory :: "string \<Rightarrow> string" where
  "uri_directory p =
     (if p = [] then [] else if p = ''/'' then ''/''
      else take (length p - length (uri_filename p) - 1) p)"

text \<open>\<open>directory(v)\<close> on a relative URI: \<open>v\<close> gets a final slash and replaces the
  directory part of the path.\<close>

definition uri_set_directory :: "string \<Rightarrow> string \<Rightarrow> string" where
  "uri_set_directory v p =
     (let v' = (if v \<noteq> [] \<and> last v \<noteq> CHR ''/'' then v @ ''/'' else v)
      in v' @ uri_filename p)"

subsection \<open>Normalisation\<close>

definition resolve_step :: "string list \<Rightarrow> string \<Rightarrow> string list" where
  "resolve_step acc s =
     (if s = [] \<or> s = ''.'' then acc else if s = ''..'' then tl acc else s # acc)"

definition resolve_segments :: "string list \<Rightarrow> string list" where
  "resolve_segments segs = rev (foldl resolve_step [] segs)"

definition normalizePath :: "string \<Rightarrow> string" where
  "normalizePath p =
     (if p = [] \<or> p = ''/'' then p
      else
        let segs = split_on CHR ''/'' p;
            rs = resolve_segments segs;
            trail = last segs \<in> {[], ''.'', ''..''}
        in (if hd p = CHR ''/'' then ''/'' else []) @ join ''/'' rs
           @ (if trail \<and> rs \<noteq> [] then ''/'' else []))"

subsection \<open>Lemmas\<close>

named_theorems uri_simps "unfolding rules of the URI model"

lemmas [uri_simps] = uri_path_def uri_suffix_def uri_filename_def uri_dir_prefix_def
  uri_directory_def uri_set_directory_def normalizePath_def resolve_segments_def resolve_step_def

lemma uri_path_suffix [simp]: "uri_path s @ uri_suffix s = s"
  by (simp add: uri_path_def uri_suffix_def)

lemma split_on_append_sep: "split_on c (x @ c # y) = split_on c x @ split_on c y"
  by (induction x) (auto simp: Let_def)

lemma resolve_step_empty [simp]: "resolve_step acc [] = acc"
  by (simp add: resolve_step_def)

lemma foldl_resolve_empty_seg:
  "foldl resolve_step acc (xs @ [] # ys) = foldl resolve_step acc (xs @ ys)"
  by simp

lemma last_split_on_append_sep [simp]:
  "last (split_on c (x @ c # y)) = last (split_on c y)"
  by (simp add: split_on_append_sep)

lemma hd_append_nonempty: "x \<noteq> [] \<Longrightarrow> hd (x @ y) = hd x"
  by (cases x) auto

text \<open>A doubled slash inside a path does not change its normal form.\<close>

lemma normalizePath_double_slash:
  "normalizePath (x @ CHR ''/'' # CHR ''/'' # y) = normalizePath (x @ CHR ''/'' # y)"
proof -
  have s1: "split_on CHR ''/'' (x @ CHR ''/'' # CHR ''/'' # y)
            = split_on CHR ''/'' x @ [[]] @ split_on CHR ''/'' y"
    using split_on_append_sep [of "CHR ''/''" x "CHR ''/'' # y"]
          split_on_append_sep [of "CHR ''/''" "[]" y] by simp
  have s2: "split_on CHR ''/'' (x @ CHR ''/'' # y) = split_on CHR ''/'' x @ split_on CHR ''/'' y"
    by (rule split_on_append_sep)
  have r: "resolve_segments (split_on CHR ''/'' x @ [[]] @ split_on CHR ''/'' y)
           = resolve_segments (split_on CHR ''/'' x @ split_on CHR ''/'' y)"
    by (simp add: resolve_segments_def foldl_resolve_empty_seg)
  have l: "last (split_on CHR ''/'' x @ [[]] @ split_on CHR ''/'' y) = last (split_on CHR ''/'' y)"
    by simp
  have h: "hd (x @ CHR ''/'' # CHR ''/'' # y) = hd (x @ CHR ''/'' # y)"
    by (cases x) auto
  show ?thesis
  proof (cases "x = [] \<and> y = []")
    case True
    then show ?thesis by (simp add: uri_simps)
  next
    case False
    then have "x @ CHR ''/'' # y \<noteq> ''/''" and "x @ CHR ''/'' # CHR ''/'' # y \<noteq> ''/''"
      by (cases x; auto)+
    with s1 s2 r l h show ?thesis by (simp add: normalizePath_def Let_def)
  qed
qed

end
