(* ===== verification/Routes.thy ===== *)
theory Routes
  imports UriPath
begin

text \<open>
  URL qualification of \<open>src/graylog2-web-interface/src/routing/Routes.ts\<close>
  (lines 339--405): \<open>prefixUrlWithoutHostname\<close>, the route-map type
  \<open>RouteMapEntry\<close> (a literal path, a path-generating function, or a nested map,
  kept as an association list because \<open>Object.entries\<close> keeps insertion order),
  \<open>qualifyUrls\<close> and \<open>prefixUrl\<close>. The configured prefix
  \<open>AppConfig.gl2AppPathPrefix()\<close> is an argument: \<open>JUndef\<close>/\<open>JNull\<close> when the
  configuration has none. Route functions take their arguments as a list of
  strings, as the template literals of the table interpolate them.
\<close>

subsection \<open>Prefixing one URL\<close>

definition prefixUrlWithoutHostname :: "string \<Rightarrow> string \<Rightarrow> string" where
  "prefixUrlWithoutHostname url prefix =
     (let path = uri_path url
      in normalizePath (uri_set_directory (prefix @ ''/'' @ uri_directory path) path)
         @ uri_suffix url)"

subsection \<open>Route maps\<close>

datatype route_entry =
    RLiteral string
  | RFunction "string list \<Rightarrow> string"
  | RMap "(string \<times> route_entry) list"

type_synonym route_map = "(string \<times> route_entry) list"

text \<open>\<open>!appPrefix || appPrefix === '' || appPrefix === '/'\<close>.\<close>

definition no_prefix :: "string nullish \<Rightarrow> bool" where
  "no_prefix appPrefix \<longleftrightarrow> is_nullish appPrefix \<or> appPrefix = JVal [] \<or> appPrefix = JVal ''/''"

text \<open>The callback of \<open>Object.entries(routes).map(...)\<close> in \<open>qualifyUrls\<close> is
  \<open>qualifyEntry\<close>: a literal is prefixed, a function is wrapped so that its result
  is prefixed when it is called, and a nested map is qualified recursively with the
  same prefix.\<close>

fun qualifyUrls :: "route_map \<Rightarrow> string nullish \<Rightarrow> route_map"
  and qualifyEntry :: "string nullish \<Rightarrow> route_entry \<Rightarrow> route_entry" where
  "qualifyUrls routes appPrefix =
     (if no_prefix appPrefix then routes
      else map (\<lambda>(routeName, routeValue). (routeName, qualifyEntry appPrefix routeValue)) routes)"
| "qualifyEntry appPrefix (RLiteral s) =
     RLiteral (prefixUrlWithoutHostname s (nullish_coalesce appPrefix []))"
| "qualifyEntry appPrefix (RFunction f) =
     RFunction (\<lambda>params. prefixUrlWithoutHostname (f params) (nullish_coalesce appPrefix []))"
| "qualifyEntry appPrefix (RMap m) = RMap (qualifyUrls m appPrefix)"

text \<open>Reading an entry of a route map along a path of property names, as
  \<open>Routes.SYSTEM.CLUSTER.NODE_SHOW\<close> does, and calling it.\<close>

fun route_get :: "route_map \<Rightarrow> string list \<Rightarrow> route_entry option" where
  "route_get m [] = None"
| "route_get m [k] = map_of m k"
| "route_get m (k # k' # ks) =
     (case map_of m k of Some (RMap m') \<Rightarrow> route_get m' (k' # ks) | _ \<Rightarrow> None)"

fun entry_url :: "route_entry \<Rightarrow> string list \<Rightarrow> string option" where
  "entry_url (RLiteral s) args = Some s"
| "entry_url (RFunction f) args = Some (f args)"
| "entry_url (RMap m) args = None"

definition route_url :: "route_map \<Rightarrow> string list \<Rightarrow> string list \<Rightarrow> string option" where
  "route_url m path args = Option.bind (route_get m path) (\<lambda>e. entry_url e args)"

definition prefixUrl :: "string nullish \<Rightarrow> string \<Rightarrow> string" where
  "prefixUrl appPrefix route =
     (if no_prefix appPrefix then route
      else prefixUrlWithoutHostname route (nullish_coalesce appPrefix []))"

subsection \<open>Lemmas\<close>

named_theorems route_simps "unfolding rules of the route model"

lemmas [route_simps] = prefixUrlWithoutHostname_def no_prefix_def prefixUrl_def

definition dir_of :: "string \<Rightarrow> string" where
  "dir_of p = rev (dropWhile (\<lambda>c. c \<noteq> CHR ''/'') (rev p))"

lemma path_dir_filename: "p = dir_of p @ uri_filename p"
proof -
  have "rev p = takeWhile (\<lambda>c. c \<noteq> CHR ''/'') (rev p) @ dropWhile (\<lambda>c. c \<noteq> CHR ''/'') (rev p)"
    by simp
  then have "p = rev (dropWhile (\<lambda>c. c \<noteq> CHR ''/'') (rev p))
                 @ rev (takeWhile (\<lambda>c. c \<noteq> CHR ''/'') (rev p))"
    by (metis rev_append rev_rev_ident)
  then show ?thesis by (simp add: dir_of_def uri_filename_def)
qed

lemma dir_of_no_slash: "CHR ''/'' \<notin> set p \<Longrightarrow> dir_of p = []"
  by (auto simp: dir_of_def dropWhile_eq_Nil_conv)

lemma dir_of_slash:
  assumes "CHR ''/'' \<in> set p"
  obtains d0 where "dir_of p = d0 @ ''/''"
proof -
  let ?d = "dropWhile (\<lambda>c. c \<noteq> CHR ''/'') (rev p)"
  have ne: "?d \<noteq> []" using assms by (simp add: dropWhile_eq_Nil_conv)
  then have "hd ?d = CHR ''/''" using hd_dropWhile [OF ne] by simp
  with ne obtain r where "?d = CHR ''/'' # r" by (metis list.collapse)
  then have "dir_of p = rev r @ ''/''" by (simp add: dir_of_def)
  then show ?thesis by (rule that)
qed

lemma uri_directory_split:
  assumes "p \<noteq> []" "p \<noteq> ''/''" "dir_of p = d0 @ ''/''"
  shows "uri_directory p = d0"
proof -
  have eq: "p = d0 @ ''/'' @ uri_filename p" using assms(3) path_dir_filename [of p] by simp
  then have "length p = length (d0 @ ''/'' @ uri_filename p)" by (rule arg_cong)
  then have len: "length p - length (uri_filename p) - 1 = length d0" by simp
  have "uri_directory p = take (length p - length (uri_filename p) - 1) p"
    using assms(1,2) by (simp add: uri_directory_def)
  also have "\<dots> = take (length d0) p" by (simp only: len)
  also have "\<dots> = d0" by (subst eq) simp
  finally show ?thesis .
qed

lemma uri_directory_no_slash:
  "CHR ''/'' \<notin> set p \<Longrightarrow> uri_directory p = []"
  using path_dir_filename [of p] dir_of_no_slash [of p]
  by (auto simp: uri_directory_def)

text \<open>The directory trick of \<open>prefixUrlWithoutHostname\<close> is the same as putting
  the prefix and a slash in front of the path and normalising.\<close>

lemma set_directory_normal:
  "normalizePath (uri_set_directory (pre @ CHR ''/'' # uri_directory p) p) = normalizePath (pre @ CHR ''/'' # p)"
proof (cases "p = [] \<or> p = ''/''")
  case True
  then show ?thesis by (auto simp: uri_set_directory_def uri_directory_def uri_filename_def)
next
  case False
  show ?thesis
  proof (cases "CHR ''/'' \<in> set p")
    case False
    then have "uri_directory p = []" and "uri_filename p = p"
      using path_dir_filename [of p] dir_of_no_slash [of p] uri_directory_no_slash by auto
    then show ?thesis by (simp add: uri_set_directory_def)
  next
    case True
    then obtain d0 where d: "dir_of p = d0 @ ''/''" by (rule dir_of_slash)
    with \<open>\<not> (p = [] \<or> p = ''/'')\<close> have dir: "uri_directory p = d0"
      by (simp add: uri_directory_split)
    have p: "p = d0 @ ''/'' @ uri_filename p" using d path_dir_filename [of p] by simp
    show ?thesis
    proof (cases "last (pre @ ''/'' @ d0) = CHR ''/''")
      case False
      then have "uri_set_directory (pre @ ''/'' @ d0) p = pre @ ''/'' @ d0 @ ''/'' @ uri_filename p"
        by (simp add: uri_set_directory_def)
      with p dir show ?thesis by simp
    next
      case True
      then obtain a0 where a0: "pre @ ''/'' @ d0 = a0 @ ''/''"
        by (metis append_butlast_last_id append_is_Nil_conv last_appendR not_Cons_self2)
      then have "uri_set_directory (pre @ ''/'' @ d0) p = a0 @ ''/'' @ uri_filename p"
        using True by (simp add: uri_set_directory_def)
      moreover have "pre @ ''/'' @ p = a0 @ ''/'' @ ''/'' @ uri_filename p"
        using a0 p by (metis append.assoc)
      ultimately show ?thesis using dir by (simp add: normalizePath_double_slash)
    qed
  qed
qed

lemma prefixUrlWithoutHostname_eq:
  "prefixUrlWithoutHostname url pre = normalizePath (pre @ ''/'' @ uri_path url) @ uri_suffix url"
  by (simp add: prefixUrlWithoutHostname_def set_directory_normal Let_def)

lemma route_get_qualifyUrls:
  "route_get (qualifyUrls m p) path =
     (if no_prefix p then route_get m path else map_option (qualifyEntry p) (route_get m path))"
proof (induction m path rule: route_get.induct)
  case (1 m)
  then show ?case by simp
next
  case (2 m k)
  then show ?case by (simp add: map_of_map)
next
  case (3 m k k' ks)
  show ?case
  proof (cases "no_prefix p")
    case True
    then show ?thesis by simp
  next
    case False
    then show ?thesis
      using "3.IH" by (auto simp: map_of_map split: option.splits route_entry.splits)
  qed
qed

lemma entry_url_qualifyEntry:
  "entry_url (qualifyEntry p e) args =
     map_option (\<lambda>u. prefixUrlWithoutHostname u (nullish_coalesce p [])) (entry_url e args)"
  by (cases e) simp_all

subsection \<open>Properties of URL qualification\<close>

text \<open>With no configured prefix, an empty one or \<open>'/'\<close>, \<open>qualifyUrls\<close>
  returns the route map it was given, unchanged.\<close>

theorem qualifyUrls_without_prefix:
  "qualifyUrls routes JUndef = routes \<and> qualifyUrls routes JNull = routes
   \<and> qualifyUrls routes (JVal []) = routes \<and> qualifyUrls routes (JVal ''/'') = routes"
  by (simp add: no_prefix_def)

text \<open>Qualification keeps every route name and the order of the entries.\<close>

lemma qualifyUrls_keeps_names:
  "map fst (qualifyUrls routes p) = map fst routes"
  by (simp add: case_prod_beta comp_def)

text \<open>C7: every URL read from the qualified map, at any depth and for any
  arguments of a route function, is the URL of the unqualified map with the prefix
  and a slash put in front and the path normalised; the query and fragment are kept.\<close>

theorem route_url_qualifyUrls:
  "route_url (qualifyUrls m (JVal pre)) path args =
     (if no_prefix (JVal pre) then route_url m path args
      else map_option (\<lambda>u. normalizePath (pre @ ''/'' @ uri_path u) @ uri_suffix u)
             (route_url m path args))"
proof (cases "no_prefix (JVal pre)")
  case True
  then show ?thesis by (simp add: route_url_def route_get_qualifyUrls)
next
  case False
  then have "route_get (qualifyUrls m (JVal pre)) path = map_option (qualifyEntry (JVal pre)) (route_get m path)"
    using route_get_qualifyUrls [of m "JVal pre" path] by (simp del: qualifyUrls.simps)
  with False show ?thesis
    by (cases "route_get m path")
       (simp_all add: route_url_def entry_url_qualifyEntry prefixUrlWithoutHostname_eq
         del: qualifyUrls.simps)
qed

text \<open>C8: \<open>prefixUrl\<close> leaves a route alone when no prefix is configured and
  otherwise puts the prefix and a slash in front of its path and normalises it.\<close>

theorem prefixUrl_closed_form:
  "prefixUrl appPrefix route =
     (if no_prefix appPrefix then route
      else normalizePath (nullish_coalesce appPrefix [] @ ''/'' @ uri_path route) @ uri_suffix route)"
  by (simp add: prefixUrl_def prefixUrlWithoutHostname_eq)

end
