(* ===== verification/RouteTable.thy ===== *)
theory RouteTable
  imports Routes
begin

text \<open>
  The route table \<open>Routes\<close> of \<open>src/graylog2-web-interface/src/routing/Routes.ts\<close>
  (lines 24 and 48--337) as a \<open>route_map\<close>, entry for entry and in the source's
  order. Template literals become string concatenation; a parameter the caller
  leaves out is interpolated as the text \<open>undefined\<close>, as JavaScript does
  (\<open>arg\<close>), and an optional parameter is tested for truthiness (\<open>arg_truthy\<close>).
  \<open>viewsPath\<close> and \<open>extendedSearchPath\<close> come from \<open>views/Constants\<close>, outside
  the sources, and are parameters. The five entries whose functions take structured
  arguments (\<open>search_with_query\<close>, \<open>_common_search_url\<close>, \<open>search\<close>,
  \<open>stream_search\<close>, \<open>new_extractor\<close>) are not in this string-argument table.
\<close>

definition arg :: "string list \<Rightarrow> nat \<Rightarrow> string" where
  "arg ps i = (if i < length ps then ps ! i else ''undefined'')"

definition arg_truthy :: "string list \<Rightarrow> nat \<Rightarrow> bool" where
  "arg_truthy ps i \<longleftrightarrow> i < length ps \<and> ps ! i \<noteq> []"

definition SECURITY_PATH :: string where
  "SECURITY_PATH = ''/security''"

definition Routes_ALERTS :: route_entry where
  "Routes_ALERTS =
    RMap [
    (''LIST'', RLiteral (''/alerts'')),
    (''replay_search'', RFunction (\<lambda>ps. ''/alerts/'' @ arg ps 0 @ ''/replay-search'')),
    (''BULK_REPLAY_SEARCH'', RLiteral (''/alerts/replay-search'')),
    (''DEFINITIONS'', RMap [
    (''LIST'', RLiteral (''/alerts/definitions'')),
    (''CREATE'', RLiteral (''/alerts/definitions/new'')),
    (''edit'', RFunction (\<lambda>ps. ''/alerts/definitions/'' @ arg ps 0 @ ''/edit'')),
    (''show'', RFunction (\<lambda>ps. ''/alerts/definitions/'' @ arg ps 0)),
    (''replay_search'', RFunction (\<lambda>ps. ''/alerts/definitions/'' @ arg ps 0 @ ''/replay-search''))]),
    (''NOTIFICATIONS'', RMap [
    (''LIST'', RLiteral (''/alerts/notifications'')),
    (''CREATE'', RLiteral (''/alerts/notifications/new'')),
    (''edit'', RFunction (\<lambda>ps. ''/alerts/notifications/'' @ arg ps 0 @ ''/edit'')),
    (''show'', RFunction (\<lambda>ps. ''/alerts/notifications/'' @ arg ps 0))])]"

definition Routes_SECURITY :: route_entry where
  "Routes_SECURITY =
    RMap [
    (''OVERVIEW'', RLiteral (SECURITY_PATH @ ''/overview'')),
    (''USER_ACTIVITY'', RLiteral (SECURITY_PATH @ ''/user-activity'')),
    (''HOST_ACTIVITY'', RLiteral (SECURITY_PATH @ ''/host-activity'')),
    (''NETWORK_ACTIVITY'', RLiteral (SECURITY_PATH @ ''/network-activity'')),
    (''ANOMALIES'', RLiteral (SECURITY_PATH @ ''/anomalies'')),
    (''ACTIVITY'', RLiteral (SECURITY_PATH @ ''/activity''))]"

definition Routes_SYSTEM :: route_entry where
  "Routes_SYSTEM =
    RMap [
    (''CLUSTER'', RMap [
    (''NODES'', RLiteral (''/system/cluster'')),
    (''NODE_SHOW'', RFunction (\<lambda>ps. ''/system/cluster/node/'' @ arg ps 0)),
    (''CERTIFICATE_MANAGEMENT'', RLiteral (''/system/cluster/certificate-management'')),
    (''DATANODE_DASHBOARD'', RLiteral (''/system/cluster/datanode-dashboard'')),
    (''DATANODE_MIGRATION'', RLiteral (''/system/cluster/datanode-migration'')),
    (''DATANODE_UPGRADE'', RLiteral (''/system/cluster/datanode-upgrade'')),
    (''DATANODE_SHOW'', RFunction (\<lambda>ps. ''/system/cluster/datanode/'' @ arg ps 0))]),
    (''CONFIGURATIONS'', RLiteral (''/system/configurations'')),
    (''configurationsSection'', RFunction (\<lambda>ps. ''/system/configurations/'' @ arg ps 0 @ (if arg_truthy ps 1 then ''/'' @ arg ps 1 else []))),
    (''CONTENTPACKS'', RMap [
    (''LIST'', RLiteral (''/system/contentpacks'')),
    (''EXPORT'', RLiteral (''/system/contentpacks/export'')),
    (''CREATE'', RLiteral (''/system/contentpacks/create'')),
    (''edit'', RFunction (\<lambda>ps. ''/system/contentpacks/'' @ arg ps 0 @ ''/'' @ arg ps 1 @ ''/edit'')),
    (''show'', RFunction (\<lambda>ps. ''/system/contentpacks/'' @ arg ps 0))]),
    (''GROKPATTERNS'', RLiteral (''/system/grokpatterns'')),
    (''INDICES'', RMap [
    (''LIST'', RLiteral (''/system/indices'')),
    (''FAILURES'', RLiteral (''/system/indices/failures'')),
    (''TEMPLATES'', RMap [
    (''view'', RFunction (\<lambda>ps. ''/system/indices/templates/'' @ arg ps 0)),
    (''OVERVIEW'', RLiteral (''/system/indices/templates'')),
    (''CREATE'', RLiteral (''/system/indices/templates/create'')),
    (''edit'', RFunction (\<lambda>ps. ''/system/indices/templates/edit/'' @ arg ps 0))]),
    (''FIELD_TYPE_PROFILES'', RMap [
    (''OVERVIEW'', RLiteral (''/system/indices/field-type-profiles'')),
    (''edit'', RFunction (\<lambda>ps. ''/system/indices/field-type-profiles/'' @ arg ps 0)),
    (''CREATE'', RLiteral (''/system/indices/field-type-profiles/create''))])]),
    (''INDEX_SETS'', RMap [
    (''CONFIGURATION'', RFunction (\<lambda>ps. if arg_truthy ps 1 then ''/system/index_sets/'' @ arg ps 0 @ ''/configuration?from='' @ arg ps 1 else ''/system/index_sets/'' @ arg ps 0 @ ''/configuration'')),
    (''SHOW'', RFunction (\<lambda>ps. ''/system/index_sets/'' @ arg ps 0)),
    (''FIELD_TYPES'', RFunction (\<lambda>ps. ''/system/index_sets/'' @ arg ps 0 @ ''/field-types'')),
    (''CREATE'', RLiteral (''/system/index_sets/create''))]),
    (''INPUTS'', RLiteral (''/system/inputs'')),
    (''INPUT_DIAGNOSIS'', RFunction (\<lambda>ps. ''/system/input/diagnosis/'' @ arg ps 0)),
    (''LOGGING'', RLiteral (''/system/logging'')),
    (''METRICS'', RFunction (\<lambda>ps. ''/system/metrics/node/'' @ arg ps 0)),
    (''THREADDUMP'', RFunction (\<lambda>ps. ''/system/threaddump/'' @ arg ps 0)),
    (''OUTPUTS'', RLiteral (''/system/outputs'')),
    (''OVERVIEW'', RLiteral (''/system/overview'')),
    (''PROCESSBUFFERDUMP'', RFunction (\<lambda>ps. ''/system/processbufferdump/'' @ arg ps 0)),
    (''SYSTEMLOGS'', RFunction (\<lambda>ps. ''/system/logs/recent/'' @ arg ps 0)),
    (''AUTHENTICATION'', RMap [
    (''BACKENDS'', RMap [
    (''OVERVIEW'', RLiteral (''/system/authentication/services'')),
    (''ACTIVE'', RLiteral (''/system/authentication/services/active'')),
    (''CREATE'', RLiteral (''/system/authentication/services/create'')),
    (''createBackend'', RFunction (\<lambda>ps. ''/system/authentication/services/create/'' @ arg ps 0)),
    (''show'', RFunction (\<lambda>ps. ''/system/authentication/services/'' @ arg ps 0)),
    (''edit'', RFunction (\<lambda>ps. let editUrl = ''/system/authentication/services/edit/'' @ arg ps 0 in if arg_truthy ps 1 then editUrl @ ''?initialStepKey='' @ arg ps 1 else editUrl))]),
    (''AUTHENTICATORS'', RMap [
    (''SHOW'', RLiteral (''/system/authentication/authenticator'')),
    (''EDIT'', RLiteral (''/system/authentication/authenticator/edit''))])]),
    (''USERS'', RMap [
    (''CREATE'', RLiteral (''/system/users/new'')),
    (''edit'', RFunction (\<lambda>ps. ''/system/users/edit/'' @ arg ps 0)),
    (''TOKENS'', RMap [
    (''edit'', RFunction (\<lambda>ps. ''/system/users/tokens/'' @ arg ps 0))]),
    (''OVERVIEW'', RLiteral (''/system/users'')),
    (''show'', RFunction (\<lambda>ps. ''/system/users/'' @ arg ps 0))]),
    (''USERS_TOKEN_MANAGEMENT'', RMap [
    (''overview'', RLiteral (''/system/tokenmanagement/overview''))]),
    (''AUTHZROLES'', RMap [
    (''OVERVIEW'', RLiteral (''/system/roles'')),
    (''show'', RFunction (\<lambda>ps. ''/system/roles/'' @ arg ps 0)),
    (''edit'', RFunction (\<lambda>ps. ''/system/roles/edit/'' @ arg ps 0))]),
    (''LOOKUPTABLES'', RMap [
    (''OVERVIEW'', RLiteral (''/system/lookuptables'')),
    (''CREATE'', RLiteral (''/system/lookuptables/create'')),
    (''show'', RFunction (\<lambda>ps. ''/system/lookuptables/table/'' @ arg ps 0)),
    (''edit'', RFunction (\<lambda>ps. ''/system/lookuptables/table/'' @ arg ps 0 @ ''/edit'')),
    (''CACHES'', RMap [
    (''OVERVIEW'', RLiteral (''/system/lookuptables/caches'')),
    (''CREATE'', RLiteral (''/system/lookuptables/caches/create'')),
    (''show'', RFunction (\<lambda>ps. ''/system/lookuptables/caches/'' @ arg ps 0)),
    (''edit'', RFunction (\<lambda>ps. ''/system/lookuptables/caches/'' @ arg ps 0 @ ''/edit''))]),
    (''DATA_ADAPTERS'', RMap [
    (''OVERVIEW'', RLiteral (''/system/lookuptables/data_adapters'')),
    (''CREATE'', RLiteral (''/system/lookuptables/data_adapters/create'')),
    (''show'', RFunction (\<lambda>ps. ''/system/lookuptables/data_adapter/'' @ arg ps 0)),
    (''edit'', RFunction (\<lambda>ps. ''/system/lookuptables/data_adapter/'' @ arg ps 0 @ ''/edit''))])]),
    (''PIPELINES'', RMap [
    (''OVERVIEW'', RLiteral (''/system/pipelines'')),
    (''PIPELINE'', RFunction (\<lambda>ps. ''/system/pipelines/'' @ arg ps 0)),
    (''RULES'', RLiteral (''/system/pipelines/rules'')),
    (''RULE'', RFunction (\<lambda>ps. ''/system/pipelines/rules/'' @ arg ps 0)),
    (''SIMULATOR'', RLiteral (''/system/pipelines/simulate''))]),
    (''ENTERPRISE'', RLiteral (''/system/enterprise'')),
    (''SIDECARS'', RMap [
    (''OVERVIEW'', RLiteral (''/system/sidecars'')),
    (''STATUS'', RFunction (\<lambda>ps. ''/system/sidecars/'' @ arg ps 0 @ ''/status'')),
    (''ADMINISTRATION'', RLiteral (''/system/sidecars/administration'')),
    (''CONFIGURATION'', RLiteral (''/system/sidecars/configuration'')),
    (''FAILURE_TRACKING'', RLiteral (''/system/sidecars/failuretracking'')),
    (''NEW_CONFIGURATION'', RLiteral (''/system/sidecars/configuration/new'')),
    (''EDIT_CONFIGURATION'', RFunction (\<lambda>ps. ''/system/sidecars/configuration/edit/'' @ arg ps 0)),
    (''NEW_COLLECTOR'', RLiteral (''/system/sidecars/collector/new'')),
    (''EDIT_COLLECTOR'', RFunction (\<lambda>ps. ''/system/sidecars/collector/edit/'' @ arg ps 0))])]"

definition Routes_VIEWS :: "string \<Rightarrow> route_entry" where
  "Routes_VIEWS viewsPath =
    RMap [
    (''LIST'', RLiteral (viewsPath)),
    (''VIEWID'', RFunction (\<lambda>ps. viewsPath @ ''/'' @ arg ps 0))]"

text \<open>Entries that call other entries of the unqualified table (\<open>Routes.stream_edit\<close>,
  \<open>Routes.SYSTEM.INPUTS\<close>, \<open>Routes.local_input_extractors\<close>, \<open>Routes.SYSTEM.METRICS\<close>,
  \<open>Routes.GLOBAL_API_BROWSER_URL\<close>).\<close>

definition stream_edit_route :: "string list \<Rightarrow> string" where
  "stream_edit_route ps = ''/streams/'' @ arg ps 0 @ ''/edit''"

definition local_input_extractors_route :: "string list \<Rightarrow> string" where
  "local_input_extractors_route ps = ''/system/inputs/'' @ arg ps 0 @ ''/'' @ arg ps 1 @ ''/extractors''"

definition Routes :: "string \<Rightarrow> string \<Rightarrow> route_map" where
  "Routes viewsPath extendedSearchPath =
   [(''STARTPAGE'', RLiteral (''/'')),
    (''NOTFOUND'', RLiteral (''/notfound'')),
    (''SEARCH'', RLiteral (''/search'')),
    (''STREAMS'', RLiteral (''/streams'')),
    (''ALERTS'', Routes_ALERTS),
    (''SECURITY'', Routes_SECURITY),
    (''SOURCES'', RLiteral (''/sources'')),
    (''DASHBOARDS'', RLiteral (''/dashboards'')),
    (''WELCOME'', RLiteral (''/welcome'')),
    (''GLOBAL_API_BROWSER_URL'', RLiteral (''/api/api-browser/global/index.html'')),
    (''SYSTEM'', Routes_SYSTEM),
    (''VIEWS'', Routes_VIEWS viewsPath),
    (''EXTENDEDSEARCH'', RLiteral (extendedSearchPath)),
    (''KEYBOARD_SHORTCUTS'', RLiteral (''/keyboard-shortcuts'')),
    (''message_show'', RFunction (\<lambda>ps. ''/messages/'' @ arg ps 0 @ ''/'' @ arg ps 1)),
    (''stream_view'', RFunction (\<lambda>ps. ''/streams/'' @ arg ps 0 @ ''/view'')),
    (''stream_edit'', RFunction stream_edit_route),
    (''stream_edit_example'', RFunction (\<lambda>ps.
        stream_edit_route [arg ps 0] @ ''?index='' @ arg ps 1 @ ''&message_id='' @ arg ps 2)),
    (''stream_outputs'', RFunction (\<lambda>ps. ''/streams/'' @ arg ps 0 @ ''/outputs'')),
    (''stream_alerts'', RFunction (\<lambda>ps. ''/alerts/?stream_id='' @ arg ps 0)),
    (''legacy_stream_search'', RFunction (\<lambda>ps. ''/streams/'' @ arg ps 0 @ ''/messages'')),
    (''dashboard_show'', RFunction (\<lambda>ps. ''/dashboards/'' @ arg ps 0)),
    (''show_saved_search'', RFunction (\<lambda>ps. ''/search/'' @ arg ps 0)),
    (''node_inputs'', RFunction (\<lambda>ps. ''/system/inputs'' @ ''/'' @ arg ps 0)),
    (''global_input_extractors'', RFunction (\<lambda>ps. ''/system/inputs/'' @ arg ps 0 @ ''/extractors'')),
    (''local_input_extractors'', RFunction local_input_extractors_route),
    (''export_extractors'', RFunction (\<lambda>ps. local_input_extractors_route [arg ps 0, arg ps 1] @ ''/export'')),
    (''import_extractors'', RFunction (\<lambda>ps. local_input_extractors_route [arg ps 0, arg ps 1] @ ''/import'')),
    (''edit_extractor'', RFunction (\<lambda>ps.
        ''/system/inputs/'' @ arg ps 0 @ ''/'' @ arg ps 1 @ ''/extractors/'' @ arg ps 2 @ ''/edit'')),
    (''edit_input_extractor'', RFunction (\<lambda>ps.
        ''/system/inputs/'' @ arg ps 0 @ ''/'' @ arg ps 1 @ ''/extractors/'' @ arg ps 2 @ ''/edit'')),
    (''filtered_metrics'', RFunction (\<lambda>ps. ''/system/metrics/node/'' @ arg ps 0 @ ''?filter='' @ arg ps 1)),
    (''global_api_browser'', RFunction (\<lambda>ps. ''/api/api-browser/global/index.html''))]"

subsection \<open>The repository's route tests\<close>

lemmas route_table_simps = Routes_def Routes_ALERTS_def Routes_SECURITY_def Routes_SYSTEM_def
  Routes_VIEWS_def arg_def arg_truthy_def SECURITY_PATH_def

text \<open>\<open>Routes.test.ts\<close>, "with prefix": under the prefix \<open>/test\<close> the
  constant route \<open>SEARCH\<close> is \<open>/test/search\<close> and the route function
  \<open>SYSTEM.CLUSTER.NODE_SHOW('id')\<close> gives \<open>/test/system/cluster/node/id\<close>.\<close>

theorem Routes_with_prefix:
  "route_url (qualifyUrls (Routes vp esp) (JVal ''/test'')) [''SEARCH''] [] = Some ''/test/search''
   \<and> route_url (qualifyUrls (Routes vp esp) (JVal ''/test'')) [''SYSTEM'', ''CLUSTER'', ''NODE_SHOW''] [''id'']
       = Some ''/test/system/cluster/node/id''"
  unfolding route_url_def route_get_qualifyUrls
  by (simp add: route_table_simps no_prefix_def prefixUrlWithoutHostname_eq uri_simps)

text \<open>\<open>Routes.test.ts\<close>, "without prefix" and "with '/' prefix": the
  routes are the unprefixed paths.\<close>

theorem Routes_without_prefix:
  "route_url (qualifyUrls (Routes vp esp) JUndef) [''SEARCH''] [] = Some ''/search''
   \<and> route_url (qualifyUrls (Routes vp esp) (JVal ''/'')) [''WELCOME''] [] = Some ''/welcome''
   \<and> route_url (qualifyUrls (Routes vp esp) (JVal ''/'')) [''SYSTEM'', ''CLUSTER'', ''NODE_SHOW''] [''id'']
       = Some ''/system/cluster/node/id''"
  unfolding route_url_def route_get_qualifyUrls
  by (simp add: route_table_simps no_prefix_def)

end
