(* ===== verification/UserOverview.thy ===== *)
theory UserOverview
  imports Prelude
begin

text \<open>
  The \<open>UserOverview\<close> value object of
  \<open>src/graylog2-web-interface/src/logic/users/UserOverview.ts\<close>: the wire format
  \<open>UserOverviewJSON\<close>, the immutable state \<open>InternalState\<close>, the getters,
  \<open>create\<close>, \<open>toBuilder\<close>, \<open>toJSON\<close>,
      \<open>fromJSON\<close> and the \<open>Builder\<close>.

  The TypeScript types declare every field, but nothing checks them at run time: the
  builder's \<open>Immutable.Map\<close> lacks a key until its setter is called,
      and \<open>build()\<close>
  destructures \<open>toObject()\<close>,
      so an unset field is \<open>undefined\<close>. Every field of the
  state, the builder and the JSON object is therefore \<open>nullish\<close>, unset being
  \<open>JUndef\<close>. \<open>Immutable.Set(roles)\<close> is a duplicate-free list that keeps the first
  occurrence of each role (\<open>role_set\<close>); \<open>Immutable.Set\<close> of \<open>undefined\<close> or
  \<open>null\<close> is the empty set. \<open>toJSON\<close> calls \<open>roles.toArray()\<close> and so raises a
  \<open>TypeError\<close> when the roles are absent: it returns \<open>js_error + _\<close>. Immutable
  iterates small sets in insertion order and larger ones in hash order, so the
  properties speak of the roles of a JSON value as a set.
\<close>

datatype account_status = AccountEnabled | AccountDisabled | AccountDeleted

record user_overview_json =
  j_id :: "string nullish"
  j_username :: "string nullish"
  j_full_name :: "string nullish"
  j_email :: "string nullish"
  j_roles :: "string list nullish"
  j_read_only :: "bool nullish"
  j_external_user :: "bool nullish"
  j_session_active :: "bool nullish"
  j_client_address :: "string nullish"
  j_last_activity :: "string nullish"
  j_enabled :: "bool nullish"
  j_auth_service_id :: "string nullish"
  j_auth_service_uid :: "string nullish"
  j_auth_service_enabled :: "bool nullish"
  j_account_status :: "account_status nullish"

record user_overview =
  uid :: "string nullish"
  username :: "string nullish"
  fullName :: "string nullish"
  email :: "string nullish"
  roles :: "string list nullish"
  readOnly :: "bool nullish"
  external :: "bool nullish"
  sessionActive :: "bool nullish"
  clientAddress :: "string nullish"
  lastActivity :: "string nullish"
  enabled :: "bool nullish"
  authServiceId :: "string nullish"
  authServiceUid :: "string nullish"
  authServiceEnabled :: "bool nullish"
  accountStatus :: "account_status nullish"

text \<open>\<open>Immutable.Set(xs)\<close>.\<close>

definition role_set :: "string list \<Rightarrow> string list" where
  "role_set xs = rev (remdups (rev xs))"

text \<open>The aliases among the getters: \<open>name\<close> is the user name,
  \<open>description\<close> the full name.\<close>

definition user_name :: "user_overview \<Rightarrow> string nullish" where
  "user_name u = username u"

definition user_description :: "user_overview \<Rightarrow> string nullish" where
  "user_description u = fullName u"

definition user_create ::
  "string nullish \<Rightarrow> string nullish \<Rightarrow> string nullish \<Rightarrow> string nullish \<Rightarrow>
   string list nullish \<Rightarrow> bool nullish \<Rightarrow> bool nullish \<Rightarrow> bool nullish \<Rightarrow>
   string nullish \<Rightarrow> string nullish \<Rightarrow> bool nullish \<Rightarrow> string nullish \<Rightarrow>
   string nullish \<Rightarrow> bool nullish \<Rightarrow> account_status nullish \<Rightarrow> user_overview" where
  "user_create i un fn em rs ro ex sa ca la en asi asu ase st =
     \<lparr>uid = i, username = un, fullName = fn, email = em, roles = rs, readOnly = ro,
      external = ex, sessionActive = sa, clientAddress = ca, lastActivity = la, enabled = en,
      authServiceId = asi, authServiceUid = asu, authServiceEnabled = ase,
      accountStatus = st\<rparr>"

text \<open>\<open>toJSON()\<close>: \<open>roles.toArray()\<close> raises on absent roles.\<close>

definition user_toJSON :: "user_overview \<Rightarrow> js_error + user_overview_json" where
  "user_toJSON u =
     (case roles u of
        JVal rs \<Rightarrow> Inr
          \<lparr>j_id = uid u, j_username = username u, j_full_name = fullName u,
          j_email = email u, j_roles = JVal rs, j_read_only = readOnly u,
          j_external_user = external u, j_session_active = sessionActive u,
          j_client_address = clientAddress u, j_last_activity = lastActivity u,
          j_enabled = enabled u, j_auth_service_id = authServiceId u,
          j_auth_service_uid = authServiceUid u, j_auth_service_enabled = authServiceEnabled u,
          j_account_status = accountStatus u\<rparr>
      | _ \<Rightarrow> Inl TypeError)"

text \<open>\<open>fromJSON(value)\<close>: the roles become a set, the three flags default to
  \<open>false\<close> through \<open>??\<close>, the other fields are copied.\<close>

definition user_fromJSON :: "user_overview_json \<Rightarrow> user_overview" where
  "user_fromJSON v =
     user_create (j_id v) (j_username v) (j_full_name v) (j_email v)
       (JVal (role_set (nullish_list (j_roles v))))
       (JVal (nullish_coalesce (j_read_only v) False))
       (JVal (nullish_coalesce (j_external_user v) False))
       (JVal (nullish_coalesce (j_session_active v) False)) (j_client_address v) (j_last_activity v)
       (j_enabled v) (j_auth_service_id v) (j_auth_service_uid v) (j_auth_service_enabled v)
       (j_account_status v)"

subsection \<open>The builder\<close>

record user_overview_builder =
  b_id :: "string nullish"
  b_username :: "string nullish"
  b_fullName :: "string nullish"
  b_email :: "string nullish"
  b_roles :: "string list nullish"
  b_readOnly :: "bool nullish"
  b_external :: "bool nullish"
  b_sessionActive :: "bool nullish"
  b_clientAddress :: "string nullish"
  b_lastActivity :: "string nullish"
  b_enabled :: "bool nullish"
  b_authServiceId :: "string nullish"
  b_authServiceUid :: "string nullish"
  b_authServiceEnabled :: "bool nullish"
  b_accountStatus :: "account_status nullish"

definition user_builder :: user_overview_builder where
  "user_builder =
     \<lparr>b_id = JUndef, b_username = JUndef, b_fullName = JUndef, b_email = JUndef,
      b_roles = JUndef, b_readOnly = JUndef, b_external = JUndef, b_sessionActive = JUndef,
      b_clientAddress = JUndef, b_lastActivity = JUndef, b_enabled = JUndef,
      b_authServiceId = JUndef, b_authServiceUid = JUndef, b_authServiceEnabled = JUndef,
      b_accountStatus = JUndef\<rparr>"

definition user_toBuilder :: "user_overview \<Rightarrow> user_overview_builder" where
  "user_toBuilder u =
     \<lparr>b_id = uid u, b_username = username u, b_fullName = fullName u, b_email = email u,
      b_roles = roles u, b_readOnly = readOnly u, b_external = external u,
      b_sessionActive = sessionActive u, b_clientAddress = clientAddress u,
      b_lastActivity = lastActivity u, b_enabled = enabled u,
      b_authServiceId = authServiceId u, b_authServiceUid = authServiceUid u,
      b_authServiceEnabled = authServiceEnabled u, b_accountStatus = accountStatus u\<rparr>"

definition set_id ::
  "string \<Rightarrow> user_overview_builder \<Rightarrow> user_overview_builder" where
  "set_id v b = b\<lparr>b_id := JVal v\<rparr>"

definition set_username ::
  "string \<Rightarrow> user_overview_builder \<Rightarrow> user_overview_builder" where
  "set_username v b = b\<lparr>b_username := JVal v\<rparr>"

definition set_fullName ::
  "string \<Rightarrow> user_overview_builder \<Rightarrow> user_overview_builder" where
  "set_fullName v b = b\<lparr>b_fullName := JVal v\<rparr>"

definition set_email ::
  "string \<Rightarrow> user_overview_builder \<Rightarrow> user_overview_builder" where
  "set_email v b = b\<lparr>b_email := JVal v\<rparr>"

definition set_roles ::
  "string list \<Rightarrow> user_overview_builder \<Rightarrow> user_overview_builder" where
  "set_roles v b = b\<lparr>b_roles := JVal v\<rparr>"

definition set_readOnly ::
  "bool \<Rightarrow> user_overview_builder \<Rightarrow> user_overview_builder" where
  "set_readOnly v b = b\<lparr>b_readOnly := JVal v\<rparr>"

definition set_external ::
  "bool \<Rightarrow> user_overview_builder \<Rightarrow> user_overview_builder" where
  "set_external v b = b\<lparr>b_external := JVal v\<rparr>"

definition set_sessionActive ::
  "bool \<Rightarrow> user_overview_builder \<Rightarrow> user_overview_builder" where
  "set_sessionActive v b = b\<lparr>b_sessionActive := JVal v\<rparr>"

definition set_clientAddress ::
  "string \<Rightarrow> user_overview_builder \<Rightarrow> user_overview_builder" where
  "set_clientAddress v b = b\<lparr>b_clientAddress := JVal v\<rparr>"

definition set_lastActivity ::
  "string nullish \<Rightarrow> user_overview_builder \<Rightarrow> user_overview_builder" where
  "set_lastActivity v b = b\<lparr>b_lastActivity := v\<rparr>"

definition set_enabled ::
  "bool \<Rightarrow> user_overview_builder \<Rightarrow> user_overview_builder" where
  "set_enabled v b = b\<lparr>b_enabled := JVal v\<rparr>"

definition set_authServiceId ::
  "string \<Rightarrow> user_overview_builder \<Rightarrow> user_overview_builder" where
  "set_authServiceId v b = b\<lparr>b_authServiceId := JVal v\<rparr>"

definition set_authServiceUid ::
  "string \<Rightarrow> user_overview_builder \<Rightarrow> user_overview_builder" where
  "set_authServiceUid v b = b\<lparr>b_authServiceUid := JVal v\<rparr>"

definition set_authServiceEnabled ::
  "bool \<Rightarrow> user_overview_builder \<Rightarrow> user_overview_builder" where
  "set_authServiceEnabled v b = b\<lparr>b_authServiceEnabled := JVal v\<rparr>"

definition set_accountStatus ::
  "account_status \<Rightarrow> user_overview_builder \<Rightarrow> user_overview_builder" where
  "set_accountStatus v b = b\<lparr>b_accountStatus := JVal v\<rparr>"

text \<open>\<open>build()\<close>: whatever the map holds, \<open>undefined\<close> for a key it lacks.\<close>

definition user_build :: "user_overview_builder \<Rightarrow> user_overview" where
  "user_build b =
     user_create (b_id b) (b_username b) (b_fullName b) (b_email b) (b_roles b) (b_readOnly b)
       (b_external b) (b_sessionActive b) (b_clientAddress b) (b_lastActivity b) (b_enabled b)
       (b_authServiceId b) (b_authServiceUid b) (b_authServiceEnabled b) (b_accountStatus b)"

text \<open>A user overview for the examples below.\<close>

definition sample_user :: user_overview where
  "sample_user =
     user_create (JVal ''u1'') (JVal ''jane'') (JVal ''Jane Doe'') (JVal ''jane@example.org'')
     (JVal [''Admin'', ''Reader'']) (JVal False) (JVal False) (JVal True) (JVal ''10.0.0.1'') JNull
     (JVal True) (JVal ''svc'') (JVal ''uid1'') (JVal True) (JVal AccountEnabled)"

subsection \<open>Lemmas\<close>

named_theorems user_simps "unfolding rules of the UserOverview model"

lemmas [user_simps] = user_create_def user_toJSON_def user_fromJSON_def user_builder_def
  user_toBuilder_def user_build_def
  set_id_def set_username_def set_fullName_def set_email_def set_roles_def set_readOnly_def
  set_external_def set_sessionActive_def set_clientAddress_def set_lastActivity_def
  set_enabled_def set_authServiceId_def set_authServiceUid_def set_authServiceEnabled_def
  set_accountStatus_def

lemma set_role_set [simp]: "set (role_set xs) = set xs"
  by (simp add: role_set_def)

lemma distinct_role_set [simp]: "distinct (role_set xs)"
  by (simp add: role_set_def)

lemma role_set_distinct: "distinct xs \<Longrightarrow> role_set xs = xs"
  by (simp add: role_set_def distinct_remdups_id)

lemma role_set_idem [simp]: "role_set (role_set xs) = role_set xs"
  by (simp add: role_set_distinct)

subsection \<open>Properties of the UserOverview value object\<close>

text \<open>C9: a user overview whose roles are present and hold no duplicate and whose
  three flags are present (every overview made by \<open>fromJSON\<close> is one, C19)
  serialises without error, and \<open>fromJSON\<close> of its JSON is the overview itself.\<close>

theorem user_json_roundtrip:
  assumes "roles u = JVal rs" and "distinct rs"
    and "readOnly u = JVal ro" and "external u = JVal ex" and "sessionActive u = JVal sa"
  shows "map_sum id user_fromJSON (user_toJSON u) = Inr u"
  using assms by (cases u) (simp add: user_simps role_set_distinct)

theorem user_json_roundtrip_witness:
  "roles sample_user = JVal [''Admin'', ''Reader''] \<and> distinct [''Admin'', ''Reader'']
   \<and> readOnly sample_user = JVal False \<and> external sample_user = JVal False
   \<and> sessionActive sample_user = JVal True
   \<and> map_sum id user_fromJSON (user_toJSON sample_user) = Inr sample_user"
proof -
  have h: "roles sample_user = JVal [''Admin'', ''Reader'']" "distinct [''Admin'', ''Reader'']"
    "readOnly sample_user = JVal False" "external sample_user = JVal False"
    "sessionActive sample_user = JVal True"
    by (simp_all add: sample_user_def user_create_def)
  have "map_sum id user_fromJSON (user_toJSON sample_user) = Inr sample_user"
    by (rule user_json_roundtrip [OF h])
  with h show ?thesis by simp
qed

text \<open>\<open>fromJSON\<close> gives roles that are present and duplicate-free, with the
  JSON's roles as their set (none for an absent or \<open>null\<close> list), and reads an
  absent \<open>read_only\<close>,
      \<open>external_user\<close> or \<open>session_active\<close> flag as
  \<open>false\<close>.\<close>

lemma user_fromJSON_defaults:
  "(\<exists>rs. roles (user_fromJSON v) = JVal rs \<and> distinct rs \<and> set rs = set (nullish_list (j_roles v)))
   \<and> readOnly (user_fromJSON v) = JVal (nullish_coalesce (j_read_only v) False)
   \<and> external (user_fromJSON v) = JVal (nullish_coalesce (j_external_user v) False)
   \<and> sessionActive (user_fromJSON v) = JVal (nullish_coalesce (j_session_active v) False)"
  by (simp add: user_simps)

text \<open>Every overview \<open>fromJSON\<close> makes serialises without error, and reading
  its JSON back gives the same overview: \<open>fromJSON\<close> and \<open>toJSON\<close> are inverse on
  the overviews the application loads.\<close>

theorem user_fromJSON_toJSON_stable:
  "\<exists>j. user_toJSON (user_fromJSON v) = Inr j \<and> user_fromJSON j = user_fromJSON v"
  by (simp add: user_simps)

text \<open>\<open>toBuilder()\<close> followed by \<open>build()\<close> gives the user overview back,
  absent fields included.\<close>

theorem user_toBuilder_build:
  "user_build (user_toBuilder u) = u"
  by (cases u) (simp add: user_simps)

text \<open>C10: an overview built without calling \<open>roles(...)\<close> cannot be serialised:
  \<open>toJSON\<close> raises a \<open>TypeError\<close> exactly when the builder's roles are absent;
  \<open>UserOverview.builder().build().toJSON()\<close> is such a call.\<close>

theorem user_build_toJSON_error_iff:
  "user_toJSON (user_build b) = Inl TypeError \<longleftrightarrow> is_nullish (b_roles b)"
  by (cases "b_roles b") (simp_all add: user_simps)

end
