(* ===== verification/SharedEntity.thy ===== *)
theory SharedEntity
  imports Prelude
begin

text \<open>
  The \<open>SharedEntity\<close> value object of
  \<open>src/graylog2-web-interface/src/logic/permissions/SharedEntity.ts\<close>: its state
  (\<open>id\<close>, \<open>owners\<close>, \<open>title\<close>, \<open>type\<close>), \<open>toBuilder\<close>, \<open>toJSON\<close>,
  \<open>fromJSON\<close> and the \<open>Builder\<close>. As in the \<open>Query\<close> model, a field the builder's
  map lacks is read as \<open>undefined\<close> (\<open>JUndef\<close>), so the state's fields are
  \<open>nullish\<close>. Owners are \<open>Grantee\<close> objects (\<open>logic/permissions/Grantee\<close>,
  outside the sources): the type parameter \<open>'g\<close>, and \<open>Grantee.fromJSON\<close> is the
  argument \<open>granteeFromJSON\<close> of \<open>fromJSON\<close>.
\<close>

record 'g shared_entity =
  se_id :: "string nullish"
  se_owners :: "'g list nullish"
  se_title :: "string nullish"
  se_type :: "string nullish"

record 'g shared_entity_json =
  sj_id :: string
  sj_owners :: "'g list"
  sj_title :: string
  sj_type :: string

record 'g shared_entity_builder =
  sb_id :: "string nullish"
  sb_owners :: "'g list nullish"
  sb_title :: "string nullish"
  sb_type :: "string nullish"

definition newSharedEntity ::
  "string nullish \<Rightarrow> 'g list nullish \<Rightarrow> string nullish \<Rightarrow> string nullish \<Rightarrow> 'g shared_entity" where
  "newSharedEntity i os t ty = \<lparr>se_id = i, se_owners = os, se_title = t, se_type = ty\<rparr>"

definition se_builder :: "'g shared_entity_builder" where
  "se_builder = \<lparr>sb_id = JUndef, sb_owners = JUndef, sb_title = JUndef, sb_type = JUndef\<rparr>"

definition se_builder_id :: "string \<Rightarrow> 'g shared_entity_builder \<Rightarrow> 'g shared_entity_builder" where
  "se_builder_id v b = b\<lparr>sb_id := JVal v\<rparr>"

definition se_builder_owners :: "'g list \<Rightarrow> 'g shared_entity_builder \<Rightarrow> 'g shared_entity_builder" where
  "se_builder_owners v b = b\<lparr>sb_owners := JVal v\<rparr>"

definition se_builder_title :: "string \<Rightarrow> 'g shared_entity_builder \<Rightarrow> 'g shared_entity_builder" where
  "se_builder_title v b = b\<lparr>sb_title := JVal v\<rparr>"

definition se_builder_type :: "string \<Rightarrow> 'g shared_entity_builder \<Rightarrow> 'g shared_entity_builder" where
  "se_builder_type v b = b\<lparr>sb_type := JVal v\<rparr>"

definition se_build :: "'g shared_entity_builder \<Rightarrow> 'g shared_entity" where
  "se_build b = newSharedEntity (sb_id b) (sb_owners b) (sb_title b) (sb_type b)"

text \<open>\<open>toBuilder()\<close> puts \<open>id\<close>, \<open>owners\<close> and \<open>title\<close> into the builder's
  map, and nothing else.\<close>

definition se_toBuilder :: "'g shared_entity \<Rightarrow> 'g shared_entity_builder" where
  "se_toBuilder e = \<lparr>sb_id = se_id e, sb_owners = se_owners e, sb_title = se_title e, sb_type = JUndef\<rparr>"

text \<open>\<open>toJSON()\<close> returns the plain object \<open>{ id, owners, title, type }\<close>.\<close>

definition se_toJSON :: "'g shared_entity \<Rightarrow> 'g shared_entity" where
  "se_toJSON e = newSharedEntity (se_id e) (se_owners e) (se_title e) (se_type e)"

definition se_fromJSON :: "('gj \<Rightarrow> 'g) \<Rightarrow> 'gj shared_entity_json \<Rightarrow> 'g shared_entity" where
  "se_fromJSON granteeFromJSON v =
     se_build (se_builder_type (sj_type v) (se_builder_title (sj_title v)
       (se_builder_owners (map granteeFromJSON (sj_owners v)) (se_builder_id (sj_id v) se_builder))))"

subsection \<open>Properties\<close>

text \<open>\<open>e.toBuilder().build()\<close> keeps the id, the owners and the title of
  \<open>e\<close> but not its type, which comes back \<open>undefined\<close>: every entity rebuilt through
  \<open>toBuilder\<close> loses its type.\<close>

theorem sharedEntity_toBuilder_drops_type:
  "se_build (se_toBuilder e) = e\<lparr>se_type := JUndef\<rparr>"
  by (cases e) (simp add: se_build_def se_toBuilder_def newSharedEntity_def)

text \<open>\<open>fromJSON\<close> sets all four fields from the JSON value, the owners converted
  one by one in order.\<close>

lemma sharedEntity_fromJSON_fields:
  "se_fromJSON g v =
     \<lparr>se_id = JVal (sj_id v), se_owners = JVal (map g (sj_owners v)),
      se_title = JVal (sj_title v), se_type = JVal (sj_type v)\<rparr>"
  by (simp add: se_fromJSON_def se_build_def newSharedEntity_def se_builder_def se_builder_id_def
      se_builder_owners_def se_builder_title_def se_builder_type_def)

end
