(* ===== verification/FetchEvents.thy ===== *)
theory FetchEvents
  imports Query
begin

text \<open>
  The event search request of
  \<open>src/graylog2-web-interface/src/components/events/fetchEvents.ts\<close>:
  \<open>parseTypeFilter\<close>, \<open>parseFilters\<close>, \<open>getConcatenatedQuery\<close>, the request
  bodies of \<open>fetchEvents\<close> and \<open>fetchEventsHistogram\<close> and the mapping of the
  response to a paginated list. The URL filters (\<open>UrlQueryFilters\<close>, an immutable
  map from filter name to the list of its values) are a map \<open>string \<rightharpoonup> string list\<close>;
  \<open>parseTimerangeFilter\<close> (\<open>components/common/PaginatedEntityTable\<close>, outside the
  sources) is the argument \<open>ptf\<close>; the REST call itself is not modelled, only what is
  sent and how the answer is reshaped.
\<close>

datatype alert_filter = AlertsOnly | AlertsExclude | AlertsInclude

type_synonym url_query_filters = "string \<rightharpoonup> string list"

text \<open>\<open>filters.get(key)?.[0]\<close>.\<close>

definition first_value :: "url_query_filters \<Rightarrow> string \<Rightarrow> string nullish" where
  "first_value filters key =
     (case filters key of Some (v # _) \<Rightarrow> JVal v | _ \<Rightarrow> JUndef)"

text \<open>\<open>filters.get(key)?.length > 0\<close>: \<open>undefined > 0\<close> is false.\<close>

definition nonempty_values :: "url_query_filters \<Rightarrow> string \<Rightarrow> string list option" where
  "nonempty_values filters key =
     (case filters key of Some vs \<Rightarrow> if length vs > 0 then Some vs else None | None \<Rightarrow> None)"

definition parseTypeFilter :: "string nullish \<Rightarrow> alert_filter" where
  "parseTypeFilter alert =
     (if alert = JVal ''true'' then AlertsOnly
      else if alert = JVal ''false'' then AlertsExclude
      else AlertsInclude)"

definition allTime :: time_range where
  "allTime = RelativeTimeRangeStartOnly 0"

record events_filter =
  f_alerts :: alert_filter
  f_event_definitions :: "string list option"
  f_priority :: "string list option"
  f_aggregation_timerange :: "time_range option"
  f_key :: "string list option"
  f_id :: "string list option"
  f_part_of_detection_chain :: "string option"

record filters_result =
  r_filter :: events_filter
  r_timerange :: time_range

definition parseFilters ::
  "(string nullish \<Rightarrow> time_range \<Rightarrow> time_range) \<Rightarrow> url_query_filters \<Rightarrow> time_range \<Rightarrow> filters_result" where
  "parseFilters ptf filters defaultTimerange =
     (let filter0 = \<lparr>f_alerts = parseTypeFilter (first_value filters ''alert''),
                     f_event_definitions = None, f_priority = None, f_aggregation_timerange = None,
                     f_key = None, f_id = None, f_part_of_detection_chain = None\<rparr>;
          timerange = ptf (first_value filters ''timestamp'') defaultTimerange;
          timerange_start = first_value filters ''timerange_start'';
          filter1 = (case timerange_start of
                       JVal s \<Rightarrow> if s \<noteq> [] then filter0\<lparr>f_aggregation_timerange := Some (ptf (JVal s) defaultTimerange)\<rparr>
                                 else filter0
                     | _ \<Rightarrow> filter0);
          filter2 = filter1\<lparr>f_key := nonempty_values filters ''key''\<rparr>;
          filter3 = filter2\<lparr>f_event_definitions := nonempty_values filters ''event_definition_id''\<rparr>;
          filter4 = filter3\<lparr>f_priority := nonempty_values filters ''priority''\<rparr>;
          filter5 = filter4\<lparr>f_id := nonempty_values filters ''id''\<rparr>;
          filter6 = filter5\<lparr>f_part_of_detection_chain :=
                      map_option hd (nonempty_values filters ''part_of_detection_chain'')\<rparr>
      in \<lparr>r_filter = filter6, r_timerange = timerange\<rparr>)"

text \<open>\<open>getConcatenatedQuery(query, streamId)\<close>: \<open>!streamId\<close> holds for an absent
  or empty id, \<open>!query\<close> for an empty query.\<close>

definition getConcatenatedQuery :: "string \<Rightarrow> string nullish \<Rightarrow> string" where
  "getConcatenatedQuery query streamId =
     (case streamId of
        JVal sid \<Rightarrow>
          if sid = [] then query
          else if query = [] then ''source_streams:'' @ sid
          else ''('' @ query @ '') AND source_streams:'' @ sid
      | _ \<Rightarrow> query)"

definition defaultTimeRange :: time_range where
  "defaultTimeRange = RelativeTimeRangeStartOnly (6 * 30 * 86400)"

subsection \<open>Requests and responses\<close>

record search_params =
  sp_query :: string
  sp_page :: nat
  sp_pageSize :: nat
  sp_sort_attribute :: string
  sp_sort_direction :: string
  sp_filters :: url_query_filters

record events_request =
  rq_query :: string
  rq_page :: nat
  rq_per_page :: nat
  rq_sort_by :: string
  rq_sort_direction :: string
  rq_filter :: events_filter
  rq_timerange :: time_range

text \<open>The body \<open>fetchEvents\<close> posts: the spread of \<open>parseFilters(filters)\<close> adds
  its \<open>filter\<close> and \<open>timerange\<close> keys, with the default \<open>allTime\<close>.\<close>

definition fetchEvents_request ::
  "(string nullish \<Rightarrow> time_range \<Rightarrow> time_range) \<Rightarrow> search_params \<Rightarrow> string nullish \<Rightarrow> events_request" where
  "fetchEvents_request ptf sp streamId =
     (let pf = parseFilters ptf (sp_filters sp) allTime
      in \<lparr>rq_query = getConcatenatedQuery (sp_query sp) streamId, rq_page = sp_page sp,
          rq_per_page = sp_pageSize sp, rq_sort_by = sp_sort_attribute sp,
          rq_sort_direction = sp_sort_direction sp, rq_filter = r_filter pf,
          rq_timerange = r_timerange pf\<rparr>)"

text \<open>The histogram request uses the six-month default and no stream restriction.\<close>

definition fetchEventsHistogram_request ::
  "(string nullish \<Rightarrow> time_range \<Rightarrow> time_range) \<Rightarrow> search_params \<Rightarrow> events_request" where
  "fetchEventsHistogram_request ptf sp =
     (let pf = parseFilters ptf (sp_filters sp) defaultTimeRange
      in \<lparr>rq_query = sp_query sp, rq_page = sp_page sp, rq_per_page = sp_pageSize sp,
          rq_sort_by = sp_sort_attribute sp, rq_sort_direction = sp_sort_direction sp,
          rq_filter = r_filter pf, rq_timerange = r_timerange pf\<rparr>)"

record 'e events_response =
  rs_events :: "'e list"
  rs_total_events :: nat
  rs_page :: nat
  rs_per_page :: nat

record 'e paginated_events =
  pe_list :: "'e list"
  pe_total :: nat
  pe_page :: nat
  pe_per_page :: nat
  pe_count :: nat

text \<open>The response handler: each entry's \<open>event\<close> (the argument \<open>event_of\<close>), the
  total, the page parameters the server echoed and the number of entries.\<close>

definition fetchEvents_response :: "('r \<Rightarrow> 'e) \<Rightarrow> 'r events_response \<Rightarrow> 'e paginated_events" where
  "fetchEvents_response event_of r =
     \<lparr>pe_list = map event_of (rs_events r), pe_total = rs_total_events r, pe_page = rs_page r,
      pe_per_page = rs_per_page r, pe_count = length (rs_events r)\<rparr>"

text \<open>The keys \<open>parseFilters\<close> reads.\<close>

definition parsed_keys :: "string list" where
  "parsed_keys = [''alert'', ''timestamp'', ''timerange_start'', ''key'', ''event_definition_id'',
                  ''priority'', ''id'', ''part_of_detection_chain'']"

text \<open>A sample search for the examples below.\<close>

definition sample_search :: search_params where
  "sample_search = \<lparr>sp_query = ''level:3'', sp_page = 1, sp_pageSize = 10,
     sp_sort_attribute = ''timestamp'', sp_sort_direction = ''desc'',
     sp_filters = [''alert'' \<mapsto> [''true'']]\<rparr>"

subsection \<open>Properties\<close>

lemmas fetch_events_simps = parseFilters_def first_value_def nonempty_values_def parseTypeFilter_def

text \<open>C12: when \<open>fetchEvents\<close> is given a non-empty stream id, the query it posts
  ends with the restriction \<open>source_streams:<id>\<close>, and a non-empty search query is
  kept whole inside parentheses in front of it, so that the restriction is conjoined
  with the query and never replaces it.\<close>

theorem fetchEvents_query_stream_restricted:
  assumes "sid \<noteq> []"
  shows "ends_with (rq_query (fetchEvents_request ptf sp (JVal sid))) (''source_streams:'' @ sid) \<and>
         (sp_query sp \<noteq> [] \<longrightarrow>
            starts_with (rq_query (fetchEvents_request ptf sp (JVal sid))) (''('' @ sp_query sp @ '') AND ''))"
proof -
  have "rq_query (fetchEvents_request ptf sp (JVal sid)) =
          (if sp_query sp = [] then [] else ''('' @ sp_query sp @ '') AND '') @ ''source_streams:'' @ sid"
    using assms by (simp add: fetchEvents_request_def getConcatenatedQuery_def Let_def)
  then show ?thesis
    by (simp add: starts_with_def)
qed

text \<open>\<open>fetchEvents\<close> posts the search query unchanged exactly when it
  has no stream id (absent, \<open>null\<close> or empty); with a stream id the query is
  always extended.\<close>

theorem fetchEvents_query_unrestricted_iff:
  "rq_query (fetchEvents_request ptf sp sid) = sp_query sp \<longleftrightarrow>
   (sid = JUndef \<or> sid = JNull \<or> sid = JVal [])"
proof (cases sid)
  case (JVal s)
  then show ?thesis
    by (cases "s = []")
       (auto simp: fetchEvents_request_def getConcatenatedQuery_def Let_def dest: arg_cong[where f = length])
qed (simp_all add: fetchEvents_request_def getConcatenatedQuery_def Let_def)

text \<open>URL filters with no entries give the request filter that includes
  alerts and events and sets no other filter, and the time range the
  \<open>timestamp\<close> parser gives for an absent value.\<close>

lemma parseFilters_empty:
  "parseFilters ptf Map.empty d =
     \<lparr>r_filter = \<lparr>f_alerts = AlertsInclude, f_event_definitions = None, f_priority = None,
                  f_aggregation_timerange = None, f_key = None, f_id = None,
                  f_part_of_detection_chain = None\<rparr>,
      r_timerange = ptf JUndef d\<rparr>"
  by (simp add: fetch_events_simps)

text \<open>The parsed filters depend on the URL filters only through the eight
  keys \<open>parseFilters\<close> reads: two URL filter maps that agree on those keys give the
  same request filter and time range.\<close>

theorem parseFilters_local:
  assumes "\<forall>k\<in>set parsed_keys. f k = g k"
  shows "parseFilters ptf f d = parseFilters ptf g d"
  using assms by (simp add: parsed_keys_def fetch_events_simps)

text \<open>The alert filter is read from the first \<open>alert\<close> value only: \<open>true\<close>
  selects only alerts, \<open>false\<close> excludes them, and anything else, an absent or
  empty list included, includes both alerts and events.\<close>

theorem parseFilters_alerts:
  "f_alerts (r_filter (parseFilters ptf f d)) =
     (case f ''alert'' of
        Some (v # _) \<Rightarrow> if v = ''true'' then AlertsOnly else if v = ''false'' then AlertsExclude
                       else AlertsInclude
      | _ \<Rightarrow> AlertsInclude)"
proof -
  have "f_alerts (r_filter (parseFilters ptf f d)) = parseTypeFilter (first_value f ''alert'')"
    by (simp add: parseFilters_def Let_def split: nullish.split)
  then show ?thesis
    by (simp add: first_value_def parseTypeFilter_def split: option.split list.split)
qed

theorem fetchEvents_query_stream_restricted_witness:
  "''s1'' \<noteq> [] \<and>
   ends_with (rq_query (fetchEvents_request (\<lambda>_ d. d) sample_search (JVal ''s1'')))
     (''source_streams:'' @ ''s1'') \<and>
   starts_with (rq_query (fetchEvents_request (\<lambda>_ d. d) sample_search (JVal ''s1'')))
     (''('' @ sp_query sample_search @ '') AND '')"
proof -
  have h: "''s1'' \<noteq> []" by simp
  have q: "sp_query sample_search \<noteq> []" by (simp add: sample_search_def)
  from fetchEvents_query_stream_restricted [OF h, of "\<lambda>_ d. d" sample_search] q h
  show ?thesis by blast
qed

theorem parseFilters_local_witness:
  "map [''alert'' \<mapsto> [''true''], ''page'' \<mapsto> [''2'']] parsed_keys = map [''alert'' \<mapsto> [''true'']] parsed_keys \<and>
   parseFilters (\<lambda>_ d. d) [''alert'' \<mapsto> [''true''], ''page'' \<mapsto> [''2'']] allTime =
   parseFilters (\<lambda>_ d. d) [''alert'' \<mapsto> [''true'']] allTime"
proof -
  have h: "\<forall>k\<in>set parsed_keys. [''alert'' \<mapsto> [''true''], ''page'' \<mapsto> [''2'']] k = [''alert'' \<mapsto> [''true'']] k"
    by (simp add: parsed_keys_def)
  have m: "map [''alert'' \<mapsto> [''true''], ''page'' \<mapsto> [''2'']] parsed_keys = map [''alert'' \<mapsto> [''true'']] parsed_keys"
    by (simp add: parsed_keys_def)
  from m parseFilters_local [OF h, of "\<lambda>_ d. d" allTime]
  show ?thesis by (rule conjI)
qed

theorem fetchEvents_query_unrestricted_iff_witness:
  "rq_query (fetchEvents_request (\<lambda>_ d. d) sample_search JUndef) = sp_query sample_search \<and>
   rq_query (fetchEvents_request (\<lambda>_ d. d) sample_search (JVal ''s1'')) \<noteq> sp_query sample_search"
  using fetchEvents_query_unrestricted_iff [of "\<lambda>_ d. d" sample_search JUndef]
        fetchEvents_query_unrestricted_iff [of "\<lambda>_ d. d" sample_search "JVal ''s1''"]
  by simp

end
