(* ===== verification/Telemetry.thy ===== *)
theory Telemetry
  imports Prelude
begin

text \<open>
  The table of telemetry event types of
  \<open>src/graylog2-web-interface/src/logic/telemetry/Constants.ts\<close>: the constant
  object \<open>TELEMETRY_EVENT_TYPE\<close>, whose entries are an event name or a group of
  named event names. The analytics back end tells events apart by name alone, so
  two entries of the table must never share a name, and a key written twice in the
  literal would silently drop the first entry. Each nested group of the literal is
  a definition of its own, \<open>TELEMETRY_<KEY>\<close>, and the top-level table refers to
  them in source order.
  Property access \<open>TELEMETRY_EVENT_TYPE.A.B\<close>, as the callers write it, is
  \<open>telemetry_get [A, B]\<close>.
\<close>

datatype telemetry_entry = TName string | TGroup "(string \<times> telemetry_entry) list"

text \<open>The event names of an entry and of a list of keyed entries, in source order.\<close>

fun entry_names :: "telemetry_entry \<Rightarrow> string list"
  and group_names :: "(string \<times> telemetry_entry) list \<Rightarrow> string list" where
  "entry_names (TName s) = [s]"
| "entry_names (TGroup es) = group_names es"
| "group_names [] = []"
| "group_names ((k, e) # es) = entry_names e @ group_names es"

text \<open>The key paths of the table (\<open>TELEMETRY_EVENT_TYPE.SEARCH_WIDGET_ACTION.MOVE\<close>
  is \<open>[SEARCH_WIDGET_ACTION, MOVE]\<close>), in the order of \<open>group_names\<close>.\<close>

fun entry_paths :: "telemetry_entry \<Rightarrow> string list list"
  and group_paths :: "(string \<times> telemetry_entry) list \<Rightarrow> string list list" where
  "entry_paths (TName s) = [[]]"
| "entry_paths (TGroup es) = group_paths es"
| "group_paths [] = []"
| "group_paths ((k, e) # es) = map (Cons k) (entry_paths e) @ group_paths es"

text \<open>\<open>SEARCH_WIDGET_ACTION\<close>, lines 36--49.\<close>

definition TELEMETRY_SEARCH_WIDGET_ACTION :: "(string \<times> telemetry_entry) list" where
  "TELEMETRY_SEARCH_WIDGET_ACTION = [
    (''FOCUSED'', TName ''Search Widget Focused''),
    (''DELETED'', TName ''Search Widget Deleted''),
    (''MOVE'', TName ''Search Widget Moved''),
    (''DUPLICATE'', TName ''Search Widget Duplicate''),
    (''COPY_TO_DASHBOARD'', TName ''Search Widget Copy To Dashboard Clicked''),
    (''CREATE_NEW_DASHBOARD'', TName ''Search Widget Create New Dashboard Clicked''),
    (''SEARCH_WIDGET_HORIZONTAL_STRETCH'', TName ''Search Widget Horizontal Width Toggled''),
    (''SEARCH_WIDGET_EXTRA_ACTION'', TName ''Search Widget Extra Action Clicked''),
    (''WIDGET_EDIT_TOGGLED'', TName ''Search Widget Edit Toggled''),
    (''WIDGET_EDIT_CANCEL_CLICKED'', TName ''Search Widget Edit Cancel Clicked''),
    (''WIDGET_CONFIG_UPDATED'', TName ''Search Widget Config Updated''),
    (''EXPORT'', TName ''Search Widget Exported'')]"

text \<open>\<open>SEARCH_WIDGET_CREATE\<close>, lines 50--55.\<close>

definition TELEMETRY_SEARCH_WIDGET_CREATE :: "(string \<times> telemetry_entry) list" where
  "TELEMETRY_SEARCH_WIDGET_CREATE = [
    (''AGGREGATION'', TName ''Search Widget Aggregation Created''),
    (''MESSAGE_COUNT'', TName ''Search Widget Message Count Created''),
    (''MESSAGE_TABLE'', TName ''Search Widget Message Table Created''),
    (''LOG_VIEW'', TName ''Search Widget Log View Created'')]"

text \<open>\<open>SEARCH_FIELD_VALUE_ACTION\<close>, lines 56--79.\<close>

definition TELEMETRY_SEARCH_FIELD_VALUE_ACTION :: "(string \<times> telemetry_entry) list" where
  "TELEMETRY_SEARCH_FIELD_VALUE_ACTION = [
    (''CHART'', TName ''Search Field Action Chart Clicked''),
    (''STATISTICS'', TName ''Search Field Action Statistics Clicked''),
    (''SHOW_TOP_VALUES'', TName ''Search Field Action Show Top Values Clicked''),
    (''ADD_TO_TABLE'', TName ''Search Field Action Add To Table Clicked''),
    (''REMOVE_FROM_TABLE'', TName ''Search Field Action Remove From Table Clicked''),
    (''ADD_TO_ALL_TABLES'', TName ''Search Field Action Add To All Tables Clicked''),
    (''COPY_FIELD_NAME_TO_CLIPBOARD'', TName ''Search Field Action Copy Field Name To Clipboard Clicked''),
    (''REMOVE_FROM_ALL_TABLES'', TName ''Search Field Action Remove From All Tables Clicked''),
    (''EXCLUDE_FROM_RESULTS'', TName ''Search Value Action Exclude From Results Clicked''),
    (''ADD_TO_QUERY'', TName ''Search Value Action Add To Query Clicked''),
    (''SHOW_DOCUMENT_FOR_VALUE'', TName ''Search Value Action Show Document For Value Clicked''),
    (''CREATE_EXTRACTOR'', TName ''Search Value Action Create Extractor Clicked''),
    (''HIGHLIGHT_THIS_VALUE'', TName ''Search Value Action Highlight This Value Clicked''),
    (''COPY_VALUE_TO_CLIPBOARD'', TName ''Search Value Action Copy Value To Clipboard Clicked''),
    (''CREATE_EVENT_DEFINITION'', TName ''Search Value Action Create Event Definition Clicked''),
    (''INSERT_INTO_DASHBOARD_SEARCH'', TName ''Search Value Action Insert Into Dashboard/Search Clicked''),
    (''CHANGE_FIELD_TYPE_OPENED'', TName ''Search Field Action Change Field Type Opened''),
    (''CHANGE_FIELD_TYPE_CLOSED'', TName ''Search Field Action Change Field Type Closed''),
    (''CHANGE_FIELD_TYPE_CHANGED'', TName ''Search Field Action Change Field Type Changed''),
    (''REMOVE_CUSTOM_FIELD_TYPE_OPENED'', TName ''Search Field Action Removed Custom Field Type Opened''),
    (''REMOVE_CUSTOM_FIELD_TYPE_CLOSED'', TName ''Search Field Action Removed Custom Field Type Closed''),
    (''REMOVE_CUSTOM_FIELD_TYPE_REMOVED'', TName ''Search Field Action Removed Custom Field Type Removed'')]"

text \<open>\<open>DASHBOARD_ACTION\<close>, lines 90--101.\<close>

definition TELEMETRY_DASHBOARD_ACTION :: "(string \<times> telemetry_entry) list" where
  "TELEMETRY_DASHBOARD_ACTION = [
    (''DASHBOARD_NEW_SAVED'', TName ''Dashboard New Saved''),
    (''DASHBOARD_SAVED'', TName ''Dashboard Saved''),
    (''DASHBOARD_UPDATED'', TName ''Dashboard Updated''),
    (''DASHBOARD_CREATE_CLICKED'', TName ''Dashboard Create Clicked''),
    (''DASHBOARD_CREATE_PAGE'', TName ''Dashboard Create Page Clicked''),
    (''DASHBOARD_PAGE_CONFIGURATION'', TName ''Dashboard Page Configuration Clicked''),
    (''DASHBOARD_PAGE_CONFIGURATION_UPDATED'', TName ''Dashboard Page Configuration Updated''),
    (''DASHBOARD_PAGE_CONFIGURATION_CANCELED'', TName ''Dashboard Page Configuration Update Cancel''),
    (''DASHBOARD_PAGE_CONFIGURATION_SORTING_UPDATED'', TName ''Dashboard Page Configuration Sorting Updated''),
    (''DASHBOARD_PAGE_CONFIGURATION_PAGE_REMOVED'', TName ''Dashboard Page Configuration Page Remove'')]"

text \<open>\<open>EVENTDEFINITION_LIST\<close>, lines 102--114.\<close>

definition TELEMETRY_EVENTDEFINITION_LIST :: "(string \<times> telemetry_entry) list" where
  "TELEMETRY_EVENTDEFINITION_LIST = [
    (''COLUMNS_CHANGED'', TName ''EventDefinition List Columns Changed''),
    (''SORT_CHANGED'', TName ''EventDefinition List Sort Changed''),
    (''PAGE_SIZE_CHANGED'', TName ''EventDefinition List Page Size Changed''),
    (''BULK_ACTION_DELETE_CLICKED'', TName ''EventDefinition List Bulk Delete Clicked''),
    (''BULK_ACTION_ENABLE_CLICKED'', TName ''EventDefinition List Bulk Enable Clicked''),
    (''BULK_ACTION_DISABLE_CLICKED'', TName ''EventDefinition List Bulk Disable Clicked''),
    (''ROW_ACTION_DELETE_CLICKED'', TName ''EventDefinition List Row Delete Clicked''),
    (''ROW_ACTION_ENABLE_CLICKED'', TName ''EventDefinition List Row Enable Clicked''),
    (''ROW_ACTION_DISABLE_CLICKED'', TName ''EventDefinition List Row Disable Clicked''),
    (''ROW_ACTION_COPY_CLICKED'', TName ''EventDefinition List Row Copy Clicked''),
    (''ROW_ACTION_SHARE_CLICKED'', TName ''EventDefinition List Row Share Clicked'')]"

text \<open>\<open>EVENTDEFINITION_DETAILS\<close>, lines 119--122.\<close>

definition TELEMETRY_EVENTDEFINITION_DETAILS :: "(string \<times> telemetry_entry) list" where
  "TELEMETRY_EVENTDEFINITION_DETAILS = [
    (''STEP_CLICKED'', TName ''EventDefinition Details Step Clicked''),
    (''PRIORITY_CHANGED'', TName ''EventDefinition Details Priority Changed'')]"

text \<open>\<open>EVENTDEFINITION_CONDITION\<close>, lines 123--133.\<close>

definition TELEMETRY_EVENTDEFINITION_CONDITION :: "(string \<times> telemetry_entry) list" where
  "TELEMETRY_EVENTDEFINITION_CONDITION = [
    (''STEP_CLICKED'', TName ''EventDefinition Condition Step Clicked''),
    (''TYPE_SELECTED'', TName ''EventDefinition Condition Type Selected''),
    (''FILTER_STREAM_SELECTED'', TName ''EventDefinition Condition Filter Stream Selected''),
    (''FILTER_SEARCH_WITHIN_THE_LAST_UNIT_CHANGED'', TName ''EventDefinition Condition Filter Search Within The Last Unit Changed''),
    (''FILTER_EXECUTE_SEARCH_EVERY_UNIT_CHANGED'', TName ''EventDefinition Condition Filter Execute Search Every Unit Changed''),
    (''FILTER_EXECUTED_AUTOMATICALLY_TOGGLED'', TName ''EventDefinition Condition Filter Executed Automatically Toggled''),
    (''FILTER_EVENT_LIMIT_CHANGED'', TName ''EventDefinition Condition Filter Event Limit Changed''),
    (''AGGREGATION_TOGGLED'', TName ''EventDefinition Aggregation Toggled''),
    (''AGGREGATION_GROUP_BY_FIELD_SELECTED'', TName ''EventDefinition Aggregation Group By Field Selected'')]"

text \<open>\<open>EVENTDEFINITION_FIELDS\<close>, lines 134--142.\<close>

definition TELEMETRY_EVENTDEFINITION_FIELDS :: "(string \<times> telemetry_entry) list" where
  "TELEMETRY_EVENTDEFINITION_FIELDS = [
    (''STEP_CLICKED'', TName ''EventDefinition Fields Step Clicked''),
    (''ADD_CUSTOM_FIELD_CLICKED'', TName ''EventDefinition Fields Add Custom Field Clicked''),
    (''AS_EVENT_KEY_TOGGLED'', TName ''EventDefinition Fields As Event Key Toggled''),
    (''SET_VALUE_FROM_TEMPLATE_SELECTED'', TName ''EventDefinition Fields Set Value From Template Selected''),
    (''SET_VALUE_FROM_LOOKUP_TABLE_SELECTED'', TName ''EventDefinition Fields Set Value From Lookup Table Selected''),
    (''DONE_CLICKED'', TName ''EventDefinition Fields Done Clicked''),
    (''CANCEL_CLICKED'', TName ''EventDefinition Fields Cancel Clicked'')]"

text \<open>\<open>EVENTDEFINITION_NOTIFICATIONS\<close>, lines 143--152.\<close>

definition TELEMETRY_EVENTDEFINITION_NOTIFICATIONS :: "(string \<times> telemetry_entry) list" where
  "TELEMETRY_EVENTDEFINITION_NOTIFICATIONS = [
    (''STEP_CLICKED'', TName ''EventDefinition Notifications Step Clicked''),
    (''ADD_CLICKED'', TName ''EventDefinition Notifications Add Clicked''),
    (''MANAGE_LINK_CLICKED'', TName ''EventDefinition Notifications Manage Link Clicked''),
    (''NOTIFICATION_SELECTED'', TName ''EventDefinition Notifications Notification Selected''),
    (''CREATE_NEW_CLICKED'', TName ''EventDefinition Notifications Create New Clicked''),
    (''NOTIFICATION_TYPE_SELECTED'', TName ''EventDefinition Notifications Notification Type Selected''),
    (''DONE_CLICKED'', TName ''EventDefinition Notifications Done Clicked''),
    (''CANCEL_CLICKED'', TName ''EventDefinition Notifications Cancel Clicked'')]"

text \<open>\<open>EVENTDEFINITION_SUMMARY\<close>, lines 153--158.\<close>

definition TELEMETRY_EVENTDEFINITION_SUMMARY :: "(string \<times> telemetry_entry) list" where
  "TELEMETRY_EVENTDEFINITION_SUMMARY = [
    (''STEP_CLICKED'', TName ''EventDefinition Summary Step Clicked''),
    (''CANCEL_CLICKED'', TName ''EventDefinition Summary Cancel Clicked''),
    (''CREATE_CLICKED'', TName ''EventDefinition Summary Create Clicked''),
    (''UPDATE_CLICKED'', TName ''EventDefinition Summary Update Clicked'')]"

text \<open>\<open>NOTIFICATIONS\<close>, lines 159--166.\<close>

definition TELEMETRY_NOTIFICATIONS :: "(string \<times> telemetry_entry) list" where
  "TELEMETRY_NOTIFICATIONS = [
    (''CREATE_CLICKED'', TName ''Notifications Create Clicked''),
    (''EDIT_CLICKED'', TName ''Notifications Edit Clicked''),
    (''EXECUTE_TEST_CLICKED'', TName ''Notifications Execute Test Clicked''),
    (''BULK_ACTION_DELETE_CLICKED'', TName ''Notifications Bulk Delete Clicked''),
    (''ROW_ACTION_DELETE_CLICKED'', TName ''Notifications Row Delete Clicked''),
    (''ROW_ACTION_TEST_CLICKED'', TName ''Notifications Row Test Clicked'')]"

text \<open>\<open>CONTENTSTREAM\<close>, lines 167--175.\<close>

definition TELEMETRY_CONTENTSTREAM :: "(string \<times> telemetry_entry) list" where
  "TELEMETRY_CONTENTSTREAM = [
    (''PREV_ARROW_CLICKED'', TName ''Content Stream Left Arrow Clicked''),
    (''NEXT_ARROW_CLICKED'', TName ''Content Stream Right Arrow Clicked''),
    (''READ_MORE_CLICKED'', TName ''Content Stream Read More Clicked''),
    (''ARTICLE_CLICKED'', TName ''Content Stream Article Clicked''),
    (''RELESE_ARTICLE_CLICKED'', TName ''Content Stream Release Article Clicked''),
    (''NEWS_OPT_IN_TOGGLED'', TName ''Content Stream News Opt-In Clicked''),
    (''RELEASE_OPT_IN_TOGGLED'', TName ''Content Stream Release Opt-In Clicked'')]"

text \<open>\<open>STREAMS\<close>, lines 176--203.\<close>

definition TELEMETRY_STREAMS :: "(string \<times> telemetry_entry) list" where
  "TELEMETRY_STREAMS = [
    (''CREATE_FORM_MODAL_OPENED'', TName ''Stream Create Form Modal Opened''),
    (''NEW_STREAM_CREATED'', TName ''Stream New Stream Created''),
    (''STREAM_ITEM_UPDATED'', TName ''Stream Item Updated''),
    (''STREAM_ITEM_STATUS_TOGGLED'', TName ''Stream Item Status Toggled''),
    (''STREAM_ITEM_SHARE_MODAL_OPENED'', TName ''Stream Item Share Modal Opened''),
    (''STREAM_ITEM_UPDATE_MODAL_OPENED'', TName ''Stream Item Update Modal Opened''),
    (''STREAM_ITEM_CLONED'', TName ''Stream Item Cloned''),
    (''STREAM_ITEM_RULE_SAVED'', TName ''Stream Item Rule SAVED''),
    (''STREAM_ITEM_DELETED'', TName ''Stream Item Deleted''),
    (''STREAM_ITEM_DATA_ROUTING_CLICKED'', TName ''Stream Item Data Routing Clicked''),
    (''STREAM_ITEM_DATA_ROUTING_UPDATE_CLICKED'', TName ''Stream Item Data Routing Update Clicked''),
    (''STREAM_ITEM_DATA_ROUTING_STREAM_INDEXSET_UPDATE_OPENED'', TName ''Stream Item Data Routing Stream IndexSet Update Opened''),
    (''STREAM_ITEM_DATA_ROUTING_INDEXER_FILTER_UPDATE_OPENED'', TName ''Stream Item Data Routing Indexer Filter Update Opened''),
    (''STREAM_ITEM_DATA_ROUTING_INDEXER_FILTER_CREATE_OPENED'', TName ''Stream Item Data Routing Indexer Filter Create Opened''),
    (''STREAM_ITEM_DATA_ROUTING_DATA_WAREHOUSE_FILTER_CREATE_OPENED'', TName ''Stream Item Data Routing Data Warehouse Filter Create Opened''),
    (''STREAM_ITEM_DATA_ROUTING_DATA_WAREHOUSE_FILTER_UPDATE_OPENED'', TName ''Stream Item Data Routing Data Warehouse Filter Update Opened''),
    (''STREAM_ITEM_DATA_ROUTING_FILTER_DELETE_OPENED'', TName ''Stream Item Data Routing Filter Delete Opened''),
    (''STREAM_ITEM_DATA_ROUTING_INTAKE_OPENED'', TName ''Stream Item Data Routing Intake Opened''),
    (''STREAM_ITEM_DATA_ROUTING_PROCESSING_OPENED'', TName ''Stream Item Data Routing Processing Opened''),
    (''STREAM_ITEM_DATA_ROUTING_DESTINATIONS_OPENED'', TName ''Stream Item Data Routing Destination Opened''),
    (''STREAM_ITEM_DATA_ROUTING_DESTINATIONS_OUTPUT_ASSIGN_OPENED'', TName ''Stream Item Data Routing Destination Output Assign Opened''),
    (''STREAM_ITEM_DATA_ROUTING_INTAKE_CREATE_RULE_OPENED'', TName ''Stream Item Data Routing Intake Create Rule Opened''),
    (''STREAM_ITEM_DATA_ROUTING_PROCESSING_EDIT_PIPELINES_CONNECTION'', TName ''Stream Item Data Routing Edit Pipelines Connection'')]"

text \<open>\<open>ENTITYSHARE\<close>, lines 204--211.\<close>

definition TELEMETRY_ENTITYSHARE :: "(string \<times> telemetry_entry) list" where
  "TELEMETRY_ENTITYSHARE = [
    (''ENTITY_STREAM_SHARED'', TName ''Entity Share: Entity Stream Shared''),
    (''ENTITY_SEARCH_SHARED'', TName ''Entity Share: Entity Search Shared''),
    (''ENTITY_SEARCH_FILTER_SHARED'', TName ''Entity Share: Entity Filter Shared''),
    (''ENTITY_EVENT_DEFINITION_SHARED'', TName ''Entity Share: Event Definition Shared''),
    (''ENTITY_NOTIFICATION_SHARED'', TName ''Entity Share: Notification Shared''),
    (''ENTITY_DASHBOARD_SHARED'', TName ''Entity Share: Dashboard Shared'')]"

text \<open>\<open>PIPELINE_RULE_BUILDER\<close>, lines 212--242.\<close>

definition TELEMETRY_PIPELINE_RULE_BUILDER :: "(string \<times> telemetry_entry) list" where
  "TELEMETRY_PIPELINE_RULE_BUILDER = [
    (''CREATE_RULE_CLICKED'', TName ''Pipeline Create Rule Clicked''),
    (''RUN_RULE_SIMULATION_CLICKED'', TName ''Pipeline Run Rule Simulation Clicked''),
    (''RESET_RULE_SIMULATION_CLICKED'', TName ''Pipeline Reset Rule Simulation Clicked''),
    (''USE_SOURCE_CODE_EDITOR_CLICKED'', TName ''Pipeline RuleBuilder Use Source Code Editor Clicked''),
    (''SWITCH_TO_SOURCE_CODE_EDITOR_CONFIRM_CLICKED'', TName ''Pipeline RuleBuilder Switch to Source Code Editor Confirm Clicked''),
    (''SWITCH_TO_SOURCE_CODE_EDITOR_CANCEL_CLICKED'', TName ''Pipeline RuleBuilder Switch to Source Code Editor Cancel Clicked''),
    (''CREATE_NEW_RULE_FROM_CODE_CLICKED'', TName ''Pipeline RuleBuilder Create New Rule From Code Clicked''),
    (''COPY_CODE_AND_CLOSE_CLICKED'', TName ''Pipeline RuleBuilder Code Copy & Close Clicked''),
    (''NEW_CONDITION_SELECTED'', TName ''Pipeline RuleBuilder New Condition Selected''),
    (''NEW_ACTION_SELECTED'', TName ''Pipeline RuleBuilder New Action Selected''),
    (''ADD_CONDITION_CLICKED'', TName ''Pipeline RuleBuilder Add Condition Clicked''),
    (''ADD_ACTION_CLICKED'', TName ''Pipeline RuleBuilder Add Action Clicked''),
    (''UPDATE_CONDITION_CLICKED'', TName ''Pipeline RuleBuilder Update Condition Clicked''),
    (''UPDATE_ACTION_CLICKED'', TName ''Pipeline RuleBuilder Update Action Clicked''),
    (''CANCEL_CLICKED'', TName ''Pipeline RuleBuilder Cancel Clicked''),
    (''ADD_RULE_CLICKED'', TName ''Pipeline RuleBuilder Add Rule Clicked''),
    (''CONVERT_TO_SOURCE_CODE_CLICKED'', TName ''Pipeline RuleBuilder Convert to Source Code Clicked''),
    (''OPERATOR_AND_CLICKED'', TName ''Pipeline RuleBuilder Operator AND Clicked''),
    (''OPERATOR_OR_CLICKED'', TName ''Pipeline RuleBuilder Operator OR Clicked''),
    (''UPDATE_RULE_CLICKED'', TName ''Pipeline RuleBuilder Update Rule Clicked''),
    (''UPDATE_RULE_AND_CLOSE_CLICKED'', TName ''Pipeline RuleBuilder Update Rule And Close Clicked''),
    (''NEGATE_CONDITION_CLICKED'', TName ''Pipeline RuleBuilder Negate Condition Clicked''),
    (''DUPLICATE_ACTION_CLICKED'', TName ''Pipeline RuleBuilder Duplicate Action Clicked''),
    (''INSERT_ABOVE_ACTION_CLICKED'', TName ''Pipeline RuleBuilder Insert Above Action Clicked''),
    (''INSERT_BELOW_ACTION_CLICKED'', TName ''Pipeline RuleBuilder Insert Below Action Clicked''),
    (''DELETE_CONDITION_CLICKED'', TName ''Pipeline RuleBuilder Delete Condition Clicked''),
    (''DELETE_ACTION_CLICKED'', TName ''Pipeline RuleBuilder Delete Action Clicked''),
    (''EDIT_CONDITION_CLICKED'', TName ''Pipeline RuleBuilder Edit Condition Clicked''),
    (''EDIT_ACTION_CLICKED'', TName ''Pipeline RuleBuilder Edit Action Clicked'')]"

text \<open>\<open>CONFIGURATIONS\<close>, lines 244--255.\<close>

definition TELEMETRY_CONFIGURATIONS :: "(string \<times> telemetry_entry) list" where
  "TELEMETRY_CONFIGURATIONS = [
    (''INDEX_SETS_UPDATED'', TName ''Configurations Index Sets Defaults Updated''),
    (''THREATINTEL_CONFIGURATION_UPDATED'', TName ''Configurations Threat Intel Configuration Updated''),
    (''PERMISSIONS_UPDATED'', TName ''Configurations Permissions Updated''),
    (''SEARCHES_UPDATED'', TName ''Configurations Searches Updated''),
    (''URL_WHITE_LIST_UPDATED'', TName ''Configurations Url White List Updated''),
    (''USER_UPDATED'', TName ''Configurations User Updated''),
    (''CERTIFICATE_RENEWAL_UPDATED'', TName ''Configurations Certificate Renewal Updated''),
    (''CERTIFICATE_RENEWAL_POLICY_UPDATED'', TName ''Configurations Certificate Renewal Policy Updated''),
    (''DECORATORS_UPDATED'', TName ''Configurations Decorators Updated''),
    (''GEOLOCATION_CONFIGURATION_UPDATED'', TName ''Configurations Geolocation Configuration Updated'')]"

text \<open>\<open>INPUTS\<close>, lines 256--271.\<close>

definition TELEMETRY_INPUTS :: "(string \<times> telemetry_entry) list" where
  "TELEMETRY_INPUTS = [
    (''INPUT_SELECTED'', TName ''Inputs Input Selected''),
    (''INPUT_CREATED'', TName ''Inputs Input Created''),
    (''INPUT_DELETED'', TName ''Inputs Input Deleted''),
    (''INPUT_EDIT_CLICKED'', TName ''Inputs Input Edit Clicked''),
    (''INPUT_UPDATED'', TName ''Inputs Input Updated''),
    (''INPUT_SETUP_ENTERED'', TName ''Inputs Input Setup Mode Entered''),
    (''INPUT_SETUP_EXITED'', TName ''Inputs Input Setup Mode Exited''),
    (''SHOW_RECEIVED_MESSAGES_CLICKED'', TName ''Inputs Show Received Messages Clicked''),
    (''MANAGE_EXTRACTORS_CLICKED'', TName ''Inputs Manage Extractors Clicked''),
    (''SHOW_METRICS_CLICKED'', TName ''Inputs Show Metrics Clicked''),
    (''INPUT_DIAGNOSIS_CLICKED'', TName ''Inputs Input Diagnosis Clicked''),
    (''INPUT_START_CLICKED'', TName ''Inputs Input Start Clicked''),
    (''INPUT_STOP_CLICKED'', TName ''Inputs Input Stop Clicked''),
    (''INPUT_SETUP_CLICKED'', TName ''Inputs Input Setup Clicked'')]"

text \<open>\<open>INPUT_SETUP_WIZARD\<close>, lines 272--274.\<close>

definition TELEMETRY_INPUT_SETUP_WIZARD :: "(string \<times> telemetry_entry) list" where
  "TELEMETRY_INPUT_SETUP_WIZARD = [
    (''START_INPUT'', TName ''Input Setup Wizard Start Input Clicked'')]"

text \<open>\<open>OUTPUTS\<close>, lines 275--281.\<close>

definition TELEMETRY_OUTPUTS :: "(string \<times> telemetry_entry) list" where
  "TELEMETRY_OUTPUTS = [
    (''OUTPUT_CREATED'', TName ''Outputs Output Created''),
    (''OUTPUT_ASSIGNED'', TName ''Outputs Output Assigned''),
    (''OUTPUT_GLOBALLY_REMOVED'', TName ''Outputs Output Globally Removed''),
    (''OUTPUT_FROM_STREAM_REMOVED'', TName ''Outputs Output From Stream Removed''),
    (''OUTPUT_UPDATED'', TName ''Outputs Output Updated'')]"

text \<open>\<open>INDICES\<close>, lines 282--287.\<close>

definition TELEMETRY_INDICES :: "(string \<times> telemetry_entry) list" where
  "TELEMETRY_INDICES = [
    (''INDEX_SET_DEFAULT_SET'', TName ''Indices Index Set Default Set''),
    (''INDEX_SET_DELETED'', TName ''Indices Index Set Deleted''),
    (''INDEX_SET_CREATED'', TName ''Indices Index Set Created''),
    (''INDEX_SET_UPDATED'', TName ''Indices Index Set Updated'')]"

text \<open>\<open>LOGGING\<close>, lines 288--291.\<close>

definition TELEMETRY_LOGGING :: "(string \<times> telemetry_entry) list" where
  "TELEMETRY_LOGGING = [
    (''LOG_LEVEL_EDITED'', TName ''Logging Log Level Edited''),
    (''SHOW_LOG_LEVEL_METRICS_TOGGLED'', TName ''Logging Show Log Level Metrics Toggled'')]"

text \<open>\<open>LUT\<close>, lines 292--303.\<close>

definition TELEMETRY_LUT :: "(string \<times> telemetry_entry) list" where
  "TELEMETRY_LUT = [
    (''DELETED'', TName ''LUT Deleted''),
    (''CREATED'', TName ''LUT Created''),
    (''UPDATED'', TName ''LUT Updated''),
    (''CACHE_TYPE_CHANGED'', TName ''LUT Cache Type Changed''),
    (''CACHE_DELETED'', TName ''LUT Cache Deleted''),
    (''CACHE_CREATED'', TName ''LUT Cache Created''),
    (''CACHE_UPDATED'', TName ''LUT Cache Updated''),
    (''DATA_ADAPTER_DELETED'', TName ''LUT Data Adapter Deleted''),
    (''DATA_ADAPTER_CREATED'', TName ''LUT Data Adapter Created''),
    (''DATA_ADAPTER_UPDATED'', TName ''LUT Data Adapter Updated'')]"

text \<open>\<open>USERS\<close>, lines 304--309.\<close>

definition TELEMETRY_USERS :: "(string \<times> telemetry_entry) list" where
  "TELEMETRY_USERS = [
    (''USER_CREATED'', TName ''Users User Created''),
    (''USER_DISABLED'', TName ''Users User Disabled''),
    (''USER_ENABLED'', TName ''Users User Enabled''),
    (''USER_DELETED'', TName ''Users User Deleted'')]"

text \<open>\<open>GROK_PATTERN\<close>, lines 310--316.\<close>

definition TELEMETRY_GROK_PATTERN :: "(string \<times> telemetry_entry) list" where
  "TELEMETRY_GROK_PATTERN = [
    (''CREATED'', TName ''Grok Pattern Created''),
    (''UPDATED'', TName ''Grok Pattern Updated''),
    (''DELETED'', TName ''Grok Pattern Deleted''),
    (''TESTED'', TName ''Grok Pattern Tested''),
    (''IMPORTED'', TName ''Grok Pattern Imported'')]"

text \<open>\<open>ROLES\<close>, lines 317--320.\<close>

definition TELEMETRY_ROLES :: "(string \<times> telemetry_entry) list" where
  "TELEMETRY_ROLES = [
    (''USER_ASSIGNED'', TName ''Roles User Assigned''),
    (''USER_UNASSIGNED'', TName ''Roles User Unassigned'')]"

text \<open>\<open>AUTHENTICATION\<close>, lines 321--330.\<close>

definition TELEMETRY_AUTHENTICATION :: "(string \<times> telemetry_entry) list" where
  "TELEMETRY_AUTHENTICATION = [
    (''DIRECTORY_GROUP_SYNC_SAVE_CLICKED'', TName ''Authentication Directory Group Sync Save Clicked''),
    (''CONFIG_UPDATED'', TName ''Authentication Config Updated''),
    (''SERVICE_CREATED'', TName ''Authentication Service Created''),
    (''SERVICE_SELECTED'', TName ''Authentication Service Selected''),
    (''DIRECTORY_SERVER_CONFIG_SAVE_CLICKED'', TName ''Authentication Directory Server Config Save Clicked''),
    (''DIRECTORY_USER_SYNC_SAVE_CLICKED'', TName ''Authentication Directory User Sync Save Clicked''),
    (''DIRECTORY_NEXT_USER_SYNC_CLICKED'', TName ''Authentication Directory Next User Sync Clicked''),
    (''DIRECTORY_NEXT_GROUP_SYNC_CLICKED'', TName ''Authentication Directory Next Group Sync Clicked'')]"

text \<open>\<open>SIDECARS\<close>, lines 331--344.\<close>

definition TELEMETRY_SIDECARS :: "(string \<times> telemetry_entry) list" where
  "TELEMETRY_SIDECARS = [
    (''CONFIGURATION_CREATED'', TName ''Sidecar Configuration Created''),
    (''CONFIGURATION_UPDATED'', TName ''Sidecar Configuration Updated''),
    (''CONFIGURATION_CLONED'', TName ''Sidecar Configuration Cloned''),
    (''CONFIGURATION_DELETED'', TName ''Sidecar Configuration Deleted''),
    (''CONFIGURATION_ASSIGNED'', TName ''Sidecar Configuration Assigned''),
    (''PROCESS_ACTION_SET'', TName ''Sidecar Process Action Set''),
    (''LOG_COLLECTOR_CLONED'', TName ''Sidecar Log Collector Cloned''),
    (''LOG_COLLECTOR_CREATED'', TName ''Sidecar Log Collector Created''),
    (''LOG_COLLECTOR_SERVICE_TYPE_CHANGED'', TName ''Sidecar Log Collector Service Type Changed''),
    (''LOG_COLLECTOR_NODE_OPERATING_SYSTEM_CHANGED'', TName ''Sidecar Log Collector Node Operating System Changed''),
    (''LOG_COLLECTOR_UPDATED'', TName ''Sidecar Log Collector Updated''),
    (''LOG_COLLECTOR_DELETED'', TName ''Sidecar Log Collector Deleted'')]"

text \<open>\<open>CONTENT_PACK\<close>, lines 347--351.\<close>

definition TELEMETRY_CONTENT_PACK :: "(string \<times> telemetry_entry) list" where
  "TELEMETRY_CONTENT_PACK = [
    (''INSTALLED'', TName ''Content Pack Installed''),
    (''DOWNLOADED'', TName ''Content Pack Downloaded''),
    (''ALL_VERSIONS_DELETED'', TName ''Content Pack All Versions Deleted'')]"

text \<open>\<open>INDEX_SET_FIELD_TYPE_PROFILE\<close>, lines 352--364.\<close>

definition TELEMETRY_INDEX_SET_FIELD_TYPE_PROFILE :: "(string \<times> telemetry_entry) list" where
  "TELEMETRY_INDEX_SET_FIELD_TYPE_PROFILE = [
    (''NEW_OPENED'', TName ''Index Set Field Type Profile Creating New Opened''),
    (''NEW_CANCELED'', TName ''Index Set Field Type Profile Creating New Canceled''),
    (''CREATED'', TName ''Index Set Field Type Profile Created''),
    (''EDIT_OPENED'', TName ''Index Set Field Type Profile Edit Opened''),
    (''EDIT_CANCELED'', TName ''Index Set Field Type Profile Edit Canceled''),
    (''EDIT'', TName ''Index Set Field Type Profile Edited''),
    (''CHANGE_FOR_INDEX_OPENED'', TName ''Index Set Field Type Profile Change For Index Opened''),
    (''CHANGE_FOR_INDEX_CANCELED'', TName ''Index Set Field Type Profile Change For Index  Canceled''),
    (''CHANGE_FOR_INDEX_CHANGED'', TName ''Index Set Field Type Profile Change For Index Changed''),
    (''CHANGE_FOR_INDEX_REMOVED'', TName ''Index Set Field Type Profile Change For Index Removed''),
    (''CREATE_PROFILE_FROM_SELECTED_RAN'', TName ''Index Set Field Type Profile Create From Selected Ran'')]"

text \<open>\<open>INDEX_SET_TEMPLATE\<close>, lines 365--375.\<close>

definition TELEMETRY_INDEX_SET_TEMPLATE :: "(string \<times> telemetry_entry) list" where
  "TELEMETRY_INDEX_SET_TEMPLATE = [
    (''NEW_OPENED'', TName ''Index Set Template Create Opened''),
    (''NEW_CANCELLED'', TName ''Index Set Template Create Cancelled''),
    (''CREATED'', TName ''Index Set Template Created''),
    (''EDIT_OPENED'', TName ''Index Set Template Edit Opened''),
    (''EDIT_CANCELLED'', TName ''Index Set Template Edit Cancelled''),
    (''EDIT'', TName ''Index Set Template Edited''),
    (''SELECTED'', TName ''Index Set Template Selected''),
    (''SELECT_OPENED'', TName ''Index Set Template Selected Opened''),
    (''SELECT_CLOSED'', TName ''Index Set Template Selected Cancelled'')]"

text \<open>\<open>DATANODE_MIGRATION\<close>, lines 376--418.\<close>

definition TELEMETRY_DATANODE_MIGRATION :: "(string \<times> telemetry_entry) list" where
  "TELEMETRY_DATANODE_MIGRATION = [
    (''RESET_MIGRATION_CLICKED'', TName ''Datanode Migration Reset Migration Clicked''),
    (''RESET_MIGRATION_CONFIRM_CLICKED'', TName ''Datanode Migration Reset Migration Confirm Clicked''),
    (''WELCOME_GO_TO_MIGRATION_STEPS_CLICKED'', TName ''Datanode Migration Welcome Go To Migration Steps Clicked''),
    (''WELCOME_CONFIGURE_CERTIFICATE_RENEWAL_POLICY_CLICKED'', TName ''Datanode Migration Welcome Configure Certificate Renewal Policy Clicked''),
    (''WELCOME_NEXT_CLICKED'', TName ''Datanode Migration Welcome Next Clicked''),
    (''CA_CREATE_TAB_CLICKED'', TName ''Datanode Migration CA Create Tab Clicked''),
    (''CA_UPLOAD_TAB_CLICKED'', TName ''Datanode Migration CA Upload Tab Clicked''),
    (''CA_CREATE_CA_CLICKED'', TName ''Datanode Migration CA Create CA Clicked''),
    (''CA_UPLOAD_CA_CLICKED'', TName ''Datanode Migration CA Upload CA Clicked''),
    (''CA_GO_TO_MIGRATION_STEPS_CLICKED'', TName ''Datanode Migration CA Go To Migration Steps Clicked''),
    (''CA_CONFIGURE_CERTIFICATE_RENEWAL_POLICY_CLICKED'', TName ''Datanode Migration CA Configure Certificate Renewal Policy Clicked''),
    (''CA_NEXT_CLICKED'', TName ''Datanode Migration CA Next Clicked''),
    (''CR_EDIT_CONFIGURATION_CLICKED'', TName ''Datanode Migration CR Edit Configuration Clicked''),
    (''CR_UPDATE_CONFIGURATION_CLICKED'', TName ''Datanode Migration CR Update Configuration Clicked''),
    (''CR_GO_TO_MIGRATION_STEPS_CLICKED'', TName ''Datanode Migration CR Go To Migration Steps Clicked''),
    (''CR_NEXT_CLICKED'', TName ''Datanode Migration CR Next Clicked''),
    (''MIGRATION_TYPE_SELECTED'', TName ''Datanode Migration Migration Type Selected''),
    (''INPLACE_RUN_DIRECTORY_COMPATIBILITY_CHECK_CLICKED'', TName ''Datanode Migration Inplace Run Directory Compatibility Check Clicked''),
    (''INPLACE_DIRECTORY_COMPATIBILITY_CHECK_NEXT_CLICKED'', TName ''Datanode Migration Inplace Directory Compatibility Check Next Clicked''),
    (''INPLACE_JOURNAL_SIZE_DOWNTIME_WARNING_NEXT_CLICKED'', TName ''Datanode Migration Inplace Journal Size Downtime Warning Next Clicked''),
    (''INPLACE_STOP_MESSAGE_PROCESSING_NEXT_CLICKED'', TName ''Datanode Migration Inplace Stop Message Processing Next Clicked''),
    (''INPLACE_RESTART_GRAYLOG_NEXT_CLICKED'', TName ''Datanode Migration Inplace Restart Graylog Next Clicked''),
    (''REMOTEREINDEX_WELCOME_NEXT_CLICKED'', TName ''Datanode Migration RemoteReindex Welcome Next Clicked''),
    (''REMOTEREINDEX_MIGRATE_EXISTING_DATA_QUESTION_NEXT_CLICKED'', TName ''Datanode Migration RemoteReindex Migrate Existing Data Question Next Clicked''),
    (''REMOTEREINDEX_MIGRATE_EXISTING_DATA_QUESTION_SKIP_CLICKED'', TName ''Datanode Migration RemoteReindex Migrate Existing Data Question Skip Clicked''),
    (''REMOTEREINDEX_MIGRATE_EXISTING_DATA_CHECK_CONNECTION_CLICKED'', TName ''Datanode Migration RemoteReindex Migrate Existing Data Check Connection Clicked''),
    (''REMOTEREINDEX_MIGRATE_EXISTING_DATA_START_CLICKED'', TName ''Datanode Migration RemoteReindex Migrate Existing Data Start Clicked''),
    (''REMOTEREINDEX_RUNNING_LOGVIEW_CLICKED'', TName ''Datanode Migration RemoteReindex Running Logview Clicked''),
    (''REMOTEREINDEX_RUNNING_RETRY_CLICKED'', TName ''Datanode Migration RemoteReindex Running Retry Clicked''),
    (''REMOTEREINDEX_RUNNING_RETRY_CONFIRM_CLICKED'', TName ''Datanode Migration RemoteReindex Running Retry Confirm Clicked''),
    (''REMOTEREINDEX_SHUTDOWN_OLD_CLUSTER_NEXT_CLICKED'', TName ''Datanode Migration RemoteReindex Shutdown Old Cluster Next Clicked'')]"

text \<open>\<open>ALERTS_AND_EVENTS\<close>, lines 419--421.\<close>

definition TELEMETRY_ALERTS_AND_EVENTS :: "(string \<times> telemetry_entry) list" where
  "TELEMETRY_ALERTS_AND_EVENTS = [
    (''ACTION_RAN'', TName ''Alerts And Events Action Ran'')]"

text \<open>\<open>ENTITY_DATA_TABLE\<close>, lines 422--429.\<close>

definition TELEMETRY_ENTITY_DATA_TABLE :: "(string \<times> telemetry_entry) list" where
  "TELEMETRY_ENTITY_DATA_TABLE = [
    (''COLUMNS_CHANGED'', TName ''Entity Data Table Columns Changed''),
    (''SORT_CHANGED'', TName ''Entity Data Table Sort Changed''),
    (''PAGE_SIZE_CHANGED'', TName ''Entity Data Table Page Size Changed''),
    (''FILTER_CREATED'', TName ''Entity Data Table Filter Created''),
    (''FILTER_DELETED'', TName ''Entity Data Table Filter Deleted''),
    (''FILTER_CHANGED'', TName ''Entity Data Table Filter Changed'')]"

text \<open>The object literal, lines 21--429, its groups named by the definitions above.\<close>

definition TELEMETRY_EVENT_TYPE :: "(string \<times> telemetry_entry) list" where
  "TELEMETRY_EVENT_TYPE = [
    (''SEARCH_TIMERANGE_PRESET_SELECTED'', TName ''Search TimeRange Preset Selected''),
    (''SEARCH_TIMERANGE_PICKER_TOGGLED'', TName ''Search TimeRange Picker Toggled''),
    (''SEARCH_TIMERANGE_PICKER_UPDATED'', TName ''Search TimeRange Picker Updated''),
    (''SEARCH_TIMERANGE_PICKER_CANCELED'', TName ''Search TimeRange Picker Canceled''),
    (''SEARCH_TIMERANGE_PICKER_TAB_SELECTED'', TName ''Search TimeRange Picker Tab Selected''),
    (''SEARCH_STREAM_INPUT_CHANGED'', TName ''Search Stream Input Changed''),
    (''SEARCH_REFRESH_CONTROL_PRESET_SELECTED'', TName ''Search Refresh Control Preset Selected''),
    (''SEARCH_REFRESH_CONTROL_TOGGLED'', TName ''Search Refresh Control Toggled''),
    (''ALERTS_REFRESH_CONTROL_PRESET_SELECTED'', TName ''Alerts Refresh Control Preset Selected''),
    (''ALERTS_REFRESH_CONTROL_TOGGLED'', TName ''Alerts Refresh Control Toggled''),
    (''SEARCH_BUTTON_CLICKED'', TName ''Search Button Clicked''),
    (''SEARCH_WIDGET_EXPORT_DOWNLOADED'', TName ''Search Widget Export Downloaded''),
    (''SEARCH_TIMERANGE_PRESET_ADD_QUICK_ACCESS'', TName ''Search TimeRange Preset Add Quick Access''),
    (''SEARCH_WIDGET_ACTION'', TGroup TELEMETRY_SEARCH_WIDGET_ACTION),
    (''SEARCH_WIDGET_CREATE'', TGroup TELEMETRY_SEARCH_WIDGET_CREATE),
    (''SEARCH_FIELD_VALUE_ACTION'', TGroup TELEMETRY_SEARCH_FIELD_VALUE_ACTION),
    (''DASHBOARD_FULL_SCREEN_MODE_STARTED'', TName ''Dashboard Fullscreen Mode Started''),
    (''SEARCH_MESSAGE_TABLE_SHOW_SURROUNDING_MESSAGE'', TName ''Search Message Table Show Surrounding Message Clicked ''),
    (''SEARCH_MESSAGE_TABLE_TEST_AGAINST_STREAM'', TName ''Search Message Table Test Against Stream Clicked ''),
    (''SEARCH_MESSAGE_TABLE_DETAILS_TOGGLED'', TName ''Widget Message Table Details Toggled''),
    (''SEARCH_SIDEBAR_TOGGLE'', TName ''Search Sidebar Toggled''),
    (''SEARCH_SIDEBAR_HIGHLIGHT_CREATED'', TName ''Search Sidebar Highlight Created''),
    (''SEARCH_SIDEBAR_HIGHLIGHT_UPDATED'', TName ''Search Sidebar Highlight Updated''),
    (''SEARCH_SIDEBAR_HIGHLIGHT_DELETED'', TName ''Search Sidebar Highlight Deleted''),
    (''SEARCH_SIDEBAR_REDO'', TName ''Search Sidebar Redo''),
    (''SEARCH_SIDEBAR_UNDO'', TName ''Search Sidebar Undo''),
    (''DASHBOARD_ACTION'', TGroup TELEMETRY_DASHBOARD_ACTION),
    (''EVENTDEFINITION_LIST'', TGroup TELEMETRY_EVENTDEFINITION_LIST),
    (''EVENTDEFINITION_CREATE_BUTTON_CLICKED'', TName ''EventDefinition Create Button Clicked''),
    (''EVENTDEFINITION_DUPLICATED'', TName ''EventDefinition Duplicated''),
    (''EVENTDEFINITION_NEXT_CLICKED'', TName ''EventDefinition Next Clicked''),
    (''EVENTDEFINITION_PREVIOUS_CLICKED'', TName ''EventDefinition Previous Clicked''),
    (''EVENTDEFINITION_DETAILS'', TGroup TELEMETRY_EVENTDEFINITION_DETAILS),
    (''EVENTDEFINITION_CONDITION'', TGroup TELEMETRY_EVENTDEFINITION_CONDITION),
    (''EVENTDEFINITION_FIELDS'', TGroup TELEMETRY_EVENTDEFINITION_FIELDS),
    (''EVENTDEFINITION_NOTIFICATIONS'', TGroup TELEMETRY_EVENTDEFINITION_NOTIFICATIONS),
    (''EVENTDEFINITION_SUMMARY'', TGroup TELEMETRY_EVENTDEFINITION_SUMMARY),
    (''NOTIFICATIONS'', TGroup TELEMETRY_NOTIFICATIONS),
    (''CONTENTSTREAM'', TGroup TELEMETRY_CONTENTSTREAM),
    (''STREAMS'', TGroup TELEMETRY_STREAMS),
    (''ENTITYSHARE'', TGroup TELEMETRY_ENTITYSHARE),
    (''PIPELINE_RULE_BUILDER'', TGroup TELEMETRY_PIPELINE_RULE_BUILDER),
    (''SHORTCUT_TYPED'', TName ''Shortcut Typed''),
    (''CONFIGURATIONS'', TGroup TELEMETRY_CONFIGURATIONS),
    (''INPUTS'', TGroup TELEMETRY_INPUTS),
    (''INPUT_SETUP_WIZARD'', TGroup TELEMETRY_INPUT_SETUP_WIZARD),
    (''OUTPUTS'', TGroup TELEMETRY_OUTPUTS),
    (''INDICES'', TGroup TELEMETRY_INDICES),
    (''LOGGING'', TGroup TELEMETRY_LOGGING),
    (''LUT'', TGroup TELEMETRY_LUT),
    (''USERS'', TGroup TELEMETRY_USERS),
    (''GROK_PATTERN'', TGroup TELEMETRY_GROK_PATTERN),
    (''ROLES'', TGroup TELEMETRY_ROLES),
    (''AUTHENTICATION'', TGroup TELEMETRY_AUTHENTICATION),
    (''SIDECARS'', TGroup TELEMETRY_SIDECARS),
    (''TRAFFIC_GRAPH_DAYS_CHANGED'', TName ''Traffic Graph Days Changed''),
    (''URLWHITELIST_CONFIGURATION_UPDATED'', TName ''Urlwhitelist Configuration Updated''),
    (''CONTENT_PACK'', TGroup TELEMETRY_CONTENT_PACK),
    (''INDEX_SET_FIELD_TYPE_PROFILE'', TGroup TELEMETRY_INDEX_SET_FIELD_TYPE_PROFILE),
    (''INDEX_SET_TEMPLATE'', TGroup TELEMETRY_INDEX_SET_TEMPLATE),
    (''DATANODE_MIGRATION'', TGroup TELEMETRY_DATANODE_MIGRATION),
    (''ALERTS_AND_EVENTS'', TGroup TELEMETRY_ALERTS_AND_EVENTS),
    (''ENTITY_DATA_TABLE'', TGroup TELEMETRY_ENTITY_DATA_TABLE)]"

text \<open>Property access along a key path: a name at the end of the path, a group
  for every key before it; any other path reads \<open>undefined\<close>.\<close>

fun entry_get :: "string list \<Rightarrow> telemetry_entry \<Rightarrow> string option" where
  "entry_get [] (TName s) = Some s"
| "entry_get (k # ks) (TGroup es) = (case map_of es k of Some e \<Rightarrow> entry_get ks e | None \<Rightarrow> None)"
| "entry_get _ _ = None"

definition telemetry_get :: "string list \<Rightarrow> string option" where
  "telemetry_get path = entry_get path (TGroup TELEMETRY_EVENT_TYPE)"

text \<open>No key is written twice at any level of a table.\<close>

fun entry_keys_ok :: "telemetry_entry \<Rightarrow> bool"
  and groups_keys_ok :: "(string \<times> telemetry_entry) list \<Rightarrow> bool" where
  "entry_keys_ok (TName s) = True"
| "entry_keys_ok (TGroup es) = (distinct (map fst es) \<and> groups_keys_ok es)"
| "groups_keys_ok [] = True"
| "groups_keys_ok ((k, e) # es) = (entry_keys_ok e \<and> groups_keys_ok es)"

text \<open>The event names written directly at the top level, and those of one group.\<close>

definition top_level_names :: "(string \<times> telemetry_entry) list \<Rightarrow> string list" where
  "top_level_names es = concat (map (\<lambda>(k, e). case e of TName s \<Rightarrow> [s] | TGroup _ \<Rightarrow> []) es)"

subsection \<open>Lemmas\<close>

lemma group_paths_head:
  "p \<in> set (group_paths es) \<Longrightarrow> \<exists>k q. p = k # q \<and> k \<in> fst ` set es"
  by (induction es) force+

lemma entry_get_group_skip:
  assumes "k \<notin> fst ` set es" and "p \<in> set (group_paths es)"
  shows "entry_get p (TGroup ((k, e) # es)) = entry_get p (TGroup es)"
proof -
  obtain k' q where p: "p = k' # q" and k': "k' \<in> fst ` set es"
    using group_paths_head [OF assms(2)] by blast
  with assms(1) have "k' \<noteq> k" by blast
  with p show ?thesis by simp
qed

lemma entry_get_paths:
  "entry_keys_ok e \<Longrightarrow> map (\<lambda>p. entry_get p e) (entry_paths e) = map Some (entry_names e)"
  "distinct (map fst es) \<and> groups_keys_ok es \<Longrightarrow>
     map (\<lambda>p. entry_get p (TGroup es)) (group_paths es) = map Some (group_names es)"
proof (induction e and es rule: entry_paths_group_paths.induct)
  case (4 k e es)
  then have ih: "map (\<lambda>p. entry_get p (TGroup es)) (group_paths es) = map Some (group_names es)"
    and ih_e: "map (\<lambda>p. entry_get p e) (entry_paths e) = map Some (entry_names e)"
    and k: "k \<notin> fst ` set es"
    by simp_all
  have "map (\<lambda>p. entry_get p (TGroup ((k, e) # es))) (group_paths es) =
        map (\<lambda>p. entry_get p (TGroup es)) (group_paths es)"
    using entry_get_group_skip [OF k] by simp
  with ih ih_e show ?case by (simp add: comp_def)
qed simp_all

lemmas telemetry_group_defs = TELEMETRY_SEARCH_WIDGET_ACTION_def TELEMETRY_SEARCH_WIDGET_CREATE_def TELEMETRY_SEARCH_FIELD_VALUE_ACTION_def TELEMETRY_DASHBOARD_ACTION_def TELEMETRY_EVENTDEFINITION_LIST_def TELEMETRY_EVENTDEFINITION_DETAILS_def TELEMETRY_EVENTDEFINITION_CONDITION_def TELEMETRY_EVENTDEFINITION_FIELDS_def TELEMETRY_EVENTDEFINITION_NOTIFICATIONS_def TELEMETRY_EVENTDEFINITION_SUMMARY_def TELEMETRY_NOTIFICATIONS_def TELEMETRY_CONTENTSTREAM_def TELEMETRY_STREAMS_def TELEMETRY_ENTITYSHARE_def TELEMETRY_PIPELINE_RULE_BUILDER_def TELEMETRY_CONFIGURATIONS_def TELEMETRY_INPUTS_def TELEMETRY_INPUT_SETUP_WIZARD_def TELEMETRY_OUTPUTS_def TELEMETRY_INDICES_def TELEMETRY_LOGGING_def TELEMETRY_LUT_def TELEMETRY_USERS_def TELEMETRY_GROK_PATTERN_def TELEMETRY_ROLES_def TELEMETRY_AUTHENTICATION_def TELEMETRY_SIDECARS_def TELEMETRY_CONTENT_PACK_def TELEMETRY_INDEX_SET_FIELD_TYPE_PROFILE_def TELEMETRY_INDEX_SET_TEMPLATE_def TELEMETRY_DATANODE_MIGRATION_def TELEMETRY_ALERTS_AND_EVENTS_def TELEMETRY_ENTITY_DATA_TABLE_def

lemma telemetry_keys_ok: "entry_keys_ok (TGroup TELEMETRY_EVENT_TYPE)"
  by (simp add: TELEMETRY_EVENT_TYPE_def telemetry_group_defs)

subsection \<open>Properties of the event type table\<close>

text \<open>No key of \<open>TELEMETRY_EVENT_TYPE\<close> is written twice at any level, so
  reading the table along each of its key paths gives the event name written at that
  path: the \<open>i\<close>-th path in source order reads the \<open>i\<close>-th name, and no entry of the
  literal is shadowed by a later one.\<close>

lemma telemetry_get_all_paths:
  "map telemetry_get (group_paths TELEMETRY_EVENT_TYPE) = map Some (group_names TELEMETRY_EVENT_TYPE)"
proof -
  have "distinct (map fst TELEMETRY_EVENT_TYPE) \<and> groups_keys_ok TELEMETRY_EVENT_TYPE"
    using telemetry_keys_ok by simp
  then show ?thesis
    unfolding telemetry_get_def by (rule entry_get_paths(2))
qed

text \<open>The event names of every group of the table are pairwise distinct, and
  so are the names written directly at the top level: within a feature area no two
  telemetry events are reported under the same name.\<close>

theorem telemetry_names_distinct_in_groups:
  "list_all (\<lambda>(k, e). distinct (entry_names e)) TELEMETRY_EVENT_TYPE \<and>
   distinct (top_level_names TELEMETRY_EVENT_TYPE)"
proof
  show "list_all (\<lambda>(k, e). distinct (entry_names e)) TELEMETRY_EVENT_TYPE"
    by (simp add: TELEMETRY_EVENT_TYPE_def telemetry_group_defs)
  show "distinct (top_level_names TELEMETRY_EVENT_TYPE)"
    by (simp add: TELEMETRY_EVENT_TYPE_def top_level_names_def)
qed

end
