(* ===== verification/RoutingStep.thy ===== *)
theory RoutingStep
  imports Prelude "HOL-Library.Multiset"
begin

text \<open>
  The routing step of the input setup wizard,
  \<open>src/graylog2-web-interface/src/components/inputs/InputSetupWizard/steps/SetupRoutingStep.tsx\<close>
  with the step names of \<open>InputSetupWizard/types.ts\<close>. The component keeps two
  pieces of local React state (\<open>selectedStreamId\<close>, \<open>showCreateStream\<close>) and
  reads and writes its entry of the wizard's \<open>stepsData\<close> through
  \<open>updateStepConfigOrData\<close> and \<open>getStepConfigOrData\<close> (\<open>helpers/stepHelper\<close>,
  outside the sources). The state of the model is the entry of the
  \<open>SETUP_ROUTING\<close> step (the other entries are never touched here), the two local
  values and the list of navigation requests sent to the wizard. Each handler is
  one case of \<open>routing_step\<close>; mounting the component runs its initial
  \<open>useEffect\<close>. The reachable states are an inductive set: a fresh wizard, a
  remount with the data a previous visit left, and any handler applied to a
  reachable state.

  \<open>updateStepConfigOrData(data, step, update, override)\<close> is modelled by its
  contract: without \<open>override\<close> the step's entry becomes
  \<open>{...data[step], ...update}\<close> (an absent entry read as \<open>{}\<close>); with
  \<open>override\<close> it becomes \<open>update\<close>. An object literal is a patch that names some
  keys, \<open>None\<close> for a key it lacks; a key given \<open>undefined\<close> overwrites.
\<close>

datatype wizard_step = INSTALL_ILLUMINATE | SELECT_ILLUMINATE | SETUP_ROUTING | INPUT_DIAGNOSIS | START_INPUT

datatype wizard_category = GENERIC

datatype stream_type = NEW | EXISTING | DEFAULT

text \<open>\<open>RoutingStepData\<close>; \<open>'sf\<close> is \<open>StreamFormValues\<close>, an object (always truthy).\<close>

record 'sf routing_data =
  rd_streamId :: "string nullish"
  rd_newStream :: "'sf nullish"
  rd_shouldCreateNewPipeline :: "bool nullish"
  rd_streamType :: "stream_type nullish"

record 'sf routing_patch =
  pt_streamId :: "string nullish option"
  pt_newStream :: "'sf nullish option"
  pt_shouldCreateNewPipeline :: "bool nullish option"
  pt_streamType :: "stream_type nullish option"

definition empty_data :: "'sf routing_data" where
  "empty_data = \<lparr>rd_streamId = JUndef, rd_newStream = JUndef, rd_shouldCreateNewPipeline = JUndef,
     rd_streamType = JUndef\<rparr>"

definition patch_field :: "'a \<Rightarrow> 'a option \<Rightarrow> 'a" where
  "patch_field old p = (case p of None \<Rightarrow> old | Some v \<Rightarrow> v)"

definition apply_patch :: "'sf routing_data \<Rightarrow> 'sf routing_patch \<Rightarrow> 'sf routing_data" where
  "apply_patch d p =
     \<lparr>rd_streamId = patch_field (rd_streamId d) (pt_streamId p),
      rd_newStream = patch_field (rd_newStream d) (pt_newStream p),
      rd_shouldCreateNewPipeline = patch_field (rd_shouldCreateNewPipeline d) (pt_shouldCreateNewPipeline p),
      rd_streamType = patch_field (rd_streamType d) (pt_streamType p)\<rparr>"

definition updateStepConfigOrData ::
  "'sf routing_data option \<Rightarrow> 'sf routing_patch \<Rightarrow> bool \<Rightarrow> 'sf routing_data option" where
  "updateStepConfigOrData entry upd override =
     Some (apply_patch (if override then empty_data else (case entry of Some d \<Rightarrow> d | None \<Rightarrow> empty_data)) upd)"

text \<open>\<open>defaultStepData = { streamType: 'DEFAULT' }\<close>.\<close>

definition defaultStepData :: "'sf routing_patch" where
  "defaultStepData = \<lparr>pt_streamId = None, pt_newStream = None, pt_shouldCreateNewPipeline = None,
     pt_streamType = Some (JVal DEFAULT)\<rparr>"

datatype navigation = GoToPrevious | GoToNext

record 'sf routing_state =
  st_stepData :: "'sf routing_data option"
  st_selectedStreamId :: "string nullish"
  st_showCreateStream :: bool
  st_navigation :: "navigation list"

text \<open>A JavaScript string is truthy when it is present and not empty.\<close>

definition truthy_str :: "string nullish \<Rightarrow> bool" where
  "truthy_str s = (case s of JVal v \<Rightarrow> v \<noteq> [] | _ \<Rightarrow> False)"

text \<open>\<open>newStream\<close> as the component reads it: \<open>getStepConfigOrData(stepsData,
  currentStepName, 'newStream')\<close>.\<close>

definition newStream_of :: "'sf routing_state \<Rightarrow> 'sf nullish" where
  "newStream_of s = (case st_stepData s of Some d \<Rightarrow> rd_newStream d | None \<Rightarrow> JUndef)"

text \<open>\<open>isStepValid()\<close>, lines 100--121.\<close>

definition isStepValid :: "'sf routing_state \<Rightarrow> bool" where
  "isStepValid s =
     (case st_stepData s of
        None \<Rightarrow> False
      | Some d \<Rightarrow>
          if st_showCreateStream s \<and> \<not> present (newStream_of s) then False
          else (case rd_streamType d of
                  JVal NEW \<Rightarrow> present (newStream_of s)
                | JVal EXISTING \<Rightarrow> truthy_str (rd_streamId d)
                | JVal DEFAULT \<Rightarrow> True
                | _ \<Rightarrow> False))"

text \<open>Mounting: fresh local state, then the initial \<open>useEffect\<close>, which stores the
  default data when the wizard is set up (\<open>ready\<close>: \<open>orderedSteps && activeStep &&
  stepsData\<close>) and the entry has no stream type yet.\<close>

definition mount :: "bool \<Rightarrow> 'sf routing_data option \<Rightarrow> 'sf routing_state" where
  "mount ready entry =
     \<lparr>st_stepData =
        (if ready \<and> \<not> present (case entry of Some d \<Rightarrow> rd_streamType d | None \<Rightarrow> JUndef)
         then updateStepConfigOrData entry defaultStepData False else entry),
      st_selectedStreamId = JUndef, st_showCreateStream = False, st_navigation = []\<rparr>"

datatype 'sf routing_event =
    SelectStream "string nullish"
  | CreateStream
  | SubmitStream 'sf "bool nullish"
  | NextStep
  | BackClick

text \<open>The handlers. \<open>handleCreateStream\<close> computes
  \<open>updateStepConfigOrData(stepsData, currentStepName, defaultStepData)\<close> and drops
  the result, so the step data is left as it was.\<close>

fun routing_step :: "'sf routing_event \<Rightarrow> 'sf routing_state \<Rightarrow> 'sf routing_state" where
  "routing_step (SelectStream sid) s =
     (if truthy_str sid
      then s\<lparr>st_selectedStreamId := sid,
             st_stepData := updateStepConfigOrData (st_stepData s)
               \<lparr>pt_streamId = Some sid, pt_newStream = None, pt_shouldCreateNewPipeline = None,
                pt_streamType = Some (JVal EXISTING)\<rparr> False\<rparr>
      else s\<lparr>st_selectedStreamId := sid,
             st_stepData := updateStepConfigOrData (st_stepData s)
               \<lparr>pt_streamId = Some JUndef, pt_newStream = None, pt_shouldCreateNewPipeline = None,
                pt_streamType = Some (JVal DEFAULT)\<rparr> False\<rparr>)"
| "routing_step CreateStream s =
     s\<lparr>st_selectedStreamId := JUndef, st_showCreateStream := True\<rparr>"
| "routing_step (SubmitStream stream create_new_pipeline) s =
     s\<lparr>st_stepData := updateStepConfigOrData (st_stepData s)
          \<lparr>pt_streamId = None, pt_newStream = Some (JVal stream),
           pt_shouldCreateNewPipeline = Some (JVal (nullish_coalesce create_new_pipeline False)),
           pt_streamType = Some (JVal NEW)\<rparr> False\<rparr>"
| "routing_step NextStep s = s\<lparr>st_navigation := st_navigation s @ [GoToNext]\<rparr>"
| "routing_step BackClick s =
     s\<lparr>st_stepData := updateStepConfigOrData (st_stepData s) defaultStepData True,
       st_showCreateStream := False, st_navigation := st_navigation s @ [GoToPrevious]\<rparr>"

definition run_routing :: "'sf routing_event list \<Rightarrow> 'sf routing_state \<Rightarrow> 'sf routing_state" where
  "run_routing evs s = foldl (\<lambda>st e. routing_step e st) s evs"

text \<open>The rendered decisions: the back button's label, whether the new-stream
  section is shown, and whether the finish button is enabled.\<close>

definition backButtonText :: "'sf routing_state \<Rightarrow> string" where
  "backButtonText s = (if present (newStream_of s) then ''Reset'' else ''Back'')"

definition showNewStreamSection :: "'sf routing_state \<Rightarrow> bool" where
  "showNewStreamSection s = (present (newStream_of s) \<or> st_showCreateStream s)"

definition next_enabled :: "bool \<Rightarrow> bool \<Rightarrow> 'sf routing_state \<Rightarrow> bool" where
  "next_enabled hasNextStep isNextStepDisabled s =
     (hasNextStep \<and> \<not> (isNextStepDisabled \<or> \<not> isStepValid s))"

text \<open>The invariant of the step's entry: it exists and records a stream type,
  a new stream whenever the type is \<open>NEW\<close> and a stream id whenever it is
  \<open>EXISTING\<close>.\<close>

definition data_inv :: "'sf routing_data \<Rightarrow> bool" where
  "data_inv d =
     (case rd_streamType d of
        JVal NEW \<Rightarrow> present (rd_newStream d)
      | JVal EXISTING \<Rightarrow> truthy_str (rd_streamId d)
      | JVal DEFAULT \<Rightarrow> True
      | _ \<Rightarrow> False)"

definition routing_inv :: "'sf routing_state \<Rightarrow> bool" where
  "routing_inv s = (case st_stepData s of Some d \<Rightarrow> data_inv d | None \<Rightarrow> False)"

text \<open>The states the step can be in: the wizard is set up whenever the step is
  rendered.\<close>

inductive reachable :: "'sf routing_state \<Rightarrow> bool" where
  fresh: "reachable (mount True None)"
| remount: "reachable s \<Longrightarrow> reachable (mount True (st_stepData s))"
| step: "reachable s \<Longrightarrow> reachable (routing_step e s)"

subsection \<open>The stream options\<close>

record stream_summary =
  ss_id :: string
  ss_title :: string
  ss_is_default :: bool
  ss_is_editable :: bool

record select_option =
  so_label :: string
  so_value :: string

text \<open>The \<open>options\<close> memo, lines 133--140: the streams that are neither the
  default stream nor read-only, ordered by title with \<open>defaultCompare\<close> (the
  argument \<open>defaultCompare\<close>, \<open>logic/DefaultCompare\<close> being outside the sources).\<close>

definition stream_options ::
  "(string \<Rightarrow> string \<Rightarrow> int) \<Rightarrow> stream_summary list nullish \<Rightarrow> select_option list" where
  "stream_options defaultCompare streams =
     (case streams of
        JVal ss \<Rightarrow>
          map (\<lambda>s. \<lparr>so_label = ss_title s, so_value = ss_id s\<rparr>)
            (sort_by (\<lambda>a b. defaultCompare (ss_title a) (ss_title b))
              (filter (\<lambda>s. \<not> ss_is_default s \<and> ss_is_editable s) ss))
      | _ \<Rightarrow> [])"

text \<open>A state for the examples below: a stream selected after mounting.\<close>

definition sample_routing :: "string routing_state" where
  "sample_routing = routing_step (SelectStream (JVal ''s1'')) (mount True None)"

subsection \<open>Lemmas\<close>

named_theorems routing_simps "unfolding rules of the routing step model"

lemmas [routing_simps] = updateStepConfigOrData_def apply_patch_def patch_field_def empty_data_def
  defaultStepData_def mount_def newStream_of_def present_def truthy_str_def

lemma data_inv_default [simp]:
  "data_inv (apply_patch d defaultStepData)"
  by (simp add: data_inv_def routing_simps)

lemma routing_inv_mount:
  assumes "case entry of Some d \<Rightarrow> data_inv d | None \<Rightarrow> True"
  shows "routing_inv (mount True entry)"
proof (cases entry)
  case None
  then show ?thesis by (simp add: routing_inv_def mount_def updateStepConfigOrData_def present_def)
next
  case (Some d)
  with assms show ?thesis
    by (auto simp: routing_inv_def mount_def updateStepConfigOrData_def present_def data_inv_def
        split: nullish.splits)
qed

lemma routing_inv_step:
  "routing_inv s \<Longrightarrow> routing_inv (routing_step e s)"
  by (cases e)
     (auto simp: routing_inv_def data_inv_def routing_simps
       split: option.splits nullish.splits stream_type.splits)

subsection \<open>Properties of the routing step\<close>

text \<open>C13: in every state the routing step can reach, its entry of the wizard data
  exists and records a stream type, with a new stream whenever the type is
  \<open>NEW\<close> and a non-empty stream id whenever it is \<open>EXISTING\<close>.\<close>

theorem routing_reachable_inv: "reachable s \<Longrightarrow> routing_inv s"
proof (induction rule: reachable.induct)
  case fresh
  then show ?case by (rule routing_inv_mount) simp
next
  case (remount s)
  then show ?case
    by (intro routing_inv_mount) (simp add: routing_inv_def split: option.splits)
next
  case (step s e)
  from step.IH show ?case by (rule routing_inv_step)
qed

theorem routing_reachable_inv_witness:
  "reachable sample_routing \<and> routing_inv sample_routing"
proof -
  have r: "reachable sample_routing"
    unfolding sample_routing_def by (rule reachable.step [OF reachable.fresh])
  from r routing_reachable_inv [OF r] show ?thesis by (rule conjI)
qed

text \<open>C14: in a state satisfying the invariant, \<open>isStepValid()\<close> fails exactly
  when the create-stream form is open and no new stream has been submitted: the
  finish button is never blocked by the routing step for another reason.\<close>

theorem isStepValid_iff_form_pending:
  "routing_inv s \<Longrightarrow> isStepValid s \<longleftrightarrow> \<not> (st_showCreateStream s \<and> \<not> present (newStream_of s))"
  by (auto simp: isStepValid_def routing_inv_def data_inv_def newStream_of_def
      split: option.splits nullish.splits stream_type.splits)

theorem isStepValid_iff_form_pending_witness:
  "routing_inv (routing_step CreateStream sample_routing) \<and>
   \<not> isStepValid (routing_step CreateStream sample_routing)"
proof -
  have i: "routing_inv (routing_step CreateStream sample_routing)"
    by (simp add: sample_routing_def routing_inv_def data_inv_def routing_simps)
  have "\<not> isStepValid (routing_step CreateStream sample_routing)"
    using isStepValid_iff_form_pending [OF i]
    by (simp add: sample_routing_def routing_simps)
  with i show ?thesis by (rule conjI)
qed

text \<open>The back button replaces the step's entry by the default data
  \<open>{ streamType: 'DEFAULT' }\<close>, closes the create-stream form, asks the wizard for
  the previous step, and leaves a valid step labelled \<open>Back\<close>, whatever the state
  was before.\<close>

theorem routing_back_resets:
  "st_stepData (routing_step BackClick s) = Some (apply_patch empty_data defaultStepData) \<and>
   \<not> st_showCreateStream (routing_step BackClick s) \<and>
   st_navigation (routing_step BackClick s) = st_navigation s @ [GoToPrevious] \<and>
   isStepValid (routing_step BackClick s) \<and>
   backButtonText (routing_step BackClick s) = ''Back''"
  by (simp add: isStepValid_def backButtonText_def routing_simps)

text \<open>\<open>handleCreateStream\<close> does not reset the step data (the result of
  \<open>updateStepConfigOrData\<close> is dropped): selecting stream \<open>s1\<close>, then creating a
  new stream and submitting it leaves the entry with type \<open>NEW\<close> and the stale
  stream id \<open>s1\<close> side by side.\<close>

lemma routing_create_keeps_stale_stream:
  "st_stepData (run_routing [SelectStream (JVal ''s1''), CreateStream, SubmitStream f JUndef]
                  (mount True None)) =
   Some \<lparr>rd_streamId = JVal ''s1'', rd_newStream = JVal f, rd_shouldCreateNewPipeline = JVal False,
         rd_streamType = JVal NEW\<rparr>"
  by (simp add: run_routing_def routing_simps)

text \<open>The stream options are exactly the streams that are neither the default
  stream nor read-only, each once, labelled by title and valued by id, whatever the
  comparator; with no stream list there is no option.\<close>

theorem stream_options_mset:
  "mset (stream_options cmp (JVal ss)) =
     mset (map (\<lambda>s. \<lparr>so_label = ss_title s, so_value = ss_id s\<rparr>)
             (filter (\<lambda>s. \<not> ss_is_default s \<and> ss_is_editable s) ss)) \<and>
   stream_options cmp JUndef = [] \<and> stream_options cmp JNull = []"
  by (simp add: stream_options_def)

end
