(* ===== verification/EventView.thy ===== *)
theory EventView
  imports Prelude "HOL-Library.Extended_Nat"
begin

text \<open>
  The search view generated for an event or event definition,
  \<open>src/graylog2-web-interface/src/views/logic/views/UseCreateViewForEvent.ts\<close>:
  the widget layout (\<open>createViewPosition\<close>, the positions and titles of
  \<open>WidgetsGenerator\<close>), the aggregation widgets (\<open>getAggregationWidget\<close>,
  \<open>createViewWidget\<close>, \<open>getSummaryAggregation\<close>), the choice of message
  decorators, the highlighting rules of \<open>ViewStateGenerator\<close> and the query, streams
  and time range \<open>UseCreateViewForEvent\<close> derives from the event.

  Widget ids come from \<open>generateId()\<close> (random, outside the sources): the generator
  takes them as arguments, one per aggregation widget in order, then the ids of the
  histogram, the message table and the summary widget. A position is
  \<open>WidgetPosition(col, row, height, width)\<close>; the width \<open>Infinity\<close> is \<open>\<infinity>\<close> of
  \<open>enat\<close>. Pivots built by \<open>pivotForField(fields, type)\<close> are represented by their
  field list, a series by its function string, the decorator store's answer by the
  two filtered lists. \<open>QueryHelper\<close> (\<open>concatQueryStrings\<close>, \<open>escape\<close>,
  \<open>predicate\<close>) and \<open>exprToConditionMapper\<close> are outside the sources and are
  arguments.
\<close>

definition AGGREGATION_WIDGET_HEIGHT :: nat where
  "AGGREGATION_WIDGET_HEIGHT = 3"

record widget_position =
  wp_col :: nat
  wp_row :: nat
  wp_height :: nat
  wp_width :: enat

datatype direction = Ascending | Descending

record aggregation_widget =
  aw_id :: string
  aw_columnPivots :: "string list list"
  aw_rowPivots :: "string list list"
  aw_series :: "string list"
  aw_sort :: "(string \<times> direction) list"
  aw_visualization :: string
  aw_rollup :: bool

definition getAggregationWidget ::
  "string \<Rightarrow> string list list \<Rightarrow> string list \<Rightarrow> (string \<times> direction) list \<Rightarrow> aggregation_widget" where
  "getAggregationWidget wid rowPivots fnSeries sortCfg =
     \<lparr>aw_id = wid, aw_columnPivots = [], aw_rowPivots = rowPivots, aw_series = fnSeries,
      aw_sort = sortCfg, aw_visualization = ''table'', aw_rollup = True\<rparr>"

text \<open>\<open>createViewPosition({ index, SUMMARY_ROW_DELTA })\<close>:
  \<open>Math.ceil((index + 1) / 2)\<close> is \<open>(index + 2) div 2\<close> on naturals.\<close>

definition createViewPosition :: "nat \<Rightarrow> nat \<Rightarrow> widget_position" where
  "createViewPosition index SUMMARY_ROW_DELTA =
     (let isEven = ((index + 1) mod 2 = 0);
          col = (if isEven then 7 else 1);
          HEIGHT_DELTA = (if index \<ge> 2 then AGGREGATION_WIDGET_HEIGHT else 0);
          row = (index + 2) div 2 + HEIGHT_DELTA + SUMMARY_ROW_DELTA
      in \<lparr>wp_col = col, wp_row = row, wp_height = AGGREGATION_WIDGET_HEIGHT, wp_width = 6\<rparr>)"

record aggregation =
  ag_value :: string
  ag_expr :: string
  ag_fnSeries :: string

definition createViewWidget :: "string \<Rightarrow> string list \<Rightarrow> string \<Rightarrow> string \<Rightarrow> aggregation_widget" where
  "createViewWidget wid groupBy fnSeries expr =
     (let rowPivots = (if groupBy \<noteq> [] then [groupBy] else []);
          direction = (if expr \<in> set [''>'', ''>='', ''=='' ] then Descending else Ascending)
      in getAggregationWidget wid rowPivots [fnSeries] [(fnSeries, direction)])"

definition aggregation_title :: "aggregation \<Rightarrow> string" where
  "aggregation_title a = ag_fnSeries a @ '' '' @ ag_expr a @ '' '' @ ag_value a"

text \<open>\<open>getSummaryAggregation\<close>: the reduce appends each aggregation's title after a
  space to \<open>'Summary: '\<close>.\<close>

definition summaryTitle :: "aggregation list \<Rightarrow> string" where
  "summaryTitle aggs = foldl (\<lambda>t a. t @ '' '' @ aggregation_title a) ''Summary: '' aggs"

definition summaryWidget :: "string \<Rightarrow> aggregation list \<Rightarrow> string list \<Rightarrow> aggregation_widget" where
  "summaryWidget wid aggs groupBy = getAggregationWidget wid [groupBy] (map ag_fnSeries aggs) []"

definition summaryPosition :: widget_position where
  "summaryPosition = \<lparr>wp_col = 1, wp_row = 1, wp_height = AGGREGATION_WIDGET_HEIGHT, wp_width = \<infinity>\<rparr>"

text \<open>The decorators of the message table (lines 124--132).\<close>

definition allDecorators :: "'d list \<Rightarrow> 'd list \<Rightarrow> 'd list" where
  "allDecorators streamDecorators streamCategoryDecorators =
     (if streamDecorators \<noteq> [] \<and> streamCategoryDecorators \<noteq> []
      then streamDecorators @ streamCategoryDecorators
      else if streamDecorators \<noteq> [] then streamDecorators else streamCategoryDecorators)"

datatype 'd widget =
    AggregationW aggregation_widget
  | HistogramW string
  | MessageTableW string "'d list"

fun widget_id :: "'d widget \<Rightarrow> string" where
  "widget_id (AggregationW w) = aw_id w"
| "widget_id (HistogramW i) = i"
| "widget_id (MessageTableW i _) = i"

record 'd generated_widgets =
  gw_titles :: "string \<rightharpoonup> string"
  gw_widgets :: "'d widget list"
  gw_positions :: "string \<rightharpoonup> widget_position"

record agg_acc =
  acc_widgets :: "aggregation_widget list"
  acc_titles :: "string \<rightharpoonup> string"
  acc_positions :: "string \<rightharpoonup> widget_position"

text \<open>One step of the reduce over the aggregations (lines 137--147).\<close>

definition aggregation_step ::
  "string list \<Rightarrow> nat \<Rightarrow> agg_acc \<Rightarrow> nat \<times> aggregation \<times> string \<Rightarrow> agg_acc" where
  "aggregation_step groupBy SUMMARY_ROW_DELTA res x =
     (case x of (index, a, wid) \<Rightarrow>
        let widget = createViewWidget wid groupBy (ag_fnSeries a) (ag_expr a)
        in \<lparr>acc_widgets = acc_widgets res @ [widget],
            acc_titles = (acc_titles res)(aw_id widget \<mapsto> aggregation_title a),
            acc_positions = (acc_positions res)(aw_id widget \<mapsto> createViewPosition index SUMMARY_ROW_DELTA)\<rparr>)"

text \<open>\<open>WidgetsGenerator\<close>, after the decorator store has answered.\<close>

definition WidgetsGenerator ::
  "string list \<Rightarrow> string \<Rightarrow> string \<Rightarrow> string \<Rightarrow> 'd list \<Rightarrow> 'd list \<Rightarrow> aggregation list \<Rightarrow>
   string list \<Rightarrow> 'd generated_widgets" where
  "WidgetsGenerator aids hid tid sid streamDecorators streamCategoryDecorators aggregations groupBy =
     (let decorators = allDecorators streamDecorators streamCategoryDecorators;
          needsSummaryAggregations = length aggregations > 1;
          SUMMARY_ROW_DELTA = (if needsSummaryAggregations then AGGREGATION_WIDGET_HEIGHT else 0);
          res = foldl (aggregation_step groupBy SUMMARY_ROW_DELTA)
                  \<lparr>acc_widgets = [], acc_titles = Map.empty, acc_positions = Map.empty\<rparr>
                  (zip [0..<length aggregations] (zip aggregations aids));
          n = length (acc_widgets res);
          widgets = map AggregationW (acc_widgets res) @ [HistogramW hid, MessageTableW tid decorators];
          titles = (acc_titles res)(hid \<mapsto> ''Message Count'', tid \<mapsto> ''All Messages'');
          positions = (acc_positions res)
            (hid \<mapsto> \<lparr>wp_col = 1, wp_row = AGGREGATION_WIDGET_HEIGHT * n + 1 + SUMMARY_ROW_DELTA,
                     wp_height = 2, wp_width = \<infinity>\<rparr>,
             tid \<mapsto> \<lparr>wp_col = 1, wp_row = AGGREGATION_WIDGET_HEIGHT * n + 3 + SUMMARY_ROW_DELTA,
                     wp_height = 6, wp_width = \<infinity>\<rparr>)
      in if needsSummaryAggregations
         then \<lparr>gw_titles = titles(sid \<mapsto> summaryTitle aggregations),
               gw_widgets = widgets @ [AggregationW (summaryWidget sid aggregations groupBy)],
               gw_positions = positions(sid \<mapsto> summaryPosition)\<rparr>
         else \<lparr>gw_titles = titles, gw_widgets = widgets, gw_positions = positions\<rparr>)"

text \<open>The highlighting rules of \<open>ViewStateGenerator\<close>: one per aggregation, with
  the condition \<open>exprToConditionMapper[expr] || 'equal'\<close> and a colour drawn per
  rule (the argument \<open>colors\<close>).\<close>

record highlighting_rule =
  hr_field :: string
  hr_value :: string
  hr_condition :: string
  hr_color :: string

definition highlightRules ::
  "(string \<Rightarrow> string option) \<Rightarrow> string list \<Rightarrow> aggregation list \<Rightarrow> highlighting_rule list" where
  "highlightRules exprToConditionMapper colors aggregations =
     map (\<lambda>(a, c). \<lparr>hr_field = ag_fnSeries a, hr_value = ag_value a,
                     hr_condition = (case exprToConditionMapper (ag_expr a) of
                                       Some cnd \<Rightarrow> if cnd \<noteq> [] then cnd else ''equal''
                                     | None \<Rightarrow> ''equal''),
                     hr_color = c\<rparr>)
       (zip aggregations colors)"

subsection \<open>The query of the generated view\<close>

record replay_info =
  ri_query :: "string nullish"
  ri_streams :: "string list nullish"
  ri_stream_categories :: "string list nullish"
  ri_timerange_start :: "string nullish"
  ri_timerange_end :: "string nullish"

record event_data =
  ev_replay_info :: "replay_info nullish"
  ev_group_by_fields :: "(string \<times> string) list nullish"

record definition_config =
  dc_query :: "string nullish"
  dc_streams :: "string list nullish"
  dc_stream_categories :: "string list nullish"
  dc_search_within_ms :: "js_number nullish"
  dc_group_by :: "string list nullish"

datatype event_time_range =
    AbsoluteRange "string nullish" "string nullish"
  | RelativeRange js_number

text \<open>\<open>a?.b\<close> on an optional object.\<close>

definition opt_field :: "('a \<Rightarrow> 'b nullish) \<Rightarrow> 'a nullish \<Rightarrow> 'b nullish" where
  "opt_field f x = (case x of JVal v \<Rightarrow> f v | _ \<Rightarrow> JUndef)"

record view_query =
  vq_streams :: "string list"
  vq_streamCategories :: "string list"
  vq_timeRange :: event_time_range
  vq_queryString :: string
  vq_groupBy :: "string list"

text \<open>The derivations at the top of \<open>UseCreateViewForEvent\<close> (lines 258--287);
  \<open>concatQueryStrings\<close> (with its \<open>withBrackets\<close> option, \<open>true\<close> by default),
  \<open>escape\<close> and \<open>predicate\<close> are the functions of \<open>QueryHelper\<close>.\<close>

definition eventViewQuery ::
  "(bool \<Rightarrow> string list \<Rightarrow> string) \<Rightarrow> (string \<Rightarrow> string) \<Rightarrow> (string \<Rightarrow> string \<Rightarrow> string) \<Rightarrow>
   event_data nullish \<Rightarrow> definition_config nullish \<Rightarrow> view_query" where
  "eventViewQuery concatQueryStrings escape predicate eventData config =
     (let replay = opt_field ev_replay_info eventData;
          queryStringFromGrouping =
            concatQueryStrings False (map (\<lambda>(field, value). predicate field (escape value))
                      (nullish_coalesce (opt_field ev_group_by_fields eventData) []));
          eventQueryString = nullish_coalesce (nullish_or (opt_field ri_query replay)
                                (opt_field dc_query config)) [];
          streams = nullish_coalesce (nullish_or (opt_field ri_streams replay)
                       (opt_field dc_streams config)) [];
          streamCategories = nullish_coalesce (nullish_or (opt_field ri_stream_categories replay)
                                (opt_field dc_stream_categories config)) [];
          timeRange = (if present eventData
                       then AbsoluteRange (opt_field ri_timerange_start replay)
                                          (opt_field ri_timerange_end replay)
                       else RelativeRange
                              (nullish_coalesce (opt_field dc_search_within_ms config) 0 / 1000));
          queryString = (if present eventData
                         then concatQueryStrings True [eventQueryString, queryStringFromGrouping]
                         else nullish_coalesce (opt_field dc_query config) [])
      in \<lparr>vq_streams = streams, vq_streamCategories = streamCategories, vq_timeRange = timeRange,
          vq_queryString = queryString,
          vq_groupBy = nullish_coalesce (opt_field dc_group_by config) []\<rparr>)"

text \<open>Two positions overlap when their column ranges and their row ranges
  intersect.\<close>

definition overlaps :: "widget_position \<Rightarrow> widget_position \<Rightarrow> bool" where
  "overlaps p q =
     (enat (wp_col p) < enat (wp_col q) + wp_width q \<and> enat (wp_col q) < enat (wp_col p) + wp_width p \<and>
      wp_row p < wp_row q + wp_height q \<and> wp_row q < wp_row p + wp_height p)"

definition aggregation_layout_ok :: "nat \<Rightarrow> nat \<Rightarrow> bool" where
  "aggregation_layout_ok n d =
     (\<forall>i < n. \<forall>j < n. i \<noteq> j \<longrightarrow> \<not> overlaps (createViewPosition i d) (createViewPosition j d))"

text \<open>Two aggregations for the examples below.\<close>

definition sample_aggregations :: "aggregation list" where
  "sample_aggregations = [\<lparr>ag_value = ''10'', ag_expr = ''>'', ag_fnSeries = ''count()''\<rparr>,
                          \<lparr>ag_value = ''5'', ag_expr = ''<'', ag_fnSeries = ''avg(took_ms)''\<rparr>]"

subsection \<open>Lemmas\<close>

lemmas layout_simps = createViewPosition_def AGGREGATION_WIDGET_HEIGHT_def overlaps_def Let_def

lemma createViewPosition_row:
  "wp_row (createViewPosition i d) = (i + 2) div 2 + (if 2 \<le> i then 3 else 0) + d"
  by (simp add: createViewPosition_def AGGREGATION_WIDGET_HEIGHT_def Let_def)

lemma createViewPosition_height [simp]: "wp_height (createViewPosition i d) = 3"
  by (simp add: createViewPosition_def AGGREGATION_WIDGET_HEIGHT_def Let_def)

lemma overlaps_2_4: "overlaps (createViewPosition 2 d) (createViewPosition 4 d)"
  by (simp add: layout_simps)

lemma less_4_cases: "i < (4::nat) \<longleftrightarrow> i = 0 \<or> i = 1 \<or> i = 2 \<or> i = 3"
  by arith

lemma layout_ok_4: "aggregation_layout_ok 4 d"
  unfolding aggregation_layout_ok_def less_4_cases
  by (auto simp: layout_simps one_enat_def numeral_eq_enat)

lemma layout_ok_mono: "aggregation_layout_ok n d \<Longrightarrow> m \<le> n \<Longrightarrow> aggregation_layout_ok m d"
  by (auto simp: aggregation_layout_ok_def)

lemma createViewWidget_id [simp]: "aw_id (createViewWidget wid g f e) = wid"
  by (simp add: createViewWidget_def getAggregationWidget_def Let_def)

lemma widget_id_AggregationW [simp]: "widget_id \<circ> AggregationW = aw_id"
  by (rule ext) simp

lemma widget_id_image_AggregationW [simp]: "widget_id ` AggregationW ` S = aw_id ` S"
  by (simp add: image_image)

lemma foldl_aggregation_step:
  "map aw_id (acc_widgets (foldl (aggregation_step g d) acc xs)) =
     map aw_id (acc_widgets acc) @ map (\<lambda>x. snd (snd x)) xs \<and>
   dom (acc_titles (foldl (aggregation_step g d) acc xs)) = dom (acc_titles acc) \<union> set (map (\<lambda>x. snd (snd x)) xs) \<and>
   dom (acc_positions (foldl (aggregation_step g d) acc xs)) = dom (acc_positions acc) \<union> set (map (\<lambda>x. snd (snd x)) xs)"
proof (induction xs arbitrary: acc)
  case (Cons x xs)
  obtain i a w where "x = (i, a, w)" by (cases x) auto
  with Cons.IH [of "aggregation_step g d acc x"] show ?case
    by (auto simp: aggregation_step_def Let_def)
qed simp

lemma map_snd_snd_zip:
  assumes "length aids = length aggs"
  shows "map (\<lambda>x. snd (snd x)) (zip [0..<length aggs] (zip aggs aids)) = aids"
proof -
  have "map snd (zip [0..<length aggs] (zip aggs aids)) = zip aggs aids"
    using assms by (simp add: map_snd_zip)
  then have "map snd (map snd (zip [0..<length aggs] (zip aggs aids))) = aids"
    using assms by (simp add: map_snd_zip)
  then show ?thesis by (simp add: comp_def)
qed

subsection \<open>Properties of the generated view\<close>

text \<open>C15: the positions \<open>createViewPosition\<close> gives the aggregation widgets of an
  event definition are pairwise free of overlap exactly when there are at most four
  aggregations: from the fifth on, the widget at index 4 lands one row below the one
  at index 2, in the same column, and the two cover two common rows.\<close>

theorem aggregation_layout_ok_iff: "aggregation_layout_ok n d \<longleftrightarrow> n \<le> 4"
proof
  assume ok: "aggregation_layout_ok n d"
  show "n \<le> 4"
  proof (rule ccontr)
    assume "\<not> n \<le> 4"
    then have lt: "2 < n" "4 < n" by simp_all
    have ne: "(2::nat) \<noteq> 4" by simp
    have "\<not> overlaps (createViewPosition 2 d) (createViewPosition 4 d)"
      using ok [unfolded aggregation_layout_ok_def, rule_format, OF lt ne] .
    with overlaps_2_4 show False by blast
  qed
next
  assume "n \<le> 4"
  with layout_ok_4 show "aggregation_layout_ok n d" by (rule layout_ok_mono)
qed

theorem aggregation_layout_ok_iff_witness:
  "aggregation_layout_ok 4 3 \<and> \<not> aggregation_layout_ok 5 3"
  using aggregation_layout_ok_iff [of 4 3] aggregation_layout_ok_iff [of 5 3] by simp

text \<open>The nested conditional that chooses the message table's decorators is
  the concatenation of the stream decorators and the stream-category decorators, in
  that order, in every case.\<close>

theorem allDecorators_append: "allDecorators sd scd = sd @ scd"
  by (simp add: allDecorators_def)

text \<open>C16: when the generated ids are distinct and there is one per aggregation,
  every widget \<open>WidgetsGenerator\<close> returns has a title and a position, no title or
  position is left without its widget, and no two widgets share an id.\<close>

theorem WidgetsGenerator_all_placed:
  assumes len: "length aids = length aggs"
    and dist: "distinct (aids @ [hid, tid, sid])"
  shows "dom (gw_titles (WidgetsGenerator aids hid tid sid sd scd aggs g)) =
           set (map widget_id (gw_widgets (WidgetsGenerator aids hid tid sid sd scd aggs g))) \<and>
         dom (gw_positions (WidgetsGenerator aids hid tid sid sd scd aggs g)) =
           set (map widget_id (gw_widgets (WidgetsGenerator aids hid tid sid sd scd aggs g))) \<and>
         distinct (map widget_id (gw_widgets (WidgetsGenerator aids hid tid sid sd scd aggs g)))"
proof -
  define d where "d = (if length aggs > 1 then AGGREGATION_WIDGET_HEIGHT else 0)"
  define res where "res = foldl (aggregation_step g d)
                  \<lparr>acc_widgets = [], acc_titles = Map.empty, acc_positions = Map.empty\<rparr>
                  (zip [0..<length aggs] (zip aggs aids))"
  have r: "map aw_id (acc_widgets res) = aids" "dom (acc_titles res) = set aids"
    "dom (acc_positions res) = set aids"
    using foldl_aggregation_step [of g d _ "zip [0..<length aggs] (zip aggs aids)"]
      map_snd_snd_zip [OF len] unfolding res_def by auto
  show ?thesis
    using r dist unfolding WidgetsGenerator_def Let_def d_def [symmetric] res_def [symmetric]
    by (auto simp: summaryWidget_def getAggregationWidget_def)
qed

theorem WidgetsGenerator_all_placed_witness:
  "length [''w1'', ''w2''] = length sample_aggregations \<and>
   distinct ([''w1'', ''w2''] @ [''hist'', ''table'', ''summary'']) \<and>
   dom (gw_titles (WidgetsGenerator [''w1'', ''w2''] ''hist'' ''table'' ''summary'' ([]::unit list) []
          sample_aggregations [''source''])) =
     set (map widget_id (gw_widgets (WidgetsGenerator [''w1'', ''w2''] ''hist'' ''table'' ''summary''
          ([]::unit list) [] sample_aggregations [''source''])))"
proof -
  have l: "length [''w1'', ''w2''] = length sample_aggregations"
    by (simp add: sample_aggregations_def)
  have d: "distinct ([''w1'', ''w2''] @ [''hist'', ''table'', ''summary''])" by simp
  note c = WidgetsGenerator_all_placed [OF l d, of "[]::unit list" "[]" "[''source'']", THEN conjunct1]
  show ?thesis by (intro conjI l d c)
qed

text \<open>The histogram's row is below every aggregation widget: the widget at
  index \<open>i < n\<close> ends at or above row \<open>3 n + 1 + SUMMARY_ROW_DELTA\<close>, where
  \<open>WidgetsGenerator\<close> places the histogram.\<close>

theorem aggregation_above_histogram:
  assumes "i < n"
  shows "wp_row (createViewPosition i d) + wp_height (createViewPosition i d) \<le>
           AGGREGATION_WIDGET_HEIGHT * n + 1 + d"
proof (cases "2 \<le> i")
  case True
  have "(i + 2) div 2 \<le> i" using True by linarith
  with True assms show ?thesis by (simp add: createViewPosition_row AGGREGATION_WIDGET_HEIGHT_def)
next
  case False
  then have "(i + 2) div 2 = 1" by (cases i) auto
  with False assms show ?thesis by (simp add: createViewPosition_row AGGREGATION_WIDGET_HEIGHT_def)
qed

theorem aggregation_above_histogram_witness:
  "(3::nat) < 4 \<and>
   wp_row (createViewPosition 3 0) + wp_height (createViewPosition 3 0) \<le> AGGREGATION_WIDGET_HEIGHT * 4 + 1 + 0"
proof -
  have h: "(3::nat) < 4" by simp
  from h aggregation_above_histogram [OF h, of 0] show ?thesis by (rule conjI)
qed

end
