(* ===== verification/RouteBuilders.thy ===== *)
theory RouteBuilders
  imports RouteTable "HOL-Library.AList"
begin

text \<open>
  The parts of \<open>src/graylog2-web-interface/src/routing/Routes.ts\<close> that build
  URLs from structured arguments: the search URL builders \<open>search_with_query\<close>
  (with its \<open>Invalid range type\<close> error), \<open>_common_search_url\<close>, \<open>search\<close>,
  \<open>stream_search\<close> and \<open>new_extractor\<close>, and the registry of plugin routes
  \<open>pluginRoute\<close> / \<open>getPluginRoute\<close>.

  URI.js is outside the sources. Its query building is modelled by contract: a
  query is the list of its parameters in insertion order, a parameter whose value
  is \<open>undefined\<close> is left out, and the encoding of the list is the argument
  \<open>buildQuery\<close>; \<open>resource()\<close> is the path followed by \<open>?\<close> and the encoded
  query when it is not empty. \<open>segment()\<close> of an absolute path is its list of
  \<open>/\<close>-separated segments without the leading empty one, \<open>segment(i, v)\<close> replaces
  the \<open>i\<close>-th, \<open>pathname()\<close> joins them again behind a \<open>/\<close>. The plugin routes
  come from \<open>PluginStore.exports('routes')\<close>, the argument \<open>registered\<close> (their
  paths, in registration order); the object \<open>pluginRoutes\<close> is an association list
  updated in place (\<open>AList.update\<close>), as a JavaScript object keeps the first
  insertion position of a key and the last value assigned to it.
\<close>

subsection \<open>Query strings\<close>

datatype qp_value = QStr string | QNum js_number

type_synonym query_params = "(string \<times> qp_value nullish) list"

text \<open>The parameters URI.js writes: those whose value is not \<open>undefined\<close>.\<close>

definition written_params :: "query_params \<Rightarrow> query_params" where
  "written_params qs = filter (\<lambda>(k, v). v \<noteq> JUndef) qs"

definition uri_resource ::
  "(query_params \<Rightarrow> string) \<Rightarrow> string \<Rightarrow> query_params \<Rightarrow> string" where
  "uri_resource buildQuery path qs =
     (let q = buildQuery (written_params qs) in if q = [] then path else path @ ''?'' @ q)"

datatype routes_time_range =
    RoutesRelative js_number
  | RoutesAbsolute string string
  | RoutesKeyword string

text \<open>\<open>search_with_query(query, rangeType, timeRange, streams, streamCategories)\<close>.
  The cast \<open>(<RoutesRelativeTimeRange>timeRange).relative\<close> reads a key the
  object may lack: a mismatched range reads \<open>undefined\<close>.\<close>

definition relative_of :: "routes_time_range \<Rightarrow> qp_value nullish" where
  "relative_of tr = (case tr of RoutesRelative r \<Rightarrow> JVal (QNum r) | _ \<Rightarrow> JUndef)"

definition from_of :: "routes_time_range \<Rightarrow> qp_value nullish" where
  "from_of tr = (case tr of RoutesAbsolute f t \<Rightarrow> JVal (QStr f) | _ \<Rightarrow> JUndef)"

definition to_of :: "routes_time_range \<Rightarrow> qp_value nullish" where
  "to_of tr = (case tr of RoutesAbsolute f t \<Rightarrow> JVal (QStr t) | _ \<Rightarrow> JUndef)"

definition keyword_of :: "routes_time_range \<Rightarrow> qp_value nullish" where
  "keyword_of tr = (case tr of RoutesKeyword k \<Rightarrow> JVal (QStr k) | _ \<Rightarrow> JUndef)"

definition search_with_query ::
  "(query_params \<Rightarrow> string) \<Rightarrow> string \<Rightarrow> string nullish \<Rightarrow> routes_time_range nullish \<Rightarrow>
   string list nullish \<Rightarrow> string list nullish \<Rightarrow> js_error + string" where
  "search_with_query buildQuery query rangeType timeRange streams streamCategories =
     (let base = [(''q'', JVal (QStr query))];
          ranged =
            (case (rangeType, timeRange) of
               (JVal rt, JVal tr) \<Rightarrow>
                 if rt = [] then Inr base
                 else if rt = ''relative'' then
                   Inr (base @ [(''rangetype'', JVal (QStr rt)), (''relative'', relative_of tr)])
                 else if rt = ''absolute'' then
                   Inr (base @ [(''rangetype'', JVal (QStr rt)), (''from'', from_of tr), (''to'', to_of tr)])
                 else if rt = ''keyword'' then
                   Inr (base @ [(''rangetype'', JVal (QStr rt)), (''keyword'', keyword_of tr)])
                 else Inl (Error (''Invalid range type: '' @ rt @ ''.''))
             | _ \<Rightarrow> Inr base)
      in case ranged of
           Inl e \<Rightarrow> Inl e
         | Inr qs \<Rightarrow>
             let qs1 = (case streams of JVal ss \<Rightarrow> qs @ [(''streams'', JVal (QStr (join '','' ss)))]
                                      | _ \<Rightarrow> qs);
                 qs2 = (case streamCategories of
                          JVal cs \<Rightarrow> qs1 @ [(''stream_categories'', JVal (QStr (join '','' cs)))]
                        | _ \<Rightarrow> qs1)
             in Inr (uri_resource buildQuery ''/search'' qs2))"

text \<open>\<open>_common_search_url(resource, query, timeRange, resolution)\<close>: the keys of
  the time range object are copied in their order.\<close>

definition time_range_params :: "routes_time_range \<Rightarrow> query_params" where
  "time_range_params tr =
     (case tr of
        RoutesRelative r \<Rightarrow> [(''relative'', JVal (QNum r))]
      | RoutesAbsolute f t \<Rightarrow> [(''from'', JVal (QStr f)), (''to'', JVal (QStr t))]
      | RoutesKeyword k \<Rightarrow> [(''keyword'', JVal (QStr k))])"

definition common_search_url ::
  "(query_params \<Rightarrow> string) \<Rightarrow> string \<Rightarrow> string nullish \<Rightarrow> routes_time_range nullish \<Rightarrow>
   js_number nullish \<Rightarrow> string" where
  "common_search_url buildQuery resource query timeRange resolution =
     (let qs = [(''q'', map_nullish QStr query), (''interval'', map_nullish QNum resolution)];
          qs' = (case timeRange of JVal tr \<Rightarrow> qs @ time_range_params tr | _ \<Rightarrow> qs)
      in uri_resource buildQuery resource qs')"

definition search_url ::
  "(query_params \<Rightarrow> string) \<Rightarrow> string \<Rightarrow> routes_time_range \<Rightarrow> js_number nullish \<Rightarrow> string" where
  "search_url buildQuery query timeRange resolution =
     common_search_url buildQuery ''/search'' (JVal query) (JVal timeRange) resolution"

definition stream_search ::
  "(query_params \<Rightarrow> string) \<Rightarrow> string \<Rightarrow> string nullish \<Rightarrow> routes_time_range nullish \<Rightarrow>
   js_number nullish \<Rightarrow> string" where
  "stream_search buildQuery streamId query timeRange resolution =
     common_search_url buildQuery (''/streams/'' @ streamId @ ''/search'') query timeRange resolution"

definition new_extractor ::
  "(query_params \<Rightarrow> string) \<Rightarrow> string \<Rightarrow> string \<Rightarrow> string nullish \<Rightarrow> string nullish \<Rightarrow>
   string nullish \<Rightarrow> string nullish \<Rightarrow> string" where
  "new_extractor buildQuery nodeId inputId extractorType fieldName index messageId =
     uri_resource buildQuery (''/system/inputs/'' @ nodeId @ ''/'' @ inputId @ ''/extractors/new'')
       [(''extractor_type'', map_nullish QStr extractorType), (''field'', map_nullish QStr fieldName),
        (''example_index'', map_nullish QStr index), (''example_id'', map_nullish QStr messageId)]"

subsection \<open>Plugin routes\<close>

definition uri_segments :: "string \<Rightarrow> string list" where
  "uri_segments p =
     (case split_on CHR ''/'' p of [] \<Rightarrow> [] | s # ss \<Rightarrow> if s = [] then ss else s # ss)"

definition uri_pathname :: "string list \<Rightarrow> string" where
  "uri_pathname segs = ''/'' @ join ''/'' segs"

text \<open>\<open>Array.prototype.indexOf\<close> for an element that occurs (the length when it
  does not, where JavaScript answers \<open>-1\<close>; the code only looks up segments of the
  same list).\<close>

fun index_of :: "'a \<Rightarrow> 'a list \<Rightarrow> nat" where
  "index_of x [] = 0"
| "index_of x (y # ys) = (if x = y then 0 else Suc (index_of x ys))"

definition route_key :: "string list \<Rightarrow> string" where
  "route_key segments = to_upper (join ''_'' (map (replace_first '':'' []) segments))"

definition param_names :: "string list \<Rightarrow> string list" where
  "param_names segments = filter (\<lambda>s. starts_with s '':'') segments"

text \<open>The function registered for a path with parameters: each parameter, in
  order, writes \<open>String(paramValues[idx])\<close> into the segment where
  \<open>segments.indexOf(param)\<close> finds it.\<close>

definition fill_params :: "string list \<Rightarrow> string list \<Rightarrow> string list" where
  "fill_params segments paramValues =
     foldl (\<lambda>segs (idx, param). segs[index_of param segments := arg paramValues idx])
       segments (zip [0..<length (param_names segments)] (param_names segments))"

definition plugin_entry :: "string \<Rightarrow> string \<times> route_entry" where
  "plugin_entry path =
     (let segments = uri_segments path
      in (route_key segments,
          if param_names segments \<noteq> []
          then RFunction (\<lambda>paramValues. uri_pathname (fill_params segments paramValues))
          else RLiteral path))"

definition pluginRoutes :: "string list \<Rightarrow> route_map" where
  "pluginRoutes registered = foldl (\<lambda>m path. case plugin_entry path of (k, e) \<Rightarrow> AList.update k e m) [] registered"

text \<open>A route read from the object is falsy when it is absent or the empty
  string; an inherited member of \<open>Object.prototype\<close> is truthy.\<close>

definition route_truthy :: "route_entry option \<Rightarrow> bool" where
  "route_truthy r = (case r of None \<Rightarrow> False | Some (RLiteral s) \<Rightarrow> s \<noteq> [] | Some _ \<Rightarrow> True)"

definition prop_truthy :: "route_entry js_prop option \<Rightarrow> bool" where
  "prop_truthy r = (case r of Some (OwnProp e) \<Rightarrow> route_truthy (Some e) | Some (InheritedProp _) \<Rightarrow> True | None \<Rightarrow> False)"

text \<open>\<open>qualifyUrls(pluginRoutes)[routeKey]\<close>: both the object literal
  \<open>pluginRoutes\<close> and the one \<open>Object.fromEntries\<close> builds inherit from
  \<open>Object.prototype\<close>.\<close>

definition pluginRoute ::
  "string nullish \<Rightarrow> string list \<Rightarrow> string \<Rightarrow> bool \<Rightarrow> js_error + route_entry js_prop option" where
  "pluginRoute appPrefix registered routeKey throwError =
     (let route = object_get (qualifyUrls (pluginRoutes registered) appPrefix) routeKey
      in if \<not> prop_truthy route \<and> throwError
         then Inl (Error (''Could not find plugin route '' @ [CHR 0x27] @ routeKey @ [CHR 0x27] @ ''.''))
         else Inr route)"

definition getPluginRoute :: "string nullish \<Rightarrow> string list \<Rightarrow> string \<Rightarrow> js_error + route_entry js_prop option" where
  "getPluginRoute appPrefix registered routeKey = pluginRoute appPrefix registered routeKey False"

text \<open>A prefix that is absent, empty or \<open>/\<close>, or an absolute path.\<close>

definition absolute_prefix :: "string nullish \<Rightarrow> bool" where
  "absolute_prefix pre = (no_prefix pre \<or> (case pre of JVal (c # _) \<Rightarrow> c = CHR ''/'' | _ \<Rightarrow> False))"

text \<open>The keys the registry defines for a list of registered paths.\<close>

definition plugin_keys :: "string list \<Rightarrow> string set" where
  "plugin_keys registered = fst ` plugin_entry ` set registered"

text \<open>The documented example of the registry.\<close>

definition sample_plugin_paths :: "string list" where
  "sample_plugin_paths = [''/system/pipelines'', ''/system/pipelines/:pipelineId'']"

subsection \<open>Lemmas\<close>

lemma map_of_qualifyUrls:
  "map_of (qualifyUrls m pre) k =
     (if no_prefix pre then map_of m k else map_option (qualifyEntry pre) (map_of m k))"
  by (induction m) auto

lemma map_of_foldl_plugin:
  "map_of (foldl (\<lambda>m path. case plugin_entry path of (k, e) \<Rightarrow> AList.update k e m) acc regs) k = Some e \<Longrightarrow>
   map_of acc k = Some e \<or> (\<exists>p\<in>set regs. plugin_entry p = (k, e))"
proof (induction regs arbitrary: acc)
  case (Cons r regs)
  obtain k' e' where r: "plugin_entry r = (k', e')" by (cases "plugin_entry r")
  from Cons.IH [of "AList.update k' e' acc"] Cons.prems r show ?case
    by (auto simp: update_conv' split: if_splits)
qed simp

lemma map_of_foldl_plugin_None:
  "map_of (foldl (\<lambda>m path. case plugin_entry path of (k, e) \<Rightarrow> AList.update k e m) acc regs) k = None \<longleftrightarrow>
   map_of acc k = None \<and> k \<notin> fst ` plugin_entry ` set regs"
proof (induction regs arbitrary: acc)
  case (Cons r regs)
  obtain k' e' where r: "plugin_entry r = (k', e')" by (cases "plugin_entry r")
  with Cons.IH [of "AList.update k' e' acc"] show ?case
    by (auto simp: update_conv' image_iff)
qed simp

lemma normalizePath_nonempty: "p \<noteq> [] \<Longrightarrow> hd p = CHR ''/'' \<Longrightarrow> normalizePath p \<noteq> []"
  by (simp add: normalizePath_def Let_def)

lemma plugin_entry_truthy:
  assumes "p \<noteq> []" and "absolute_prefix pre"
  shows "route_truthy (Some (if no_prefix pre then snd (plugin_entry p) else qualifyEntry pre (snd (plugin_entry p))))"
proof (cases "no_prefix pre")
  case True
  with assms show ?thesis by (simp add: plugin_entry_def route_truthy_def Let_def)
next
  case False
  with assms(2) obtain x where pre: "pre = JVal (CHR ''/'' # x)"
    by (auto simp: absolute_prefix_def split: nullish.splits list.splits)
  have "normalizePath ((CHR ''/'' # x) @ ''/'' @ uri_path p) \<noteq> []"
    by (rule normalizePath_nonempty) simp_all
  with False pre show ?thesis
    by (simp add: plugin_entry_def route_truthy_def Let_def prefixUrlWithoutHostname_eq)
qed

subsection \<open>Properties of the URL builders\<close>

text \<open>C6: \<open>search_with_query\<close> throws exactly when both a range type and a time
  range are given and the range type is not empty and none of \<open>relative\<close>,
  \<open>absolute\<close> and \<open>keyword\<close>; the error names the range type.\<close>

theorem search_with_query_error_iff:
  "search_with_query bq q rangeType timeRange ss cs = Inl e \<longleftrightarrow>
   (\<exists>rt tr. rangeType = JVal rt \<and> timeRange = JVal tr \<and>
      rt \<notin> {[], ''relative'', ''absolute'', ''keyword''} \<and> e = Error (''Invalid range type: '' @ rt @ ''.''))"
  by (auto simp: search_with_query_def Let_def split: nullish.splits sum.splits)

text \<open>C11: with registered paths that are not empty and a prefix that is absent,
  empty, \<open>/\<close> or absolute, \<open>pluginRoute(key)\<close> throws exactly when no registered
  path produces the key and the key is not a member every object inherits: a
  registered route is never mistaken for a missing one, and
  \<open>pluginRoute('toString')\<close> returns \<open>Object.prototype.toString\<close> instead of
  throwing.\<close>

theorem pluginRoute_error_iff:
  assumes "\<forall>p\<in>set regs. p \<noteq> []" and "absolute_prefix pre"
  shows "isl (pluginRoute pre regs k True) \<longleftrightarrow> k \<notin> plugin_keys regs \<and> k \<notin> set OBJECT_PROTOTYPE_KEYS"
proof (cases "map_of (pluginRoutes regs) k")
  case None
  then have "k \<notin> plugin_keys regs"
    using map_of_foldl_plugin_None [of "[]" regs k]
    by (simp add: pluginRoutes_def plugin_keys_def)
  with None show ?thesis
    by (simp add: pluginRoute_def object_get_def map_of_qualifyUrls prop_truthy_def del: qualifyUrls.simps)
next
  case (Some e)
  then obtain p where p: "p \<in> set regs" "plugin_entry p = (k, e)"
    using map_of_foldl_plugin [of "[]" regs k e] by (auto simp: pluginRoutes_def)
  then have e: "snd (plugin_entry p) = e" by simp
  have "p \<noteq> []" using assms(1) p(1) by blast
  from plugin_entry_truthy [OF this assms(2)]
  have t: "route_truthy (Some (if no_prefix pre then e else qualifyEntry pre e))"
    unfolding e .
  from p have "k \<in> plugin_keys regs" by (force simp: plugin_keys_def)
  with Some t show ?thesis
    by (auto simp: pluginRoute_def object_get_def prop_truthy_def map_of_qualifyUrls Let_def
        split: if_splits simp del: qualifyUrls.simps)
qed

theorem pluginRoute_error_iff_witness:
  "list_all (\<lambda>p. p \<noteq> []) sample_plugin_paths \<and> absolute_prefix JUndef \<and>
   \<not> isl (pluginRoute JUndef sample_plugin_paths ''SYSTEM_PIPELINES'' True) \<and>
   isl (pluginRoute JUndef sample_plugin_paths ''SYSTEM_INPUTS'' True) \<and>
   \<not> isl (pluginRoute JUndef sample_plugin_paths ''toString'' True)"
proof -
  have h: "\<forall>p\<in>set sample_plugin_paths. p \<noteq> []" by (simp add: sample_plugin_paths_def)
  have a: "absolute_prefix JUndef" by (simp add: absolute_prefix_def no_prefix_def)
  have k1: "''SYSTEM_PIPELINES'' \<in> plugin_keys sample_plugin_paths"
    by (simp add: plugin_keys_def sample_plugin_paths_def plugin_entry_def Let_def uri_segments_def
        route_key_def param_names_def to_upper_def upper_char_def js_simps)
  have k2: "''SYSTEM_INPUTS'' \<notin> plugin_keys sample_plugin_paths \<and> ''SYSTEM_INPUTS'' \<notin> set OBJECT_PROTOTYPE_KEYS"
    by (simp add: plugin_keys_def sample_plugin_paths_def plugin_entry_def Let_def uri_segments_def
        route_key_def param_names_def to_upper_def upper_char_def js_simps OBJECT_PROTOTYPE_KEYS_def)
  have k3: "''toString'' \<in> set OBJECT_PROTOTYPE_KEYS"
    by (simp add: OBJECT_PROTOTYPE_KEYS_def)
  show ?thesis
    using h a k1 k2 k3 list_all_iff [of "\<lambda>p. p \<noteq> []" sample_plugin_paths] pluginRoute_error_iff [OF h a, of "''SYSTEM_PIPELINES''"]
      pluginRoute_error_iff [OF h a, of "''SYSTEM_INPUTS''"] pluginRoute_error_iff [OF h a, of "''toString''"]
    by simp
qed

text \<open>A plugin path that names the same parameter twice gets only its first
  occurrence filled: \<open>segments.indexOf(param)\<close> finds the first position for both
  parameters, so the function registered for \<open>/pipelines/:id/stages/:id\<close> and
  called with \<open>x, y\<close> yields \<open>/pipelines/y/stages/:id\<close>.\<close>

theorem plugin_route_repeated_param:
  "(case plugin_entry ''/pipelines/:id/stages/:id'' of
      (k, RFunction f) \<Rightarrow> k = ''PIPELINES_ID_STAGES_ID'' \<and> f [''x'', ''y''] = ''/pipelines/y/stages/:id''
    | _ \<Rightarrow> False)"
  by (simp add: plugin_entry_def Let_def uri_segments_def route_key_def param_names_def to_upper_def
      upper_char_def fill_params_def uri_pathname_def arg_def js_simps)

end
