(* ===== verification/TimeoutInput.thy ===== *)
theory TimeoutInput
  imports Prelude
begin

text \<open>
  The session timeout control of the user forms,
  \<open>src/graylog2-web-interface/src/components/users/TimeoutInput.tsx\<close>. It turns a
  timeout in milliseconds (\<open>-1\<close> for no timeout) into a checkbox, an amount and
  a unit, and reports \<open>amount * unit\<close> (or \<open>-1\<close>) through \<open>onChange\<close> whenever
  one of them changes. The four units come from \<open>./timeoutConstants\<close>, which is
  not part of the sources; they are the usual millisecond values.

  The state is the component's four \<open>useState\<close> values. The amount and the
  unit become strings once the user edits them (\<open>evt.target.value\<close>, the
  select's value); \<open>value * Number(unit)\<close> converts both back, so the model
  keeps the numbers they convert to, as \<open>int\<close>: every value the control handles
  is a whole number of milliseconds. JavaScript's \<open>%\<close> keeps the sign of the
  dividend and HOL's \<open>mod\<close> that of the divisor, but both are \<open>0\<close> exactly on
  multiples, and \<open>_estimateUnit\<close> only tests for \<open>0\<close>; \<open>Math.floor(a / b)\<close>
  is \<open>a div b\<close>.

  An event is one of the three handlers or the answer of the configuration
  request of the first \<open>useEffect\<close>. Rendering disables the checkbox while the
  global session timeout is enabled, and the amount and unit inputs also while
  "never" is checked; a disabled input fires no event, so \<open>timeout_dispatch\<close>
  drops it. The second \<open>useEffect\<close> calls \<open>onChange(getValue())\<close> after mounting
  and after every render in which the amount, the unit or the checkbox changed:
  \<open>timeout_run\<close> returns the final state with the values reported.
\<close>

section \<open>Units\<close>

definition MS_SECOND :: int where "MS_SECOND = 1000"
definition MS_MINUTE :: int where "MS_MINUTE = 60 * MS_SECOND"
definition MS_HOUR :: int where "MS_HOUR = 60 * MS_MINUTE"
definition MS_DAY :: int where "MS_DAY = 24 * MS_HOUR"

lemmas ms_units = MS_SECOND_def MS_MINUTE_def MS_HOUR_def MS_DAY_def

definition estimateUnit :: "int \<Rightarrow> int" where
  "estimateUnit v =
    (if v = 0 then MS_SECOND
     else if v mod MS_DAY = 0 then MS_DAY
     else if v mod MS_HOUR = 0 then MS_HOUR
     else if v mod MS_MINUTE = 0 then MS_MINUTE
     else MS_SECOND)"

section \<open>State and handlers\<close>

text \<open>\<open>UserConfigType\<close> of \<open>ConfigurationsStore\<close>, the two fields the
  component reads or initialises.\<close>

record user_config =
  enable_global_session_timeout :: bool
  global_session_timeout_interval :: string

record timeout_state =
  sessionTimeoutNever :: bool
  unit :: int
  tvalue :: int
  globalSessionTimeout :: user_config

definition timeout_init :: "int \<Rightarrow> timeout_state" where
  "timeout_init propsValue =
    (let u = estimateUnit propsValue in
     \<lparr>sessionTimeoutNever = (propsValue = -1),
      unit = u,
      tvalue = (if propsValue \<noteq> 0 then propsValue div u else 0),
      globalSessionTimeout = \<lparr>enable_global_session_timeout = False,
                              global_session_timeout_interval = []\<rparr>\<rparr>)"

text \<open>\<open>TimeoutInput.defaultProps.value\<close>.\<close>

definition default_timeout :: int where
  "default_timeout = MS_HOUR"

definition getValue :: "timeout_state \<Rightarrow> int" where
  "getValue s = (if sessionTimeoutNever s then -1 else tvalue s * unit s)"

datatype timeout_event =
    Click bool
  | ChangeValue int
  | ChangeUnit int
  | ConfigLoaded user_config

fun timeout_handle :: "timeout_state \<Rightarrow> timeout_event \<Rightarrow> timeout_state" where
  "timeout_handle s (Click checked) = s\<lparr>sessionTimeoutNever := checked\<rparr>"
| "timeout_handle s (ChangeValue v) = s\<lparr>tvalue := v\<rparr>"
| "timeout_handle s (ChangeUnit u) = s\<lparr>unit := u\<rparr>"
| "timeout_handle s (ConfigLoaded c) = s\<lparr>globalSessionTimeout := c\<rparr>"

text \<open>The \<open>disabled\<close> attributes of the rendered inputs.\<close>

fun control_enabled :: "timeout_state \<Rightarrow> timeout_event \<Rightarrow> bool" where
  "control_enabled s (Click _) = (\<not> enable_global_session_timeout (globalSessionTimeout s))"
| "control_enabled s (ChangeValue _) =
    (\<not> sessionTimeoutNever s \<and> \<not> enable_global_session_timeout (globalSessionTimeout s))"
| "control_enabled s (ChangeUnit _) =
    (\<not> sessionTimeoutNever s \<and> \<not> enable_global_session_timeout (globalSessionTimeout s))"
| "control_enabled s (ConfigLoaded _) = True"

definition timeout_dispatch :: "timeout_state \<Rightarrow> timeout_event \<Rightarrow> timeout_state" where
  "timeout_dispatch s e = (if control_enabled s e then timeout_handle s e else s)"

text \<open>The dependencies \<open>[value, unit, sessionTimeoutNever]\<close> of the reporting
  effect (\<open>onChange\<close> is the same function throughout).\<close>

definition effect_deps :: "timeout_state \<Rightarrow> int \<times> int \<times> bool" where
  "effect_deps s = (tvalue s, unit s, sessionTimeoutNever s)"

fun timeout_run :: "timeout_state \<Rightarrow> timeout_event list \<Rightarrow> timeout_state \<times> int list" where
  "timeout_run s [] = (s, [])"
| "timeout_run s (e # es) =
    (let s' = timeout_dispatch s e;
         (t, out) = timeout_run s' es
     in (t, if effect_deps s' = effect_deps s then out else getValue s' # out))"

text \<open>Events other than the configuration answer.\<close>

fun is_config_answer :: "timeout_event \<Rightarrow> bool" where
  "is_config_answer (ConfigLoaded _) = True"
| "is_config_answer _ = False"

definition timeout_mount :: "int \<Rightarrow> timeout_event list \<Rightarrow> timeout_state \<times> int list" where
  "timeout_mount propsValue es =
    (let s = timeout_init propsValue; (t, out) = timeout_run s es in (t, getValue s # out))"

section \<open>Lemmas\<close>

lemma second_dvd_units [simp]:
  "MS_SECOND dvd MS_MINUTE" "MS_SECOND dvd MS_HOUR" "MS_SECOND dvd MS_DAY"
  by (simp_all add: ms_units)

lemma estimateUnit_dvd:
  assumes "MS_SECOND dvd v" shows "estimateUnit v dvd v"
  using assms by (auto simp: estimateUnit_def dvd_eq_mod_eq_0)

lemma estimateUnit_not_dvd:
  assumes "\<not> MS_SECOND dvd v" shows "estimateUnit v = MS_SECOND"
proof -
  have "\<not> u dvd v" if "MS_SECOND dvd u" for u
    using assms that dvd_trans by blast
  then show ?thesis
    using assms by (auto simp: estimateUnit_def dvd_eq_mod_eq_0[symmetric])
qed

lemma getValue_init:
  "getValue (timeout_init p) =
    (if p = -1 then -1 else if p = 0 then 0 else p div estimateUnit p * estimateUnit p)"
  by (simp add: getValue_def timeout_init_def Let_def)

text \<open>The unit the control starts with is always one of the four units of
  the unit select, and when the timeout is a whole number of seconds it divides
  the timeout.\<close>

theorem estimateUnit_typed:
  "estimateUnit v \<in> {MS_SECOND, MS_MINUTE, MS_HOUR, MS_DAY}
   \<and> (MS_SECOND dvd v \<longrightarrow> estimateUnit v dvd v)"
  by (simp add: estimateUnit_dvd) (simp add: estimateUnit_def)

theorem estimateUnit_typed_witness:
  "estimateUnit 7200000 = MS_HOUR \<and> MS_HOUR dvd 7200000"
proof -
  have "estimateUnit 7200000 = MS_HOUR" by (simp add: estimateUnit_def ms_units)
  moreover have "MS_SECOND dvd (7200000::int)" by (simp add: ms_units)
  ultimately show ?thesis using estimateUnit_typed [of 7200000] by simp
qed

text \<open>C17: Mounting the control and reporting \<open>getValue()\<close> gives the timeout
  passed in back exactly when it is \<open>-1\<close> or a whole number of seconds: any other
  timeout loses its milliseconds to \<open>Math.floor(propsValue / unit)\<close>.\<close>

theorem timeout_init_roundtrip:
  "getValue (timeout_init p) = p \<longleftrightarrow> p = -1 \<or> MS_SECOND dvd p"
proof (cases "MS_SECOND dvd p")
  case True
  then show ?thesis using estimateUnit_dvd[OF True] by (auto simp: getValue_init)
next
  case False
  then have "p \<noteq> 0" by auto
  moreover have "p div MS_SECOND * MS_SECOND \<noteq> p"
    using False by (metis dvd_triv_right)
  ultimately show ?thesis using False by (auto simp: getValue_init estimateUnit_not_dvd)
qed

text \<open>Unchecking "Sessions do not time out" on a control mounted with
  \<open>-1\<close> reports \<open>-1000\<close>: the amount was initialised to
  \<open>Math.floor(-1 / MS_SECOND) = -1\<close>, so the form receives a negative timeout.\<close>

theorem timeout_uncheck_never_negative:
  "timeout_mount (-1) [Click False] =
     (timeout_init (-1)\<lparr>sessionTimeoutNever := False\<rparr>, [-1, - MS_SECOND])"
  by (simp add: timeout_mount_def timeout_dispatch_def effect_deps_def getValue_def
      timeout_init_def estimateUnit_def ms_units)

text \<open>While the global session timeout is enabled, every control is
  disabled: no event but the configuration answer changes the state, and
  \<open>onChange\<close> is not called.\<close>

theorem timeout_run_global:
  assumes "enable_global_session_timeout (globalSessionTimeout s)"
      and "list_all (\<lambda>e. \<not> is_config_answer e) es"
  shows "timeout_run s es = (s, [])"
  using assms
proof (induction es)
  case (Cons e es)
  then show ?case by (cases e) (simp_all add: timeout_dispatch_def)
qed simp

theorem timeout_run_global_witness:
  "timeout_run (timeout_init 60000\<lparr>globalSessionTimeout := \<lparr>enable_global_session_timeout = True,
      global_session_timeout_interval = ''PT1H''\<rparr>\<rparr>) [Click True, ChangeValue 5, ChangeUnit 1000]
   = (timeout_init 60000\<lparr>globalSessionTimeout := \<lparr>enable_global_session_timeout = True,
      global_session_timeout_interval = ''PT1H''\<rparr>\<rparr>, [])"
  by (rule timeout_run_global) simp_all

text \<open>C18: While the global session timeout is disabled, the user can always
  reach any amount in any unit (uncheck "never", type the amount, pick the unit)
  and can always switch sessions to never time out.\<close>

theorem timeout_reach:
  assumes "\<not> enable_global_session_timeout (globalSessionTimeout s)"
  shows "getValue (fst (timeout_run s [Click False, ChangeValue n, ChangeUnit u])) = n * u
       \<and> getValue (fst (timeout_run s [Click True])) = -1"
  using assms by (simp add: timeout_dispatch_def getValue_def Let_def split: prod.splits)

theorem timeout_reach_witness:
  "getValue (fst (timeout_run (timeout_init (-1)) [Click False, ChangeValue 30, ChangeUnit MS_MINUTE]))
     = 30 * MS_MINUTE
   \<and> getValue (fst (timeout_run (timeout_init (-1)) [Click True])) = -1"
  by (rule timeout_reach) (simp add: timeout_init_def Let_def)

theorem timeout_init_roundtrip_witness:
  "getValue (timeout_init 1500) \<noteq> 1500 \<and> getValue (timeout_init 7200000) = 7200000"
  by (simp add: timeout_init_roundtrip ms_units)

end
