(* ===== verification/Pipeline.thy ===== *)
theory Pipeline
  imports Prelude "HOL-Library.Multiset"
begin

text \<open>
  The pipeline detail view,
  \<open>src/graylog2-web-interface/src/components/pipelines/Pipeline.tsx\<close>. The
  component owns no state: it renders the pipeline's stages and hands the new
  stage list to \<open>onStagesChange\<close> when a stage is created, updated or deleted.

  A stage (\<open>StageType\<close> of \<open>components/pipelines/types\<close>, outside the
  sources) is a record with its number, its match mode and its rules. The
  callbacks \<open>_saveStage\<close>, \<open>_updateStage(prevStage)\<close> and
  \<open>_deleteStage(stage)\<close> are functions from the current stage list to the list
  passed to \<open>onStagesChange\<close> (\<open>None\<close> when the user dismisses the confirmation
  of a deletion). \<open>formattedStages\<close> sorts \<open>pipeline.stages\<close> with
  \<open>Array.prototype.sort\<close>, which sorts in place and is stable: the model
  returns the rendered stage elements together with the pipeline whose stage
  array the sort has reordered, and the later \<open>stageKey\<close> and callbacks see that
  array. A JavaScript number that is a stage number is an \<open>int\<close>; the
  \<open>-Infinity\<close> that seeds \<open>maxStage\<close> is \<open>None\<close>.
\<close>

record stage_type =
  stage :: int
  stage_match :: string
  stage_rules :: "string list"

record pipeline_type =
  pipeline_id :: string
  pipeline_title :: string
  stages :: "stage_type list"

text \<open>The permissions \<open>useGetPermissionsByScope\<close> answers with.\<close>

record scope_permissions =
  is_mutable :: bool

definition isManaged :: "scope_permissions nullish \<Rightarrow> bool" where
  "isManaged sp = (case sp of JVal p \<Rightarrow> \<not> is_mutable p | _ \<Rightarrow> False)"

definition connectionsWarning :: "'c list \<Rightarrow> bool" where
  "connectionsWarning connections = (length connections = 0)"

section \<open>Stage callbacks\<close>

definition saveStage :: "stage_type list \<Rightarrow> stage_type \<Rightarrow> stage_type list" where
  "saveStage ss st = ss @ [st]"

definition updateStage :: "stage_type list \<Rightarrow> stage_type \<Rightarrow> stage_type \<Rightarrow> stage_type list" where
  "updateStage ss prevStage st = filter (\<lambda>s. stage s \<noteq> stage prevStage) ss @ [st]"

definition deleteStage :: "stage_type list \<Rightarrow> stage_type \<Rightarrow> bool \<Rightarrow> stage_type list option" where
  "deleteStage ss st confirmed =
    (if confirmed then Some (filter (\<lambda>s. stage s \<noteq> stage st) ss) else None)"

text \<open>The text of the confirmation dialog of a deletion.\<close>

definition deleteStage_prompt :: "stage_type \<Rightarrow> string" where
  "deleteStage_prompt st = ''You are about to delete stage '' @ int_to_string (stage st)
     @ '', are you sure you want to proceed?''"

section \<open>Connected streams\<close>

text \<open>\<open>_formatConnectedStreams\<close>: the count handed to \<open>Pluralize\<close> and the
  stream list; \<open>formattedStreams[0]\<close> of an empty list is \<open>undefined\<close>.\<close>

definition formatConnectedStreams :: "string list \<Rightarrow> nat \<times> string nullish" where
  "formatConnectedStreams titles =
    (let fs = map (\<lambda>t. CHR 0x22 # t @ [CHR 0x22]) titles;
         streamList = (if length fs > 1
                       then JVal (join '' and '' [join '', '' (butlast fs), last fs])
                       else (case fs of [] \<Rightarrow> JUndef | f # _ \<Rightarrow> JVal f))
     in (length fs, streamList))"

section \<open>Rendering the stages\<close>

record stage_elem =
  elem_key :: string
  elem_stage :: stage_type
  isLastStage :: bool
  disableEdit :: bool

definition maxStage :: "stage_type list \<Rightarrow> int option" where
  "maxStage ss =
    foldl (\<lambda>m s. Some (case m of None \<Rightarrow> stage s | Some k \<Rightarrow> max k (stage s))) None ss"

definition formattedStages :: "pipeline_type \<Rightarrow> bool \<Rightarrow> stage_elem list \<times> pipeline_type" where
  "formattedStages p managed =
    (let mx = maxStage (stages p);
         sorted_stages = sort_key stage (stages p)
     in (map (\<lambda>s. \<lparr>elem_key = ''stage-'' @ int_to_string (stage s), elem_stage = s,
                   isLastStage = (Some (stage s) = mx), disableEdit = managed\<rparr>) sorted_stages,
         p\<lparr>stages := sorted_stages\<rparr>))"

definition stageKey :: "pipeline_type \<Rightarrow> string" where
  "stageKey p = join ''-'' (map (\<lambda>s. int_to_string (stage s)) (stages p))"

datatype pipeline_view =
    Spinner
  | PipelineView bool bool bool "stage_elem list" string

text \<open>One render: the hooks run first (so the sort happens even while the
  permissions load), then the spinner or the page with the managed alert, the
  connection warning, the editing flag, the stage elements and the key of the
  stage form. The pipeline is returned with its reordered stage array.\<close>

definition pipeline_render ::
  "pipeline_type \<Rightarrow> 'c list \<Rightarrow> bool \<Rightarrow> scope_permissions nullish \<Rightarrow> pipeline_view \<times> pipeline_type" where
  "pipeline_render p connections loading sp =
    (let managed = isManaged sp;
         (elems, p') = formattedStages p managed;
         key = stageKey p'
     in (if loading then Spinner
         else PipelineView managed (connectionsWarning connections) managed elems key, p'))"

definition sample_stages :: "stage_type list" where
  "sample_stages = [\<lparr>stage = 1, stage_match = ''EITHER'', stage_rules = [''b'']\<rparr>,
                    \<lparr>stage = 0, stage_match = ''ALL'', stage_rules = [''a'']\<rparr>]"

definition sample_pipeline :: pipeline_type where
  "sample_pipeline = \<lparr>pipeline_id = ''p'', pipeline_title = ''P'', stages = sample_stages\<rparr>"

section \<open>Lemmas\<close>

lemma maxStage_foldl:
  "foldl (\<lambda>m s. Some (case m of None \<Rightarrow> stage s | Some k \<Rightarrow> max k (stage s))) (Some k) ss
   = Some (Max (insert k (set (map stage ss))))"
proof (induction ss arbitrary: k)
  case (Cons s ss)
  have "Max (insert (max k (stage s)) A) = Max (insert k (insert (stage s) A))" if "finite A" for A
    using that by (cases "A = {}") (simp_all add: max.assoc)
  then show ?case using Cons by simp
qed simp

lemma maxStage_Max:
  "maxStage ss = (if ss = [] then None else Some (Max (set (map stage ss))))"
  by (cases ss) (simp_all add: maxStage_def maxStage_foldl)

lemma formattedStages_stages:
  "map elem_stage (fst (formattedStages p m)) = sort_key stage (stages p)"
  by (simp add: formattedStages_def Let_def comp_def)

lemma formattedStages_last:
  "map isLastStage (fst (formattedStages p m))
     = map (\<lambda>s. stage s = Max (set (map stage (stages p)))) (sort_key stage (stages p))"
  by (auto simp: formattedStages_def Let_def maxStage_Max)

text \<open>C19: The stage elements are the pipeline's stages, each once, in ascending
  order of their numbers, and rendering leaves the pipeline's stage array in
  that order (the in-place sort).\<close>

theorem formattedStages_sorted_perm:
  "sorted (map (stage \<circ> elem_stage) (fst (formattedStages p m)))
   \<and> mset (map elem_stage (fst (formattedStages p m))) = mset (stages p)
   \<and> snd (formattedStages p m) = p\<lparr>stages := map elem_stage (fst (formattedStages p m))\<rparr>"
proof -
  have "map (stage \<circ> elem_stage) (fst (formattedStages p m)) = map stage (sort_key stage (stages p))"
    using formattedStages_stages[of p m] by (metis map_map)
  then show ?thesis
    by (simp add: formattedStages_stages) (simp add: formattedStages_def Let_def)
qed

lemma sorted_last_max:
  assumes "sorted (map f xs)" "distinct (map f xs)" "xs \<noteq> []"
  shows "filter (\<lambda>x. f x = Max (set (map f xs))) xs = [last xs]"
  using assms
proof (induction xs)
  case (Cons x xs)
  show ?case
  proof (cases "xs = []")
    case False
    obtain y where y: "y \<in> set xs" using False by (cases xs) auto
    then have "f x < f y"
      using Cons.prems by (auto simp: less_le)
    moreover have "f y \<le> Max (set (map f xs))"
      using y by simp
    ultimately have "f x < Max (set (map f xs))"
      by (rule less_le_trans)
    moreover have "Max (set (map f (x # xs))) = Max (set (map f xs))"
      using False \<open>f x < Max (set (map f xs))\<close> by (simp add: max_def less_imp_le)
    ultimately show ?thesis using Cons False by simp
  qed simp
qed simp

lemma sort_key_stage_facts:
  "set (map stage (sort_key stage ss)) = set (map stage ss)
   \<and> (distinct (map stage (sort_key stage ss)) \<longleftrightarrow> distinct (map stage ss))"
proof -
  have "mset (map stage (sort_key stage ss)) = mset (map stage ss)"
    by simp
  then show ?thesis by (metis mset_eq_imp_distinct_iff mset_eq_setD)
qed

text \<open>C20: When the stage numbers are distinct, exactly one stage element is
  marked as the last stage, and it is the last element rendered.\<close>

theorem formattedStages_one_last:
  assumes "distinct (map stage (stages p))" "stages p \<noteq> []"
  shows "filter isLastStage (fst (formattedStages p m)) = [last (fst (formattedStages p m))]"
proof -
  let ?ss = "sort_key stage (stages p)"
  let ?mk = "\<lambda>s. \<lparr>elem_key = ''stage-'' @ int_to_string (stage s), elem_stage = s,
                   isLastStage = (stage s = Max (set (map stage (stages p)))), disableEdit = m\<rparr>"
  have els: "fst (formattedStages p m) = map ?mk ?ss"
    using assms(2) by (simp add: formattedStages_def Let_def maxStage_Max)
  have ne: "?ss \<noteq> []" using assms(2) by (metis length_0_conv length_sort)
  have "filter (\<lambda>s. stage s = Max (set (map stage ?ss))) ?ss = [last ?ss]"
    using sorted_last_max[of stage ?ss] sort_key_stage_facts[of "stages p"] assms(1) ne
    by (simp add: sorted_sort_key)
  then have "filter (\<lambda>s. stage s = Max (set (map stage (stages p)))) ?ss = [last ?ss]"
    using sort_key_stage_facts[of "stages p"] by simp
  then show ?thesis
    using ne by (simp add: els filter_map comp_def last_map)
qed


lemma int_to_string_nonneg: "0 \<le> i \<Longrightarrow> int_to_string i = decimal (nat i)"
  by (simp add: int_to_string_def)

lemma stageKey_split:
  assumes "list_all (\<lambda>s. 0 \<le> stage s) ss" "ss \<noteq> []"
  shows "map (\<lambda>d. int (digits_value d)) (split_on CHR ''-'' (join ''-'' (map (\<lambda>s. int_to_string (stage s)) ss)))
         = map stage ss"
proof -
  have eq: "map (\<lambda>s. int_to_string (stage s)) ss = map (\<lambda>s. decimal (nat (stage s))) ss"
    using assms(1) by (simp add: list_all_iff int_to_string_nonneg)
  have "split_on CHR ''-'' (join [CHR ''-''] (map (\<lambda>s. decimal (nat (stage s))) ss))
                 = map (\<lambda>s. decimal (nat (stage s))) ss"
    using assms(2) by (intro split_on_join) auto
  then show ?thesis
    unfolding eq using assms(1) by (simp add: list_all_iff)
qed

text \<open>The key of the stage form, \<open>stages.map(s => s.stage).join('-')\<close>
  computed after the sort, determines the stage numbers: splitting it at the
  dashes gives back the sorted numbers, when they are not negative.\<close>

theorem stageKey_roundtrip:
  assumes "list_all (\<lambda>s. 0 \<le> stage s) (stages p)" "stages p \<noteq> []"
  shows "map (\<lambda>d. int (digits_value d)) (split_on CHR ''-'' (stageKey (snd (formattedStages p m))))
         = map stage (sort_key stage (stages p))"
proof -
  have "list_all (\<lambda>s. 0 \<le> stage s) (sort_key stage (stages p))"
    using assms(1) by (simp add: list_all_iff)
  moreover have "sort_key stage (stages p) \<noteq> []"
    using assms(2) by (metis length_0_conv length_sort)
  ultimately show ?thesis
    by (simp add: stageKey_def formattedStages_def Let_def stageKey_split)
qed

text \<open>Updating a stage keeps the stage numbers distinct exactly when the
  new number is the stage's own or not yet used: \<open>_updateStage\<close> itself does
  not check it.\<close>

theorem updateStage_distinct_iff:
  assumes "distinct (map stage ss)"
  shows "distinct (map stage (updateStage ss prev st))
         \<longleftrightarrow> stage st = stage prev \<or> stage st \<notin> set (map stage ss)"
  using assms by (auto simp: updateStage_def distinct_map_filter)

text \<open>Renumbering stage 0 of a two-stage pipeline to 1 makes both remaining
  stages stage 1, and both are rendered as the last stage.\<close>

theorem updateStage_duplicate_last:
  "map isLastStage (fst (formattedStages
     (sample_pipeline\<lparr>stages := updateStage sample_stages (sample_stages ! 1)
                                  ((sample_stages ! 1)\<lparr>stage := 1\<rparr>)\<rparr>) False))
   = [True, True]"
  by (simp add: sample_pipeline_def sample_stages_def updateStage_def formattedStages_def maxStage_def)

theorem formattedStages_one_last_witness:
  "filter isLastStage (fst (formattedStages sample_pipeline False))
   = [last (fst (formattedStages sample_pipeline False))]"
  by (rule formattedStages_one_last) (simp_all add: sample_pipeline_def sample_stages_def)

theorem stageKey_roundtrip_witness:
  "map (\<lambda>d. int (digits_value d)) (split_on CHR ''-'' (stageKey (snd (formattedStages sample_pipeline False))))
   = map stage (sort_key stage (stages sample_pipeline))"
  by (rule stageKey_roundtrip) (simp_all add: sample_pipeline_def sample_stages_def)

theorem updateStage_distinct_iff_witness:
  "\<not> distinct (map stage (updateStage sample_stages (sample_stages ! 1) ((sample_stages ! 1)\<lparr>stage := 1\<rparr>)))"
proof -
  have "distinct (map stage sample_stages)" by (simp add: sample_stages_def)
  note iff = updateStage_distinct_iff [OF this, of "sample_stages ! 1" "(sample_stages ! 1)\<lparr>stage := 1\<rparr>"]
  show ?thesis unfolding iff by (simp add: sample_stages_def)
qed

theorem formattedStages_sorted_perm_witness:
  "map (stage \<circ> elem_stage) (fst (formattedStages sample_pipeline False)) = [0, 1]
   \<and> sorted (map (stage \<circ> elem_stage) (fst (formattedStages sample_pipeline False)))"
proof
  show "map (stage \<circ> elem_stage) (fst (formattedStages sample_pipeline False)) = [0, 1]"
    by (simp add: formattedStages_def sample_pipeline_def sample_stages_def Let_def)
  show "sorted (map (stage \<circ> elem_stage) (fst (formattedStages sample_pipeline False)))"
    using formattedStages_sorted_perm [of sample_pipeline False] by (rule conjunct1)
qed

end
