(* ===== verification/DocsHelper.thy ===== *)
theory DocsHelper
  imports Prelude
begin

text \<open>
  The documentation links of
  \<open>src/graylog2-web-interface/src/util/DocsHelper.ts\<close>: the table of
  documentation pages, the base URL (the \<open>help_url\<close> of the product branding
  when there is one, the public documentation otherwise) and \<open>toString\<close>,
  which appends a page to the base URL. The keys of \<open>PAGES\<close> are a fixed set,
  so they are the constructors of \<open>docs_page\<close> and \<open>PAGES[key]\<close> is
  \<open>page_path\<close>. \<open>AppConfig.branding\<close> (outside the sources) is the
  argument of \<open>docsUrl\<close>: absent, or a configuration whose \<open>help_url\<close> may be
  absent.
\<close>

definition defaultDocsUrl :: string where
  "defaultDocsUrl = ''https://go2docs.graylog.org/current''"

record branding_config =
  help_url :: "string nullish"

definition docsUrl :: "branding_config nullish \<Rightarrow> string" where
  "docsUrl branding =
    nullish_coalesce (case branding of JVal b \<Rightarrow> help_url b | JNull \<Rightarrow> JUndef | JUndef \<Rightarrow> JUndef)
      defaultDocsUrl"

datatype docs_page =
    ALERTS
  | AUDIT_LOG
  | AUTHENTICATORS
  | AWS_KINESIS_CLOUDWATCH_INPUT
  | CHANGELOG
  | CLUSTER_STATUS_EXPLAINED
  | COLLECTOR
  | COLLECTOR_SIDECAR
  | COLLECTOR_STATUS
  | CONFIGURING_ES
  | DASHBOARDS
  | DECORATORS
  | ENTERPRISE_SETUP
  | ES_CLUSTER_STATUS_RED
  | ES_CLUSTER_UNAVAILABLE
  | ES_OPEN_FILE_LIMITS
  | EVENT_PROCEDURES
  | EXTRACTORS
  | GRAYLOG_DATA_NODE
  | INDEXER_FAILURES
  | INDEX_MODEL
  | LICENSE
  | LICENSE_MANAGEMENT
  | LOAD_BALANCERS
  | LOOKUPTABLES
  | OPERATIONS_CHANGELOG
  | OPEN_SEARCH_SETUP
  | PAGE_FLEXIBLE_DATE_CONVERTER
  | PAGE_STANDARD_DATE_CONVERTER
  | PERMISSIONS
  | PIPELINE_FUNCTIONS
  | PIPELINE_RULES
  | PIPELINES
  | REPORTING
  | ROLLING_ES_UPGRADE
  | SEARCH_FILTERS
  | SEARCH_QUERY_ERRORS
  | SEARCH_QUERY_LANGUAGE
  | SECURITY_EVENTS
  | STREAMS
  | STREAM_PROCESSING_RUNTIME_LIMITS
  | TIME_FRAME_SELECTOR
  | UPGRADE_GUIDE
  | USERS_ROLES
  | DATA_LAKE_PREVIEW
  | WELCOME
  | DATA_TIERING
  | DATA_TIERING_WARM_TIER_SETUP

fun page_path :: "docs_page \<Rightarrow> string" where
  "page_path ALERTS = ''interacting_with_your_log_data/alerts.html''"
| "page_path AUDIT_LOG = ''interacting_with_your_log_data/audit_log.html''"
| "page_path AUTHENTICATORS = ''setting_up_graylog/user_authentication.htm''"
| "page_path AWS_KINESIS_CLOUDWATCH_INPUT = ''getting_in_log_data/aws_kinesis_cloudwatch_input.html''"
| "page_path CHANGELOG = ''changelogs/changelog.html''"
| "page_path CLUSTER_STATUS_EXPLAINED = ''setting_up_graylog/opensearch.htm#ClusterStatusExplained''"
| "page_path COLLECTOR = ''getting_in_log_data/graylog_sidecar.html''"
| "page_path COLLECTOR_SIDECAR = ''getting_in_log_data/graylog_sidecar.html''"
| "page_path COLLECTOR_STATUS = ''getting_in_log_data/getting_started_with_graylog_sidecar.htm#ViewSidecarStatus''"
| "page_path CONFIGURING_ES = ''setting_up_graylog/opensearch.htm#GraylogConfigurationSettings''"
| "page_path DASHBOARDS = ''interacting_with_your_log_data/dashboards.html''"
| "page_path DECORATORS = ''interacting_with_your_log_data/decorators.html''"
| "page_path ENTERPRISE_SETUP = ''downloading_and_installing_graylog/installing_graylog.html''"
| "page_path ES_CLUSTER_STATUS_RED = ''setting_up_graylog/opensearch.htm#ClusterStatusExplained''"
| "page_path ES_CLUSTER_UNAVAILABLE = ''setting_up_graylog/opensearch.htm#GraylogConfigurationSettings''"
| "page_path ES_OPEN_FILE_LIMITS = ''setting_up_graylog/opensearch.htm#GraylogConfigurationSettings''"
| "page_path EVENT_PROCEDURES = ''what_more_can_graylog_do_for_me/event_procedures.htm''"
| "page_path EXTRACTORS = ''making_sense_of_your_log_data/extractors.htm''"
| "page_path GRAYLOG_DATA_NODE = ''downloading_and_installing_graylog/install_graylog_data_node.htm''"
| "page_path INDEXER_FAILURES = ''getting_in_log_data/indexer_failures.html''"
| "page_path INDEX_MODEL = ''setting_up_graylog/index_model.html''"
| "page_path LICENSE = ''setting_up_graylog/operations_license_management.html''"
| "page_path LICENSE_MANAGEMENT = ''setting_up_graylog/operations_license_management.html''"
| "page_path LOAD_BALANCERS = ''setting_up_graylog/load_balancer_integration.html''"
| "page_path LOOKUPTABLES = ''making_sense_of_your_log_data/lookup_tables.html''"
| "page_path OPERATIONS_CHANGELOG = ''changelogs/operations_changelog.html''"
| "page_path OPEN_SEARCH_SETUP = ''setting_up_graylog/opensearch.htm#InstallingOpenSearch''"
| "page_path PAGE_FLEXIBLE_DATE_CONVERTER = ''making_sense_of_your_log_data/extractors.htm#Normalization''"
| "page_path PAGE_STANDARD_DATE_CONVERTER = ''making_sense_of_your_log_data/extractors.htm#Normalization''"
| "page_path PERMISSIONS = ''setting_up_graylog/permission_management.html''"
| "page_path PIPELINE_FUNCTIONS = ''making_sense_of_your_log_data/functions.html''"
| "page_path PIPELINE_RULES = ''making_sense_of_your_log_data/pipeline_usage.html''"
| "page_path PIPELINES = ''making_sense_of_your_log_data/pipelines.html''"
| "page_path REPORTING = ''interacting_with_your_log_data/reporting.html''"
| "page_path ROLLING_ES_UPGRADE = ''setting_up_graylog/opensearch.htm#UpgradingtoOpenSearch''"
| "page_path SEARCH_FILTERS = ''making_sense_of_your_log_data/search_filters.htm''"
| "page_path SEARCH_QUERY_ERRORS = ''making_sense_of_your_log_data/writing_search_queries.html#ErrorTypes''"
| "page_path SEARCH_QUERY_LANGUAGE = ''making_sense_of_your_log_data/writing_search_queries.html''"
| "page_path SECURITY_EVENTS = ''what_more_can_graylog_do_for_me/security_events.htm''"
| "page_path STREAMS = ''making_sense_of_your_log_data/streams.html''"
| "page_path STREAM_PROCESSING_RUNTIME_LIMITS = ''making_sense_of_your_log_data/stream_processing.htm#StreamProcessingRuntimeLimits''"
| "page_path TIME_FRAME_SELECTOR = ''making_sense_of_your_log_data/time_frame_selector.html''"
| "page_path UPGRADE_GUIDE = ''upgrading_graylog/upgrading_graylog.html''"
| "page_path USERS_ROLES = ''setting_up_graylog/users_teams.htm''"
| "page_path DATA_LAKE_PREVIEW = ''setting_up_graylog/data_lake_preview.htm''"
| "page_path WELCOME = ''''"
| "page_path DATA_TIERING = ''setting_up_graylog/data_tiering.htm''"
| "page_path DATA_TIERING_WARM_TIER_SETUP = ''setting_up_graylog/data_tiering.htm#PrepareYourEnvironmentforaWarmTier''"

text \<open>\<open>docsHelper.toString(path)\<close> with \<open>DOCS_URL = docsUrl\<close>.\<close>

definition docs_toString :: "string \<Rightarrow> string \<Rightarrow> string" where
  "docs_toString baseUrl path = (if path = [] then baseUrl else baseUrl @ ''/'' @ path)"

definition versionedDocsHomePage :: "string \<Rightarrow> string" where
  "versionedDocsHomePage baseUrl = docs_toString baseUrl []"

definition docs_link :: "branding_config nullish \<Rightarrow> docs_page \<Rightarrow> string" where
  "docs_link branding p = docs_toString (docsUrl branding) (page_path p)"

section \<open>Lemmas\<close>

lemma page_path_empty_iff: "page_path p = [] \<longleftrightarrow> p = WELCOME"
  by (cases p) simp_all

text \<open>Every documentation link is the base URL, a slash and the page's
  path, except the link of the welcome page, which is the versioned home page
  \<open>versionedDocsHomePage()\<close>; the base URL is the branding's help URL when one is
  configured and the public documentation otherwise.\<close>

theorem docs_link_shape:
  "docs_link b p = (if p = WELCOME then versionedDocsHomePage (docsUrl b)
                    else docsUrl b @ ''/'' @ page_path p)
   \<and> docsUrl b = (case b of JVal c \<Rightarrow> nullish_coalesce (help_url c) defaultDocsUrl
                   | _ \<Rightarrow> defaultDocsUrl)"
  by (cases b) (auto simp: docs_link_def docs_toString_def versionedDocsHomePage_def
                           page_path_empty_iff docsUrl_def)

end
