(* ===== verification/SchedulingCell.thy ===== *)
theory SchedulingCell
  imports Prelude
begin

text \<open>
  The scheduling column of the event definition list,
  \<open>src/graylog2-web-interface/src/components/event-definitions/event-definitions/SchedulingCell.tsx\<close>.
  The cell says "Not Scheduled." for a definition with neither a search window
  nor an interval, and otherwise a sentence describing the schedule with a
  popover of the scheduler's state (status, last and next execution, next time
  range, queued notifications with a button clearing them after a confirmation).

  The rendered output is a value: the sentence and the popover's list of
  entries, each a title and a value. Two library functions are parameters of
  the model: \<open>describeExpression\<close> of \<open>util/CronUtils\<close> (outside the sources)
  and the \<open>moment-duration-format\<close> rendering of a duration, which the code
  calls with \<open>usePlural: false\<close> for the interval and without it for the search
  window (the flag of \<open>fmt\<close>). The popover is built while the cell renders, so
  \<open>scheduler.status\<close> on an absent scheduler throws there: the cell's result is
  \<open>js_error + sched_view\<close>.
\<close>

record sched_data =
  timerange_from :: "string nullish"
  timerange_to :: "string nullish"

record scheduler =
  sched_status :: string
  triggered_at :: "string nullish"
  next_time :: "string nullish"
  sched_data :: "sched_data nullish"
  queued_notifications :: int

record ed_config =
  search_within_ms :: "int nullish"
  execute_every_ms :: "int nullish"
  use_cron_scheduling :: "bool nullish"
  cron_expression :: "string nullish"

record event_definition =
  ed_title :: string
  ed_config :: "ed_config nullish"
  ed_scheduler :: "scheduler nullish"

datatype detail_value =
    DText string
  | DStamp "string nullish"
  | DRange "string nullish" "string nullish"
  | DQueue int bool

type_synonym details = "(string \<times> detail_value) list"

definition getTimeRange :: "scheduler nullish \<Rightarrow> details" where
  "getTimeRange sch =
    (let d = (case sch of JVal s \<Rightarrow> sched_data s | _ \<Rightarrow> JUndef);
         from = (case d of JVal x \<Rightarrow> timerange_from x | _ \<Rightarrow> JUndef);
         to = (case d of JVal x \<Rightarrow> timerange_to x | _ \<Rightarrow> JUndef)
     in [(''Next time range:'', DRange from to)])"

text \<open>\<open>charAt(0).toLowerCase() + slice(1)\<close>.\<close>

fun lower_first :: "string \<Rightarrow> string" where
  "lower_first [] = []"
| "lower_first (c # cs) = lower_char c # cs"

datatype schedule_value = Interval "int nullish" | Cron "string nullish"

definition describeSchedule ::
  "(string nullish \<Rightarrow> string) \<Rightarrow> (bool \<Rightarrow> int nullish \<Rightarrow> string) \<Rightarrow> bool \<Rightarrow> schedule_value \<Rightarrow> string" where
  "describeSchedule describeExpression fmt isCron v =
    (if isCron then lower_first (describeExpression (case v of Cron c \<Rightarrow> c | Interval _ \<Rightarrow> JUndef))
     else ''every '' @ fmt False (case v of Interval n \<Rightarrow> n | Cron _ \<Rightarrow> JUndef))"

definition detailsPopover :: "scheduler nullish \<Rightarrow> js_error + details" where
  "detailsPopover sch =
    (case sch of
       JVal s \<Rightarrow> Inr ([(''Status:'', DText (sched_status s))]
                   @ (if truthy_text (triggered_at s) then [(''Last execution:'', DStamp (triggered_at s))] else [])
                   @ (if truthy_text (next_time s) then [(''Next execution:'', DStamp (next_time s))] else [])
                   @ getTimeRange sch
                   @ [(''Queued notifications:'', DQueue (queued_notifications s) (queued_notifications s > 0))])
     | _ \<Rightarrow> Inl TypeError)"

datatype sched_view =
    NotScheduled
  | SchedulingInfo string string details

definition schedulingInfo ::
  "(string nullish \<Rightarrow> string) \<Rightarrow> (bool \<Rightarrow> int nullish \<Rightarrow> string) \<Rightarrow> ed_config \<Rightarrow> scheduler nullish
   \<Rightarrow> string \<Rightarrow> js_error + sched_view" where
  "schedulingInfo describeExpression fmt c sch title =
    (let cron = truthy_bool (use_cron_scheduling c);
         executeEveryFormatted = describeSchedule describeExpression fmt cron
           (if cron then Cron (cron_expression c) else Interval (execute_every_ms c));
         searchWithinFormatted = fmt True (search_within_ms c)
     in case detailsPopover sch of
          Inl e \<Rightarrow> Inl e
        | Inr d \<Rightarrow> Inr (SchedulingInfo
             (''Runs '' @ executeEveryFormatted @ '', searching within the last ''
              @ searchWithinFormatted @ ''. '')
             (title @ '' details.'') d))"

definition schedulingCell ::
  "(string nullish \<Rightarrow> string) \<Rightarrow> (bool \<Rightarrow> int nullish \<Rightarrow> string) \<Rightarrow> event_definition nullish
   \<Rightarrow> js_error + sched_view" where
  "schedulingCell describeExpression fmt def =
    (case def of
       JVal d \<Rightarrow>
         (case ed_config d of
            JVal c \<Rightarrow>
              (if \<not> truthy_num (search_within_ms c) \<and> \<not> truthy_num (execute_every_ms c)
               then Inr NotScheduled
               else schedulingInfo describeExpression fmt c (ed_scheduler d) (ed_title d))
          | _ \<Rightarrow> Inr NotScheduled)
     | _ \<Rightarrow> Inr NotScheduled)"

text \<open>The clear button's handler: the confirmation's text, and the definition
  handed to \<open>clearNotificationQueue\<close> when the user confirms.\<close>

definition clear_prompt :: "event_definition \<Rightarrow> string" where
  "clear_prompt d = ''Are you sure you want to clear queued notifications for '' @ [CHR 0x22]
     @ ed_title d @ [CHR 0x22] @ ''?''"

definition clearNotifications :: "event_definition \<Rightarrow> bool \<Rightarrow> event_definition list" where
  "clearNotifications d confirmed = (if confirmed then [d] else [])"

section \<open>Lemmas\<close>

lemma schedulingInfo_isl:
  "isl (schedulingInfo describeExpression fmt c sch title) \<longleftrightarrow> is_nullish sch"
  by (cases sch) (simp_all add: schedulingInfo_def detailsPopover_def Let_def)

text \<open>C21: The scheduling cell throws exactly when the definition is scheduled
  (a non-zero search window or interval) but has no scheduler: the popover reads
  \<open>scheduler.status\<close> unguarded, although \<open>getTimeRange\<close> guards the same object
  with \<open>?.\<close>.\<close>

theorem schedulingCell_error_iff:
  "isl (schedulingCell describeExpression fmt def) \<longleftrightarrow>
    (\<exists>d c. def = JVal d \<and> ed_config d = JVal c
           \<and> (truthy_num (search_within_ms c) \<or> truthy_num (execute_every_ms c))
           \<and> is_nullish (ed_scheduler d))"
proof (cases def)
  case (JVal d)
  then show ?thesis
    by (cases "ed_config d")
       (auto simp: schedulingCell_def schedulingInfo_isl simp del: is_nullish_iff)
qed (simp_all add: schedulingCell_def)

theorem schedulingCell_error_iff_witness:
  "isl (schedulingCell (\<lambda>_. ''At 10:00 AM'') (\<lambda>_ _. ''5 minutes'')
        (JVal \<lparr>ed_title = ''Failed logins'',
               ed_config = JVal \<lparr>search_within_ms = JVal 300000, execute_every_ms = JVal 300000,
                                 use_cron_scheduling = JVal False, cron_expression = JUndef\<rparr>,
               ed_scheduler = JNull\<rparr>))"
  by (subst schedulingCell_error_iff) simp

end
