(* ===== verification/ConfigurationForms.thy ===== *)
theory ConfigurationForms
  imports Prelude
begin

text \<open>
  Configuration form fields:
  \<open>src/graylog2-web-interface/src/components/configurationforms/FieldHelpers.tsx\<close>
  (\<open>hasAttribute\<close>, \<open>optionableLabel\<close>) and the upload field of binary
  configuration values,
  \<open>src/graylog2-web-interface/src/components/configurationforms/EncryptedInlineBinaryField.tsx\<close>.

  The upload field is controlled: its value and its \<open>dirty\<close> flag are props,
  and every change goes to the form through \<open>onChange(title, value, dirty?)\<close>.
  It keeps three pieces of local state (the uploaded file's name, whether the
  stored value was reset, the value a reset replaced). An encrypted field holds
  an object \<open>{is_set, set_value, delete_value}\<close> (\<open>EncryptedFieldValue\<close>) and
  a plain field a string; \<open>bin_value\<close> has both shapes and \<open>null\<close>. The model's
  state is the props and the local state; an event is a click on one of the
  buttons, the end of reading a chosen file (its name and the reader's result),
  or new props from the form. A click on a button that the current render does
  not show is dropped (\<open>binary_dispatch\<close>). \<open>binary_run\<close> returns the final
  state and the \<open>onChange\<close> calls, in order.

  \<open>handleFileRead\<close> strips the data URL prefix with
  \<open>/^data:[\s\S]+\/[\s\S]+;base64,/\<close>. Both groups are greedy, so the match ends
  at the last \<open>;base64,\<close> that has a slash at least one character after
  \<open>data:\<close> and at least one character before it; \<open>strip_data_url\<close> searches
  the end positions from the right.
\<close>

section \<open>Field helpers\<close>

record config_field =
  field_type :: string
  human_name :: string
  is_optional :: bool
  is_encrypted :: bool
  field_description :: string

definition hasAttribute :: "string list \<Rightarrow> string \<Rightarrow> bool" where
  "hasAttribute array attribute = (find (\<lambda>e. to_lower e = to_lower attribute) array \<noteq> None)"

definition optionableLabel :: "config_field \<Rightarrow> string" where
  "optionableLabel field =
    (if is_optional field \<and> field_type field \<noteq> ''boolean''
     then '' '' @ human_name field @ '' (optional)'' else human_name field)"

section \<open>Data URLs\<close>

definition data_url_end_ok :: "string \<Rightarrow> nat \<Rightarrow> bool" where
  "data_url_end_ok s i =
    (starts_with s ''data:'' \<and> take 8 (drop i s) = '';base64,''
     \<and> CHR ''/'' \<in> set (take (i - 7) (drop 6 s)))"

definition strip_data_url :: "string \<Rightarrow> string" where
  "strip_data_url s =
    (case find (data_url_end_ok s) (rev [0..<length s]) of
       Some i \<Rightarrow> drop (i + 8) s
     | None \<Rightarrow> s)"

section \<open>The upload field\<close>

datatype bin_value =
    BNull
  | BStr string
  | BObj (is_set: "bool nullish") (set_value: "string nullish") (delete_value: "bool nullish")

text \<open>The default \<open>value = {}\<close> of an absent prop.\<close>

fun value_prop :: "bin_value nullish \<Rightarrow> bin_value" where
  "value_prop (JVal v) = v"
| "value_prop JNull = BNull"
| "value_prop JUndef = BObj JUndef JUndef JUndef"

record binary_field =
  bf_field :: config_field
  bf_title :: string
  bf_typeName :: string
  bf_dirty :: bool
  bf_value :: bin_value
  fileName :: "string nullish"
  isResetted :: bool
  resettedFieldValue :: "bin_value nullish"

definition binary_mount ::
  "config_field \<Rightarrow> string \<Rightarrow> string \<Rightarrow> bool nullish \<Rightarrow> bin_value nullish \<Rightarrow> binary_field" where
  "binary_mount field title typeName dirty value =
    \<lparr>bf_field = field, bf_title = title, bf_typeName = typeName,
     bf_dirty = nullish_coalesce dirty False, bf_value = value_prop value,
     fileName = JUndef, isResetted = False, resettedFieldValue = JUndef\<rparr>"

definition isValuePresent :: "binary_field \<Rightarrow> bool" where
  "isValuePresent s =
    (if is_encrypted (bf_field s)
     then (case bf_value s of BObj iset _ _ \<Rightarrow> truthy_bool iset | _ \<Rightarrow> False)
     else (case bf_value s of BNull \<Rightarrow> False | BStr v \<Rightarrow> v \<noteq> [] | BObj _ _ _ \<Rightarrow> True))"

definition showReadOnly :: "binary_field \<Rightarrow> bool" where
  "showReadOnly s = (\<not> bf_dirty s \<and> isValuePresent s)"

definition fieldId :: "binary_field \<Rightarrow> string" where
  "fieldId s = bf_typeName s @ ''-'' @ bf_title s"

type_synonym change = "string \<times> bin_value nullish \<times> bool nullish"

datatype binary_event =
    FileRead string "string nullish"
  | Reset
  | UndoReset
  | Remove
  | NewProps "bool nullish" "bin_value nullish"

fun binary_handle :: "binary_field \<Rightarrow> binary_event \<Rightarrow> binary_field \<times> change list" where
  "binary_handle s (FileRead name dataUrl) =
    (if truthy_text dataUrl
     then (let dataString = strip_data_url (nullish_coalesce dataUrl [])
           in (s\<lparr>fileName := JVal name\<rparr>,
               [(bf_title s,
                 JVal (if is_encrypted (bf_field s) then BObj JUndef (JVal dataString) JUndef
                       else BStr dataString), JUndef)]))
     else (s, []))"
| "binary_handle s Reset =
    (if is_encrypted (bf_field s)
     then (s\<lparr>isResetted := True\<rparr>, [(bf_title s, JVal (BObj JUndef JUndef (JVal True)), JUndef)])
     else (s\<lparr>isResetted := True, resettedFieldValue := JVal (bf_value s)\<rparr>,
           [(bf_title s, JVal (BStr []), JUndef)]))"
| "binary_handle s UndoReset =
    (s\<lparr>isResetted := False, fileName := JUndef\<rparr>,
     [(bf_title s,
       if is_encrypted (bf_field s) then JVal (BObj (JVal True) JUndef JUndef)
       else resettedFieldValue s,
       JVal False)])"
| "binary_handle s Remove = (s\<lparr>fileName := JUndef\<rparr>, [(bf_title s, JVal (BStr []), JUndef)])"
| "binary_handle s (NewProps dirty value) =
    (s\<lparr>bf_dirty := nullish_coalesce dirty False, bf_value := value_prop value\<rparr>, [])"

text \<open>Which buttons and inputs the current render shows: the read-only input
  with its reset button (shown when a value is present), or the file input with
  the remove button (once a file is chosen) and the undo button (after a
  reset).\<close>

fun binary_enabled :: "binary_field \<Rightarrow> binary_event \<Rightarrow> bool" where
  "binary_enabled s Reset = (showReadOnly s \<and> isValuePresent s)"
| "binary_enabled s UndoReset = (\<not> showReadOnly s \<and> isResetted s)"
| "binary_enabled s Remove = (\<not> showReadOnly s \<and> truthy_text (fileName s))"
| "binary_enabled s (FileRead _ _) = (\<not> showReadOnly s \<and> \<not> truthy_text (fileName s))"
| "binary_enabled s (NewProps _ _) = True"

definition binary_dispatch :: "binary_field \<Rightarrow> binary_event \<Rightarrow> binary_field \<times> change list" where
  "binary_dispatch s e = (if binary_enabled s e then binary_handle s e else (s, []))"

fun binary_run :: "binary_field \<Rightarrow> binary_event list \<Rightarrow> binary_field \<times> change list" where
  "binary_run s [] = (s, [])"
| "binary_run s (e # es) =
    (let (s', out) = binary_dispatch s e; (t, out') = binary_run s' es in (t, out @ out'))"

datatype binary_view =
    ReadOnlyInput string string bool
  | FileNameInput string bool bool
  | FileInput bool

text \<open>The render: the read-only input (password type with the text "encrypted
  value" for an encrypted field, "uploaded file content" otherwise) with or
  without its reset button, or the chosen file's name with the remove and undo
  buttons, or the file picker with the undo button.\<close>

definition binary_view :: "binary_field \<Rightarrow> binary_view" where
  "binary_view s =
    (if showReadOnly s
     then (if is_encrypted (bf_field s) then ReadOnlyInput ''password'' ''encrypted value'' (isValuePresent s)
           else ReadOnlyInput ''text'' ''uploaded file content'' (isValuePresent s))
     else if truthy_text (fileName s)
     then FileNameInput (nullish_coalesce (fileName s) []) (truthy_text (fileName s)) (isResetted s)
     else FileInput (isResetted s))"

fun is_props :: "binary_event \<Rightarrow> bool" where
  "is_props (NewProps _ _) = True"
| "is_props _ = False"

definition sample_encrypted_field :: binary_field where
  "sample_encrypted_field =
     binary_mount \<lparr>field_type = ''inline_binary'', human_name = ''TLS certificate'', is_optional = False,
                   is_encrypted = True, field_description = []\<rparr> ''tls_cert'' ''input'' JUndef JUndef"

definition sample_plain_field :: binary_field where
  "sample_plain_field =
     binary_mount \<lparr>field_type = ''inline_binary'', human_name = ''Key'', is_optional = True,
                   is_encrypted = False, field_description = []\<rparr> ''key'' ''input'' JUndef
                  (JVal (BStr ''c2VjcmV0''))"

section \<open>Lemmas\<close>

lemma find_rev_upt_last:
  assumes "i < n" "P i" "\<And>k. i < k \<Longrightarrow> k < n \<Longrightarrow> \<not> P k"
  shows "find P (rev [0..<n]) = Some i"
  using assms
proof (induction n)
  case (Suc n)
  show ?case
  proof (cases "i = n")
    case False
    then have "i < n" using Suc.prems(1) by simp
    then show ?thesis using Suc by simp
  qed (use Suc in simp)
qed simp

lemma data_url_drop_marker:
  assumes "s = ''data:'' @ a @ ''/'' @ b @ '';base64,'' @ p"
  shows "drop (6 + length a + length b) s = '';base64,'' @ p"
proof -
  have "s = (''data:'' @ a @ ''/'' @ b) @ '';base64,'' @ p"
    using assms by simp
  moreover have "length (''data:'' @ a @ ''/'' @ b) = 6 + length a + length b"
    by simp
  ultimately show ?thesis by (metis append_eq_conv_conj)
qed

lemma data_url_end_ok_marker:
  assumes s: "s = ''data:'' @ a @ ''/'' @ b @ '';base64,'' @ p" and "a \<noteq> []" "b \<noteq> []"
  shows "data_url_end_ok s (6 + length a + length b)"
proof -
  have d6: "drop 6 s = tl a @ CHR ''/'' # b @ '';base64,'' @ p"
    using assms(2) unfolding s by (cases a) simp_all
  have "0 < length a" "0 < length b" using assms(2,3) by auto
  then have "length (tl a) < 6 + length a + length b - 7"
    unfolding length_tl by linarith
  then obtain k where k: "6 + length a + length b - 7 = Suc (length (tl a) + k)"
    by (rule less_imp_Suc_add [THEN exE])
  have "CHR ''/'' \<in> set (take (6 + length a + length b - 7) (drop 6 s))"
    unfolding k d6 by simp
  moreover have "starts_with s ''data:''"
    unfolding s by (rule starts_with_append)
  ultimately show ?thesis
    by (simp add: data_url_end_ok_def data_url_drop_marker [OF s])
qed

lemma data_url_end_ok_later:
  assumes s: "s = ''data:'' @ a @ ''/'' @ b @ '';base64,'' @ p"
    and "CHR '';'' \<notin> set p" "6 + length a + length b < k"
  shows "\<not> data_url_end_ok s k"
proof
  assume "data_url_end_ok s k"
  then have "CHR '';'' \<in> set (take 8 (drop k s))" by (simp add: data_url_end_ok_def)
  then have "CHR '';'' \<in> set (drop k s)" by (rule in_set_takeD)
  moreover have "set (drop k s) \<subseteq> set (drop (Suc (6 + length a + length b)) s)"
    using assms(3) by (simp add: set_drop_subset_set_drop)
  moreover have "drop (Suc (6 + length a + length b)) s = ''base64,'' @ p"
  proof -
    have "drop (Suc (6 + length a + length b)) s = drop 1 (drop (6 + length a + length b) s)"
      by (simp add: drop_drop)
    then show ?thesis by (simp add: data_url_drop_marker [OF s])
  qed
  ultimately show False using assms(2) by auto
qed

text \<open>C22: Stripping the data URL prefix of a file read as
  \<open>data:<type>/<subtype>;base64,<payload>\<close> gives the payload back, for
  non-empty type and subtype and a payload without a semicolon (every base64
  payload).\<close>

theorem strip_data_url_roundtrip:
  assumes "a \<noteq> []" "b \<noteq> []" "CHR '';'' \<notin> set p"
  shows "strip_data_url (''data:'' @ a @ ''/'' @ b @ '';base64,'' @ p) = p"
proof -
  define s where "s = ''data:'' @ a @ ''/'' @ b @ '';base64,'' @ p"
  define i where "i = 6 + length a + length b"
  have "find (data_url_end_ok s) (rev [0..<length s]) = Some i"
  proof (rule find_rev_upt_last)
    show "i < length s" by (simp add: s_def i_def)
    show "data_url_end_ok s i"
      unfolding i_def using s_def assms(1,2) by (rule data_url_end_ok_marker)
    show "\<not> data_url_end_ok s k" if "i < k" "k < length s" for k
      using s_def assms(3) that(1) unfolding i_def by (rule data_url_end_ok_later)
  qed
  moreover have "drop (i + 8) s = p"
  proof -
    have "drop (i + 8) s = drop 8 (drop i s)" by (simp add: add.commute)
    then show ?thesis unfolding i_def by (simp add: data_url_drop_marker [OF s_def])
  qed
  ultimately show ?thesis
    unfolding s_def[symmetric] by (simp add: strip_data_url_def)
qed

lemma binary_run_Cons_fst_snd:
  "fst (binary_run s (e # es)) = fst (binary_run (fst (binary_dispatch s e)) es)"
  "snd (binary_run s (e # es)) = snd (binary_dispatch s e) @ snd (binary_run (fst (binary_dispatch s e)) es)"
  by (simp_all split: prod.splits)

declare binary_run.simps(2) [simp del]

lemma binary_run_append_fst_snd:
  "fst (binary_run s (es @ fs)) = fst (binary_run (fst (binary_run s es)) fs)"
  "snd (binary_run s (es @ fs)) = snd (binary_run s es) @ snd (binary_run (fst (binary_run s es)) fs)"
  by (induction es arbitrary: s) (simp_all add: binary_run_Cons_fst_snd)

lemma binary_run_props:
  assumes "list_all is_props ps"
  shows "snd (binary_run s ps) = []
         \<and> bf_field (fst (binary_run s ps)) = bf_field s \<and> bf_title (fst (binary_run s ps)) = bf_title s
         \<and> isResetted (fst (binary_run s ps)) = isResetted s
         \<and> resettedFieldValue (fst (binary_run s ps)) = resettedFieldValue s"
  using assms
proof (induction ps arbitrary: s)
  case (Cons e ps)
  then show ?case
    by (cases e) (simp_all add: binary_dispatch_def binary_run_Cons_fst_snd)
qed simp

lemma binary_run_keeps_field:
  "bf_field (fst (binary_run s es)) = bf_field s \<and> bf_title (fst (binary_run s es)) = bf_title s"
proof (induction es arbitrary: s)
  case (Cons e es)
  have "bf_field (fst (binary_dispatch s e)) = bf_field s \<and> bf_title (fst (binary_dispatch s e)) = bf_title s"
    by (cases e) (simp_all add: binary_dispatch_def Let_def)
  then show ?case using Cons[of "fst (binary_dispatch s e)"]
    by (simp add: binary_run_Cons_fst_snd)
qed simp

text \<open>C23: On a plain (not encrypted) field, Reset followed by any number of
  prop updates from the form and then Undo Reset sends the empty string and then
  the value the field had when Reset was clicked, marked not dirty.\<close>

theorem binary_reset_undo:
  assumes "\<not> is_encrypted (bf_field s)" "showReadOnly s" "list_all is_props ps"
      and "\<not> showReadOnly (fst (binary_run (fst (binary_handle s Reset)) ps))"
  shows "snd (binary_run s (Reset # ps @ [UndoReset])) =
           [(bf_title s, JVal (BStr []), JUndef), (bf_title s, JVal (bf_value s), JVal False)]"
proof -
  let ?s1 = "fst (binary_handle s Reset)"
  let ?t = "fst (binary_run ?s1 ps)"
  have d: "binary_dispatch s Reset = binary_handle s Reset"
    using assms(2) by (simp add: binary_dispatch_def showReadOnly_def)
  have h: "binary_handle s Reset = (?s1, [(bf_title s, JVal (BStr []), JUndef)])"
          "isResetted ?s1" "resettedFieldValue ?s1 = JVal (bf_value s)"
          "bf_field ?s1 = bf_field s" "bf_title ?s1 = bf_title s"
    using assms(1) by simp_all
  have p: "snd (binary_run ?s1 ps) = []" "isResetted ?t" "resettedFieldValue ?t = JVal (bf_value s)"
          "bf_field ?t = bf_field s" "bf_title ?t = bf_title s"
    using binary_run_props[OF assms(3), of ?s1] h by simp_all
  have u: "binary_run ?t [UndoReset] =
             (fst (binary_handle ?t UndoReset), [(bf_title s, JVal (bf_value s), JVal False)])"
    using assms(1,4) p by (simp add: binary_dispatch_def binary_run.simps(2))
  show ?thesis
    using assms(1) d p(1) u by (simp add: binary_run_Cons_fst_snd binary_run_append_fst_snd)
qed

text \<open>C24: Every value an encrypted field sends to the form, on any event and
  in any state, is an \<open>EncryptedFieldValue\<close> object, except the value Remove
  sends, which is the plain empty string: Remove is the only event that sends
  the empty string.\<close>

theorem encrypted_changes_shape:
  assumes "is_encrypted (bf_field s)"
  shows "list_all (\<lambda>(t, v, d). t = bf_title s \<and>
            (if e = Remove then v = JVal (BStr []) else (\<exists>a b c. v = JVal (BObj a b c))))
           (snd (binary_dispatch s e))"
  using assms by (cases e) (simp_all add: binary_dispatch_def Let_def)

theorem encrypted_changes_shape_witness:
  "snd (binary_dispatch (fst (binary_dispatch sample_encrypted_field
          (FileRead ''cert.pem'' (JVal ''data:application/x-pem-file;base64,QUJD'')))) Remove)
     = [(''tls_cert'', JVal (BStr []), JUndef)]
   \<and> list_all (\<lambda>(t, v, d). t = ''tls_cert'' \<and> v = JVal (BStr []))
       (snd (binary_dispatch (fst (binary_dispatch sample_encrypted_field
          (FileRead ''cert.pem'' (JVal ''data:application/x-pem-file;base64,QUJD'')))) Remove))"
proof
  show "snd (binary_dispatch (fst (binary_dispatch sample_encrypted_field
          (FileRead ''cert.pem'' (JVal ''data:application/x-pem-file;base64,QUJD'')))) Remove)
     = [(''tls_cert'', JVal (BStr []), JUndef)]"
    by (simp add: sample_encrypted_field_def binary_mount_def binary_dispatch_def
                  showReadOnly_def isValuePresent_def strip_data_url_def data_url_end_ok_def js_simps)
  show "list_all (\<lambda>(t, v, d). t = ''tls_cert'' \<and> v = JVal (BStr []))
       (snd (binary_dispatch (fst (binary_dispatch sample_encrypted_field
          (FileRead ''cert.pem'' (JVal ''data:application/x-pem-file;base64,QUJD'')))) Remove))"
    using encrypted_changes_shape [of "fst (binary_dispatch sample_encrypted_field
          (FileRead ''cert.pem'' (JVal ''data:application/x-pem-file;base64,QUJD'')))" Remove]
    by (simp add: sample_encrypted_field_def binary_mount_def binary_dispatch_def
                  showReadOnly_def isValuePresent_def strip_data_url_def data_url_end_ok_def js_simps)
qed

theorem strip_data_url_roundtrip_witness:
  "strip_data_url ''data:application/x-pem-file;base64,QUJD'' = ''QUJD''"
  using strip_data_url_roundtrip[of "''application''" "''x-pem-file''" "''QUJD''"] by simp

theorem binary_reset_undo_witness:
  "snd (binary_run sample_plain_field [Reset, NewProps (JVal True) (JVal (BStr [])), UndoReset]) =
     [(''key'', JVal (BStr []), JUndef), (''key'', JVal (BStr ''c2VjcmV0''), JVal False)]"
proof -
  have "snd (binary_run sample_plain_field (Reset # [NewProps (JVal True) (JVal (BStr []))] @ [UndoReset])) =
     [(bf_title sample_plain_field, JVal (BStr []), JUndef),
      (bf_title sample_plain_field, JVal (bf_value sample_plain_field), JVal False)]"
    by (rule binary_reset_undo)
       (simp_all add: sample_plain_field_def binary_mount_def showReadOnly_def isValuePresent_def
                      binary_run.simps(2) binary_dispatch_def)
  then show ?thesis by (simp add: sample_plain_field_def binary_mount_def)
qed

end
