(* ===== verification/Extractors.thy ===== *)
theory Extractors
  imports Prelude "HOL-Library.AList"
begin

text \<open>
  The extractor configuration forms of
  \<open>src/graylog2-web-interface/src/components/extractors/\<close>: the date, flexible
  date and upper-case converter forms
  (\<open>converters_configuration/DateConverterConfiguration.tsx\<close>,
  \<open>FlexdateConverterConfiguration.tsx\<close>, \<open>UppercaseConverterConfiguration.tsx\<close>)
  and the regex-replace extractor form
  (\<open>extractors_configuration/RegexReplaceExtractorConfiguration.tsx\<close>).

  None of these forms copies its configuration: \<open>_onChange\<close> writes the new
  value into the object \<open>this.props.configuration\<close> it received and hands the
  same object on. The objects therefore live in an explicit store, a map from
  addresses to configuration objects (association lists, written with
  \<open>AList.update\<close> as a property assignment is), and the props hold the address.
  A converter object \<open>{type, config}\<close> is the type and the address of its
  configuration. \<open>getValueFromInput\<close> (\<open>util/FormsUtils\<close>, outside the
  sources) is the value an event carries; \<open>typeof data === 'object'\<close> holds for
  an event and for \<open>null\<close>, where reading \<open>data.target\<close> throws.

  The regex-replace form also has a \<open>trying\<close> flag and sends the test request
  of \<open>ToolsStore.testRegexReplace\<close>; the model counts the requests still
  outstanding, and the settling of a request (the \<open>then\<close> callback followed by
  \<open>finally\<close>, or \<open>finally\<close> alone when it fails) is an event that only an
  outstanding request can produce.
\<close>

section \<open>The configuration store\<close>

datatype cfg_value = CStr string | CBool bool | CNull

type_synonym config_obj = "(string \<times> cfg_value) list"
type_synonym addr = nat
type_synonym store = "addr \<Rightarrow> config_obj"

text \<open>\<open>obj[key] = v\<close> on the object at address \<open>a\<close>.\<close>

definition store_set :: "store \<Rightarrow> addr \<Rightarrow> string \<Rightarrow> cfg_value \<Rightarrow> store" where
  "store_set st a key v = st(a := AList.update key v (st a))"

text \<open>Truthiness of a property read \<open>obj.key\<close>.\<close>

fun cfg_truthy :: "cfg_value option \<Rightarrow> bool" where
  "cfg_truthy (Some (CStr s)) = (s \<noteq> [])"
| "cfg_truthy (Some (CBool b)) = b"
| "cfg_truthy (Some CNull) = False"
| "cfg_truthy None = False"

section \<open>Converter forms\<close>

datatype conv_kind = DateConverter | FlexdateConverter | UppercaseConverter

text \<open>The configuration keys each form renders an input for (besides the
  enabling checkbox).\<close>

definition DateConverter_fields :: "string list" where
  "DateConverter_fields = [''date_format'', ''time_zone'', ''locale'']"

definition FlexdateConverter_fields :: "string list" where
  "FlexdateConverter_fields = [''time_zone'']"

definition UppercaseConverter_fields :: "string list" where
  "UppercaseConverter_fields = []"

fun conv_fields :: "conv_kind \<Rightarrow> string list" where
  "conv_fields DateConverter = DateConverter_fields"
| "conv_fields FlexdateConverter = FlexdateConverter_fields"
| "conv_fields UppercaseConverter = UppercaseConverter_fields"

record conv_props =
  conv_type :: string
  conv_config :: addr

type_synonym converter = "string \<times> addr"

definition getConverterObject :: "conv_props \<Rightarrow> addr option \<Rightarrow> converter" where
  "getConverterObject p configuration =
    (conv_type p, case configuration of Some a \<Rightarrow> a | None \<Rightarrow> conv_config p)"

datatype conv_out = ConvChange string "converter option" | ConvThrows js_error

datatype change_data = DEvent cfg_value | DValue cfg_value | DNull

datatype conv_event = Toggle bool | FieldChange string change_data

definition conv_mount :: "conv_props \<Rightarrow> conv_out list" where
  "conv_mount p = [ConvChange (conv_type p) (Some (getConverterObject p None))]"

fun conv_handle :: "conv_props \<Rightarrow> store \<Rightarrow> conv_event \<Rightarrow> store \<times> conv_out list" where
  "conv_handle p st (Toggle checked) =
    (st, [ConvChange (conv_type p) (if checked then Some (getConverterObject p None) else None)])"
| "conv_handle p st (FieldChange key data) =
    (case data of
       DNull \<Rightarrow> (st, [ConvThrows TypeError])
     | DEvent v \<Rightarrow> (store_set st (conv_config p) key v,
                   [ConvChange (conv_type p) (Some (getConverterObject p (Some (conv_config p))))])
     | DValue v \<Rightarrow> (store_set st (conv_config p) key v,
                   [ConvChange (conv_type p) (Some (getConverterObject p (Some (conv_config p))))]))"

text \<open>An input the form does not render fires no event.\<close>

fun conv_enabled :: "conv_kind \<Rightarrow> conv_event \<Rightarrow> bool" where
  "conv_enabled k (Toggle _) = True"
| "conv_enabled k (FieldChange key _) = (key \<in> set (conv_fields k))"

fun conv_run :: "conv_kind \<Rightarrow> conv_props \<Rightarrow> store \<Rightarrow> conv_event list \<Rightarrow> store \<times> conv_out list" where
  "conv_run k p st [] = (st, [])"
| "conv_run k p st (e # es) =
    (let (st', out) = (if conv_enabled k e then conv_handle p st e else (st, []));
         (st'', out') = conv_run k p st' es
     in (st'', out @ out'))"

text \<open>Mounting the form and then handling the events.\<close>

definition conv_session :: "conv_kind \<Rightarrow> conv_props \<Rightarrow> store \<Rightarrow> conv_event list \<Rightarrow> store \<times> conv_out list" where
  "conv_session k p st es = (let (st', out) = conv_run k p st es in (st', conv_mount p @ out))"

section \<open>The regex-replace form\<close>

record regex_state =
  rr_config :: addr
  exampleMessage :: "string nullish"
  trying :: bool
  outstanding :: nat

datatype preview = PUndef | PSamp string | PEmpty

record regex_match =
  match_text :: "string nullish"

record test_result =
  matched :: bool
  result_match :: "regex_match nullish"

datatype regex_out =
    PreviewLoad preview
  | ConfigChanged addr
  | Warning string
  | TestRequest "cfg_value option" "cfg_value option" "cfg_value option" "string nullish"

datatype regex_event = RChange string cfg_value | RTry | RResolved test_result | RRejected

definition regex_init :: "addr \<Rightarrow> string nullish \<Rightarrow> regex_state" where
  "regex_init a msg = \<lparr>rr_config = a, exampleMessage = msg, trying = False, outstanding = 0\<rparr>"

definition isTryButtonDisabled :: "store \<Rightarrow> regex_state \<Rightarrow> bool" where
  "isTryButtonDisabled st s =
    (trying s \<or> \<not> cfg_truthy (map_of (st (rr_config s)) ''regex'')
     \<or> \<not> cfg_truthy (map_of (st (rr_config s)) ''replacement'')
     \<or> \<not> truthy_text (exampleMessage s))"

text \<open>The \<open>then\<close> callback of the test request.\<close>

definition try_result :: "test_result \<Rightarrow> regex_out list" where
  "try_result r =
    (if \<not> matched r then [Warning ''Regular expression did not match.'']
     else case result_match r of
       JVal m \<Rightarrow> [PreviewLoad (if truthy_text (match_text m)
                              then PSamp (nullish_coalesce (match_text m) []) else PEmpty)]
     | _ \<Rightarrow> [Warning ''Regular expression does not contain any matcher group to extract.''])"

fun regex_handle :: "store \<Rightarrow> regex_state \<Rightarrow> regex_event \<Rightarrow> store \<times> regex_state \<times> regex_out list" where
  "regex_handle st s (RChange key v) =
    (store_set st (rr_config s) key v, s, [PreviewLoad PUndef, ConfigChanged (rr_config s)])"
| "regex_handle st s RTry =
    (st, s\<lparr>trying := True, outstanding := Suc (outstanding s)\<rparr>,
     [TestRequest (map_of (st (rr_config s)) ''regex'') (map_of (st (rr_config s)) ''replacement'')
                  (map_of (st (rr_config s)) ''replace_all'') (exampleMessage s)])"
| "regex_handle st s (RResolved r) =
    (st, s\<lparr>trying := False, outstanding := outstanding s - 1\<rparr>, try_result r)"
| "regex_handle st s RRejected =
    (st, s\<lparr>trying := False, outstanding := outstanding s - 1\<rparr>, [])"

text \<open>The regex, replacement and replace-all inputs exist; the Try button is
  clickable when not disabled; only an outstanding request settles.\<close>

fun regex_enabled :: "store \<Rightarrow> regex_state \<Rightarrow> regex_event \<Rightarrow> bool" where
  "regex_enabled st s (RChange key _) = (key \<in> {''regex'', ''replacement'', ''replace_all''})"
| "regex_enabled st s RTry = (\<not> isTryButtonDisabled st s)"
| "regex_enabled st s (RResolved _) = (0 < outstanding s)"
| "regex_enabled st s RRejected = (0 < outstanding s)"

inductive regex_reach :: "store \<Rightarrow> regex_state \<Rightarrow> bool" where
  init: "regex_reach st (regex_init a msg)"
| step: "regex_reach st s \<Longrightarrow> regex_enabled st s e \<Longrightarrow> regex_handle st s e = (st', s', out)
         \<Longrightarrow> regex_reach st' s'"

text \<open>The configuration writes an event of a converter form performs.\<close>

fun conv_update_of :: "conv_kind \<Rightarrow> conv_event \<Rightarrow> (string \<times> cfg_value) list" where
  "conv_update_of k (FieldChange key (DEvent v)) = (if key \<in> set (conv_fields k) then [(key, v)] else [])"
| "conv_update_of k (FieldChange key (DValue v)) = (if key \<in> set (conv_fields k) then [(key, v)] else [])"
| "conv_update_of k _ = []"

definition sample_conv :: conv_props where
  "sample_conv = \<lparr>conv_type = ''date'', conv_config = 1\<rparr>"

definition sample_store :: store where
  "sample_store = (\<lambda>a. if a = 1 then [(''date_format'', CStr ''yyyy-MM-dd'')]
                       else [(''regex'', CStr ''^(.+)$''), (''replacement'', CStr ''$1'')])"

section \<open>Lemmas\<close>

lemma conv_run_Cons_fst_snd:
  "fst (conv_run k p st (e # es)) =
     fst (conv_run k p (fst (if conv_enabled k e then conv_handle p st e else (st, []))) es)"
  "snd (conv_run k p st (e # es)) =
     snd (if conv_enabled k e then conv_handle p st e else (st, [])) @
     snd (conv_run k p (fst (if conv_enabled k e then conv_handle p st e else (st, []))) es)"
  by (simp_all split: prod.splits)

declare conv_run.simps(2) [simp del]

lemma conv_session_fst_snd:
  "fst (conv_session k p st es) = fst (conv_run k p st es)"
  "snd (conv_session k p st es) = conv_mount p @ snd (conv_run k p st es)"
  by (simp_all add: conv_session_def split: prod.splits)

lemma conv_step_shape:
  "list_all (\<lambda>x. case x of ConvChange t c \<Rightarrow> t = conv_type p \<and> (c = None \<or> c = Some (conv_type p, conv_config p))
                        | ConvThrows e \<Rightarrow> e = TypeError)
     (snd (if conv_enabled k e then conv_handle p st e else (st, [])))
   \<and> (\<forall>b. b \<noteq> conv_config p \<longrightarrow> fst (if conv_enabled k e then conv_handle p st e else (st, [])) b = st b)
   \<and> fst (if conv_enabled k e then conv_handle p st e else (st, [])) (conv_config p)
       = foldl (\<lambda>c (key, v). AList.update key v c) (st (conv_config p)) (conv_update_of k e)"
proof (cases e)
  case (FieldChange key d)
  then show ?thesis by (cases d) (auto simp: getConverterObject_def store_set_def)
qed (auto simp: getConverterObject_def)

text \<open>C25: A converter form writes only into the configuration object it was
  given, every converter object it reports is that same object under the form's
  type (or \<open>undefined\<close> when the converter is switched off), and the only
  failure is the TypeError of a \<open>null\<close> change.\<close>

theorem conv_session_aliasing:
  "list_all (\<lambda>x. case x of ConvChange t c \<Rightarrow> t = conv_type p \<and> (c = None \<or> c = Some (conv_type p, conv_config p))
                        | ConvThrows e \<Rightarrow> e = TypeError)
     (snd (conv_session k p st es))
   \<and> (\<forall>b. b \<noteq> conv_config p \<longrightarrow> fst (conv_session k p st es) b = st b)"
proof -
  have "list_all (\<lambda>x. case x of ConvChange t c \<Rightarrow> t = conv_type p \<and> (c = None \<or> c = Some (conv_type p, conv_config p))
                        | ConvThrows e \<Rightarrow> e = TypeError) (snd (conv_run k p st es))
        \<and> (\<forall>b. b \<noteq> conv_config p \<longrightarrow> fst (conv_run k p st es) b = st b)"
  proof (induction es arbitrary: st)
    case (Cons e es)
    then show ?case using conv_step_shape[where p=p and k=k and e=e and st=st] by (auto simp: conv_run_Cons_fst_snd)
  qed simp
  then show ?thesis
    by (simp add: conv_session_fst_snd conv_mount_def getConverterObject_def)
qed

text \<open>C26: The converter reported at mount is the props' configuration object
  itself, so through the store it shows the configuration after every later
  change, applied in order as property assignments.\<close>

theorem conv_mount_sees_changes:
  "hd (snd (conv_session k p st es)) = ConvChange (conv_type p) (Some (conv_type p, conv_config p))
   \<and> fst (conv_session k p st es) (conv_config p)
       = foldl (\<lambda>c (key, v). AList.update key v c) (st (conv_config p)) (concat (map (conv_update_of k) es))"
proof -
  have "fst (conv_run k p st es) (conv_config p)
       = foldl (\<lambda>c (key, v). AList.update key v c) (st (conv_config p)) (concat (map (conv_update_of k) es))"
  proof (induction es arbitrary: st)
    case (Cons e es)
    have "fst (conv_run k p st (e # es)) (conv_config p)
          = foldl (\<lambda>c (key, v). AList.update key v c)
              (fst (if conv_enabled k e then conv_handle p st e else (st, [])) (conv_config p))
              (concat (map (conv_update_of k) es))"
      using Cons[of "fst (if conv_enabled k e then conv_handle p st e else (st, []))"]
      by (simp add: conv_run_Cons_fst_snd)
    then show ?case
      using conv_step_shape[where p=p and k=k and e=e and st=st] by simp
  qed simp
  then show ?thesis
    by (simp add: conv_session_fst_snd conv_mount_def getConverterObject_def)
qed

text \<open>C27: In every reachable state of the regex-replace form at most one test
  request is outstanding, and the Try button shows the spinner (is disabled by
  \<open>trying\<close>) exactly while one is.\<close>

theorem regex_reach_inv:
  "regex_reach st s \<Longrightarrow> outstanding s \<le> 1 \<and> (trying s \<longleftrightarrow> outstanding s = 1)"
proof (induction rule: regex_reach.induct)
  case (init st a msg)
  then show ?case by (simp add: regex_init_def)
next
  case (step st s e st' s' out)
  then show ?case
    by (cases e) (auto simp: isTryButtonDisabled_def)
qed

theorem conv_session_aliasing_witness:
  "fst (conv_session DateConverter sample_conv sample_store
          [FieldChange ''locale'' (DValue (CStr ''de-DE'')), FieldChange ''time_zone'' DNull, Toggle False]) 0
   = sample_store 0"
  by (rule conv_session_aliasing [THEN conjunct2, rule_format]) (simp add: sample_conv_def)

theorem regex_reach_inv_witness:
  "outstanding (fst (snd (regex_handle sample_store (regex_init 0 (JVal ''GET /'')) RTry))) \<le> 1
   \<and> (trying (fst (snd (regex_handle sample_store (regex_init 0 (JVal ''GET /'')) RTry)))
        \<longleftrightarrow> outstanding (fst (snd (regex_handle sample_store (regex_init 0 (JVal ''GET /'')) RTry))) = 1)"
proof (rule regex_reach_inv)
  show "regex_reach sample_store (fst (snd (regex_handle sample_store (regex_init 0 (JVal ''GET /'')) RTry)))"
  proof (rule regex_reach.step [OF regex_reach.init])
    show "regex_enabled sample_store (regex_init 0 (JVal ''GET /'')) RTry"
      by (simp add: isTryButtonDisabled_def regex_init_def sample_store_def)
    show "regex_handle sample_store (regex_init 0 (JVal ''GET /'')) RTry =
          (sample_store, fst (snd (regex_handle sample_store (regex_init 0 (JVal ''GET /'')) RTry)),
           snd (snd (regex_handle sample_store (regex_init 0 (JVal ''GET /'')) RTry)))"
      by simp
  qed
qed

end
