(* ===== verification/ShardMeter.thy ===== *)
theory ShardMeter
  imports Prelude
begin

text \<open>
  The shard statistics of the index pages,
  \<open>src/graylog2-web-interface/src/components/indices/ShardMeter.tsx\<close>. The
  component renders seven meters of an index shard (index, flush, merge, query,
  fetch, get, refresh), each through the inner component \<open>Meter\<close>.

  React calls a function component with one argument, the props object: the
  element \<open><Meter meter={m} /> \<close> calls \<open>Meter({meter: m})\<close>. \<open>Meter\<close> is
  declared as \<open>(meter) => ...\<close>, so its parameter is that props object, and
  \<open>meter.total\<close> and \<open>meter.time_seconds\<close> read properties the props object
  does not have. The model therefore keeps JavaScript values as values
  (\<open>jsv\<close>: numbers, \<open>undefined\<close> and objects as association lists), property
  reads as \<open>get_prop\<close> (\<open>undefined\<close> for a missing key, a TypeError on
  \<open>undefined\<close>), and the element as the call with the props object.
  \<open>numeral(x).format('0,0')\<close> and \<open>moment.duration(...).humanize()\<close> are
  library calls and parameters of the model.
\<close>

datatype jsv = JNum js_number | JUnd | JObj "(string \<times> jsv) list"

fun get_prop :: "jsv \<Rightarrow> string \<Rightarrow> js_error + jsv" where
  "get_prop (JObj kvs) k = Inr (case map_of kvs k of Some v \<Rightarrow> v | None \<Rightarrow> JUnd)"
| "get_prop (JNum _) k = Inr JUnd"
| "get_prop JUnd k = Inl TypeError"

text \<open>\<open>x > 0\<close>: \<open>undefined\<close> and objects compare as \<open>NaN\<close>.\<close>

fun js_positive :: "jsv \<Rightarrow> bool" where
  "js_positive (JNum n) = (0 < n)"
| "js_positive _ = False"

datatype meter_view = MeterPlain string | MeterTimed string jsv string

definition Meter ::
  "(jsv \<Rightarrow> string) \<Rightarrow> (jsv \<Rightarrow> string) \<Rightarrow> jsv \<Rightarrow> js_error + meter_view" where
  "Meter fmt humanize meter =
    (case get_prop meter ''total'' of
       Inl e \<Rightarrow> Inl e
     | Inr tot \<Rightarrow>
         (let value = fmt tot in
          if js_positive tot
          then (case get_prop meter ''time_seconds'' of
                  Inl e \<Rightarrow> Inl e
                | Inr t \<Rightarrow> Inr (MeterTimed value t (humanize t)))
          else Inr (MeterPlain value)))"

text \<open>The seven rows: label and key of \<open>shardMeter\<close>.\<close>

definition meter_rows :: "(string \<times> string) list" where
  "meter_rows = [(''Index:'', ''index''), (''Flush:'', ''flush''), (''Merge:'', ''merge''),
                 (''Query:'', ''search_query''), (''Fetch:'', ''search_fetch''), (''Get:'', ''get''),
                 (''Refresh:'', ''refresh'')]"

text \<open>\<open><Meter meter={shardMeter.key} /> \<close>: read the key, then call \<open>Meter\<close>
  with the props object.\<close>

definition meter_element ::
  "(jsv \<Rightarrow> string) \<Rightarrow> (jsv \<Rightarrow> string) \<Rightarrow> jsv \<Rightarrow> string \<Rightarrow> js_error + meter_view" where
  "meter_element fmt humanize shardMeter key =
    (case get_prop shardMeter key of
       Inl e \<Rightarrow> Inl e
     | Inr m \<Rightarrow> Meter fmt humanize (JObj [(''meter'', m)]))"

fun collect_rows :: "(string \<times> (js_error + meter_view)) list \<Rightarrow> js_error + (string \<times> meter_view) list" where
  "collect_rows [] = Inr []"
| "collect_rows ((l, Inl e) # rs) = Inl e"
| "collect_rows ((l, Inr v) # rs) =
    (case collect_rows rs of Inl e \<Rightarrow> Inl e | Inr vs \<Rightarrow> Inr ((l, v) # vs))"

definition ShardMeter ::
  "(jsv \<Rightarrow> string) \<Rightarrow> (jsv \<Rightarrow> string) \<Rightarrow> jsv \<Rightarrow> string \<Rightarrow> js_error + string \<times> (string \<times> meter_view) list" where
  "ShardMeter fmt humanize shardMeter title =
    (case collect_rows (map (\<lambda>(l, k). (l, meter_element fmt humanize shardMeter k)) meter_rows) of
       Inl e \<Rightarrow> Inl e
     | Inr rows \<Rightarrow> Inr (title, rows))"

section \<open>Lemmas\<close>

lemma Meter_of_props: "Meter fmt humanize (JObj [(''meter'', m)]) = Inr (MeterPlain (fmt JUnd))"
  by (simp add: Meter_def)

text \<open>C28: Whatever the shard statistics are, ShardMeter renders every one of
  its seven meters as the formatted \<open>undefined\<close> with no timing: \<open>Meter\<close> reads
  \<open>total\<close> from its props object instead of from the meter.\<close>

theorem ShardMeter_ignores_values:
  "ShardMeter fmt humanize (JObj kvs) title =
     Inr (title, map (\<lambda>(l, k). (l, MeterPlain (fmt JUnd))) meter_rows)"
  by (simp add: ShardMeter_def meter_rows_def meter_element_def Meter_of_props)

end
