(* ===== verification/EventDefinitionForm.thy ===== *)
theory EventDefinitionForm
  imports Telemetry
begin

text \<open>
  The wizard of the event definition form,
  \<open>src/graylog2-web-interface/src/components/event-definitions/event-definition-form/EventDefinitionForm.tsx\<close>.
  The form lists its steps by key (\<open>getStepKeys\<close>: a Share step only when a
  definition is created), titles them, and moves between them on a click of a
  step, Previous or Next; every move first sends a telemetry event named from
  \<open>TELEMETRY_EVENT_TYPE\<close> (the \<open>Telemetry\<close> theory) and then calls
  \<open>onChangeStep\<close>.

  Property reads of the constant table are \<open>telemetry_get\<close> along the key path,
  \<open>undefined\<close> being \<open>None\<close>. \<open>Array.prototype.indexOf\<close> returns \<open>-1\<close> for an
  absent element and an array read \<open>xs[i]\<close> outside the array gives
  \<open>undefined\<close>; both are \<open>int\<close>-indexed here (\<open>indexOf\<close>, \<open>js_at\<close>). The plugin
  registry of condition types (\<open>PluginStore.exports('eventDefinitionTypes')\<close>)
  is an argument; the step components are not modelled.
\<close>

section \<open>Arrays indexed by JavaScript numbers\<close>

fun indexOf :: "'a list \<Rightarrow> 'a \<Rightarrow> int" where
  "indexOf [] x = -1"
| "indexOf (y # ys) x = (if y = x then 0 else (let i = indexOf ys x in if i < 0 then -1 else i + 1))"

definition js_at :: "'a list \<Rightarrow> int \<Rightarrow> 'a option" where
  "js_at xs i = (if 0 \<le> i \<and> nat i < length xs then Some (xs ! nat i) else None)"

section \<open>Steps\<close>

definition getStepKeys :: "bool \<Rightarrow> string list" where
  "getStepKeys isNew =
    [''event-details'', ''condition'', ''fields'', ''notifications'']
    @ (if isNew then [''Share''] else []) @ [''summary'']"

definition STEP_TELEMETRY_KEYS :: "string option list" where
  "STEP_TELEMETRY_KEYS =
    [telemetry_get [''EVENTDEFINITION_DETAILS'', ''STEP_CLICKED''],
     telemetry_get [''EVENTDEFINITION_CONDITION'', ''STEP_CLICKED''],
     telemetry_get [''EVENTDEFINITION_FIELDS'', ''STEP_CLICKED''],
     telemetry_get [''EVENTDEFINITION_NOTIFICATIONS'', ''STEP_CLICKED''],
     telemetry_get [''EVENTDEFINITION_SUMMARY'', ''STEP_CLICKED'']]"

text \<open>A registered condition type: its \<open>type\<close> and \<open>displayName\<close>.\<close>

record condition_plugin =
  plugin_type :: string
  displayName :: "string nullish"

text \<open>\<open>getConditionPlugin\<close>: \<open>{displayName: null}\<close> without a type, the
  registered plugin of the type, or \<open>{}\<close> (also for a \<open>null\<close> type, which no
  registered type equals); only its \<open>displayName\<close> is read.\<close>

definition getConditionPlugin :: "condition_plugin list \<Rightarrow> string nullish \<Rightarrow> string nullish" where
  "getConditionPlugin plugins type =
    (case type of
       JUndef \<Rightarrow> JNull
     | JNull \<Rightarrow> JUndef
     | JVal t \<Rightarrow> (case find (\<lambda>p. plugin_type p = t) plugins of Some p \<Rightarrow> displayName p | None \<Rightarrow> JUndef))"

record step =
  step_key :: "string option"
  step_title :: string

definition form_steps :: "condition_plugin list \<Rightarrow> string nullish \<Rightarrow> bool \<Rightarrow> step list" where
  "form_steps plugins conditionType isNew =
    (let keys = getStepKeys isNew in
     [\<lparr>step_key = js_at keys 0, step_title = ''Event Details''\<rparr>,
      \<lparr>step_key = js_at keys 1,
       step_title = nullish_coalesce (getConditionPlugin plugins conditionType) ''Condition''\<rparr>,
      \<lparr>step_key = js_at keys 2, step_title = ''Fields''\<rparr>,
      \<lparr>step_key = js_at keys 3, step_title = ''Notifications''\<rparr>]
     @ (if isNew then [\<lparr>step_key = js_at keys 4, step_title = ''Share''\<rparr>] else [])
     @ [\<lparr>step_key = js_at keys (int (length keys) - 1), step_title = ''Summary''\<rparr>])"

definition canEditCondition :: "bool \<Rightarrow> string \<Rightarrow> bool" where
  "canEditCondition canEdit scope = (canEdit \<or> to_upper scope = ''ILLUMINATE'')"

section \<open>Moving between steps\<close>

text \<open>What a move sends: the telemetry event's name (\<open>None\<close> for
  \<open>undefined\<close>), the section, the action value and the current step's title,
  then the step handed to \<open>onChangeStep\<close>.\<close>

record telemetry_call =
  tc_event :: "string option"
  tc_section :: string
  tc_action_value :: string
  tc_current_step :: "string option"

record form_props =
  fp_isNew :: bool
  fp_activeStep :: string
  fp_plugins :: "condition_plugin list"
  fp_conditionType :: "string nullish"

definition app_section :: "form_props \<Rightarrow> string" where
  "app_section p = (if fp_isNew p then ''new-event-definition'' else ''edit-event-definition'')"

definition activeStepIndex :: "form_props \<Rightarrow> int" where
  "activeStepIndex p = indexOf (getStepKeys (fp_isNew p)) (fp_activeStep p)"

definition current_step_title :: "form_props \<Rightarrow> string option" where
  "current_step_title p =
    map_option step_title (js_at (form_steps (fp_plugins p) (fp_conditionType p) (fp_isNew p)) (activeStepIndex p))"

definition handleStepChange :: "form_props \<Rightarrow> string \<Rightarrow> telemetry_call \<times> string option" where
  "handleStepChange p nextStep =
    (\<lparr>tc_event = Option.bind (js_at STEP_TELEMETRY_KEYS (indexOf (getStepKeys (fp_isNew p)) nextStep)) id,
      tc_section = app_section p, tc_action_value = ''event-definition-step'',
      tc_current_step = current_step_title p\<rparr>,
     Some nextStep)"

definition openPrevPage :: "form_props \<Rightarrow> telemetry_call \<times> string option" where
  "openPrevPage p =
    (\<lparr>tc_event = telemetry_get [''EVENTDEFINITION_PREVIOUS_CLICKED''],
      tc_section = app_section p, tc_action_value = ''previous-button'',
      tc_current_step = current_step_title p\<rparr>,
     if activeStepIndex p > 0 then js_at (getStepKeys (fp_isNew p)) (activeStepIndex p - 1) else None)"

definition openNextPage :: "form_props \<Rightarrow> telemetry_call \<times> string option" where
  "openNextPage p =
    (\<lparr>tc_event = telemetry_get [''EVENTDEFINITION_NEXT_CLICKED''],
      tc_section = app_section p, tc_action_value = ''next-button'',
      tc_current_step = current_step_title p\<rparr>,
     js_at (getStepKeys (fp_isNew p)) (activeStepIndex p + 1))"

section \<open>Lemmas\<close>

lemma indexOf_nth: "distinct xs \<Longrightarrow> i < length xs \<Longrightarrow> indexOf xs (xs ! i) = int i"
proof (induction xs arbitrary: i)
  case Nil
  then show ?case by simp
next
  case (Cons y ys)
  then show ?case
    by (cases i) (auto simp: Let_def nth_mem)
qed

lemma indexOf_notin: "x \<notin> set xs \<Longrightarrow> indexOf xs x = -1"
  by (induction xs) (auto simp: Let_def)

lemma indexOf_range: "-1 \<le> indexOf xs x \<and> indexOf xs x < int (length xs)"
  by (induction xs) (auto simp: Let_def)

lemma distinct_getStepKeys: "distinct (getStepKeys b)"
  by (simp add: getStepKeys_def)

lemma js_at_Some_iff: "js_at xs i = Some k \<longleftrightarrow> 0 \<le> i \<and> nat i < length xs \<and> k = xs ! nat i"
  by (auto simp: js_at_def)

lemma STEP_TELEMETRY_KEYS_eval:
  "STEP_TELEMETRY_KEYS =
    [Some ''EventDefinition Details Step Clicked'', Some ''EventDefinition Condition Step Clicked'',
     Some ''EventDefinition Fields Step Clicked'', Some ''EventDefinition Notifications Step Clicked'',
     Some ''EventDefinition Summary Step Clicked'']"
  by (simp add: STEP_TELEMETRY_KEYS_def telemetry_get_def TELEMETRY_EVENT_TYPE_def
     TELEMETRY_EVENTDEFINITION_DETAILS_def TELEMETRY_EVENTDEFINITION_CONDITION_def
     TELEMETRY_EVENTDEFINITION_FIELDS_def TELEMETRY_EVENTDEFINITION_NOTIFICATIONS_def
     TELEMETRY_EVENTDEFINITION_SUMMARY_def)

lemma step_event_nth:
  "i < length (getStepKeys (fp_isNew p)) \<Longrightarrow>
   tc_event (fst (handleStepChange p (getStepKeys (fp_isNew p) ! i))) = Option.bind (js_at STEP_TELEMETRY_KEYS (int i)) id"
  by (simp add: handleStepChange_def indexOf_nth distinct_getStepKeys)

text \<open>C29: Clicking a step of the wizard sends that step's STEP_CLICKED event
  when a definition is edited; when one is created, clicking Share sends the
  Summary step's event and clicking Summary sends an undefined event name,
  because STEP_TELEMETRY_KEYS has no entry for Share.\<close>

theorem step_telemetry_events:
  "map (\<lambda>k. tc_event (fst (handleStepChange p k))) (getStepKeys (fp_isNew p)) =
    [Some ''EventDefinition Details Step Clicked'', Some ''EventDefinition Condition Step Clicked'',
     Some ''EventDefinition Fields Step Clicked'', Some ''EventDefinition Notifications Step Clicked'']
    @ (if fp_isNew p then [Some ''EventDefinition Summary Step Clicked'', None]
       else [Some ''EventDefinition Summary Step Clicked''])"
proof -
  have "map (\<lambda>k. tc_event (fst (handleStepChange p k))) (getStepKeys (fp_isNew p)) =
        map (\<lambda>i. Option.bind (js_at STEP_TELEMETRY_KEYS (int i)) id) [0..<length (getStepKeys (fp_isNew p))]"
    by (rule nth_equalityI) (simp_all add: step_event_nth)
  then show ?thesis
    by (simp add: getStepKeys_def STEP_TELEMETRY_KEYS_eval js_at_def upt_rec)
qed

lemma openNextPage_nth:
  "i < length (getStepKeys (fp_isNew p)) \<Longrightarrow> fp_activeStep p = getStepKeys (fp_isNew p) ! i \<Longrightarrow>
   snd (openNextPage p) = (if Suc i < length (getStepKeys (fp_isNew p)) then Some (getStepKeys (fp_isNew p) ! Suc i) else None)"
  by (simp add: openNextPage_def activeStepIndex_def indexOf_nth distinct_getStepKeys js_at_def nat_add_distrib)

lemma openPrevPage_nth:
  "i < length (getStepKeys (fp_isNew p)) \<Longrightarrow> fp_activeStep p = getStepKeys (fp_isNew p) ! i \<Longrightarrow>
   snd (openPrevPage p) = (if 0 < i then Some (getStepKeys (fp_isNew p) ! (i - 1)) else None)"
  by (simp add: openPrevPage_def activeStepIndex_def indexOf_nth distinct_getStepKeys js_at_def nat_diff_distrib of_nat_diff less_imp_diff_less)

text \<open>C30: On the i-th step of the wizard, Next hands the following step to
  onChangeStep and Previous the preceding one, and each hands undefined at its
  end of the wizard; both send their telemetry event with the title of the
  step being left.\<close>

theorem wizard_prev_next:
  assumes "i < length (getStepKeys (fp_isNew p))" and "fp_activeStep p = getStepKeys (fp_isNew p) ! i"
  shows "openNextPage p =
           (\<lparr>tc_event = Some ''EventDefinition Next Clicked'', tc_section = app_section p,
             tc_action_value = ''next-button'', tc_current_step = current_step_title p\<rparr>,
            if Suc i < length (getStepKeys (fp_isNew p)) then Some (getStepKeys (fp_isNew p) ! Suc i) else None)
       \<and> openPrevPage p =
           (\<lparr>tc_event = Some ''EventDefinition Previous Clicked'', tc_section = app_section p,
             tc_action_value = ''previous-button'', tc_current_step = current_step_title p\<rparr>,
            if 0 < i then Some (getStepKeys (fp_isNew p) ! (i - 1)) else None)"
proof -
  have "telemetry_get [''EVENTDEFINITION_NEXT_CLICKED''] = Some ''EventDefinition Next Clicked''"
    and "telemetry_get [''EVENTDEFINITION_PREVIOUS_CLICKED''] = Some ''EventDefinition Previous Clicked''"
    by (simp_all add: telemetry_get_def TELEMETRY_EVENT_TYPE_def)
  with openNextPage_nth [OF assms] openPrevPage_nth [OF assms] show ?thesis
    by (simp add: openNextPage_def openPrevPage_def)
qed

lemma wizard_prev_next_witness:
  "openNextPage \<lparr>fp_isNew = True, fp_activeStep = ''Share'', fp_plugins = [], fp_conditionType = JUndef\<rparr> =
     (\<lparr>tc_event = Some ''EventDefinition Next Clicked'', tc_section = ''new-event-definition'',
       tc_action_value = ''next-button'',
       tc_current_step = current_step_title \<lparr>fp_isNew = True, fp_activeStep = ''Share'', fp_plugins = [], fp_conditionType = JUndef\<rparr>\<rparr>,
      Some ''summary'')
   \<and> openPrevPage \<lparr>fp_isNew = True, fp_activeStep = ''Share'', fp_plugins = [], fp_conditionType = JUndef\<rparr> =
     (\<lparr>tc_event = Some ''EventDefinition Previous Clicked'', tc_section = ''new-event-definition'',
       tc_action_value = ''previous-button'',
       tc_current_step = current_step_title \<lparr>fp_isNew = True, fp_activeStep = ''Share'', fp_plugins = [], fp_conditionType = JUndef\<rparr>\<rparr>,
      Some ''notifications'')"
  using wizard_prev_next [of 4 "\<lparr>fp_isNew = True, fp_activeStep = ''Share'', fp_plugins = [], fp_conditionType = JUndef\<rparr>"]
  by (simp add: getStepKeys_def app_section_def)

lemma openNextPage_unknown:
  "fp_activeStep p \<notin> set (getStepKeys (fp_isNew p)) \<Longrightarrow> snd (openNextPage p) = Some ''event-details''
   \<and> snd (openPrevPage p) = None"
  by (simp add: openNextPage_def openPrevPage_def activeStepIndex_def indexOf_notin js_at_def)
     (simp add: getStepKeys_def)

lemma form_steps_keys: "map step_key (form_steps plugins t b) = map Some (getStepKeys b)"
  by (simp add: form_steps_def getStepKeys_def js_at_def)

lemma openNextPage_step:
  assumes "snd (openNextPage p) = Some k"
  shows "activeStepIndex (p\<lparr>fp_activeStep := k\<rparr>) = activeStepIndex p + 1"
    and "activeStepIndex p + 1 < int (length (getStepKeys (fp_isNew p)))"
proof -
  let ?ks = "getStepKeys (fp_isNew p)"
  from assms have i: "0 \<le> activeStepIndex p + 1" "nat (activeStepIndex p + 1) < length ?ks"
    and k: "k = ?ks ! nat (activeStepIndex p + 1)"
    by (simp_all add: openNextPage_def js_at_Some_iff)
  then show "activeStepIndex (p\<lparr>fp_activeStep := k\<rparr>) = activeStepIndex p + 1"
    by (simp add: activeStepIndex_def indexOf_nth distinct_getStepKeys)
  from i show "activeStepIndex p + 1 < int (length ?ks)" by simp
qed

lemma openNextPage_None:
  "snd (openNextPage p) = None \<Longrightarrow> nat (activeStepIndex p + 1) = length (getStepKeys (fp_isNew p))"
  using indexOf_range [of "getStepKeys (fp_isNew p)" "fp_activeStep p"]
  by (auto simp: openNextPage_def js_at_def activeStepIndex_def split: if_split_asm)

end
