(* ===== verification/EventDefinitionWizard.thy ===== *)
theory EventDefinitionWizard
  imports EventDefinitionForm
begin

text \<open>
  The wizard of the event definition form as its parent drives it: the parent
  passes the step that \<open>onChangeStep\<close> receives back as \<open>activeStep\<close>.
  \<open>next_walk\<close> presses Next until Next hands \<open>undefined\<close> and lists the steps
  it visits; it is a \<open>function\<close> whose termination is proved with the measure
  of steps left after the active one.
\<close>

function (domintros) next_walk :: "form_props \<Rightarrow> string list" where
  "next_walk p =
    (case snd (openNextPage p) of
       None \<Rightarrow> []
     | Some k \<Rightarrow> k # next_walk (p\<lparr>fp_activeStep := k\<rparr>))"
  by pat_completeness auto

termination next_walk
  by (relation "measure (\<lambda>p. nat (int (length (getStepKeys (fp_isNew p))) - activeStepIndex p))")
     (auto dest: openNextPage_step)

declare next_walk.simps [simp del]

section \<open>Lemmas\<close>

lemma next_walk_dom_all: "next_walk_dom p"
proof (induction p rule: next_walk.induct)
  case (1 p)
  then show ?case
    by (rule next_walk.domintros) (use "1.IH" in simp)
qed

text \<open>C31: Pressing Next again and again, with onChangeStep making the step it
  receives the active one, stops after finitely many presses, when Next hands
  undefined; it visits the steps after the active one in order, and all steps
  when the active step is unknown.\<close>

theorem next_walk_terminates:
  "next_walk_dom p \<and> next_walk p = drop (nat (activeStepIndex p + 1)) (getStepKeys (fp_isNew p))"
proof (induction p rule: next_walk.induct)
  case (1 p)
  show ?case
  proof (cases "snd (openNextPage p)")
    case None
    then show ?thesis
      by (simp add: next_walk_dom_all openNextPage_None next_walk.simps [of p])
  next
    case (Some k)
    then have "0 \<le> activeStepIndex p + 1" "nat (activeStepIndex p + 1) < length (getStepKeys (fp_isNew p))"
      and "k = getStepKeys (fp_isNew p) ! nat (activeStepIndex p + 1)"
      by (simp_all add: openNextPage_def js_at_Some_iff)
    moreover from this(1) have "nat (activeStepIndex p + 1 + 1) = Suc (nat (activeStepIndex p + 1))"
      by (simp add: Suc_nat_eq_nat_zadd1 ac_simps)
    moreover have "next_walk p = k # next_walk (p\<lparr>fp_activeStep := k\<rparr>)"
      using Some by (subst next_walk.simps) simp
    ultimately show ?thesis
      using "1.IH" [OF Some] openNextPage_step(1) [OF Some]
      by (simp add: next_walk_dom_all Cons_nth_drop_Suc del: nat_add_distrib)
  qed
qed

end
