(* ===== verification/RawMessageLoader.thy ===== *)
theory RawMessageLoader
  imports Prelude "HOL-Library.AList"
begin

text \<open>
  The raw message loader,
  \<open>src/graylog2-web-interface/src/components/messageloaders/RawMessageLoader.tsx\<close>:
  a form that sends a raw message with a codec and its configuration to
  \<open>Messages.parse\<close> and hands the parsed message, with the options it was
  parsed with, to \<open>onMessageLoaded\<close>.

  The component's six \<open>useState\<close> values are the record \<open>rml_state\<close>; the
  promise chain of \<open>_loadMessage\<close> is a list of outstanding parse requests, each
  holding the options its closure captured. The handlers are the cases of
  \<open>rml_handle\<close>; a request's answer is the event \<open>ParseDone\<close>, and what the
  component does to the outside (the store actions at mount, the REST call, the
  notifications, the \<open>onMessageLoaded\<close> call) are outputs. \<open>rml_enabled\<close> says
  which events the rendered form lets happen: the submit button is disabled by
  \<open>_isSubmitDisabled\<close>, and an answer arrives only for an outstanding request.
  The reachable states are the inductive \<open>rml_reach\<close>.

  The option builders of the two selects and the configuration fields are
  functions of the props. \<open>localeCompare\<close> is an argument (a comparator), the
  sort of \<open>Array.prototype.sort\<close> and of \<open>Immutable.Map.sort\<close> the stable
  \<open>sort_by\<close> of the prelude; objects are association lists with distinct keys,
  in the order \<open>Object.keys\<close> lists them. \<open>MessageFormatter\<close>,
  \<open>getValueFromInput\<close> and \<open>useForwarderMessageLoaders\<close> are outside the
  sources: the formatted message and the values read from inputs are event
  arguments, the forwarder dropdown's presence a flag.
\<close>

definition DEFAULT_REMOTE_ADDRESS :: string where
  "DEFAULT_REMOTE_ADDRESS = ''127.0.0.1''"

section \<open>Select options\<close>

record input_type =
  input_title :: string
  input_name :: string

record rml_option =
  ro_value :: string
  ro_label :: string
  ro_disabled :: bool

text \<open>\<open>_formatInputSelectOptions\<close> of \<open>ServerInputSelect\<close>: the inputs (a map
  from id to input, \<open>None\<close> while loading) sorted by lower-cased title.\<close>

definition formatInputSelectOptions ::
  "(string \<Rightarrow> string \<Rightarrow> int) \<Rightarrow> (string \<times> input_type) list option \<Rightarrow> rml_option list" where
  "formatInputSelectOptions localeCompare inputs =
    (case inputs of
       None \<Rightarrow> [\<lparr>ro_value = ''none'', ro_label = ''Loading inputs...'', ro_disabled = True\<rparr>]
     | Some ins \<Rightarrow>
         if length ins = 0 then [\<lparr>ro_value = ''none'', ro_label = ''No inputs available'', ro_disabled = False\<rparr>]
         else map (\<lambda>(iid, i). \<lparr>ro_value = iid, ro_label = iid @ '' / '' @ input_title i @ '' / '' @ input_name i,
                                ro_disabled = False\<rparr>)
                (sort_by (\<lambda>a b. localeCompare (to_lower (input_title (snd a))) (to_lower (input_title (snd b)))) ins))"

text \<open>What \<open>InputSelect\<close> renders: nothing unless shown, the forwarder
  dropdown in the cloud, the chooser of the input type when the forwarder
  dropdown exists (with the select of the chosen type), else the server inputs.\<close>

datatype input_select_view =
    ISHidden
  | ISForwarder
  | ISServer "rml_option list"
  | ISChooser string "input_select_view option"

definition InputSelect ::
  "(string \<Rightarrow> string \<Rightarrow> int) \<Rightarrow> (string \<times> input_type) list option \<Rightarrow> bool \<Rightarrow> bool \<Rightarrow> bool
   \<Rightarrow> string option \<Rightarrow> input_select_view" where
  "InputSelect localeCompare inputs shown isCloud hasForwarderDropdown selectedInputType =
    (if \<not> shown then ISHidden
     else if isCloud then ISForwarder
     else if hasForwarderDropdown
     then ISChooser (case selectedInputType of Some t \<Rightarrow> t | None \<Rightarrow> ''placeholder'')
            (if selectedInputType = Some ''server'' then Some (ISServer (formatInputSelectOptions localeCompare inputs))
             else if selectedInputType = Some ''forwarder'' then Some ISForwarder
             else None)
     else ISServer (formatInputSelectOptions localeCompare inputs))"

record codec_field =
  field_type :: string
  is_optional :: bool

record codec_type =
  codec_name :: string
  requested_configuration :: "(string \<times> codec_field) list"

text \<open>\<open>_formatSelectOptions\<close>: every codec but the random HTTP one, labelled by
  its name or, without a name, its id, sorted by lower-cased label.\<close>

definition formatSelectOptions ::
  "(string \<Rightarrow> string \<Rightarrow> int) \<Rightarrow> (string \<times> codec_type) list option \<Rightarrow> rml_option list" where
  "formatSelectOptions localeCompare codecTypes =
    (case codecTypes of
       None \<Rightarrow> [\<lparr>ro_value = ''none'', ro_label = ''Loading codec types...'', ro_disabled = True\<rparr>]
     | Some cts \<Rightarrow>
         if length (map fst cts) = 0 then [\<lparr>ro_value = ''none'', ro_label = ''No codecs available'', ro_disabled = False\<rparr>]
         else sort_by (\<lambda>a b. localeCompare (to_lower (ro_label a)) (to_lower (ro_label b)))
                (map (\<lambda>(cid, ct). \<lparr>ro_value = cid, ro_label = (if codec_name ct = '''' then cid else codec_name ct),
                                    ro_disabled = False\<rparr>)
                  (filter (\<lambda>(cid, ct). cid \<noteq> ''random-http-msg'') cts)))"

section \<open>Codec configuration fields\<close>

datatype config_value = CVText string | CVNumber int | CVBool bool

datatype field_kind = KText | KNumber | KBoolean | KDropdown

text \<open>\<open>_formatConfigField\<close>: the field element of a configuration key (its
  kind, key \<open>RawMessageLoader-key\<close>, title and current value), \<open>null\<close> for an
  unknown field type.\<close>

record config_element =
  ce_kind :: field_kind
  ce_key :: string
  ce_title :: string
  ce_value :: "config_value option"

definition formatConfigField ::
  "(string \<times> config_value) list \<Rightarrow> string \<Rightarrow> codec_field \<Rightarrow> config_element option" where
  "formatConfigField codecConfiguration key configField =
    (let value = map_of codecConfiguration key;
         elementKey = ''RawMessageLoader-'' @ key;
         el = (\<lambda>k. Some \<lparr>ce_kind = k, ce_key = elementKey, ce_title = key, ce_value = value\<rparr>)
     in if field_type configField = ''text'' then el KText
        else if field_type configField = ''number'' then el KNumber
        else if field_type configField = ''boolean'' then el KBoolean
        else if field_type configField = ''dropdown'' then el KDropdown
        else None)"

text \<open>\<open>codecConfigurationOptions\<close>: with codec types loaded and a codec chosen,
  the fields the codec requests, sorted by \<open>is_optional\<close> (a boolean
  difference); \<open>codecTypes[codec]\<close> of a codec that is not a key is
  \<open>undefined\<close>, and reading \<open>requested_configuration\<close> of it throws.\<close>

definition codecConfigurationOptions ::
  "(string \<times> codec_type) list option \<Rightarrow> string \<Rightarrow> (string \<times> config_value) list
   \<Rightarrow> js_error + config_element option list option" where
  "codecConfigurationOptions codecTypes codec codecConfiguration =
    (case codecTypes of
       Some cts \<Rightarrow>
         if codec \<noteq> '''' then
           (case map_of cts codec of
              None \<Rightarrow> Inl TypeError
            | Some ct \<Rightarrow>
                Inr (Some (map (\<lambda>(k, f). formatConfigField codecConfiguration k f)
                  (sort_by (\<lambda>a b. (if is_optional (snd a) then 1 else 0) - (if is_optional (snd b) then 1 else 0))
                     (requested_configuration ct)))))
         else Inr None
     | None \<Rightarrow> Inr None)"

section \<open>The form's state and handlers\<close>

text \<open>\<open>OptionsType\<close>: what \<open>onMessageLoaded\<close> receives beside the message.\<close>

record rml_options =
  o_message :: string
  o_remoteAddress :: string
  o_codec :: string
  o_codecConfiguration :: "(string \<times> config_value) list"
  o_inputId :: "string option"

record rml_state =
  loading :: bool
  message :: string
  remoteAddress :: string
  codec :: string
  codecConfiguration :: "(string \<times> config_value) list"
  inputId :: "string option"
  requests :: "rml_options list"

text \<open>The payload of \<open>parseRawMessage\<close>.\<close>

record parse_payload =
  pl_message :: string
  pl_remote_address :: string
  pl_codec :: string
  pl_configuration :: "(string \<times> config_value) list"

definition payload_of :: "rml_options \<Rightarrow> parse_payload" where
  "payload_of opts =
    \<lparr>pl_message = o_message opts, pl_remote_address = o_remoteAddress opts, pl_codec = o_codec opts,
     pl_configuration = o_codecConfiguration opts\<rparr>"

text \<open>A parse answer: the formatted message, or a failure with
  \<open>error.additional.status\<close> and the error's text.\<close>

datatype parse_result = ParseOk string | ParseFailed "int option" string

datatype rml_event =
    MessageChange string
  | RemoteAddressChange string
  | CodecSelect string
  | ConfigChange string config_value
  | InputSelect string
  | Submit
  | ParseDone nat parse_result

datatype rml_output =
    ListCodecTypes
  | ListInputs
  | ParseRequest parse_payload
  | NotifyError string string
  | MessageLoaded "string option" rml_options

definition rml_init :: rml_state where
  "rml_init = \<lparr>loading = False, message = '''', remoteAddress = DEFAULT_REMOTE_ADDRESS, codec = '''',
               codecConfiguration = [], inputId = None, requests = []\<rparr>"

text \<open>The two mount effects: codec types always, inputs with the input selector.\<close>

definition rml_mount :: "bool \<Rightarrow> rml_state \<times> rml_output list" where
  "rml_mount inputIdSelector = (rml_init, ListCodecTypes # (if inputIdSelector then [ListInputs] else []))"

definition isSubmitDisabled :: "rml_state \<Rightarrow> bool" where
  "isSubmitDisabled s = (message s = '''' \<or> codec s = '''' \<or> loading s)"

definition snapshot :: "rml_state \<Rightarrow> rml_options" where
  "snapshot s = \<lparr>o_message = message s, o_remoteAddress = remoteAddress s, o_codec = codec s,
                 o_codecConfiguration = codecConfiguration s, o_inputId = inputId s\<rparr>"

text \<open>The rejection handler of \<open>parseRawMessage\<close>: a hint for status 400, the
  error's text otherwise; it returns \<open>undefined\<close>, which the \<open>then\<close> of
  \<open>_loadMessage\<close> passes on as the message.\<close>

definition parse_error_notice :: "int option \<Rightarrow> string \<Rightarrow> rml_output" where
  "parse_error_notice status err =
    (if status = Some 400
     then NotifyError (''Please ensure the selected codec and its configuration are right. ''
                       @ ''Check your server logs for more information.'') ''Could not load raw message''
     else NotifyError (''Loading raw message failed with status: '' @ err) ''Could not load raw message'')"

definition parseRawMessage :: "rml_options \<Rightarrow> parse_result \<Rightarrow> rml_output list" where
  "parseRawMessage opts r =
    (case r of
       ParseOk m \<Rightarrow> [MessageLoaded (Some m) opts]
     | ParseFailed status err \<Rightarrow> [parse_error_notice status err, MessageLoaded None opts])"

fun rml_handle :: "rml_state \<Rightarrow> rml_event \<Rightarrow> rml_state \<times> rml_output list" where
  "rml_handle s (MessageChange v) = (s\<lparr>message := v\<rparr>, [])"
| "rml_handle s (RemoteAddressChange v) = (s\<lparr>remoteAddress := v\<rparr>, [])"
| "rml_handle s (CodecSelect c) = (s\<lparr>codec := c, codecConfiguration := []\<rparr>, [])"
| "rml_handle s (ConfigChange f v) = (s\<lparr>codecConfiguration := AList.update f v (codecConfiguration s)\<rparr>, [])"
| "rml_handle s (InputSelect i) = (s\<lparr>inputId := Some i\<rparr>, [])"
| "rml_handle s Submit =
    (s\<lparr>loading := True, requests := requests s @ [snapshot s]\<rparr>, [ParseRequest (payload_of (snapshot s))])"
| "rml_handle s (ParseDone n r) =
    (s\<lparr>loading := False, requests := take n (requests s) @ drop (Suc n) (requests s)\<rparr>,
     parseRawMessage (requests s ! n) r)"

fun rml_enabled :: "rml_state \<Rightarrow> rml_event \<Rightarrow> bool" where
  "rml_enabled s Submit = (\<not> isSubmitDisabled s)"
| "rml_enabled s (ParseDone n r) = (n < length (requests s))"
| "rml_enabled s e = True"

definition rml_dispatch :: "rml_state \<Rightarrow> rml_event \<Rightarrow> rml_state \<times> rml_output list" where
  "rml_dispatch s e = (if rml_enabled s e then rml_handle s e else (s, []))"

fun rml_run :: "rml_state \<Rightarrow> rml_event list \<Rightarrow> rml_state \<times> rml_output list" where
  "rml_run s [] = (s, [])"
| "rml_run s (e # es) =
    (let (s1, o1) = rml_dispatch s e; (s2, o2) = rml_run s1 es in (s2, o1 @ o2))"

inductive rml_reach :: "rml_state \<Rightarrow> bool" where
  init: "rml_reach rml_init"
| step: "rml_reach s \<Longrightarrow> rml_enabled s e \<Longrightarrow> rml_reach (fst (rml_handle s e))"

text \<open>The request and answer discipline of the outputs: after a parse request
  comes at most one \<open>onMessageLoaded\<close>, with options that agree with the
  request's payload, before the next request; \<open>w\<close> is the payload waiting for
  its answer.\<close>

fun paired :: "parse_payload option \<Rightarrow> rml_output list \<Rightarrow> bool" where
  "paired w [] = True"
| "paired None (ParseRequest p # outs) = paired (Some p) outs"
| "paired (Some q) (ParseRequest p # outs) = False"
| "paired w (MessageLoaded m opts # outs) = (w = Some (payload_of opts) \<and> paired None outs)"
| "paired w (_ # outs) = paired w outs"

definition rml_inv :: "rml_state \<Rightarrow> bool" where
  "rml_inv s = (length (requests s) \<le> 1 \<and> (loading s \<longleftrightarrow> requests s \<noteq> []))"

definition waiting :: "rml_state \<Rightarrow> parse_payload option" where
  "waiting s = (case requests s of [] \<Rightarrow> None | r # _ \<Rightarrow> Some (payload_of r))"

section \<open>Lemmas\<close>

lemma rml_inv_init: "rml_inv rml_init"
  by (simp add: rml_inv_def rml_init_def)

lemma rml_inv_handle: "rml_inv s \<Longrightarrow> rml_enabled s e \<Longrightarrow> rml_inv (fst (rml_handle s e))"
  by (cases e) (auto simp: rml_inv_def isSubmitDisabled_def)

lemma rml_inv_dispatch: "rml_inv s \<Longrightarrow> rml_inv (fst (rml_dispatch s e))"
  by (simp add: rml_dispatch_def rml_inv_handle)

text \<open>C32: In every state the raw message loader can reach, at most one parse
  request is outstanding, and the form shows loading exactly while one is.\<close>

theorem rml_reach_inv:
  "rml_reach s \<Longrightarrow> length (requests s) \<le> 1 \<and> (loading s \<longleftrightarrow> requests s \<noteq> [])"
proof (induction rule: rml_reach.induct)
  case init
  then show ?case using rml_inv_init by (simp add: rml_inv_def)
next
  case (step s e)
  then show ?case using rml_inv_handle [of s e] by (simp add: rml_inv_def)
qed

lemma paired_dispatch:
  assumes "rml_inv s" and "paired (waiting (fst (rml_dispatch s e))) rest"
  shows "paired (waiting s) (snd (rml_dispatch s e) @ rest)"
proof (cases "rml_enabled s e")
  case False
  with assms(2) show ?thesis by (simp add: rml_dispatch_def)
next
  case True
  show ?thesis
  proof (cases e)
    case (ParseDone n r)
    with True assms(1) obtain q where "requests s = [q]" and "n = 0"
      by (auto simp: rml_inv_def le_Suc_eq length_Suc_conv)
    with ParseDone True assms(2) show ?thesis
      by (cases r) (simp_all add: rml_dispatch_def waiting_def parseRawMessage_def parse_error_notice_def)
  next
    case Submit
    with True assms show ?thesis
      by (simp add: rml_dispatch_def rml_inv_def waiting_def isSubmitDisabled_def)
  qed (use True assms(2) in \<open>simp_all add: rml_dispatch_def waiting_def\<close>)
qed

lemma rml_run_Cons:
  "rml_run s (e # es) = (fst (rml_run (fst (rml_dispatch s e)) es),
                         snd (rml_dispatch s e) @ snd (rml_run (fst (rml_dispatch s e)) es))"
  by (simp add: Let_def case_prod_unfold)

declare rml_run.simps(2) [simp del]

lemma paired_run: "rml_inv s \<Longrightarrow> paired (waiting s) (snd (rml_run s es))"
proof (induction es arbitrary: s)
  case Nil
  then show ?case by simp
next
  case (Cons e es)
  then show ?case
    by (simp add: rml_run_Cons paired_dispatch rml_inv_dispatch)
qed

text \<open>C33: Over a whole session of the raw message loader, from mounting on
  and whatever the user does and however the requests are answered, the
  outputs alternate between a parse request and at most one onMessageLoaded
  call for it, whose options are the ones the request was sent with, even when
  the request fails.\<close>

theorem rml_session_paired:
  "paired None (snd (rml_mount sel) @ snd (rml_run (fst (rml_mount sel)) es))"
  using paired_run [OF rml_inv_init, of es]
  by (simp add: rml_mount_def waiting_def rml_init_def)

text \<open>C34: Rendering the codec configuration fields throws a TypeError exactly
  when the codec types are loaded and the chosen codec is not empty and not one
  of them.\<close>

theorem codecConfigurationOptions_error_iff:
  "codecConfigurationOptions codecTypes c cfg = Inl TypeError \<longleftrightarrow>
     (\<exists>cts. codecTypes = Some cts \<and> c \<noteq> '''' \<and> c \<notin> fst ` set cts)"
  by (auto simp: codecConfigurationOptions_def map_of_eq_None_iff split: option.splits
      dest: map_of_SomeD intro: rev_image_eqI)

text \<open>C35: For a known codec the configuration fields are rendered with the
  required ones first and the optional ones after, each group in the order the
  codec lists them.\<close>

theorem codecConfigurationOptions_required_first:
  assumes "c \<noteq> ''''" and "map_of cts c = Some ct"
  shows "codecConfigurationOptions (Some cts) c cfg =
           Inr (Some (map (\<lambda>(k, f). formatConfigField cfg k f)
             (filter (\<lambda>kf. \<not> is_optional (snd kf)) (requested_configuration ct)
              @ filter (\<lambda>kf. is_optional (snd kf)) (requested_configuration ct))))"
  using assms sort_by_key [of "\<lambda>kf. if is_optional (snd kf) then 1 else 0" "requested_configuration ct"]
    sort_key_flag [of "\<lambda>kf. is_optional (snd kf)" "requested_configuration ct"]
  by (simp add: codecConfigurationOptions_def)

text \<open>Without any codec the select offers the enabled option \<open>none\<close>, and
  choosing it makes the next render throw.\<close>

lemma no_codecs_crash:
  "codecConfigurationOptions (Some []) (ro_value (hd (formatSelectOptions lc (Some [])))) cfg = Inl TypeError"
  by (simp add: formatSelectOptions_def codecConfigurationOptions_def)

theorem rml_reach_inv_witness:
  "length (requests (fst (rml_handle (fst (rml_handle (fst (rml_handle rml_init (MessageChange ''<13>hello'')))
      (CodecSelect ''syslog''))) Submit))) \<le> 1
   \<and> (loading (fst (rml_handle (fst (rml_handle (fst (rml_handle rml_init (MessageChange ''<13>hello'')))
      (CodecSelect ''syslog''))) Submit))
      \<longleftrightarrow> requests (fst (rml_handle (fst (rml_handle (fst (rml_handle rml_init (MessageChange ''<13>hello'')))
      (CodecSelect ''syslog''))) Submit)) \<noteq> [])"
proof (rule rml_reach_inv)
  show "rml_reach (fst (rml_handle (fst (rml_handle (fst (rml_handle rml_init (MessageChange ''<13>hello'')))
      (CodecSelect ''syslog''))) Submit))"
    by (rule rml_reach.step [OF rml_reach.step [OF rml_reach.step [OF rml_reach.init]]])
       (simp_all add: rml_init_def isSubmitDisabled_def)
qed

theorem codecConfigurationOptions_required_first_witness:
  "codecConfigurationOptions
     (Some [(''syslog'', \<lparr>codec_name = ''Syslog'', requested_configuration =
        [(''force_rdns'', \<lparr>field_type = ''boolean'', is_optional = True\<rparr>),
         (''port'', \<lparr>field_type = ''number'', is_optional = False\<rparr>)]\<rparr>)]) ''syslog'' [] =
   Inr (Some [Some \<lparr>ce_kind = KNumber, ce_key = ''RawMessageLoader-port'', ce_title = ''port'', ce_value = None\<rparr>,
              Some \<lparr>ce_kind = KBoolean, ce_key = ''RawMessageLoader-force_rdns'', ce_title = ''force_rdns'',
                    ce_value = None\<rparr>])"
  using codecConfigurationOptions_required_first [of "''syslog''"
      "[(''syslog'', \<lparr>codec_name = ''Syslog'', requested_configuration =
        [(''force_rdns'', \<lparr>field_type = ''boolean'', is_optional = True\<rparr>),
         (''port'', \<lparr>field_type = ''number'', is_optional = False\<rparr>)]\<rparr>)]"]
  by (simp add: formatConfigField_def)

lemma formatSelectOptions_values:
  "cts \<noteq> [] \<Longrightarrow>
   ro_value ` set (formatSelectOptions lc (Some cts)) = fst ` set cts - {''random-http-msg''}"
  by (auto simp: formatSelectOptions_def image_iff) force

end
