(* ===== verification/SearchBar.thy ===== *)
theory SearchBar
  imports Query
begin

text \<open>
  The search bar of the search page,
  \<open>src/graylog2-web-interface/src/views/components/SearchBar.tsx\<close>, as far as it
  computes: the form's initial values read from the current query and its
  filter (\<open>useInitialFormValues\<close>), the query built and dispatched on submit
  (\<open>defaultOnSubmit\<close>), the stream and category options, the validation
  request and the state of the submit controls. It composes the \<open>Query\<close> value
  object (builder, \<open>equals\<close>) and the filter helpers of \<open>QueryFilters\<close>.

  \<open>filtersToStreamSet(...).toJS()\<close> lists an \<open>Immutable.Set\<close>. The set is
  built by inserting the leaves of the filter one after the other
  (\<open>streamSetList\<close> is that insertion sequence, each element at its first
  insertion, the merge of child sets being \<open>set_merge\<close>); the order in which
  Immutable.js then lists the set is not specified by it (insertion order for
  small sets, hash order for larger ones), so it is the argument \<open>setToJS\<close>
  of the model, a function of the insertion sequence that lists each element
  once. The pluggable search bar controls
  (\<open>pluggableSearchBarControlsHandler\<close>, outside the sources) are the
  arguments \<open>initialValuesFromPlugins\<close> (spread over the initial values) and
  \<open>withPluginData\<close> of the submit handler; the Redux actions
  \<open>updateQuery\<close> and \<open>executeActiveQuery\<close> and \<open>restartAutoRefresh\<close> are
  outputs. \<open>defaultCompare\<close>, \<open>moment\<close> and the debounced validation are
  arguments or outputs, the JSX layout is not modelled.
\<close>

section \<open>Ordered stream sets\<close>

text \<open>\<open>Immutable.Set.merge\<close>: the elements of the argument not yet present are
  appended in order.\<close>

fun set_merge :: "'a list \<Rightarrow> 'a list \<Rightarrow> 'a list" where
  "set_merge xs [] = xs"
| "set_merge xs (y # ys) = set_merge (if y \<in> set xs then xs else xs @ [y]) ys"

fun streamSetList :: "filter_node \<Rightarrow> string list" where
  "streamSetList (FStream i) = [i]"
| "streamSetList (FStreamCategory c) = foldl set_merge [] (map streamSetList [])"
| "streamSetList (FAnd fs) = foldl set_merge [] (map streamSetList fs)"
| "streamSetList (FOr fs) = foldl set_merge [] (map streamSetList fs)"

fun categorySetList :: "filter_node \<Rightarrow> string list" where
  "categorySetList (FStreamCategory c) = [c]"
| "categorySetList (FStream i) = foldl set_merge [] (map categorySetList [])"
| "categorySetList (FAnd fs) = foldl set_merge [] (map categorySetList fs)"
| "categorySetList (FOr fs) = foldl set_merge [] (map categorySetList fs)"

definition filterStreams :: "(string list \<Rightarrow> string list) \<Rightarrow> filter_node nullish \<Rightarrow> string list" where
  "filterStreams setToJS fltr = setToJS (case fltr of JVal f \<Rightarrow> streamSetList f | _ \<Rightarrow> [])"

definition filterCategories :: "(string list \<Rightarrow> string list) \<Rightarrow> filter_node nullish \<Rightarrow> string list" where
  "filterCategories setToJS fltr = setToJS (case fltr of JVal f \<Rightarrow> categorySetList f | _ \<Rightarrow> [])"

section \<open>Form values\<close>

record searchbar_values =
  sv_timerange :: "time_range nullish"
  sv_streams :: "string list nullish"
  sv_streamCategories :: "string list nullish"
  sv_queryString :: "string option"

text \<open>\<open>queryFilters.get(id, Immutable.Map())\<close>: the filter stored for the query,
  else an empty map, which has no type and no children and so reads as no
  filter at all.\<close>

definition filter_lookup :: "(string \<times> filter_node nullish) list \<Rightarrow> string nullish \<Rightarrow> filter_node nullish" where
  "filter_lookup queryFilters i =
    (case i of JVal k \<Rightarrow> (case map_of queryFilters k of Some f \<Rightarrow> f | None \<Rightarrow> JUndef) | _ \<Rightarrow> JUndef)"

text \<open>\<open>useInitialFormValues\<close>: the current query may be \<open>undefined\<close>, and then
  every value read from it is.\<close>

definition useInitialFormValues ::
  "(string list \<Rightarrow> string list) \<Rightarrow> (('sf, 'st) query nullish \<Rightarrow> searchbar_values \<Rightarrow> searchbar_values)
   \<Rightarrow> ('sf, 'st) query nullish \<Rightarrow> (string \<times> filter_node nullish) list \<Rightarrow> searchbar_values" where
  "useInitialFormValues setToJS initialValuesFromPlugins currentQuery queryFilters =
    (let i = (case currentQuery of JVal q \<Rightarrow> qid q | _ \<Rightarrow> JUndef);
         query = (case currentQuery of JVal q \<Rightarrow> qquery q | _ \<Rightarrow> JUndef);
         timerange = (case currentQuery of JVal q \<Rightarrow> qtimerange q | _ \<Rightarrow> JUndef)
     in initialValuesFromPlugins currentQuery
          \<lparr>sv_timerange = timerange,
           sv_streams = JVal (filterStreams setToJS (filter_lookup queryFilters i)),
           sv_streamCategories = JVal (filterCategories setToJS (filter_lookup queryFilters i)),
           sv_queryString = (case query of JVal qs \<Rightarrow> Some (query_string qs) | _ \<Rightarrow> None)\<rparr>)"

section \<open>Submitting\<close>

datatype ('sf, 'st) sb_output =
    RestartAutoRefresh
  | UpdateQuery "string nullish" "('sf, 'st) query"
  | ExecuteActiveQuery

definition submitted_query ::
  "(('sf, 'st) query \<Rightarrow> searchbar_values \<Rightarrow> ('sf, 'st) query) \<Rightarrow> searchbar_values \<Rightarrow> ('sf, 'st) query
   \<Rightarrow> ('sf, 'st) query" where
  "submitted_query withPluginData values currentQuery =
    build (builder_query (JVal (createElasticsearchQueryString (sv_queryString values)))
      (builder_filter (newFiltersForQuery (sv_streams values) (sv_streamCategories values))
        (builder_timerange (sv_timerange values) (toBuilder (withPluginData currentQuery values)))))"

definition defaultOnSubmit ::
  "(('sf, 'st) query \<Rightarrow> searchbar_values \<Rightarrow> ('sf, 'st) query) \<Rightarrow> searchbar_values \<Rightarrow> ('sf, 'st) query
   \<Rightarrow> ('sf, 'st) sb_output list" where
  "defaultOnSubmit withPluginData values currentQuery =
    (let newQuery = submitted_query withPluginData values currentQuery
     in [RestartAutoRefresh,
         if \<not> query_equals currentQuery (JVal newQuery) then UpdateQuery (qid newQuery) newQuery
         else ExecuteActiveQuery])"

record validation_request =
  vr_timeRange :: "time_range nullish"
  vr_streams :: "string list nullish"
  vr_streamCategories :: "string list nullish"
  vr_queryString :: "string option"

definition validateQueryString_request :: "searchbar_values \<Rightarrow> validation_request" where
  "validateQueryString_request values =
    \<lparr>vr_timeRange = sv_timerange values, vr_streams = sv_streams values,
     vr_streamCategories = sv_streamCategories values, vr_queryString = sv_queryString values\<rparr>"

section \<open>Options and controls\<close>

record stream_entry =
  st_id :: string
  st_title :: string
  st_categories :: "string list option"

record key_value =
  kv_key :: string
  kv_value :: string

definition availableStreams :: "stream_entry list \<Rightarrow> key_value list" where
  "availableStreams streams = map (\<lambda>s. \<lparr>kv_key = st_title s, kv_value = st_id s\<rparr>) streams"

text \<open>\<open>filter((element, index, self) => index === self.findIndex(...))\<close> keeps
  the first element of every value.\<close>

fun first_by_value :: "key_value list \<Rightarrow> key_value list \<Rightarrow> key_value list" where
  "first_by_value seen [] = []"
| "first_by_value seen (x # xs) =
    (if kv_value x \<in> kv_value ` set seen then first_by_value seen xs
     else x # first_by_value (seen @ [x]) xs)"

definition availableStreamCategories :: "(string \<Rightarrow> string \<Rightarrow> int) \<Rightarrow> stream_entry list \<Rightarrow> key_value list" where
  "availableStreamCategories defaultCompare streams =
    sort_by (\<lambda>a b. defaultCompare (kv_value a) (kv_value b))
      (first_by_value []
        (concat (map (\<lambda>s. case st_categories s of Some cs \<Rightarrow> map (\<lambda>c. \<lparr>kv_key = c, kv_value = c\<rparr>) cs | None \<Rightarrow> [])
                   streams)))"

record form_status =
  fs_isSubmitting :: bool
  fs_isValidating :: bool
  fs_isValid :: bool

record searchbar_controls =
  search_disabled :: bool
  search_spinner :: bool
  refresh_disabled :: bool

definition searchbar_controls_of :: "form_status \<Rightarrow> bool \<Rightarrow> searchbar_controls" where
  "searchbar_controls_of st isLoadingExecution =
    \<lparr>search_disabled = (fs_isSubmitting st \<or> fs_isValidating st \<or> \<not> fs_isValid st \<or> isLoadingExecution),
     search_spinner = (fs_isSubmitting st \<or> isLoadingExecution),
     refresh_disabled = (\<not> fs_isValid st)\<rparr>"

section \<open>Lemmas\<close>

lemma set_set_merge [simp]: "set (set_merge xs ys) = set xs \<union> set ys"
  by (induction xs ys rule: set_merge.induct) auto

lemma distinct_set_merge: "distinct xs \<Longrightarrow> distinct (set_merge xs ys)"
  by (induction xs ys rule: set_merge.induct) auto

lemma set_foldl_set_merge: "set (foldl set_merge a ls) = set a \<union> \<Union> (set ` set ls)"
  by (induction ls arbitrary: a) auto

lemma distinct_foldl_set_merge: "distinct a \<Longrightarrow> distinct (foldl set_merge a ls)"
  by (induction ls arbitrary: a) (simp_all add: distinct_set_merge)

lemma streamSetList_refines: "set (streamSetList f) = streamSetOf f \<and> distinct (streamSetList f)"
  by (induction f) (simp_all add: set_foldl_set_merge foldl_union_eq distinct_foldl_set_merge)

lemma categorySetList_refines: "set (categorySetList f) = streamCategorySetOf f \<and> distinct (categorySetList f)"
  by (induction f) (simp_all add: set_foldl_set_merge foldl_union_eq distinct_foldl_set_merge)

text \<open>The insertion sequences refine the set walkers of the query module: as
  sets they are \<open>streamSetOf\<close> and \<open>streamCategorySetOf\<close>, each element once.\<close>

lemma insertion_sequences_refine:
  "set (streamSetList f) = streamSetOf f \<and> distinct (streamSetList f)
   \<and> set (categorySetList f) = streamCategorySetOf f \<and> distinct (categorySetList f)"
  by (simp add: streamSetList_refines categorySetList_refines)

lemma foldl_set_merge_singletons:
  "distinct (a @ xs) \<Longrightarrow> foldl set_merge a (map (\<lambda>x. [x]) xs) = a @ xs"
  by (induction xs arbitrary: a) auto

lemma foldl_set_merge_empties: "foldl set_merge a (map (\<lambda>x. []) xs) = a"
  by (induction xs) auto

lemma newFilters_lists:
  assumes "distinct ss" and "distinct cs"
  shows "filterStreams setToJS (newFiltersForQuery (JVal ss) (JVal cs)) = setToJS ss"
    and "filterCategories setToJS (newFiltersForQuery (JVal ss) (JVal cs)) = setToJS cs"
  using assms
  by (simp_all add: newFiltersForQuery_normal_form filterStreams_def filterCategories_def comp_def
      foldl_set_merge_singletons [of "[]", simplified] foldl_set_merge_empties)

lemma build_setters:
  "build (builder_query x (builder_filter y (builder_timerange z (toBuilder q)))) =
     q\<lparr>qquery := x, qfilter := y, qtimerange := z\<rparr>"
  by (cases q) (simp add: build_def toBuilder_def newQuery_def builder_query_def builder_filter_def
      builder_timerange_def builder_id_def builder_filters_def builder_searchTypes_def query_builder_def
      emptyBuilder_def Let_def split: nullish.splits)

lemma query_equals_filter:
  "query_equals q (JVal (q\<lparr>qfilter := f\<rparr>)) \<longleftrightarrow> (is_nullish (qfilter q) \<and> is_nullish f) \<or> qfilter q = f"
  by (auto simp: query_equals_def isDeepEqual_def)

lemma concat_map_Nil: "concat (map (\<lambda>x. []) xs) = []"
  by (induction xs) auto

lemma newFilters_nullish_iff: "is_nullish (newFiltersForQuery (JVal a) (JVal b)) \<longleftrightarrow> a = [] \<and> b = []"
  by (simp add: newFiltersForQuery_normal_form)

text \<open>Two filters the search bar builds from selections with the same elements
  are equal exactly when the selections are listed in the same order.\<close>

lemma newFilters_eq_iff:
  assumes "set a = set c" and "set b = set d"
  shows "newFiltersForQuery (JVal a) (JVal b) = newFiltersForQuery (JVal c) (JVal d) \<longleftrightarrow> a = c \<and> b = d"
proof
  assume eq: "newFiltersForQuery (JVal a) (JVal b) = newFiltersForQuery (JVal c) (JVal d)"
  show "a = c \<and> b = d"
  proof (cases "c = [] \<and> d = []")
    case True
    with assms show ?thesis by simp
  next
    case False
    with assms have "\<not> (a = [] \<and> b = [])" by auto
    with False eq have "map FStream a @ map FStreamCategory b = map FStream c @ map FStreamCategory d"
      by (simp add: newFiltersForQuery_normal_form split: if_splits)
    from arg_cong [OF this, of "\<lambda>l. concat (map streamLeaves l)"]
      arg_cong [OF this, of "\<lambda>l. concat (map categoryLeaves l)"]
    show ?thesis by (simp add: comp_def concat_map_Nil)
  qed
qed simp

text \<open>C36: Submitting the search bar's initial values unchanged, with no
  pluggable controls, for a query whose filter the search bar built itself from
  duplicate-free selections, re-executes the active query without updating it
  exactly when Immutable.js lists the stream set and the category set in the
  order of the selections; otherwise the filter is rebuilt in the listed order
  and the query is updated.\<close>

theorem resubmit_unchanged_executes_iff:
  assumes setToJS: "\<forall>xs. distinct xs \<longrightarrow> distinct (setToJS xs) \<and> set (setToJS xs) = set xs"
    and "distinct ss" and "distinct cs"
    and "qfilter q = newFiltersForQuery (JVal ss) (JVal cs)"
    and "filter_lookup queryFilters (qid q) = qfilter q"
    and "qquery q = JVal (createElasticsearchQueryString (Some s))"
  shows "defaultOnSubmit (\<lambda>q v. q) (useInitialFormValues setToJS (\<lambda>q v. v) (JVal q) queryFilters) q =
           [RestartAutoRefresh, ExecuteActiveQuery] \<longleftrightarrow> setToJS ss = ss \<and> setToJS cs = cs"
proof -
  have s1: "set (setToJS ss) = set ss" and s2: "set (setToJS cs) = set cs"
    using setToJS assms(2,3) by auto
  have sub: "submitted_query (\<lambda>q v. q) (useInitialFormValues setToJS (\<lambda>q v. v) (JVal q) queryFilters) q =
             q\<lparr>qfilter := newFiltersForQuery (JVal (setToJS ss)) (JVal (setToJS cs))\<rparr>"
    using assms(4-6) newFilters_lists [OF assms(2,3)]
    by (cases q) (simp add: submitted_query_def useInitialFormValues_def build_setters
        createElasticsearchQueryString_def)
  have e1: "setToJS ss = [] \<longleftrightarrow> ss = []" and e2: "setToJS cs = [] \<longleftrightarrow> cs = []"
    using s1 s2 by auto
  have "query_equals q (JVal (q\<lparr>qfilter := newFiltersForQuery (JVal (setToJS ss)) (JVal (setToJS cs))\<rparr>))
        \<longleftrightarrow> newFiltersForQuery (JVal ss) (JVal cs) = newFiltersForQuery (JVal (setToJS ss)) (JVal (setToJS cs))"
  proof (cases "ss = [] \<and> cs = []")
    case True
    with assms(4) e1 e2 show ?thesis by (auto simp: query_equals_filter newFiltersForQuery_normal_form)
  next
    case False
    with assms(4) e1 e2 show ?thesis by (auto simp: query_equals_filter newFiltersForQuery_normal_form)
  qed
  also have "\<dots> \<longleftrightarrow> setToJS ss = ss \<and> setToJS cs = cs"
    using newFilters_eq_iff [OF s1 s2] by auto
  finally have "query_equals q (JVal (q\<lparr>qfilter := newFiltersForQuery (JVal (setToJS ss)) (JVal (setToJS cs))\<rparr>))
        \<longleftrightarrow> setToJS ss = ss \<and> setToJS cs = cs" .
  then show ?thesis
    by (simp add: defaultOnSubmit_def sub Let_def)
qed

text \<open>A filter the search bar does not build itself is rewritten by a submission
  without changes: an \<open>and\<close> of two streams becomes their \<open>or\<close>.\<close>

lemma resubmit_and_filter_becomes_or:
  "defaultOnSubmit (\<lambda>q v. q)
     (useInitialFormValues id (\<lambda>q v. v) (JVal \<lparr>qid = JVal ''q1'', qquery = JVal (createElasticsearchQueryString (Some ''x'')),
        qtimerange = JUndef, qfilter = JVal (FAnd [FStream ''a'', FStream ''b'']), qfilters = (JUndef :: unit list nullish),
        qsearchTypes = (JVal [] :: unit list nullish)\<rparr>) [(''q1'', JVal (FAnd [FStream ''a'', FStream ''b'']))])
     \<lparr>qid = JVal ''q1'', qquery = JVal (createElasticsearchQueryString (Some ''x'')),
        qtimerange = JUndef, qfilter = JVal (FAnd [FStream ''a'', FStream ''b'']), qfilters = JUndef,
        qsearchTypes = (JVal [] :: unit list nullish)\<rparr>
   = [RestartAutoRefresh,
      UpdateQuery (JVal ''q1'') \<lparr>qid = JVal ''q1'', qquery = JVal (createElasticsearchQueryString (Some ''x'')),
        qtimerange = JUndef, qfilter = JVal (FOr [FStream ''a'', FStream ''b'']), qfilters = (JUndef :: unit list nullish),
        qsearchTypes = (JVal [] :: unit list nullish)\<rparr>]"
  by (simp add: defaultOnSubmit_def submitted_query_def useInitialFormValues_def build_setters filter_lookup_def
      filterStreams_def filterCategories_def newFiltersForQuery_normal_form query_equals_def isDeepEqual_def
      createElasticsearchQueryString_def)

lemma first_by_value_values:
  "set (map kv_value (first_by_value seen xs)) = set (map kv_value xs) - kv_value ` set seen
   \<and> distinct (map kv_value (first_by_value seen xs))"
  by (induction seen xs rule: first_by_value.induct) auto

text \<open>C40: The stream category options list every category of any stream
  exactly once, whatever the comparator, and nothing else.\<close>

theorem availableStreamCategories_values:
  "distinct (map kv_value (availableStreamCategories cmp streams))
   \<and> set (map kv_value (availableStreamCategories cmp streams)) =
       (\<Union>s\<in>set streams. case st_categories s of Some cs \<Rightarrow> set cs | None \<Rightarrow> {})"
proof -
  let ?xs = "first_by_value [] (concat (map (\<lambda>s. case st_categories s of
      Some cs \<Rightarrow> map (\<lambda>c. \<lparr>kv_key = c, kv_value = c\<rparr>) cs | None \<Rightarrow> []) streams))"
  have m: "mset (map kv_value (availableStreamCategories cmp streams)) = mset (map kv_value ?xs)"
    by (simp add: availableStreamCategories_def)
  have "set (map kv_value ?xs) = (\<Union>s\<in>set streams. case st_categories s of Some cs \<Rightarrow> set cs | None \<Rightarrow> {})"
  proof -
    have "set (map kv_value (concat (map (\<lambda>s. case st_categories s of
        Some cs \<Rightarrow> map (\<lambda>c. \<lparr>kv_key = c, kv_value = c\<rparr>) cs | None \<Rightarrow> []) streams))) =
        (\<Union>s\<in>set streams. case st_categories s of Some cs \<Rightarrow> set cs | None \<Rightarrow> {})"
      by (induction streams) (auto simp: image_image split: option.splits)
    then show ?thesis
      using first_by_value_values [of "[]"] by simp
  qed
  then show ?thesis
    using first_by_value_values [of "[]"] m mset_eq_imp_distinct_iff [OF m]
    by (metis mset_eq_setD)
qed

theorem resubmit_unchanged_executes_iff_witness:
  "defaultOnSubmit (\<lambda>q v. q)
     (useInitialFormValues rev (\<lambda>q v. v) (JVal \<lparr>qid = JVal ''q1'', qquery = JVal (createElasticsearchQueryString (Some ''x'')),
        qtimerange = JUndef, qfilter = newFiltersForQuery (JVal [''s1'', ''s2'']) (JVal []),
        qfilters = (JUndef :: unit list nullish), qsearchTypes = (JVal [] :: unit list nullish)\<rparr>)
        [(''q1'', newFiltersForQuery (JVal [''s1'', ''s2'']) (JVal []))])
     \<lparr>qid = JVal ''q1'', qquery = JVal (createElasticsearchQueryString (Some ''x'')),
        qtimerange = JUndef, qfilter = newFiltersForQuery (JVal [''s1'', ''s2'']) (JVal []),
        qfilters = (JUndef :: unit list nullish), qsearchTypes = (JVal [] :: unit list nullish)\<rparr>
   \<noteq> [RestartAutoRefresh, ExecuteActiveQuery]"
  using resubmit_unchanged_executes_iff [of rev "[''s1'', ''s2'']" "[]"
      "\<lparr>qid = JVal ''q1'', qquery = JVal (createElasticsearchQueryString (Some ''x'')),
        qtimerange = JUndef, qfilter = newFiltersForQuery (JVal [''s1'', ''s2'']) (JVal []),
        qfilters = (JUndef :: unit list nullish), qsearchTypes = (JVal [] :: unit list nullish)\<rparr>"
      "[(''q1'', newFiltersForQuery (JVal [''s1'', ''s2'']) (JVal []))]" "''x''"]
  by (simp add: filter_lookup_def)

end
