(* ===== verification/TimeRangeFilter.thy ===== *)
theory TimeRangeFilter
  imports Query Telemetry
begin

text \<open>
  The time range filter of the search bar,
  \<open>src/graylog2-web-interface/src/views/components/searchbar/time-range-filter/TimeRangeFilter.tsx\<close>:
  the check of the value against the valid range types, which throws during
  render, the dropdown's \<open>show\<close> state with \<open>toggleShow\<close> and
  \<open>hideTimeRangeDropDown\<close>, the telemetry each toggle sends (named from the
  \<open>Telemetry\<close> theory's table), and which parts it renders.

  A value is a time range of the \<open>Query\<close> theory or \<open>NO_TIMERANGE_OVERRIDE\<close>
  (the empty object of \<open>views/Constants\<close>, outside the sources, which has no
  \<open>type\<close>). An array in a template literal prints as its elements joined by
  commas. The pickers and buttons it renders are outside the sources; their
  props are the view.
\<close>

datatype timerange_value = NoTimeRangeOverride | TimeRangeValue time_range

fun range_type :: "time_range \<Rightarrow> string" where
  "range_type (RelativeTimeRangeStartOnly _) = ''relative''"
| "range_type (RelativeTimeRangeWithEnd _ _) = ''relative''"
| "range_type (AbsoluteTimeRange _ _) = ''absolute''"
| "range_type (KeywordTimeRange _ _ _ _) = ''keyword''"

text \<open>The guard at the top of the component: \<open>'type' in value\<close> holds exactly
  for a time range.\<close>

definition check_valid_type :: "string list option \<Rightarrow> timerange_value \<Rightarrow> js_error + unit" where
  "check_valid_type validTypes value =
    (case (validTypes, value) of
       (Some vts, TimeRangeValue t) \<Rightarrow>
         if range_type t \<notin> set vts
         then Inl (Error (''Value is of type '' @ range_type t @ '', but only these types are valid: '' @ join '','' vts))
         else Inr ()
     | _ \<Rightarrow> Inr ())"

record picker_telemetry =
  pt_event :: "string option"
  pt_section :: string
  pt_action_value :: string
  pt_showing :: bool

text \<open>\<open>toggleShow\<close>: the new state and the event it sends, whose
  \<open>showing\<close> is \<open>!show\<close> read from the same render.\<close>

definition toggleShow :: "bool \<Rightarrow> bool \<times> picker_telemetry list" where
  "toggleShow shown =
    (\<not> shown,
     [\<lparr>pt_event = telemetry_get [''SEARCH_TIMERANGE_PICKER_TOGGLED''], pt_section = ''search-bar'',
       pt_action_value = ''time-range-picker'', pt_showing = \<not> shown\<rparr>])"

definition hideTimeRangeDropDown :: "bool \<Rightarrow> bool \<times> picker_telemetry list" where
  "hideTimeRangeDropDown shown = (if shown then toggleShow shown else (shown, []))"

datatype picker_event = ToggleShow | PresetSelectOpen

fun picker_step :: "bool \<Rightarrow> picker_event \<Rightarrow> bool \<times> picker_telemetry list" where
  "picker_step shown ToggleShow = toggleShow shown"
| "picker_step shown PresetSelectOpen = hideTimeRangeDropDown shown"

fun picker_run :: "bool \<Rightarrow> picker_event list \<Rightarrow> bool \<times> picker_telemetry list" where
  "picker_run shown [] = (shown, [])"
| "picker_run shown (e # es) =
    (let (s1, o1) = picker_step shown e; (s2, o2) = picker_run s1 es in (s2, o1 @ o2))"

record filter_view =
  fv_show :: bool
  fv_current :: timerange_value
  fv_buttons :: bool
  fv_move_buttons :: bool

text \<open>What the component renders: the picker with the state, the buttons when
  the settings context asks for them, the move-range buttons when
  \<open>moveRangeProps\<close> is given; the type check first.\<close>

definition timeRangeFilter_view ::
  "string list option \<Rightarrow> timerange_value \<Rightarrow> bool \<Rightarrow> bool \<Rightarrow> bool \<Rightarrow> js_error + filter_view" where
  "timeRangeFilter_view validTypes value showDropdownButton hasMoveRangeProps shown =
    (case check_valid_type validTypes value of
       Inl e \<Rightarrow> Inl e
     | Inr _ \<Rightarrow> Inr \<lparr>fv_show = shown, fv_current = value, fv_buttons = showDropdownButton,
                     fv_move_buttons = hasMoveRangeProps\<rparr>)"

text \<open>Every toggle event reports the state the dropdown is in after it, and
  the events alternate between opening and closing, starting from the state
  before.\<close>

fun alternating :: "bool \<Rightarrow> picker_telemetry list \<Rightarrow> bool" where
  "alternating s [] = True"
| "alternating s (t # ts) =
    (pt_event t = Some ''Search TimeRange Picker Toggled'' \<and> pt_showing t = (\<not> s) \<and> alternating (\<not> s) ts)"

section \<open>Lemmas\<close>

lemma picker_event_name:
  "telemetry_get [''SEARCH_TIMERANGE_PICKER_TOGGLED''] = Some ''Search TimeRange Picker Toggled''"
  by (simp add: telemetry_get_def TELEMETRY_EVENT_TYPE_def)

lemma picker_run_Cons:
  "picker_run shown (e # es) =
     (fst (picker_run (fst (picker_step shown e)) es), snd (picker_step shown e) @ snd (picker_run (fst (picker_step shown e)) es))"
  by (simp add: Let_def case_prod_unfold)

declare picker_run.simps(2) [simp del]

lemma alternating_append: "alternating s (xs @ ys) = (alternating s xs \<and> alternating (fold (\<lambda>_ b. \<not> b) xs s) ys)"
  by (induction xs arbitrary: s) auto

lemma picker_step_alternating:
  "alternating s (snd (picker_step s e)) \<and> fst (picker_step s e) = fold (\<lambda>_ b. \<not> b) (snd (picker_step s e)) s"
  by (cases e) (simp_all add: toggleShow_def hideTimeRangeDropDown_def picker_event_name)

text \<open>C37: Whatever sequence of toggles and preset openings the user makes, every
  telemetry event the time range filter sends is the picker-toggled event and
  reports the state the dropdown is in after it, the reported states alternate
  starting from the state before, and the final state is the initial one
  flipped once per event sent.\<close>

theorem picker_run_alternating:
  "alternating s (snd (picker_run s es)) \<and> fst (picker_run s es) = fold (\<lambda>_ b. \<not> b) (snd (picker_run s es)) s"
proof (induction es arbitrary: s)
  case Nil
  then show ?case by simp
next
  case (Cons e es)
  then show ?case
    using picker_step_alternating [of s e]
    by (simp add: picker_run_Cons alternating_append)
qed

lemma hide_closes: "\<not> fst (picker_run s (es @ [PresetSelectOpen]))"
proof (induction es arbitrary: s)
  case Nil
  then show ?case
    by (simp add: picker_run_Cons hideTimeRangeDropDown_def toggleShow_def)
next
  case (Cons e es)
  then show ?case by (simp add: picker_run_Cons)
qed

lemma check_valid_type_error_iff:
  "(\<exists>e. check_valid_type validTypes value = Inl e) \<longleftrightarrow>
     (\<exists>vts t. validTypes = Some vts \<and> value = TimeRangeValue t \<and> range_type t \<notin> set vts)"
  by (auto simp: check_valid_type_def split: option.splits timerange_value.splits)

lemma no_override_never_throws: "check_valid_type validTypes NoTimeRangeOverride = Inr ()"
  by (simp add: check_valid_type_def split: option.splits)

end
