(* ===== verification/TypeSpecificValue.thy ===== *)
theory TypeSpecificValue
  imports Prelude
begin

text \<open>
  The rendering of a field value in messages and widgets,
  \<open>src/graylog2-web-interface/src/views/components/TypeSpecificValue.tsx\<close>:
  which of its renderers \<open>TypeSpecificValue\<close> picks (nothing, the decorator
  renderer, a plugin renderer of the field type, the value with its unit, the
  empty-value marker or the value component with the stringified, possibly
  truncated value).

  Values are the JSON primitives the component meets (\<open>any_value\<close>);
  \<open>JSON.stringify\<close> of a number is its decimal text (whole numbers), of a
  boolean \<open>true\<close>/\<open>false\<close>, of \<open>null\<close> \<open>null\<close>. \<open>lodash/trim\<close> strips
  whitespace at both ends (the ASCII whitespace characters here) and
  \<open>lodash/truncate\<close> with its defaults cuts a string longer than 30 characters
  to 27 and appends \<open>...\<close>. \<open>MISSING_BUCKET_NAME\<close> (\<open>views/Constants\<close>) and
  the unit feature flag are arguments; the plugin renderers are the
  \<open>fieldTypeValueRenderer\<close> entities, later entries of a type overriding
  earlier ones as in \<open>Object.fromEntries\<close>.
\<close>

datatype any_value = AUndefined | ANull | AString string | ANumber int | ABool bool

fun isString :: "any_value \<Rightarrow> bool" where
  "isString (AString _) = True"
| "isString _ = False"

fun json_stringify :: "any_value \<Rightarrow> string" where
  "json_stringify (AString s) = ''\"'' @ s @ ''\"''"
| "json_stringify (ANumber n) = int_to_string n"
| "json_stringify (ABool b) = (if b then ''true'' else ''false'')"
| "json_stringify ANull = ''null''"
| "json_stringify AUndefined = ''''"

fun any_truthy :: "any_value \<Rightarrow> bool" where
  "any_truthy AUndefined = False"
| "any_truthy ANull = False"
| "any_truthy (AString s) = (s \<noteq> '''')"
| "any_truthy (ANumber n) = (n \<noteq> 0)"
| "any_truthy (ABool b) = b"

definition is_ws :: "char \<Rightarrow> bool" where
  "is_ws c = (c \<in> set [CHR '' '', CHR 0x09, CHR 0x0A, CHR 0x0B, CHR 0x0C, CHR 0x0D])"

definition lodash_trim :: "string \<Rightarrow> string" where
  "lodash_trim s = rev (dropWhile is_ws (rev (dropWhile is_ws s)))"

definition lodash_truncate :: "string \<Rightarrow> string" where
  "lodash_truncate s = (if length s > 30 then take 27 s @ ''...'' else s)"

record field_type =
  ft_type :: string
  ft_isDecorated :: bool

record field_unit =
  unit_isDefined :: bool
  unit_abbrev :: string

text \<open>The renderer chosen and what it is given.\<close>

datatype value_view =
    NoValue
  | DecoratorValue any_value string
  | PluginRenderer string any_value string
  | ValueWithUnit any_value field_unit
  | EmptyValue
  | ValueComponent string string

definition formatValue :: "string \<Rightarrow> any_value \<Rightarrow> bool \<Rightarrow> value_view" where
  "formatValue field value doTruncate =
    (let stringified = (if isString value then (case value of AString s \<Rightarrow> s | _ \<Rightarrow> '''') else json_stringify value)
     in if lodash_trim stringified = '''' then EmptyValue
        else ValueComponent field (if doTruncate then lodash_truncate stringified else stringified))"

definition FormattedValue ::
  "bool \<Rightarrow> string \<Rightarrow> string \<Rightarrow> any_value \<Rightarrow> bool \<Rightarrow> field_unit option \<Rightarrow> value_view" where
  "FormattedValue unitFeatureEnabled MISSING_BUCKET_NAME field value doTruncate unit =
    (if unitFeatureEnabled \<and> (case unit of Some u \<Rightarrow> unit_isDefined u | None \<Rightarrow> False) \<and> any_truthy value
        \<and> value \<noteq> AString MISSING_BUCKET_NAME
     then (case unit of Some u \<Rightarrow> ValueWithUnit value u | None \<Rightarrow> NoValue)
     else formatValue field value doTruncate)"

definition pluggableValueRenderer :: "(string \<times> string) list \<Rightarrow> string \<Rightarrow> string option" where
  "pluggableValueRenderer entries t = map_of (rev entries) t"

definition TypeSpecificValue ::
  "(string \<times> string) list \<Rightarrow> bool \<Rightarrow> string \<Rightarrow> string \<Rightarrow> any_value \<Rightarrow> field_type \<Rightarrow> bool
   \<Rightarrow> field_unit option \<Rightarrow> value_view" where
  "TypeSpecificValue renderers unitFeatureEnabled MISSING_BUCKET_NAME field value type doTruncate unit =
    (if value = AUndefined then NoValue
     else if ft_isDecorated type then DecoratorValue value field
     else (case pluggableValueRenderer renderers (ft_type type) of
             Some r \<Rightarrow> PluginRenderer r value field
           | None \<Rightarrow> FormattedValue unitFeatureEnabled MISSING_BUCKET_NAME field value doTruncate unit))"

section \<open>Lemmas\<close>

lemma lodash_truncate_length: "length (lodash_truncate s) \<le> 30"
  by (simp add: lodash_truncate_def)

lemma lodash_truncate_short: "length s \<le> 30 \<Longrightarrow> lodash_truncate s = s"
  by (simp add: lodash_truncate_def)



text \<open>Zero is falsy, so a zero with a defined unit loses its unit: it is
  rendered as the plain text \<open>0\<close>.\<close>

lemma zero_loses_unit:
  "FormattedValue True m field (ANumber 0) doTruncate (Some u) = ValueComponent field ''0''"
  by (simp add: FormattedValue_def formatValue_def Let_def int_to_string_def
      lodash_trim_def is_ws_def lodash_truncate_def js_simps)

lemma undefined_renders_nothing:
  "TypeSpecificValue renderers f m field AUndefined type doTruncate unit = NoValue"
  by (simp add: TypeSpecificValue_def)


end
