(* ===== verification/ContentColumn.thy ===== *)
theory ContentColumn
  imports Prelude
begin

text \<open>
  The column of the search page's sidebar,
  \<open>src/graylog2-web-interface/src/views/components/sidebar/ContentColumn.tsx\<close>:
  whether the sidebar is pinned, the styles of \<open>Container\<close> that depend on it,
  the pinning toggle (shown unless pinning is forced or disabled) with its
  title, and the two clicks. The search page preferences
  (\<open>SearchPagePreferencesContext\<close>, outside the sources) are an argument: the
  pinned flag of their configuration, absent when there are no preferences;
  their \<open>toggleSidebarPinning\<close> action is an output.
\<close>

record layout_prefs =
  lp_isPinned :: bool

definition sidebarIsPinned :: "layout_prefs option \<Rightarrow> bool \<Rightarrow> bool" where
  "sidebarIsPinned searchPageLayout forceSideBarPinned =
    ((case searchPageLayout of Some l \<Rightarrow> lp_isPinned l | None \<Rightarrow> False) \<or> forceSideBarPinned)"

record container_css =
  css_position :: string
  css_height :: string
  css_top :: string
  css_left :: string
  css_border_right :: bool
  css_box_shadow :: bool
  css_corner :: bool

text \<open>\<open>Container\<close>: the styles that depend on \<open>$sidebarIsPinned\<close>; the border
  is drawn and the shadow and the rounded corner (\<open>::before\<close>) are not drawn
  exactly when the sidebar is an overlay.\<close>

definition container_style :: "bool \<Rightarrow> container_css" where
  "container_style pinned =
    \<lparr>css_position = (if pinned then ''relative'' else ''fixed''),
     css_height = (if pinned then ''100%'' else ''calc(100% - 50px)''),
     css_top = (if pinned then ''0'' else ''50px''),
     css_left = (if pinned then ''0'' else ''50px''),
     css_border_right = (\<not> pinned),
     css_box_shadow = pinned,
     css_corner = pinned\<rparr>"

record column_view =
  cv_container :: container_css
  cv_title :: string
  cv_sectionTitle :: string
  cv_toggle_title :: "string option"

definition ContentColumn ::
  "layout_prefs option \<Rightarrow> bool \<Rightarrow> bool \<Rightarrow> string \<Rightarrow> string \<Rightarrow> column_view" where
  "ContentColumn searchPageLayout forceSideBarPinned enableSidebarPinning title sectionTitle =
    (let pinned = sidebarIsPinned searchPageLayout forceSideBarPinned
     in \<lparr>cv_container = container_style pinned, cv_title = title, cv_sectionTitle = sectionTitle,
         cv_toggle_title =
           (if \<not> forceSideBarPinned \<and> enableSidebarPinning
            then Some (''Display sidebar '' @ (if pinned then ''as overlay'' else ''inline'')) else None)\<rparr>)"

datatype column_event = TitleClick | ToggleClick

datatype column_output = CloseSidebar | TogglePinning

text \<open>\<open>toggleSidebarPinning\<close> does nothing without preferences.\<close>

definition toggleSidebarPinning :: "layout_prefs option \<Rightarrow> column_output list" where
  "toggleSidebarPinning searchPageLayout = (case searchPageLayout of None \<Rightarrow> [] | Some _ \<Rightarrow> [TogglePinning])"

fun column_handle :: "layout_prefs option \<Rightarrow> column_event \<Rightarrow> column_output list" where
  "column_handle searchPageLayout TitleClick = [CloseSidebar]"
| "column_handle searchPageLayout ToggleClick = toggleSidebarPinning searchPageLayout"

text \<open>The preferences' answer to \<open>TogglePinning\<close>: the pinned flag flips.\<close>

definition prefs_after :: "layout_prefs option \<Rightarrow> column_output list \<Rightarrow> layout_prefs option" where
  "prefs_after searchPageLayout outs =
    (if TogglePinning \<in> set outs then map_option (\<lambda>l. l\<lparr>lp_isPinned := \<not> lp_isPinned l\<rparr>) searchPageLayout
     else searchPageLayout)"

section \<open>Lemmas\<close>

text \<open>C39: Clicking the shown toggle with preferences present switches the sidebar to
  the mode the toggle's title names: inline after "Display sidebar inline", an
  overlay after "Display sidebar as overlay".\<close>

theorem toggle_switches_mode:
  assumes "cv_toggle_title (ContentColumn (Some l) force enable t st) = Some msg"
  shows "sidebarIsPinned (prefs_after (Some l) (column_handle (Some l) ToggleClick)) force =
           (msg = ''Display sidebar inline'')"
  using assms
  by (auto simp: ContentColumn_def Let_def sidebarIsPinned_def prefs_after_def toggleSidebarPinning_def
      split: if_splits)

lemma toggle_without_prefs_inert: "column_handle None ToggleClick = []"
  by (simp add: toggleSidebarPinning_def)

theorem toggle_switches_mode_witness:
  "cv_toggle_title (ContentColumn (Some \<lparr>lp_isPinned = True\<rparr>) False True ''Fields'' ''Message fields'') =
     Some ''Display sidebar as overlay''
   \<and> \<not> sidebarIsPinned (prefs_after (Some \<lparr>lp_isPinned = True\<rparr>)
         (column_handle (Some \<lparr>lp_isPinned = True\<rparr>) ToggleClick)) False"
proof -
  have t: "cv_toggle_title (ContentColumn (Some \<lparr>lp_isPinned = True\<rparr>) False True ''Fields'' ''Message fields'') =
     Some ''Display sidebar as overlay''"
    by (simp add: ContentColumn_def sidebarIsPinned_def)
  show ?thesis
    using t toggle_switches_mode [OF t] by simp
qed

end
