(* ===== verification/OTXAdapter.thy ===== *)
theory OTXAdapter
  imports Prelude "HOL-Library.AList"
begin

text \<open>
  The configuration fields of the OTX lookup adapter,
  \<open>src/graylog2-web-interface/src/threatintel/components/adapters/otx/OTXAdapterFieldSet.tsx\<close>:
  the indicator options, the seven inputs the field set renders and the
  indicator select's handler, which deep-copies the configuration, sets the
  field and hands the copy to \<open>updateConfig\<close>.

  The configuration object is an association list from its keys to text or
  number values, so that \<open>newConfig[fieldName] = value\<close> is \<open>AList.update\<close>;
  \<open>validationMessage\<close> and \<open>validationState\<close> are the props of the same name,
  functions of the field's id; the other inputs' \<open>handleFormEvent\<close> is the
  parent's.
\<close>

datatype otx_val = OText string | ONum int

type_synonym otx_config = "(string \<times> otx_val) list"

definition OTX_INDICATORS :: "(string \<times> string) list" where
  "OTX_INDICATORS =
    [(''IP Auto-Detect'', ''IPAutoDetect''), (''IP v4'', ''IPv4''), (''IP v6'', ''IPv6''),
     (''Domain'', ''domain''), (''Hostname'', ''hostname''), (''File'', ''file''), (''URL'', ''url''),
     (''CVE'', ''cve''), (''NIDS'', ''nids''), (''Correlation-Rule'', ''correlation-rule'')]"

datatype otx_input_type = OSelect | OTextInput | ONumberInput

record otx_input =
  oi_id :: string
  oi_label :: string
  oi_type :: otx_input_type
  oi_required :: bool
  oi_help :: string
  oi_state :: string
  oi_value :: "otx_val option"

text \<open>One input: its help is \<open>validationMessage(id, text)\<close>, its style
  \<open>validationState(id)\<close>, its value \<open>config[id]\<close>.\<close>

definition otx_input_of ::
  "(string \<Rightarrow> string \<Rightarrow> string) \<Rightarrow> (string \<Rightarrow> string) \<Rightarrow> otx_config
   \<Rightarrow> string \<Rightarrow> string \<Rightarrow> otx_input_type \<Rightarrow> bool \<Rightarrow> string \<Rightarrow> otx_input" where
  "otx_input_of validationMessage validationState config fid label ty req help =
    \<lparr>oi_id = fid, oi_label = label, oi_type = ty, oi_required = req,
     oi_help = validationMessage fid help, oi_state = validationState fid, oi_value = map_of config fid\<rparr>"

definition OTXAdapterFieldSet ::
  "(string \<Rightarrow> string \<Rightarrow> string) \<Rightarrow> (string \<Rightarrow> string) \<Rightarrow> otx_config \<Rightarrow> otx_input list" where
  "OTXAdapterFieldSet validationMessage validationState config =
    map (\<lambda>(fid, label, ty, req, help). otx_input_of validationMessage validationState config fid label ty req help)
     [(''indicator'', ''Indicator'', OSelect, True, ''The OTX indicator type that should be used for lookups.''),
      (''api_key'', ''OTX API Key'', OTextInput, False, ''Your OTX API key.''),
      (''api_url'', ''OTX API URL'', OTextInput, False, ''URL of the OTX API server.''),
      (''http_user_agent'', ''HTTP User-Agent'', OTextInput, True,
        ''The User-Agent header that should be used for the HTTP request.''),
      (''http_connect_timeout'', ''HTTP Connect Timeout'', ONumberInput, True, ''HTTP connection timeout in milliseconds.''),
      (''http_write_timeout'', ''HTTP Write Timeout'', ONumberInput, True, ''HTTP write timeout in milliseconds.''),
      (''http_read_timeout'', ''HTTP Read Timeout'', ONumberInput, True, ''HTTP read timeout in milliseconds.'')]"

text \<open>\<open>handleSelect(fieldName)(selected)\<close>: the configuration handed to
  \<open>updateConfig\<close>; the props' configuration itself is not touched, because
  the handler works on a deep copy.\<close>

definition handleSelect :: "string \<Rightarrow> string \<Rightarrow> otx_config \<Rightarrow> otx_config" where
  "handleSelect fieldName selectedIndicator config = AList.update fieldName (OText selectedIndicator) config"

section \<open>Lemmas\<close>

lemma OTX_indicator_values_distinct: "distinct (map snd OTX_INDICATORS)"
  by (simp add: OTX_INDICATORS_def)

text \<open>After an indicator is chosen the select shows it, and every other input
  keeps its value.\<close>

lemma handleSelect_shown:
  "map oi_value (OTXAdapterFieldSet vm vs (handleSelect ''indicator'' v config)) =
     Some (OText v) # tl (map oi_value (OTXAdapterFieldSet vm vs config))"
  by (simp add: OTXAdapterFieldSet_def otx_input_of_def handleSelect_def update_conv')

lemma otx_ids_distinct: "distinct (map oi_id (OTXAdapterFieldSet vm vs config))"
  by (simp add: OTXAdapterFieldSet_def otx_input_of_def)

end
