(* ===== verification/WidgetActionTypes.thy ===== *)
theory WidgetActionTypes
  imports Prelude
begin

text \<open>
  The widget action types of
  \<open>src/graylog2-web-interface/src/views/components/widgets/Types.ts\<close>: an action
  of a widget's dropdown or of its menu, and the type guard
  \<open>isWidgetMenuAction\<close>. The TypeScript union says which fields each kind
  carries (\<open>never\<close> marks a field that must be absent); \<open>widget_action_ok\<close>
  is that constraint. Widgets, the action thunks and the React components are
  type parameters.
\<close>

datatype widget_position = PositionDropdown | PositionMenu

record ('w, 'act, 'comp) widget_action_type =
  wa_type :: string
  wa_isHidden :: "('w \<Rightarrow> bool) option"
  wa_disabled :: "(unit \<Rightarrow> bool) option"
  wa_position :: widget_position
  wa_title :: "('w \<Rightarrow> string) option"
  wa_action :: "'act option"
  wa_component :: "'comp option"

text \<open>\<open>WidgetDropdownType\<close>: a title and either an action or a component;
  \<open>WidgetMenuActionType\<close>: a component and neither title nor action.\<close>

definition widget_action_ok :: "('w, 'act, 'comp) widget_action_type \<Rightarrow> bool" where
  "widget_action_ok a =
    (case wa_position a of
       PositionDropdown \<Rightarrow> wa_title a \<noteq> None \<and> ((wa_action a \<noteq> None) \<noteq> (wa_component a \<noteq> None))
     | PositionMenu \<Rightarrow> wa_component a \<noteq> None \<and> wa_title a = None \<and> wa_action a = None)"

definition isWidgetMenuAction :: "('w, 'act, 'comp) widget_action_type \<Rightarrow> bool" where
  "isWidgetMenuAction action = (wa_position action = PositionMenu)"

section \<open>Lemmas\<close>

text \<open>The guard narrows soundly: on a well-typed action it holds exactly when
  the action has no title, and then the action has a component to render.\<close>

lemma isWidgetMenuAction_iff_untitled:
  "widget_action_ok a \<Longrightarrow> isWidgetMenuAction a \<longleftrightarrow> wa_title a = None"
  by (cases "wa_position a") (simp_all add: isWidgetMenuAction_def widget_action_ok_def)

lemma menu_action_has_component:
  "widget_action_ok a \<Longrightarrow> isWidgetMenuAction a \<Longrightarrow> wa_component a \<noteq> None"
  by (simp add: isWidgetMenuAction_def widget_action_ok_def)

end
