(* ===== verification/Spec2Isabelle.thy ===== *)
theory Spec2Isabelle
  imports Prelude QueryFilters Query UriPath Routes RouteTable UserOverview SharedEntity FetchEvents Telemetry RoutingStep EventView RouteBuilders TimeoutInput Pipeline DocsHelper SchedulingCell ConfigurationForms Extractors ShardMeter EventDefinitionWizard RawMessageLoader SearchBar TimeRangeFilter TypeSpecificValue ContentColumn OTXAdapter WidgetActionTypes
begin

text \<open>
  \<^bold>\<open>A verification development of the Graylog web interface.\<close>
  The program is the TypeScript front end under
  \<open>src/graylog2-web-interface/src/\<close>: value objects of the search and user
  domain, the route table and URL builders, the requests of the event pages, the
  generation of an event's search view, and a number of React components whose
  state and callbacks carry logic. The development is a shallow embedding: each
  modelled function, method, handler or render decision is a HOL definition that
  computes, and the properties are theorems about those definitions.

  \<^bold>\<open>Shared vocabulary\<close> (\<open>Prelude\<close>). JavaScript's \<open>undefined\<close> and \<open>null\<close>
  are kept apart by \<open>'a nullish\<close> (\<open>JUndef\<close>, \<open>JNull\<close>, \<open>JVal\<close>), with
  \<open>??\<close>, \<open>||\<close> and \<open>?.\<close> as functions and truthiness of numbers, strings and
  booleans; exceptions are \<open>js_error\<close> (\<open>TypeError\<close> or \<open>Error message\<close>)
  and a fallible operation returns \<open>js_error + 'a\<close>. Strings are character
  lists with the \<open>String.prototype\<close> and \<open>Array.prototype\<close> operations the code
  uses (\<open>join\<close>, \<open>split\<close>, \<open>startsWith\<close>, \<open>toUpperCase\<close>, \<open>replace\<close>), and a
  template literal of an integer is \<open>int_to_string\<close> (a \<open>function\<close> with its
  termination proof, inverted by \<open>digits_value\<close>).

  \<^bold>\<open>Components, theories and their correspondence to the code.\<close>
  \<^item> \<open>QueryFilters\<close>, \<open>Query\<close>: \<open>views/logic/queries/Query.ts\<close>. Filter trees
    as a datatype, \<open>newFiltersForQuery\<close> and the set-reading walkers; the
    \<open>Query\<close> record, its builder, \<open>equals\<close>, \<open>toJSON\<close>, \<open>fromJSON\<close>. Lemmas:
    round trips of the filter builder (C1, C2), the JSON round trip up to
    \<open>equals\<close> and exactly (C3, C4, the latter showing that \<open>null\<close> filters come
    back \<open>undefined\<close>), \<open>equals\<close> as equality of normalised queries (C5).
  \<^item> \<open>UriPath\<close>, \<open>Routes\<close>, \<open>RouteTable\<close>, \<open>RouteBuilders\<close>:
    \<open>routing/Routes.ts\<close>. The route table entry for entry, URL qualification with
    the prefix (\<open>qualifyUrls\<close>, \<open>prefixUrlWithoutHostname\<close>, \<open>prefixUrl\<close>) over
    a model of the URI.js path operations, the search URL builders and the plugin
    route registry. Lemmas: the refinement of qualification into plain prefixing
    and normalising (C7, C8), the error of \<open>search_with_query\<close> (C6), the lookup
    error of \<open>pluginRoute\<close>, with a property read that finds the members a plain
    object inherits from \<open>Object.prototype\<close> (\<open>object_get\<close> of the
    prelude), so that a key such as \<open>toString\<close> is returned rather than
    thrown for (C11) and its substitution of a repeated parameter
    (\<open>plugin_route_repeated_param\<close>).
  \<^item> \<open>UserOverview\<close>, \<open>SharedEntity\<close>: \<open>logic/users/UserOverview.ts\<close>,
    \<open>logic/permissions/SharedEntity.ts\<close>. Value objects with builders and JSON;
    the JSON round trip (C9), the defaults \<open>fromJSON\<close> supplies
    (\<open>user_fromJSON_defaults\<close>), the TypeError of serialising without roles
    (C10), and \<open>SharedEntity.toBuilder\<close> losing the type (\<open>sharedEntity_toBuilder_drops_type\<close>).
  \<^item> \<open>FetchEvents\<close>: \<open>components/events/fetchEvents.ts\<close>. Filter parsing and
    the request bodies; the stream restriction of the posted query (C12).
  \<^item> \<open>RoutingStep\<close>: \<open>components/inputs/InputSetupWizard/steps/SetupRoutingStep.tsx\<close>.
    A step function over the wizard's step data and the component's state, the
    reachable states as an inductive set, mounting (and remounting with the
    step data kept) once the wizard is set up, the \<open>ready\<close> condition of the
    mount effect; invariant by rule induction (C13), step
    validity (C14), the stale stream id after creating a stream
    (\<open>routing_create_keeps_stale_stream\<close>) and the
    stream options (\<open>stream_options_mset\<close>).
  \<^item> \<open>Telemetry\<close>: \<open>logic/telemetry/Constants.ts\<close>. The whole constant table as
    a tree with lookup along key paths; every key path gives the name written
    there (\<open>telemetry_get_all_paths\<close>).
  \<^item> \<open>EventView\<close>: \<open>views/logic/views/UseCreateViewForEvent.ts\<close>. Widget layout
    and generation; the overlap of widget positions beyond four aggregations
    (C15), every widget placed and titled (C16), aggregations above the histogram
    (\<open>aggregation_above_histogram\<close>).
  \<^item> \<open>TimeoutInput\<close>: \<open>components/users/TimeoutInput.tsx\<close>. The four state
    values, the handlers as events guarded by the disabled inputs, the reporting
    effect as the list of values passed to \<open>onChange\<close>; the mount round trip
    (C17), the \<open>-1000\<close> reported after unchecking "never"
    (\<open>timeout_uncheck_never_negative\<close>), the global
    timeout freezing the control (\<open>timeout_run_global\<close>), reachability of every setting (C18, the
    liveness property) and the unit's type (\<open>estimateUnit_typed\<close>).
  \<^item> \<open>Pipeline\<close>: \<open>components/pipelines/Pipeline.tsx\<close>. The stage callbacks,
    the in-place sort and the stage elements; sorting (C19), the unique last stage
    (C20), the stage form key (\<open>stageKey_roundtrip\<close>) and renumbering (\<open>updateStage_distinct_iff\<close>).
  \<^item> \<open>SchedulingCell\<close>: the scheduling column of the event definitions list; its
    TypeError for a scheduled definition without scheduler (C21).
  \<^item> \<open>ConfigurationForms\<close>: \<open>components/configurationforms/FieldHelpers.tsx\<close> and
    \<open>EncryptedInlineBinaryField.tsx\<close>. The data URL regular expression (C22), the
    reset and undo of a plain field (C23) and the exact value every event of an
    encrypted field reports, the empty string only for Remove (C24).
  \<^item> \<open>Extractors\<close>: the converter and regex-replace forms of
    \<open>components/extractors/\<close>. The configuration object in an explicit store,
    because the forms mutate the object they were given: what the forms write and
    report (C25, C26); the outstanding test requests of the regex form as an
    invariant of an inductive reachability relation (C27).
  \<^item> \<open>ShardMeter\<close>: \<open>components/indices/ShardMeter.tsx\<close>. React's call of a
    function component on its props object, which makes the meters ignore their
    values (C28).
  \<^item> \<open>EventDefinitionForm\<close>, \<open>EventDefinitionWizard\<close>:
    \<open>components/event-definitions/event-definition-form/EventDefinitionForm.tsx\<close>.
    The step keys and titles, the condition plugin lookup and the handlers
    \<open>handleStepChange\<close>, \<open>openPrevPage\<close>, \<open>openNextPage\<close>, each returning
    the telemetry call it sends and the step it hands to \<open>onChangeStep\<close>, with
    \<open>Array.prototype.indexOf\<close> and out-of-range array reads as in JavaScript.
    The telemetry names come from the \<open>Telemetry\<close> theory's table, so the two
    components are composed as in the code. Lemmas: the event each step click
    sends, wrong for Share and Summary of a new definition (C29), Previous and
    Next (C30), and in \<open>EventDefinitionWizard\<close> the parent's loop of Next
    presses as a \<open>function\<close> whose termination is proved, with the steps it
    visits (C31, the termination property).
  \<^item> \<open>RawMessageLoader\<close>: \<open>components/messageloaders/RawMessageLoader.tsx\<close>.
    The six state values as a record, the handlers as cases of \<open>rml_handle\<close>
    guarded by what the form enables (\<open>_isSubmitDisabled\<close>), the promise
    chain of \<open>_loadMessage\<close> as outstanding requests holding the options
    their closure captured, a parse answer as an event; the option builders of
    the codec and input selects, \<open>InputSelect\<close> and the configuration fields.
    Lemmas: one outstanding request at a time, by rule induction over the
    reachable states (C32); over a whole session each request gets at most one
    \<open>onMessageLoaded\<close> with its own options, also on failure (C33); the
    TypeError of the configuration fields for a codec that is not a codec type,
    which the enabled \<open>none\<close> option of an empty codec list reaches (C34);
    required fields before optional ones, by stability of the sort (C35).
  \<^item> \<open>SearchBar\<close>: \<open>views/components/SearchBar.tsx\<close>. The initial form
    values read from the current query and its stored filter, the submit handler
    that rebuilds the query with the \<open>Query\<close> builder and dispatches an update
    or a re-execution after \<open>equals\<close>, the validation request, the stream and
    category options and the submit controls; the components \<open>Query\<close> and
    \<open>QueryFilters\<close> are composed here as in the code. The order in which
    \<open>Immutable.Set.toJS\<close> enumerates a set is not specified; it is the
    parameter \<open>setToJS\<close>, an unknown enumeration of the insertion sequence
    that keeps its elements, and the lists the walkers build are those
    insertion sequences (\<open>insertion_sequences_refine\<close>). Lemmas: for a
    filter the search bar builds, unchanged values re-execute the query exactly
    when the enumeration keeps the insertion order, and are otherwise rebuilt
    and updated (C36); an \<open>and\<close> filter is rewritten to an \<open>or\<close>; the
    category options list every category once (C40).
  \<^item> \<open>TimeRangeFilter\<close>: \<open>views/components/searchbar/time-range-filter/TimeRangeFilter.tsx\<close>.
    The guard that throws for a value of a type the filter does not accept, the
    dropdown's state with \<open>toggleShow\<close> and \<open>hideTimeRangeDropDown\<close> and
    the telemetry they send (names from \<open>Telemetry\<close>), the rendered props;
    every toggle event reports the state after it, and the events alternate
    (C37).
  \<^item> \<open>TypeSpecificValue\<close>: \<open>views/components/TypeSpecificValue.tsx\<close>. The
    choice of renderer for a field value; whitespace-only and undefined values, and
    only they, shown as empty (C38),
    and a zero losing its unit because \<open>0\<close> is falsy.
  \<^item> \<open>ContentColumn\<close>: \<open>views/components/sidebar/ContentColumn.tsx\<close>. The
    pinned flag, the styles depending on it and the pinning toggle, whose title
    names the mode a click switches to (C39).
  \<^item> \<open>OTXAdapter\<close>, \<open>WidgetActionTypes\<close>:
    \<open>threatintel/components/adapters/otx/OTXAdapterFieldSet.tsx\<close> (the inputs
    and the indicator handler on a deep copy) and
    \<open>views/components/widgets/Types.ts\<close> (the action union and its type
    guard, sound on well-typed actions).
  \<^item> \<open>DocsHelper\<close>: \<open>util/DocsHelper.ts\<close>, the documentation page table and
    \<open>toString\<close>.

  \<^bold>\<open>Interfaces and parameters.\<close> Code the sources only call is a parameter of
  the model or modelled from its use, and named in each theory's header: the
  URI.js operations (a model of path resolution), \<open>buildQuery\<close>, the
  \<open>stepHelper\<close> of the wizard, \<open>describeExpression\<close>, \<open>moment\<close> and
  \<open>numeral\<close> formatting, \<open>getValueFromInput\<close>, \<open>ToolsStore\<close>, the
  \<open>timeoutConstants\<close> (the standard millisecond values), the stream and
  pipeline queries. A REST call is an input of the model, its answer an event.
  The URI.js model covers what the routes use: it does not recode
  percent-escapes, trims no slashes in \<open>segment(i, value)\<close> and
  \<open>fill_params\<close> writes the value into the segment list without the
  library's removal of an empty segment; \<open>normalizePath\<close> drops a leading
  \<open>..\<close> of a relative path and \<open>uri_suffix\<close> keeps an empty \<open>?\<close>.
  \<open>parseFilters\<close> of \<open>fetchEvents\<close> takes a present filter object (the
  TypeError of \<open>undefined\<close> filters is not modelled), \<open>isDeepEqual\<close> is
  HOL equality on the modelled values, and the wizard's
  \<open>updateStepConfigOrData\<close> is modelled from its contract.

  \<^bold>\<open>Bounds and fuel.\<close> No definition needs fuel: every loop of the modelled
  code runs over a finite list (\<open>map\<close>, \<open>reduce\<close>, \<open>filter\<close>, \<open>sort\<close>,
  \<open>find\<close>), so each is a structural \<open>fun\<close> or a library combinator; the
  non-structural recursions have measures: \<open>decimal\<close> the number itself,
  \<open>next_walk\<close> the number of steps after the active one, which a Next press
  lowers because the step keys are distinct. Numbers are \<open>int\<close> where
  the code only handles whole numbers (timeouts, stage numbers, positions) and
  \<open>rat\<close> where it divides; no JavaScript number in the modelled code comes near
  \<open>2^53\<close>, so no rounding is modelled.

  \<^bold>\<open>Not modelled.\<close> Pure rendering (styled components, layout-only JSX, the
  navigation styles), data-fetching hooks and stores that issue one REST call
  and hand on the answer (\<open>useIndexSetsList\<close>, \<open>ClusterTrafficStore\<close>,
  \<open>useEventAction\<close>, the stream data lake hooks), the application shell and lazy
  loading, the search page (\<open>Search.tsx\<close>, \<open>SearchPage.tsx\<close>), the Formik
  form and query input of the search bar
  and the step forms of \<open>EventDefinitionForm.tsx\<close>, whose behaviour lies in
  stores, contexts and hooks outside the sources. Their parts are listed in the
  manifest with the reason.
\<close>

end
